(* ===== verification/Prelude.thy ===== *)
theory Prelude
  imports Main "HOL-Library.Option_ord"
begin

text \<open>
  Shared library of the development: the meaning of the SQL statements the repositories under
  \<open>src/src/persistence\<close> are written in (a table is the list of its rows, in primary-key order),
  JavaScript's nullish operators on \<open>option\<close>, the named collections of simplification
  rules, and the interfaces that several components share (\<open>table_write\<close>,
  \<open>transition_system\<close>).

  \<open>UPDATE t SET f WHERE p\<close> is \<open>sql_update p f\<close>: it returns the new rows and the number of
  rows that matched, which is what \<open>result.affectedRows\<close> reports (mysql2 counts found rows,
  and every statement modelled here also writes \<open>updated_at\<close>).
\<close>

named_theorems store_defs \<open>definitions of the repository operations\<close>
named_theorems row_guards \<open>definitions of the predicates in WHERE clauses\<close>
named_theorems keeps_keys \<open>repository writes keep the primary keys of their table\<close>

section \<open>Tables as lists of rows\<close>

definition sql_update :: "('r \<Rightarrow> bool) \<Rightarrow> ('r \<Rightarrow> 'r) \<Rightarrow> 'r list \<Rightarrow> 'r list \<times> nat" where
  "sql_update p f rs = (map (\<lambda>r. if p r then f r else r) rs, length (filter p rs))"

definition sql_delete :: "('r \<Rightarrow> bool) \<Rightarrow> 'r list \<Rightarrow> 'r list \<times> nat" where
  "sql_delete p rs = (filter (\<lambda>r. \<not> p r) rs, length (filter p rs))"

text \<open>\<open>rows[0] || null\<close> and \<open>rows.length > 0\<close>.\<close>

definition first_row :: "('r \<Rightarrow> bool) \<Rightarrow> 'r list \<Rightarrow> 'r option" where
  "first_row p rs = find p rs"

definition affected :: "'t \<times> nat \<Rightarrow> 't \<times> bool" where
  "affected r = (fst r, 0 < snd r)"

text \<open>\<open>Math.max(1, Math.min(Number(limit) || d, m))\<close>.\<close>

definition safe_limit :: "nat \<Rightarrow> nat \<Rightarrow> nat \<Rightarrow> nat" where
  "safe_limit d m n = max 1 (min (if n = 0 then d else n) m)"

lemma safe_limit_bounds: "1 \<le> safe_limit d m n" "1 \<le> m \<Longrightarrow> safe_limit d m n \<le> m"
  by (auto simp: safe_limit_def)

lemma sql_update_fst [simp]: "fst (sql_update p f rs) = map (\<lambda>r. if p r then f r else r) rs"
  by (simp add: sql_update_def)

lemma sql_update_snd [simp]: "snd (sql_update p f rs) = length (filter p rs)"
  by (simp add: sql_update_def)

lemma affected_fst [simp]: "fst (affected r) = fst r"
  by (simp add: affected_def)

lemma affected_snd [simp]: "snd (affected r) \<longleftrightarrow> 0 < snd r"
  by (simp add: affected_def)

lemma affected_update_iff: "snd (affected (sql_update p f rs)) \<longleftrightarrow> (\<exists>r \<in> set rs. p r)"
  by (induction rs) auto

lemma sql_update_none: "\<forall>r \<in> set rs. \<not> p r \<Longrightarrow> fst (sql_update p f rs) = rs"
  by (induction rs) auto

lemma map_if_none: "\<forall>r \<in> set rs. \<not> p r \<Longrightarrow> map (\<lambda>r. if p r then f r else r) rs = rs"
  by (induction rs) auto

lemma affected_lose: "\<not> snd (affected (sql_update p f rs)) \<Longrightarrow> fst (affected (sql_update p f rs)) = rs"
  by (simp add: filter_empty_conv map_if_none)

lemma sql_update_pair: "sql_update p f rs = (map (\<lambda>r. if p r then f r else r) rs, length (filter p rs))"
  by (simp add: sql_update_def)

lemma affected_pair: "affected (sql_update p f rs) = (map (\<lambda>r. if p r then f r else r) rs, \<exists>r \<in> set rs. p r)"
  by (rule prod_eqI) (use affected_update_iff in auto)

lemma first_row_Some: "first_row p rs = Some r \<Longrightarrow> r \<in> set rs \<and> p r"
  by (induction rs) (auto simp: first_row_def split: if_splits)

lemma first_row_None: "first_row p rs = None \<longleftrightarrow> (\<forall>r \<in> set rs. \<not> p r)"
  by (auto simp: first_row_def find_None_iff)

lemma first_row_unique:
  "distinct (map k rs) \<Longrightarrow> r \<in> set rs \<Longrightarrow> first_row (\<lambda>x. k x = k r) rs = Some r"
  by (induction rs) (auto simp: first_row_def)

lemma first_row_map_same:
  "(\<And>r. r \<in> set rs \<Longrightarrow> p (g r) = p r) \<Longrightarrow> first_row p (map g rs) = map_option g (first_row p rs)"
  by (induction rs) (auto simp: first_row_def)

lemma distinct_key_eq: "distinct (map k rs) \<Longrightarrow> r \<in> set rs \<Longrightarrow> r' \<in> set rs \<Longrightarrow> k r = k r' \<Longrightarrow> r = r'"
  by (metis distinct_map inj_onD)

section \<open>SQL's three-valued logic\<close>

text \<open>
  A comparison with NULL is unknown (\<open>None\<close>); WHERE keeps a row only when its condition is
  true. The difference from false shows under NOT, where unknown stays unknown.
\<close>

definition eq3 :: "'a option \<Rightarrow> 'a \<Rightarrow> bool option" where
  "eq3 a b = (case a of None \<Rightarrow> None | Some x \<Rightarrow> Some (x = b))"

fun and3 :: "bool option \<Rightarrow> bool option \<Rightarrow> bool option" where
  "and3 (Some False) _ = Some False"
| "and3 _ (Some False) = Some False"
| "and3 (Some True) (Some True) = Some True"
| "and3 _ _ = None"

definition not3 :: "bool option \<Rightarrow> bool option" where
  "not3 = map_option Not"

definition holds3 :: "bool option \<Rightarrow> bool" where
  "holds3 b \<longleftrightarrow> b = Some True"

lemma holds3_not_and [simp]:
  "holds3 (not3 (and3 (Some p) (eq3 a b))) \<longleftrightarrow> \<not> p \<or> (\<exists>x. a = Some x \<and> x \<noteq> b)"
  by (cases p; cases a; cases "a = Some b") (auto simp: holds3_def not3_def eq3_def)

section \<open>JavaScript's nullish values\<close>

text \<open>\<open>a ?? b\<close> and SQL's \<open>COALESCE(a, b)\<close> with a nullable second argument.\<close>

definition coalesce :: "'a option \<Rightarrow> 'a option \<Rightarrow> 'a option" where
  "coalesce a b = (case a of None \<Rightarrow> b | Some x \<Rightarrow> Some x)"

definition nullish :: "'a option \<Rightarrow> 'a \<Rightarrow> 'a" where
  "nullish a b = (case a of None \<Rightarrow> b | Some x \<Rightarrow> x)"

lemma coalesce_simps [simp]:
  "coalesce (Some x) b = Some x" "coalesce None b = b" "coalesce a None = a"
  by (auto simp: coalesce_def split: option.splits)

lemma nullish_simps [simp]: "nullish (Some x) b = x" "nullish None b = b"
  by (auto simp: nullish_def)

lemma coalesce_eq_None [simp]: "coalesce a b = None \<longleftrightarrow> a = None \<and> b = None"
  by (cases a) auto

section \<open>Interfaces shared by the components\<close>

text \<open>
  A write to one table of the store. Its contract: the primary keys and their order stay, so a
  table whose keys are distinct keeps distinct keys.
\<close>

locale table_write =
  fixes key :: "'r \<Rightarrow> nat" and oper :: "'r list \<Rightarrow> 'r list"
  assumes keys_kept: "map key (oper rs) = map key rs"
begin

lemma distinct_kept: "distinct (map key rs) \<Longrightarrow> distinct (map key (oper rs))"
  by (simp add: keys_kept)

lemma length_kept: "length (oper rs) = length rs"
  using keys_kept [of rs] by (metis length_map)

lemma key_set_kept: "key ` set (oper rs) = key ` set rs"
  using keys_kept [of rs] by (metis set_map)

lemma row_survives: "r \<in> set rs \<Longrightarrow> \<exists>r' \<in> set (oper rs). key r' = key r"
  using key_set_kept [of rs] by (metis imageE image_eqI)

end

lemma sql_update_keys:
  "(\<And>r. key (f r) = key r) \<Longrightarrow> map key (fst (sql_update p f rs)) = map key rs"
  by (induction rs) auto

text \<open>
  A component whose steps interleave with everybody else's: an invariant of the start state
  that every step keeps holds in every state a run can reach.
\<close>

inductive reach :: "('s \<Rightarrow> bool) \<Rightarrow> ('s \<Rightarrow> 's \<Rightarrow> bool) \<Rightarrow> 's \<Rightarrow> bool"
  for start :: "'s \<Rightarrow> bool" and step :: "'s \<Rightarrow> 's \<Rightarrow> bool" where
  reach_start: "start s \<Longrightarrow> reach start step s"
| reach_step: "reach start step s \<Longrightarrow> step s t \<Longrightarrow> reach start step t"

locale transition_system =
  fixes start :: "'s \<Rightarrow> bool" and step :: "'s \<Rightarrow> 's \<Rightarrow> bool" and inv :: "'s \<Rightarrow> bool"
  assumes inv_start: "start s \<Longrightarrow> inv s"
    and inv_step: "inv s \<Longrightarrow> step s t \<Longrightarrow> inv t"
begin

lemma inv_reach: "reach start step s \<Longrightarrow> inv s"
  by (induction rule: reach.induct) (auto intro: inv_start inv_step)

lemma inv_run: "inv s \<Longrightarrow> step\<^sup>*\<^sup>* s t \<Longrightarrow> inv t"
  by (rotate_tac 1, induction rule: rtranclp_induct) (auto intro: inv_step)

end

end
