(* ===== verification/Effects.thy ===== *)
theory Effects
  imports Prelude
begin

text \<open>
  Asynchronous methods of the services: an action takes the state and returns either the error it
  threw or its result, with the state its effects left behind (effects done before a throw stay).
  \<open>and_then\<close> is \<open>await\<close> followed by the rest of the method, \<open>catching\<close> is
  try/catch (and \<open>.catch\<close>), \<open>for_each\<close> a for-of loop whose body awaits. The locale
  \<open>effect_relation\<close> says when every run of a method relates the state before to the state
  after, from the same fact about each effect in it.
\<close>

type_synonym ('s, 'e, 'a) act = "'s \<Rightarrow> ('e + 'a) \<times> 's"

definition ret :: "'a \<Rightarrow> ('s, 'e, 'a) act" where
  "ret x s = (Inr x, s)"

definition raise :: "'e \<Rightarrow> ('s, 'e, 'a) act" where
  "raise e s = (Inl e, s)"

definition and_then :: "('s, 'e, 'a) act \<Rightarrow> ('a \<Rightarrow> ('s, 'e, 'b) act) \<Rightarrow> ('s, 'e, 'b) act" where
  "and_then m f s = (case m s of (Inl e, s') \<Rightarrow> (Inl e, s') | (Inr x, s') \<Rightarrow> f x s')"

definition catching :: "('s, 'e, 'a) act \<Rightarrow> ('e \<Rightarrow> ('s, 'e, 'a) act) \<Rightarrow> ('s, 'e, 'a) act" where
  "catching m h s = (case m s of (Inl e, s') \<Rightarrow> h e s' | (Inr x, s') \<Rightarrow> (Inr x, s'))"

definition read :: "('s \<Rightarrow> 'a) \<Rightarrow> ('s, 'e, 'a) act" where
  "read f s = (Inr (f s), s)"

definition change :: "('s \<Rightarrow> 's) \<Rightarrow> ('s, 'e, unit) act" where
  "change f s = (Inr (), f s)"

text \<open>A statement that changes the store and reports whether it matched.\<close>

definition statement :: "('s \<Rightarrow> 's \<times> 'a) \<Rightarrow> ('s, 'e, 'a) act" where
  "statement f s = (Inr (snd (f s)), fst (f s))"

definition only_when :: "bool \<Rightarrow> ('s, 'e, unit) act \<Rightarrow> ('s, 'e, unit) act" where
  "only_when b m = (if b then m else ret ())"

definition logged_failure :: "('s, 'e, unit) act \<Rightarrow> ('s, 'e, unit) act" where
  "logged_failure m = catching m (\<lambda>_. ret ())"

fun for_each :: "('a \<Rightarrow> ('s, 'e, unit) act) \<Rightarrow> 'a list \<Rightarrow> ('s, 'e, unit) act" where
  "for_each f [] = ret ()"
| "for_each f (x # xs) = and_then (f x) (\<lambda>_. for_each f xs)"

named_theorems act_defs \<open>unfolding the primitive actions\<close>

declare ret_def [act_defs] raise_def [act_defs] and_then_def [act_defs] catching_def [act_defs]
  read_def [act_defs] change_def [act_defs] statement_def [act_defs] only_when_def [act_defs]
  logged_failure_def [act_defs]

lemma and_then_ret [simp]: "and_then (ret x) f = f x"
  by (simp add: fun_eq_iff act_defs)

lemma and_then_read [simp]: "and_then (read g) f s = f (g s) s"
  by (simp add: act_defs)

lemma and_then_change [simp]: "and_then (change g) f s = f () (g s)"
  by (simp add: act_defs)

lemma and_then_statement [simp]: "and_then (statement g) f s = f (snd (g s)) (fst (g s))"
  by (simp add: act_defs)

lemma and_then_raise [simp]: "and_then (raise e) f = raise e"
  by (simp add: fun_eq_iff act_defs)

lemma and_then_Inr: "m s = (Inr x, s') \<Longrightarrow> and_then m f s = f x s'"
  by (simp add: act_defs)

lemma and_then_Inl: "m s = (Inl e, s') \<Longrightarrow> and_then m f s = (Inl e, s')"
  by (simp add: act_defs)

lemma and_then_assoc: "and_then (and_then m f) g = and_then m (\<lambda>x. and_then (f x) g)"
  by (auto simp: fun_eq_iff act_defs split: sum.splits prod.splits)

lemma ret_state [simp]: "snd (ret x s) = s"
  by (simp add: act_defs)

lemma only_when_simps [simp]: "only_when True m = m" "only_when False m = ret ()"
  by (simp_all add: only_when_def)

lemma logged_failure_returns [simp]: "fst (logged_failure m s) = Inr ()"
  by (auto simp: act_defs split: sum.splits prod.splits)

section \<open>What every run keeps\<close>

definition runs_in :: "('s \<Rightarrow> 's \<Rightarrow> bool) \<Rightarrow> ('s, 'e, 'a) act \<Rightarrow> bool" where
  "runs_in R m \<longleftrightarrow> (\<forall>s. R s (snd (m s)))"

named_theorems runs \<open>actions whose effects stay in a relation\<close>

locale effect_relation =
  fixes R :: "'s \<Rightarrow> 's \<Rightarrow> bool"
  assumes stays: "R s s" and chains: "R s t \<Longrightarrow> R t u \<Longrightarrow> R s u"
begin

lemma run_ret: "runs_in R (ret x)"
  by (simp add: runs_in_def stays)

lemma run_raise: "runs_in R (raise e)"
  by (simp add: runs_in_def raise_def stays)

lemma run_read: "runs_in R (read f)"
  by (simp add: runs_in_def read_def stays)

lemma run_change: "(\<And>s. R s (f s)) \<Longrightarrow> runs_in R (change f)"
  by (simp add: runs_in_def change_def)

lemma run_statement: "(\<And>s. R s (fst (f s))) \<Longrightarrow> runs_in R (statement f)"
  by (simp add: runs_in_def statement_def)

lemma run_and_then:
  assumes "runs_in R m" and "\<And>x. runs_in R (f x)"
  shows "runs_in R (and_then m f)"
  unfolding runs_in_def
proof
  fix s
  obtain r t where m: "m s = (r, t)" by (cases "m s")
  then have "R s t" using assms(1) by (auto simp: runs_in_def dest: spec [of _ s])
  then show "R s (snd (and_then m f s))"
    using assms(2) m by (cases r) (auto simp: and_then_def runs_in_def intro: chains)
qed

lemma run_catching:
  assumes "runs_in R m" and "\<And>e. runs_in R (h e)"
  shows "runs_in R (catching m h)"
  unfolding runs_in_def
proof
  fix s
  obtain r t where m: "m s = (r, t)" by (cases "m s")
  then have "R s t" using assms(1) by (auto simp: runs_in_def dest: spec [of _ s])
  then show "R s (snd (catching m h s))"
    using assms(2) m by (cases r) (auto simp: catching_def runs_in_def intro: chains)
qed

lemma run_only_when: "runs_in R m \<Longrightarrow> runs_in R (only_when b m)"
  by (simp add: only_when_def run_ret)

lemma run_logged_failure: "runs_in R m \<Longrightarrow> runs_in R (logged_failure m)"
  by (simp add: logged_failure_def run_catching run_ret)

lemma run_for_each: "(\<And>x. runs_in R (f x)) \<Longrightarrow> runs_in R (for_each f xs)"
  by (induction xs) (auto intro: run_ret run_and_then)

lemma run_if: "runs_in R m \<Longrightarrow> runs_in R n \<Longrightarrow> runs_in R (if b then m else n)"
  by simp

lemma run_option: "runs_in R m \<Longrightarrow> (\<And>x. runs_in R (f x)) \<Longrightarrow> runs_in R (case x of None \<Rightarrow> m | Some y \<Rightarrow> f y)"
  by (cases x) auto

lemma run_prod: "(\<And>a b. runs_in R (f a b)) \<Longrightarrow> runs_in R (case p of (a, b) \<Rightarrow> f a b)"
  by (cases p) auto

lemma run_sum:
  "(\<And>e. runs_in R (f e)) \<Longrightarrow> (\<And>x. runs_in R (g x)) \<Longrightarrow> runs_in R (case r of Inl e \<Rightarrow> f e | Inr x \<Rightarrow> g x)"
  by (cases r) auto

lemma run_let: "(\<And>x. runs_in R (f x)) \<Longrightarrow> runs_in R (let x = y in f x)"
  by simp

lemmas run_rules = run_ret run_raise run_read run_and_then run_catching run_only_when run_logged_failure
  run_for_each run_if run_option run_prod run_sum run_let

end

section \<open>What a run ensures\<close>

text \<open>From a state with \<open>P\<close>: \<open>Q\<close> of the result and the state after, or \<open>X\<close> of the state after a throw.\<close>

definition ensures :: "('s \<Rightarrow> bool) \<Rightarrow> ('s, 'e, 'a) act \<Rightarrow> ('a \<Rightarrow> 's \<Rightarrow> bool) \<Rightarrow> ('s \<Rightarrow> bool) \<Rightarrow> bool" where
  "ensures P m Q X \<longleftrightarrow> (\<forall>s. P s \<longrightarrow> (case m s of (Inl e, s') \<Rightarrow> X s' | (Inr x, s') \<Rightarrow> Q x s'))"

lemma ensuresD: "ensures P m Q X \<Longrightarrow> P s \<Longrightarrow> m s = (Inr x, s') \<Longrightarrow> Q x s'"
  by (auto simp: ensures_def dest: spec [of _ s])

lemma ensures_state: "ensures P m (\<lambda>_. Q) Q \<Longrightarrow> P s \<Longrightarrow> Q (snd (m s))"
  by (cases "m s"; cases "fst (m s)") (auto simp: ensures_def dest: spec [of _ s])

lemma ensures_ret: "(\<And>s. P s \<Longrightarrow> Q x s) \<Longrightarrow> ensures P (ret x) Q X"
  by (simp add: ensures_def ret_def)

lemma ensures_raise: "(\<And>s. P s \<Longrightarrow> X s) \<Longrightarrow> ensures P (raise e) Q X"
  by (simp add: ensures_def raise_def)

lemma ensures_change: "(\<And>s. P s \<Longrightarrow> Q () (f s)) \<Longrightarrow> ensures P (change f) Q X"
  by (simp add: ensures_def change_def)

lemma ensures_read: "(\<And>s. P s \<Longrightarrow> Q (f s) s) \<Longrightarrow> ensures P (read f) Q X"
  by (simp add: ensures_def read_def)

lemma ensures_statement: "(\<And>s. P s \<Longrightarrow> Q (snd (f s)) (fst (f s))) \<Longrightarrow> ensures P (statement f) Q X"
  by (simp add: ensures_def statement_def)

lemma ensures_and_then:
  assumes "ensures P m R X" and "\<And>x. ensures (R x) (f x) Q X"
  shows "ensures P (and_then m f) Q X"
  unfolding ensures_def
proof (intro allI impI)
  fix s assume "P s"
  then have m: "case m s of (Inl e, s') \<Rightarrow> X s' | (Inr x, s') \<Rightarrow> R x s'" using assms(1) by (simp add: ensures_def)
  show "case and_then m f s of (Inl e, s') \<Rightarrow> X s' | (Inr x, s') \<Rightarrow> Q x s'"
  proof (cases "fst (m s)")
    case (Inr x)
    with m have "R x (snd (m s))" by (cases "m s") simp
    with assms(2) [of x] Inr show ?thesis by (cases "m s") (simp add: ensures_def and_then_def)
  qed (use m in \<open>cases "m s", simp add: and_then_def\<close>)
qed

lemma ensures_catching:
  assumes "ensures P m Q Y" and "\<And>e. ensures Y (h e) Q X"
  shows "ensures P (catching m h) Q X"
  unfolding ensures_def
proof (intro allI impI)
  fix s assume "P s"
  then have m: "case m s of (Inl e, s') \<Rightarrow> Y s' | (Inr x, s') \<Rightarrow> Q x s'" using assms(1) by (simp add: ensures_def)
  show "case catching m h s of (Inl e, s') \<Rightarrow> X s' | (Inr x, s') \<Rightarrow> Q x s'"
  proof (cases "fst (m s)")
    case (Inl e)
    with m have "Y (snd (m s))" by (cases "m s") simp
    with assms(2) [of e] Inl show ?thesis by (cases "m s") (simp add: ensures_def catching_def)
  qed (use m in \<open>cases "m s", simp add: catching_def\<close>)
qed

lemma ensures_weaken:
  "ensures P' m Q' X' \<Longrightarrow> (\<And>s. P s \<Longrightarrow> P' s) \<Longrightarrow> (\<And>x s. Q' x s \<Longrightarrow> Q x s) \<Longrightarrow> (\<And>s. X' s \<Longrightarrow> X s) \<Longrightarrow> ensures P m Q X"
  unfolding ensures_def by (auto split: prod.splits sum.splits) blast+

lemma ensures_if: "(b \<Longrightarrow> ensures P m Q X) \<Longrightarrow> (\<not> b \<Longrightarrow> ensures P n Q X) \<Longrightarrow> ensures P (if b then m else n) Q X"
  by simp

lemma ensures_option:
  "(x = None \<Longrightarrow> ensures P m Q X) \<Longrightarrow> (\<And>y. x = Some y \<Longrightarrow> ensures P (f y) Q X)
    \<Longrightarrow> ensures P (case x of None \<Rightarrow> m | Some y \<Rightarrow> f y) Q X"
  by (cases x) auto

lemma ensures_prod: "(\<And>a b. p = (a, b) \<Longrightarrow> ensures P (f a b) Q X) \<Longrightarrow> ensures P (case p of (a, b) \<Rightarrow> f a b) Q X"
  by (cases p) auto

lemma ensures_for_each: "(\<And>x. x \<in> set xs \<Longrightarrow> ensures P (f x) (\<lambda>_. P) X) \<Longrightarrow> ensures P (for_each f xs) (\<lambda>_. P) X"
  by (induction xs) (auto intro: ensures_ret ensures_and_then)

lemma ensures_frame:
  assumes "ensures P m Q X" and "runs_in (\<lambda>s t. f t = f s) m"
  shows "ensures (\<lambda>s. P s \<and> f s = a) m (\<lambda>x s. Q x s \<and> f s = a) X"
proof -
  have "f (snd (m s)) = f s" for s using assms(2) by (simp add: runs_in_def)
  then show ?thesis
    using assms(1) unfolding ensures_def by (auto split: prod.splits sum.splits) (metis snd_conv)+
qed

lemma ensures_pre: "(\<And>s. P s \<Longrightarrow> ensures (\<lambda>t. t = s) m Q X) \<Longrightarrow> ensures P m Q X"
  by (auto simp: ensures_def)

end
