(* ===== verification/DataModel.thy ===== *)
theory DataModel
  imports Prelude
begin

text \<open>
  The call-domain enumerations of \<open>src/src/core/constants/CallConstants.js\<close> and the rows of the
  tables the core reads and writes: \<open>calls\<close>, \<open>agents\<close>, \<open>queues\<close> and \<open>queue_members\<close>.
  A nullable column is an \<open>option\<close>. Timestamp columns are whole seconds, as MySQL's
  TIMESTAMP keeps them, and \<open>NOW()\<close> is an argument \<open>now\<close> of every operation that reads it.
  A JSON column holds the value that \<open>JSON.stringify\<close> wrote.
\<close>

section \<open>Enumerations\<close>

datatype connection_type = Conn_AGENT | Conn_CUSTOMER | Conn_MONITOR

datatype participant_kind = Kind_CUSTOMER | Kind_AGENT | Kind_SUPERVISOR

datatype leave_reason = Leave_ENDED | Leave_TRANSFERRED | Leave_MONITOR_STOPPED

datatype channel_type = WHATSAPP | SIP

datatype address_type = E164 | WHATSAPP_USER | SIP_URI

datatype agent_role = Role_AGENT | Role_SUPERVISOR

datatype call_status = St_INITIATED | St_RINGING | St_IN_PROGRESS | St_TERMINATED | St_FAILED | St_CANCELLED

datatype agent_availability = Av_AVAILABLE | Av_OFFLINE | Av_ON_CALL

datatype call_direction = INBOUND | OUTBOUND

datatype assignment_type = As_DIRECT | As_QUEUED | As_TRANSFERRED | As_IVR

datatype queue_strategy = RING_ALL | ROUND_ROBIN | PRIORITY

datatype termination_reason =
    Rs_COMPLETED | Rs_NO_ANSWER | Rs_TIMEOUT | Rs_CANCELLED | Rs_REJECTED | Rs_BUSY
  | Rs_AGENT_DISCONNECTED | Rs_AGENT_MEDIA_NOT_READY | Rs_SYSTEM_ERROR | Rs_SERVICE_MAINTENANCE
  | Rs_NETWORK_ERROR | Rs_CUSTOMER_NETWORK_LOSS | Rs_PROVIDER_ERROR | Rs_PROVIDER_TRIGGER_FAILED
  | Rs_IVR_AGENT_NO_ANSWER

datatype media_topology = Top_ROOM | Top_DIRECT

datatype terminated_by = By_AGENT | By_SYSTEM | By_CUSTOMER | By_PROVIDER | By_CONSUMER

datatype initiator_type = Init_AGENT | Init_SUPERVISOR | Init_SYSTEM

text \<open>\<open>calls.state\<close> (migrations/20260925000010_create_calls_table.js); NULL is \<open>None\<close>.\<close>

datatype call_state = IVR | QUEUE | ACTIVE | ON_HOLD

datatype call_media_type = AUDIO | VIDEO

datatype json =
    JNull
  | JBool bool
  | JNum int
  | JStr string
  | JArr "json list"
  | JObj "(string \<times> json) list"

section \<open>Rows\<close>

record call =
  c_id :: nat
  c_tenant_id :: nat
  c_channel_id :: "nat option"
  c_queue_id :: "nat option"
  c_agent_id :: "nat option"
  c_ivr_flow_id :: "nat option"
  c_channel :: channel_type
  c_channel_address :: "string option"
  c_provider_call_id :: "string option"
  c_customer_address :: "string option"
  c_customer_address_type :: "address_type option"
  c_customer_name :: "string option"
  c_external_ref :: "string option"
  c_consumer_metadata :: "json option"
  c_type :: call_media_type
  c_direction :: call_direction
  c_status :: call_status
  c_state :: "call_state option"
  c_media_topology :: media_topology
  c_termination_reason :: "termination_reason option"
  c_terminated_by :: "terminated_by option"
  c_ringing_at :: "int option"
  c_queued_at :: "int option"
  c_offered_at :: "int option"
  c_overflow_count :: nat
  c_answered_at :: "int option"
  c_ended_at :: "int option"
  c_ringing_duration :: nat
  c_call_duration :: nat
  c_queue_duration :: nat
  c_on_hold_duration :: nat
  c_failure_details :: "json option"
  c_metadata :: "json option"
  c_created_at :: int
  c_updated_at :: int

record agent =
  a_id :: nat
  a_tenant_id :: nat
  a_external_ref :: string
  a_name :: "string option"
  a_role :: agent_role
  a_availability :: agent_availability
  a_busy_call_id :: "nat option"
  a_availability_changed_at :: "int option"
  a_deleted_at :: "int option"

datatype queue_status = Q_ACTIVE | Q_DISABLED

record queue =
  q_id :: nat
  q_tenant_id :: nat
  q_external_ref :: string
  q_name :: string
  q_strategy :: queue_strategy
  q_ring_timeout_seconds :: "nat option"
  q_max_active_calls :: "nat option"
  q_max_wait_seconds :: "nat option"
  q_overflow_queue_id :: "nat option"
  q_hold_audio_asset_id :: "nat option"
  q_status :: queue_status

record queue_member =
  m_queue_id :: nat
  m_agent_id :: nat
  m_priority :: nat

section \<open>Groups of statuses\<close>

definition live_statuses :: "call_status list" where
  "live_statuses = [St_INITIATED, St_RINGING, St_IN_PROGRESS]"

definition is_live :: "call \<Rightarrow> bool" where
  "is_live c \<longleftrightarrow> c_status c \<in> set live_statuses"

text \<open>\<open>status NOT IN ('TERMINATED', 'FAILED')\<close>, negated.\<close>

definition is_final :: "call \<Rightarrow> bool" where
  "is_final c \<longleftrightarrow> c_status c = St_TERMINATED \<or> c_status c = St_FAILED"

lemma live_iff: "is_live c \<longleftrightarrow> c_status c = St_INITIATED \<or> c_status c = St_RINGING \<or> c_status c = St_IN_PROGRESS"
  by (auto simp: is_live_def live_statuses_def)

lemma live_not_final: "is_live c \<Longrightarrow> \<not> is_final c"
  by (auto simp: live_iff is_final_def)

end
