(* ===== verification/CallStore.thy ===== *)
theory CallStore
  imports DataModel
begin

text \<open>
  \<open>src/src/persistence/CallRepository.js\<close>: the reads and the guarded writes of the \<open>calls\<close>
  table. A read takes the rows and returns what the method returns; a write takes \<open>NOW()\<close> and
  the rows and returns the new rows, paired with \<open>affectedRows > 0\<close> where the method returns
  that. Every write is one statement, so it is atomic with respect to all workers.
\<close>

section \<open>Predicates of the WHERE clauses\<close>

definition waiting_in_queue :: "call \<Rightarrow> bool" where
  "waiting_in_queue c \<longleftrightarrow>
     c_status c = St_RINGING \<and> c_agent_id c = None \<and> c_direction c = INBOUND
     \<and> (c_state c = None \<or> c_state c = Some QUEUE)"

text \<open>\<open>state IS NULL OR state != 'IVR'\<close>.\<close>

definition not_in_ivr :: "call \<Rightarrow> bool" where
  "not_in_ivr c \<longleftrightarrow> c_state c = None \<or> c_state c \<noteq> Some IVR"

declare waiting_in_queue_def [row_guards] not_in_ivr_def [row_guards] is_final_def [row_guards] is_live_def [row_guards]

section \<open>Queries\<close>

record new_call =
  n_tenant_id :: nat
  n_channel_id :: "nat option"
  n_channel :: channel_type
  n_channel_address :: "string option"
  n_provider_call_id :: "string option"
  n_queue_id :: "nat option"
  n_agent_id :: "nat option"
  n_ivr_flow_id :: "nat option"
  n_state :: "call_state option"
  n_media_topology :: "media_topology option"
  n_customer_address :: "string option"
  n_customer_address_type :: "address_type option"
  n_customer_name :: "string option"
  n_external_ref :: "string option"
  n_consumer_metadata :: "json option"
  n_direction :: call_direction
  n_type :: "call_media_type option"
  n_status :: "call_status option"
  n_ringing_at :: "int option"
  n_queued_at :: "int option"
  n_offered_at :: "int option"
  n_metadata :: "json option"

datatype db_error = ER_DUP_ENTRY

definition call_row :: "nat \<Rightarrow> int \<Rightarrow> new_call \<Rightarrow> call" where
  "call_row i now d = \<lparr>
     c_id = i, c_tenant_id = n_tenant_id d, c_channel_id = n_channel_id d,
     c_queue_id = n_queue_id d, c_agent_id = n_agent_id d, c_ivr_flow_id = n_ivr_flow_id d,
     c_channel = n_channel d, c_channel_address = n_channel_address d,
     c_provider_call_id = n_provider_call_id d,
     c_customer_address = n_customer_address d, c_customer_address_type = n_customer_address_type d,
     c_customer_name = n_customer_name d, c_external_ref = n_external_ref d,
     c_consumer_metadata = n_consumer_metadata d,
     c_type = nullish (n_type d) AUDIO, c_direction = n_direction d,
     c_status = nullish (n_status d) St_INITIATED, c_state = n_state d,
     c_media_topology = nullish (n_media_topology d) Top_ROOM,
     c_termination_reason = None, c_terminated_by = None,
     c_ringing_at = n_ringing_at d, c_queued_at = n_queued_at d, c_offered_at = n_offered_at d,
     c_overflow_count = 0, c_answered_at = None, c_ended_at = None,
     c_ringing_duration = 0, c_call_duration = 0, c_queue_duration = 0, c_on_hold_duration = 0,
     c_failure_details = None, c_metadata = n_metadata d,
     c_created_at = now, c_updated_at = now \<rparr>"

text \<open>
  \<open>i\<close> is the AUTO_INCREMENT value the INSERT draws. The unique index on
  \<open>(channel, provider_call_id)\<close> makes a second row for a provider call an error.
\<close>

definition call_create :: "nat \<Rightarrow> int \<Rightarrow> new_call \<Rightarrow> call list \<Rightarrow> db_error + call list \<times> nat" where
  "call_create i now d calls =
     (if n_provider_call_id d \<noteq> None
         \<and> (\<exists>c \<in> set calls. c_channel c = n_channel d \<and> c_provider_call_id c = n_provider_call_id d)
      then Inl ER_DUP_ENTRY
      else Inr (calls @ [call_row i now d], i))"

definition call_findById :: "nat \<Rightarrow> call list \<Rightarrow> call option" where
  "call_findById i calls = first_row (\<lambda>c. c_id c = i) calls"

definition findByProviderCallId :: "string \<Rightarrow> channel_type \<Rightarrow> call list \<Rightarrow> call option" where
  "findByProviderCallId p ch calls =
     first_row (\<lambda>c. c_channel c = ch \<and> c_provider_call_id c = Some p) calls"

definition findActiveInboundByCustomer :: "nat \<Rightarrow> string option \<Rightarrow> call list \<Rightarrow> (nat \<times> string option) option" where
  "findActiveInboundByCustomer t addr calls =
     (case addr of
        None \<Rightarrow> None
      | Some a \<Rightarrow>
          if a = [] then None
          else map_option (\<lambda>c. (c_id c, c_provider_call_id c))
            (first_row (\<lambda>_. True)
              (sort_key (\<lambda>c. - c_created_at c)
                (filter (\<lambda>c. c_tenant_id c = t \<and> c_customer_address c = Some a \<and> c_direction c = INBOUND
                           \<and> (c_status c = St_RINGING \<or> c_status c = St_IN_PROGRESS)) calls))))"

record call_filter =
  f_status :: "call_status option"
  f_agent_id :: "nat option"
  f_external_ref :: "string option"
  f_customer_address :: "string option"
  f_channel_id :: "nat option"
  f_queue_id :: "nat option"
  f_direction :: "call_direction option"
  f_from :: "int option"
  f_to :: "int option"
  f_before_id :: "nat option"

definition opt_holds :: "'a option \<Rightarrow> ('a \<Rightarrow> bool) \<Rightarrow> bool" where
  "opt_holds f p = (case f of None \<Rightarrow> True | Some x \<Rightarrow> p x)"

definition newest_first :: "call list \<Rightarrow> call list" where
  "newest_first = sort_key (\<lambda>c. - int (c_id c))"

definition call_listForTenant :: "nat \<Rightarrow> call_filter \<Rightarrow> nat \<Rightarrow> call list \<Rightarrow> call list" where
  "call_listForTenant t f limit calls =
     take (safe_limit 50 200 limit)
       (newest_first
         (filter (\<lambda>c. c_tenant_id c = t
            \<and> opt_holds (f_status f) (\<lambda>s. c_status c = s)
            \<and> opt_holds (f_agent_id f) (\<lambda>a. c_agent_id c = Some a)
            \<and> opt_holds (f_external_ref f) (\<lambda>r. c_external_ref c = Some r)
            \<and> opt_holds (f_customer_address f) (\<lambda>a. c_customer_address c = Some a)
            \<and> opt_holds (f_channel_id f) (\<lambda>x. c_channel_id c = Some x)
            \<and> opt_holds (f_queue_id f) (\<lambda>q. c_queue_id c = Some q)
            \<and> opt_holds (f_direction f) (\<lambda>d. c_direction c = d)
            \<and> opt_holds (f_from f) (\<lambda>x. x \<le> c_created_at c)
            \<and> opt_holds (f_to f) (\<lambda>x. c_created_at c < x)
            \<and> opt_holds (f_before_id f) (\<lambda>i. c_id c < i)) calls))"

definition call_findByIds :: "nat list \<Rightarrow> call list \<Rightarrow> call list" where
  "call_findByIds ids calls = (if ids = [] then [] else filter (\<lambda>c. c_id c \<in> set ids) calls)"

definition getStatus :: "nat \<Rightarrow> call list \<Rightarrow> call_status option" where
  "getStatus i calls = map_option c_status (call_findById i calls)"

definition getUserActiveCall :: "nat \<Rightarrow> nat \<Rightarrow> nat \<Rightarrow> call list \<Rightarrow> call option" where
  "getUserActiveCall t i a calls =
     first_row (\<lambda>c. c_tenant_id c = t \<and> c_id c = i \<and> c_agent_id c = Some a
        \<and> ((c_status c = St_IN_PROGRESS \<and> c_state c = Some ACTIVE)
           \<or> (c_status c \<in> {St_INITIATED, St_RINGING} \<and> c_direction c = OUTBOUND)
           \<or> (c_status c = St_RINGING \<and> c_direction c = INBOUND))) calls"

definition getInProgressCall :: "nat \<Rightarrow> nat \<Rightarrow> call list \<Rightarrow> call option" where
  "getInProgressCall t i calls =
     first_row (\<lambda>c. c_tenant_id c = t \<and> c_id c = i \<and> c_status c = St_IN_PROGRESS \<and> c_state c = Some ACTIVE) calls"

definition getOngoingCallsForTenant :: "nat \<Rightarrow> call list \<Rightarrow> call list" where
  "getOngoingCallsForTenant t calls =
     sort_key (\<lambda>c. - c_created_at c) (filter (\<lambda>c. c_tenant_id c = t \<and> is_live c) calls)"

definition getOngoingPage :: "nat \<Rightarrow> nat list \<Rightarrow> nat list \<Rightarrow> nat list \<Rightarrow> nat option \<Rightarrow> nat \<Rightarrow> call list \<Rightarrow> call list" where
  "getOngoingPage t channels queues agents cursor limit calls =
     take (safe_limit 50 200 limit)
       (newest_first
         (filter (\<lambda>c. c_tenant_id c = t \<and> is_live c
            \<and> (channels = [] \<and> queues = [] \<and> agents = []
               \<or> (\<exists>x \<in> set channels. c_channel_id c = Some x)
               \<or> (\<exists>x \<in> set queues. c_queue_id c = Some x)
               \<or> (\<exists>x \<in> set agents. c_agent_id c = Some x))
            \<and> opt_holds cursor (\<lambda>i. c_id c < i)) calls))"

record live_counts =
  lc_live :: nat
  lc_in_ivr :: nat
  lc_waiting :: nat
  lc_ringing :: nat
  lc_in_progress :: nat

definition countLiveForTenant :: "nat \<Rightarrow> call list \<Rightarrow> live_counts" where
  "countLiveForTenant t calls =
     (let rs = filter (\<lambda>c. c_tenant_id c = t \<and> is_live c) calls;
          count = (\<lambda>p. length (filter p rs))
      in \<lparr> lc_live = length rs,
           lc_in_ivr = count (\<lambda>c. c_state c = Some IVR),
           lc_waiting = count (\<lambda>c. c_status c = St_RINGING \<and> c_agent_id c = None \<and> (c_state c = None \<or> c_state c = Some QUEUE)),
           lc_ringing = count (\<lambda>c. c_status c = St_RINGING \<and> c_agent_id c \<noteq> None),
           lc_in_progress = count (\<lambda>c. c_status c = St_IN_PROGRESS \<and> (c_state c = None \<or> c_state c \<noteq> Some IVR)) \<rparr>)"

definition getOngoingCallsForAgent :: "nat \<Rightarrow> nat \<Rightarrow> call list \<Rightarrow> call list" where
  "getOngoingCallsForAgent t a calls =
     sort_key (\<lambda>c. - c_created_at c) (filter (\<lambda>c. c_tenant_id c = t \<and> c_agent_id c = Some a \<and> is_live c) calls)"

definition hasUnassignedCalls :: "nat \<Rightarrow> nat \<Rightarrow> call list \<Rightarrow> bool" where
  "hasUnassignedCalls q before calls =
     list_ex (\<lambda>c. c_queue_id c = Some q \<and> c_id c < before \<and> c_status c = St_RINGING
        \<and> c_agent_id c = None \<and> c_direction c = INBOUND \<and> c_ivr_flow_id c = None \<and> not_in_ivr c) calls"

definition countUnassignedCalls :: "nat \<Rightarrow> call list \<Rightarrow> nat" where
  "countUnassignedCalls q calls = length (filter (\<lambda>c. c_queue_id c = Some q \<and> waiting_in_queue c) calls)"

definition findOldestUnassignedCalls :: "nat \<Rightarrow> nat \<Rightarrow> call list \<Rightarrow> call list" where
  "findOldestUnassignedCalls q limit calls =
     take (safe_limit 20 100 limit)
       (sort_key c_ringing_at (filter (\<lambda>c. c_queue_id c = Some q \<and> waiting_in_queue c) calls))"

text \<open>\<open>MIN\<close> of a group skips NULLs and is NULL when nothing is left.\<close>

definition sql_min :: "int option list \<Rightarrow> int option" where
  "sql_min xs = (case List.map_filter id xs of [] \<Rightarrow> None | v # vs \<Rightarrow> Some (fold min vs v))"

definition findQueuesWithWaitingCalls :: "nat \<Rightarrow> call list \<Rightarrow> nat list" where
  "findQueuesWithWaitingCalls t calls =
     (let rs = filter (\<lambda>c. c_tenant_id c = t \<and> c_queue_id c \<noteq> None \<and> waiting_in_queue c) calls;
          qs = remdups (List.map_filter c_queue_id rs)
      in sort_key (\<lambda>q. sql_min (map c_ringing_at (filter (\<lambda>c. c_queue_id c = Some q) rs))) qs)"

definition countOtherActiveCallsInQueue :: "nat \<Rightarrow> nat \<Rightarrow> call list \<Rightarrow> nat" where
  "countOtherActiveCallsInQueue q exclude calls =
     length (filter (\<lambda>c. c_queue_id c = Some q \<and> c_id c \<noteq> exclude
        \<and> ((c_status c = St_IN_PROGRESS \<and> c_state c = Some ACTIVE)
           \<or> (c_status c \<in> {St_INITIATED, St_RINGING} \<and> c_direction c = OUTBOUND))) calls)"

definition findPendingInboundCallForUser :: "int \<Rightarrow> nat \<Rightarrow> nat \<Rightarrow> call list \<Rightarrow> call option" where
  "findPendingInboundCallForUser now t a calls =
     first_row (\<lambda>_. True)
       (sort_key c_created_at
         (filter (\<lambda>c. c_tenant_id c = t \<and> c_agent_id c = Some a \<and> c_direction c = INBOUND
            \<and> (c_status c = St_RINGING
               \<or> c_status c = St_IN_PROGRESS \<and> (\<exists>x. c_answered_at c = Some x \<and> now - 30 \<le> x))) calls))"

section \<open>Stuck calls\<close>

text \<open>
  Two of the conditions below negate a comparison with the nullable column \<open>state\<close>, so they are
  written with SQL's three-valued operators.
\<close>

definition opt_less :: "int option \<Rightarrow> int \<Rightarrow> bool" where
  "opt_less a b = (case a of None \<Rightarrow> False | Some x \<Rightarrow> x < b)"

definition opt_le :: "int option \<Rightarrow> int \<Rightarrow> bool" where
  "opt_le a b = (case a of None \<Rightarrow> False | Some x \<Rightarrow> x \<le> b)"

definition queue_of :: "call \<Rightarrow> queue list \<Rightarrow> queue option" where
  "queue_of c queues = first_row (\<lambda>q. c_queue_id c = Some (q_id q)) queues"

text \<open>\<open>ring\<close> is \<open>ivr_flows.agent_ring_timeout\<close> of a flow (the LEFT JOIN; NULL counts as 60).\<close>

definition findStuckIvrTransferredCalls :: "int \<Rightarrow> (nat \<Rightarrow> nat option) \<Rightarrow> queue list \<Rightarrow> call list \<Rightarrow> call list" where
  "findStuckIvrTransferredCalls now ring queues calls =
     filter (\<lambda>c. c_status c = St_RINGING \<and> c_state c = Some QUEUE \<and> c_direction c = INBOUND
        \<and> c_agent_id c \<noteq> None
        \<and> (case c_ivr_flow_id c of None \<Rightarrow> False
           | Some f \<Rightarrow> opt_less (c_ringing_at c) (now - int (nullish (ring f) 60)))
        \<and> \<not> (\<exists>q \<in> set queues. c_queue_id c = Some (q_id q) \<and> q_ring_timeout_seconds q \<noteq> None
                \<and> q_strategy q \<noteq> RING_ALL)) calls"

definition findAllStuckCalls :: "int \<Rightarrow> nat \<Rightarrow> queue list \<Rightarrow> call list \<Rightarrow> call list" where
  "findAllStuckCalls now minutes queues calls =
     filter (\<lambda>c.
        ((c_status c = St_RINGING \<and> opt_less (c_ringing_at c) (now - int minutes * 60)
          \<and> holds3 (not3 (and3 (Some (c_direction c = INBOUND \<and> c_agent_id c = None)) (eq3 (c_state c) IVR)))
          \<and> holds3 (not3 (and3 (Some (c_direction c = INBOUND \<and> c_agent_id c \<noteq> None \<and> c_ivr_flow_id c \<noteq> None))
                        (eq3 (c_state c) QUEUE)))
          \<and> \<not> (c_direction c = INBOUND
                \<and> (\<exists>q \<in> set queues. c_queue_id c = Some (q_id q) \<and> q_max_wait_seconds q \<noteq> None)))
         \<or> (c_status c = St_IN_PROGRESS \<and> c_termination_reason c \<noteq> None))
        \<and> \<not> is_final c) calls"

definition findStuckCallsForUser :: "int \<Rightarrow> nat \<Rightarrow> nat \<Rightarrow> call list \<Rightarrow> call list" where
  "findStuckCallsForUser now a minutes calls =
     filter (\<lambda>c. c_agent_id c = Some a
        \<and> ((c_status c = St_RINGING \<and> opt_less (c_ringing_at c) (now - int minutes * 60)
            \<and> holds3 (not3 (and3 (Some (c_direction c = INBOUND \<and> c_ivr_flow_id c \<noteq> None)) (eq3 (c_state c) QUEUE))))
           \<or> (c_status c = St_IN_PROGRESS \<and> c_termination_reason c \<noteq> None))
        \<and> \<not> is_final c) calls"

definition findExpiredOutboundIntents :: "int \<Rightarrow> nat \<Rightarrow> call list \<Rightarrow> call list" where
  "findExpiredOutboundIntents now minutes calls =
     filter (\<lambda>c. c_direction c = OUTBOUND \<and> c_status c = St_INITIATED \<and> c_ringing_at c = None
        \<and> c_provider_call_id c = None \<and> c_created_at c < now - int minutes * 60) calls"

section \<open>Example rows\<close>

text \<open>Concrete rows for the closed instances of the theorems: an inbound WhatsApp call in queue 7.\<close>

definition example_new_call :: new_call where
  "example_new_call = \<lparr> n_tenant_id = 1, n_channel_id = Some 1, n_channel = WHATSAPP,
     n_channel_address = None, n_provider_call_id = None, n_queue_id = Some 7, n_agent_id = None,
     n_ivr_flow_id = None, n_state = None, n_media_topology = None, n_customer_address = None,
     n_customer_address_type = None, n_customer_name = None, n_external_ref = None,
     n_consumer_metadata = None, n_direction = INBOUND, n_type = None, n_status = Some St_RINGING,
     n_ringing_at = Some 0, n_queued_at = Some 0, n_offered_at = None, n_metadata = None \<rparr>"

definition example_call :: "nat \<Rightarrow> call" where
  "example_call i = call_row i 0 example_new_call"

lemma example_call_fields [simp]:
  "c_id (example_call i) = i" "c_tenant_id (example_call i) = 1" "c_queue_id (example_call i) = Some 7"
  "c_agent_id (example_call i) = None" "c_status (example_call i) = St_RINGING" "c_state (example_call i) = None"
  "c_direction (example_call i) = INBOUND" "c_ringing_at (example_call i) = Some 0"
  "c_queued_at (example_call i) = Some 0" "c_offered_at (example_call i) = None"
  "c_ivr_flow_id (example_call i) = None" "c_answered_at (example_call i) = None"
  "c_overflow_count (example_call i) = 0" "c_termination_reason (example_call i) = None"
  "c_provider_call_id (example_call i) = None" "c_ended_at (example_call i) = None"
  "c_created_at (example_call i) = 0" "c_terminated_by (example_call i) = None"
  by (simp_all add: example_call_def call_row_def example_new_call_def)

end
