(* ===== verification/CallWrites.thy ===== *)
theory CallWrites
  imports CallStore
begin

text \<open>
  The writes of \<open>src/src/persistence/CallRepository.js\<close> and the call-row writes of
  \<open>src/src/persistence/IvrRepository.js\<close>. The contract of the operations that end a call is the
  locale \<open>finalizer\<close>, interpreted on the three of them at the end.
\<close>

section \<open>Updates\<close>

abbreviation row_is :: "nat \<Rightarrow> call \<Rightarrow> bool" where
  "row_is i c \<equiv> c_id c = i"

definition updateStatus :: "int \<Rightarrow> nat \<Rightarrow> call_status \<Rightarrow> call list \<Rightarrow> call list" where
  "updateStatus now i s calls =
     fst (sql_update (row_is i) (\<lambda>c. c\<lparr>c_status := s, c_updated_at := now\<rparr>) calls)"

definition transitionStatus :: "int \<Rightarrow> nat \<Rightarrow> call_status \<Rightarrow> call_status \<Rightarrow> call list \<Rightarrow> call list \<times> bool" where
  "transitionStatus now i expected new calls =
     affected (sql_update (\<lambda>c. row_is i c \<and> c_status c = expected)
       (\<lambda>c. c\<lparr>c_status := new, c_updated_at := now\<rparr>) calls)"

definition updateState :: "int \<Rightarrow> nat \<Rightarrow> call_state option \<Rightarrow> call list \<Rightarrow> call list" where
  "updateState now i st calls =
     fst (sql_update (row_is i) (\<lambda>c. c\<lparr>c_state := st, c_updated_at := now\<rparr>) calls)"

definition markIvrAutoAccepted :: "int \<Rightarrow> nat \<Rightarrow> call list \<Rightarrow> call list \<times> bool" where
  "markIvrAutoAccepted now i calls =
     affected (sql_update (\<lambda>c. row_is i c \<and> c_state c = Some IVR)
       (\<lambda>c. c\<lparr>c_status := St_IN_PROGRESS, c_state := Some IVR, c_updated_at := now\<rparr>) calls)"

definition updateProviderCallId :: "int \<Rightarrow> nat \<Rightarrow> string \<Rightarrow> call list \<Rightarrow> db_error + call list" where
  "updateProviderCallId now i p calls =
     (if \<exists>c \<in> set calls. row_is i c \<and>
           (\<exists>d \<in> set calls. c_id d \<noteq> i \<and> c_channel d = c_channel c \<and> c_provider_call_id d = Some p)
      then Inl ER_DUP_ENTRY
      else Inr (fst (sql_update (row_is i) (\<lambda>c. c\<lparr>c_provider_call_id := Some p, c_updated_at := now\<rparr>) calls)))"

definition updateQueue :: "int \<Rightarrow> nat \<Rightarrow> nat option \<Rightarrow> call list \<Rightarrow> call list" where
  "updateQueue now i q calls =
     fst (sql_update (row_is i) (\<lambda>c. c\<lparr>c_queue_id := q, c_updated_at := now\<rparr>) calls)"

text \<open>NO_ANSWER with an answer time becomes COMPLETED, except for IVR calls.\<close>

definition correctNoAnswerIfAnswered :: "int \<Rightarrow> nat \<Rightarrow> call list \<Rightarrow> call list \<times> bool" where
  "correctNoAnswerIfAnswered now i calls =
     affected (sql_update
       (\<lambda>c. row_is i c \<and> c_status c = St_TERMINATED \<and> c_termination_reason c = Some Rs_NO_ANSWER
            \<and> c_answered_at c \<noteq> None \<and> c_ivr_flow_id c = None)
       (\<lambda>c. c\<lparr>c_termination_reason := Some Rs_COMPLETED, c_updated_at := now\<rparr>) calls)"

datatype timestamp_field = F_ringing_at | F_answered_at | F_ended_at

definition parse_timestamp_field :: "string \<Rightarrow> timestamp_field option" where
  "parse_timestamp_field f =
     (if f = ''ringing_at'' then Some F_ringing_at
      else if f = ''answered_at'' then Some F_answered_at
      else if f = ''ended_at'' then Some F_ended_at
      else None)"

fun set_timestamp :: "timestamp_field \<Rightarrow> int \<Rightarrow> call \<Rightarrow> call" where
  "set_timestamp F_ringing_at v c = c\<lparr>c_ringing_at := Some v\<rparr>"
| "set_timestamp F_answered_at v c = c\<lparr>c_answered_at := Some v\<rparr>"
| "set_timestamp F_ended_at v c = c\<lparr>c_ended_at := Some v\<rparr>"

datatype store_error = InvalidTimestampField string | InvalidDurationField string

definition updateTimestamp :: "int \<Rightarrow> nat \<Rightarrow> string \<Rightarrow> int option \<Rightarrow> call list \<Rightarrow> store_error + call list" where
  "updateTimestamp now i field timestamp calls =
     (case parse_timestamp_field field of
        None \<Rightarrow> Inl (InvalidTimestampField field)
      | Some f \<Rightarrow>
          (let value = nullish timestamp now;
               calls' = fst (sql_update (row_is i) (\<lambda>c. (set_timestamp f value c)\<lparr>c_updated_at := now\<rparr>) calls)
           in Inr (if f = F_answered_at then fst (correctNoAnswerIfAnswered now i calls') else calls')))"

text \<open>
  \<open>accepted\<close> are the times of the call's \<open>inbound_accepted\<close> lifecycle events (the subquery).
  \<open>TIMESTAMPDIFF\<close> of whole seconds is the difference; GREATEST(0, _) floors it.
\<close>

definition fillQueueDuration :: "int \<Rightarrow> int list \<Rightarrow> nat \<Rightarrow> call list \<Rightarrow> call list" where
  "fillQueueDuration now accepted i calls =
     fst (sql_update (\<lambda>c. row_is i c \<and> c_queued_at c \<noteq> None)
       (\<lambda>c. case c_queued_at c of
              None \<Rightarrow> c
            | Some q \<Rightarrow>
                (let answered = sql_min (map Some (filter (\<lambda>t. q \<le> t) accepted));
                     until = nullish (coalesce answered (c_ended_at c)) now
                 in c\<lparr>c_queue_duration := nat (max 0 (until - q))\<rparr>)) calls)"

datatype duration_field = D_ringing | D_call | D_queue | D_on_hold

definition parse_duration_field :: "string \<Rightarrow> duration_field option" where
  "parse_duration_field f =
     (if f = ''ringing_duration'' then Some D_ringing
      else if f = ''call_duration'' then Some D_call
      else if f = ''queue_duration'' then Some D_queue
      else if f = ''on_hold_duration'' then Some D_on_hold
      else None)"

fun set_duration :: "duration_field \<Rightarrow> nat \<Rightarrow> call \<Rightarrow> call" where
  "set_duration D_ringing v c = c\<lparr>c_ringing_duration := v\<rparr>"
| "set_duration D_call v c = c\<lparr>c_call_duration := v\<rparr>"
| "set_duration D_queue v c = c\<lparr>c_queue_duration := v\<rparr>"
| "set_duration D_on_hold v c = c\<lparr>c_on_hold_duration := v\<rparr>"

definition updateDuration :: "int \<Rightarrow> nat \<Rightarrow> string \<Rightarrow> nat \<Rightarrow> call list \<Rightarrow> store_error + call list" where
  "updateDuration now i field v calls =
     (case parse_duration_field field of
        None \<Rightarrow> Inl (InvalidDurationField field)
      | Some f \<Rightarrow> Inr (fst (sql_update (row_is i) (\<lambda>c. (set_duration f v c)\<lparr>c_updated_at := now\<rparr>) calls)))"

definition updateFailureDetails :: "int \<Rightarrow> nat \<Rightarrow> json \<Rightarrow> call list \<Rightarrow> call list" where
  "updateFailureDetails now i d calls =
     fst (sql_update (row_is i) (\<lambda>c. c\<lparr>c_failure_details := Some d, c_updated_at := now\<rparr>) calls)"

definition updateTerminatedByIfFailed :: "int \<Rightarrow> nat \<Rightarrow> terminated_by \<Rightarrow> call list \<Rightarrow> call list" where
  "updateTerminatedByIfFailed now i b calls =
     fst (sql_update (\<lambda>c. row_is i c \<and> c_status c = St_FAILED)
       (\<lambda>c. c\<lparr>c_terminated_by := Some b, c_updated_at := now\<rparr>) calls)"

definition updateMetadata :: "int \<Rightarrow> nat \<Rightarrow> json option \<Rightarrow> call list \<Rightarrow> call list \<times> bool" where
  "updateMetadata now i m calls =
     affected (sql_update (row_is i) (\<lambda>c. c\<lparr>c_metadata := m, c_updated_at := now\<rparr>) calls)"

text \<open>An argument left \<open>undefined\<close> is the outer \<open>None\<close>; \<open>null\<close> is \<open>Some None\<close>.\<close>

definition updateConsumerFields ::
  "int \<Rightarrow> nat \<Rightarrow> string option option \<Rightarrow> json option option \<Rightarrow> call list \<Rightarrow> call list \<times> bool" where
  "updateConsumerFields now i ref meta calls =
     (if ref = None \<and> meta = None then (calls, False)
      else affected (sql_update (row_is i)
        (\<lambda>c. c\<lparr>c_external_ref := nullish ref (c_external_ref c),
               c_consumer_metadata := nullish meta (c_consumer_metadata c), c_updated_at := now\<rparr>) calls))"

section \<open>Handovers\<close>

definition markHandoverOffered :: "int \<Rightarrow> nat \<Rightarrow> nat \<Rightarrow> call list \<Rightarrow> call list" where
  "markHandoverOffered now i a calls =
     fst (sql_update (\<lambda>c. row_is i c \<and> c_agent_id c = Some a \<and> c_status c = St_IN_PROGRESS)
       (\<lambda>c. c\<lparr>c_offered_at := Some now, c_updated_at := now\<rparr>) calls)"

definition claimHandover :: "int \<Rightarrow> nat \<Rightarrow> nat \<Rightarrow> call list \<Rightarrow> call list \<times> bool" where
  "claimHandover now i a calls =
     affected (sql_update (\<lambda>c. row_is i c \<and> c_agent_id c = Some a \<and> c_status c = St_IN_PROGRESS)
       (\<lambda>c. c\<lparr>c_offered_at := None, c_updated_at := now\<rparr>) calls)"

definition findExpiredHandovers :: "int \<Rightarrow> nat \<Rightarrow> nat \<Rightarrow> call list \<Rightarrow> call list" where
  "findExpiredHandovers now timeout limit calls =
     take (safe_limit 50 200 limit)
       (sort_key c_offered_at
         (filter (\<lambda>c. c_status c = St_IN_PROGRESS \<and> c_agent_id c \<noteq> None
            \<and> opt_le (c_offered_at c) (now - int (max 1 (if timeout = 0 then 30 else timeout)))) calls))"

definition returnHandoverToQueue :: "int \<Rightarrow> nat \<Rightarrow> nat \<Rightarrow> int \<Rightarrow> call list \<Rightarrow> call list \<times> bool" where
  "returnHandoverToQueue now i a offered calls =
     affected (sql_update
       (\<lambda>c. row_is i c \<and> c_agent_id c = Some a \<and> c_status c = St_IN_PROGRESS \<and> opt_le (c_offered_at c) offered)
       (\<lambda>c. c\<lparr>c_status := St_RINGING, c_state := Some QUEUE, c_queued_at := Some now, c_updated_at := now\<rparr>) calls)"

definition expireHandover :: "int \<Rightarrow> nat \<Rightarrow> nat \<Rightarrow> int \<Rightarrow> call list \<Rightarrow> call list \<times> bool" where
  "expireHandover now i a offered calls =
     affected (sql_update
       (\<lambda>c. row_is i c \<and> c_agent_id c = Some a \<and> c_status c = St_IN_PROGRESS \<and> opt_le (c_offered_at c) offered)
       (\<lambda>c. c\<lparr>c_offered_at := None, c_updated_at := now\<rparr>) calls)"

definition updateCallAgentIfCurrent :: "int \<Rightarrow> nat \<Rightarrow> nat option \<Rightarrow> nat option \<Rightarrow> call list \<Rightarrow> call list \<times> bool" where
  "updateCallAgentIfCurrent now i old new calls =
     affected (sql_update (\<lambda>c. row_is i c \<and> c_agent_id c = old \<and> is_live c \<and> not_in_ivr c)
       (\<lambda>c. c\<lparr>c_agent_id := new, c_updated_at := now\<rparr>) calls)"

section \<open>Assignment\<close>

definition assignable :: "call \<Rightarrow> bool" where
  "assignable c \<longleftrightarrow>
     c_agent_id c = None \<and> c_status c = St_RINGING \<and> c_direction c = INBOUND \<and> not_in_ivr c"

definition assignCallToAgentIfUnassigned :: "int \<Rightarrow> nat \<Rightarrow> nat \<Rightarrow> call list \<Rightarrow> call list \<times> bool" where
  "assignCallToAgentIfUnassigned now i a calls =
     affected (sql_update (\<lambda>c. row_is i c \<and> assignable c)
       (\<lambda>c. c\<lparr>c_agent_id := Some a, c_offered_at := Some now, c_updated_at := now\<rparr>) calls)"

definition assignCallToAgentIfEligible :: "int \<Rightarrow> nat \<Rightarrow> nat \<Rightarrow> call list \<Rightarrow> call list \<times> bool" where
  "assignCallToAgentIfEligible now i a calls =
     affected (sql_update
       (\<lambda>c. row_is i c \<and> is_live c \<and> (c_agent_id c = None \<or> c_agent_id c = Some a) \<and> not_in_ivr c)
       (\<lambda>c. c\<lparr>c_agent_id := Some a, c_offered_at := None, c_updated_at := now\<rparr>) calls)"

definition hasAgentActiveCall :: "nat \<Rightarrow> nat \<Rightarrow> call list \<Rightarrow> bool" where
  "hasAgentActiveCall a exclude calls =
     list_ex (\<lambda>c. c_agent_id c = Some a \<and> c_id c \<noteq> exclude \<and> is_live c) calls"

definition getConflictingRingingCallId :: "nat \<Rightarrow> nat \<Rightarrow> call list \<Rightarrow> nat option" where
  "getConflictingRingingCallId a exclude calls =
     map_option c_id (first_row (\<lambda>_. True)
       (newest_first (filter (\<lambda>c. c_agent_id c = Some a \<and> c_id c < exclude \<and> c_status c = St_RINGING) calls)))"

section \<open>Queue timing\<close>

definition enterQueue :: "int \<Rightarrow> nat \<Rightarrow> nat option \<Rightarrow> call list \<Rightarrow> call list" where
  "enterQueue now i q calls =
     fst (sql_update (row_is i)
       (\<lambda>c. c\<lparr>c_queued_at := Some now, c_queue_id := coalesce q (c_queue_id c), c_updated_at := now\<rparr>) calls)"

definition withdrawOffer :: "int \<Rightarrow> nat \<Rightarrow> nat \<Rightarrow> int option \<Rightarrow> call list \<Rightarrow> call list \<times> bool" where
  "withdrawOffer now i a expiredBefore calls =
     affected (sql_update
       (\<lambda>c. row_is i c \<and> c_agent_id c = Some a \<and> c_status c = St_RINGING \<and> c_direction c = INBOUND
            \<and> c_offered_at c \<noteq> None
            \<and> (case expiredBefore of None \<Rightarrow> True | Some t \<Rightarrow> opt_le (c_offered_at c) t))
       (\<lambda>c. c\<lparr>c_agent_id := None, c_offered_at := None, c_updated_at := now\<rparr>) calls)"

definition overflowToQueue :: "int \<Rightarrow> nat \<Rightarrow> nat \<Rightarrow> nat \<Rightarrow> nat option \<Rightarrow> call list \<Rightarrow> call list \<times> bool" where
  "overflowToQueue now i fromQ toQ offeredAgent calls =
     affected (sql_update
       (\<lambda>c. row_is i c \<and> c_queue_id c = Some fromQ \<and> c_status c = St_RINGING \<and> c_direction c = INBOUND
            \<and> c_agent_id c = offeredAgent \<and> (c_agent_id c = None \<or> c_offered_at c \<noteq> None))
       (\<lambda>c. c\<lparr>c_queue_id := Some toQ, c_queued_at := Some now, c_overflow_count := c_overflow_count c + 1,
              c_agent_id := None, c_offered_at := None, c_updated_at := now\<rparr>) calls)"

text \<open>
  The scans join each call with its queue. A row pairs the call with the queue columns the
  SELECT adds.
\<close>

definition findExpiredOffers :: "int \<Rightarrow> nat \<Rightarrow> queue list \<Rightarrow> call list \<Rightarrow> (call \<times> queue) list" where
  "findExpiredOffers now limit queues calls =
     take (safe_limit 50 200 limit)
       (sort_key (\<lambda>r. c_offered_at (fst r))
         (filter (\<lambda>(c, q). c_status c = St_RINGING \<and> c_direction c = INBOUND
              \<and> c_agent_id c \<noteq> None \<and> c_offered_at c \<noteq> None
              \<and> (c_state c = None \<or> c_state c = Some QUEUE)
              \<and> q_strategy q \<noteq> RING_ALL
              \<and> (case q_ring_timeout_seconds q of None \<Rightarrow> False
                 | Some s \<Rightarrow> opt_le (c_offered_at c) (now - int s)))
           [(c, q). c \<leftarrow> calls, q \<leftarrow> queues, c_queue_id c = Some (q_id q)]))"

definition findExpiredWaits :: "int \<Rightarrow> nat \<Rightarrow> queue list \<Rightarrow> call list \<Rightarrow> (call \<times> queue) list" where
  "findExpiredWaits now limit queues calls =
     take (safe_limit 50 200 limit)
       (sort_key (\<lambda>r. c_queued_at (fst r))
         (filter (\<lambda>(c, q). c_status c = St_RINGING \<and> c_direction c = INBOUND
              \<and> (c_state c = None \<or> c_state c = Some QUEUE)
              \<and> (c_agent_id c = None \<or> c_offered_at c \<noteq> None)
              \<and> (case q_max_wait_seconds q of None \<Rightarrow> False
                 | Some s \<Rightarrow> nullish (coalesce (c_queued_at c) (c_ringing_at c)) (c_created_at c) \<le> now - int s))
           [(c, q). c \<leftarrow> calls, q \<leftarrow> queues, c_queue_id c = Some (q_id q)]))"

section \<open>Termination and finalization\<close>

definition failureDetails :: "json option \<Rightarrow> json option \<Rightarrow> json option" where
  "failureDetails errors callback =
     (let details = (case errors of None \<Rightarrow> [] | Some e \<Rightarrow> [(''errors'', e)])
                  @ (case callback of None \<Rightarrow> [] | Some d \<Rightarrow> [(''provider_callback_data'', d)])
      in if details = [] then None else Some (JObj details))"

definition fail_row ::
  "int \<Rightarrow> json option \<Rightarrow> json option \<Rightarrow> termination_reason \<Rightarrow> terminated_by \<Rightarrow> call \<Rightarrow> call" where
  "fail_row now errors callback reason by c =
     c\<lparr>c_status := St_FAILED, c_state := None, c_termination_reason := Some reason, c_terminated_by := Some by,
       c_failure_details := failureDetails errors callback,
       c_ended_at := Some (nullish (c_ended_at c) now), c_updated_at := now\<rparr>"

definition markCallFailed ::
  "int \<Rightarrow> nat \<Rightarrow> json option \<Rightarrow> json option \<Rightarrow> termination_reason \<Rightarrow> terminated_by \<Rightarrow> call list \<Rightarrow> call list" where
  "markCallFailed now i errors callback reason by calls =
     fst (sql_update (row_is i) (fail_row now errors callback reason by) calls)"

definition markCallFailedIfNotFinal ::
  "int \<Rightarrow> nat \<Rightarrow> json option \<Rightarrow> json option \<Rightarrow> termination_reason \<Rightarrow> terminated_by \<Rightarrow> call list \<Rightarrow> call list \<times> bool" where
  "markCallFailedIfNotFinal now i errors callback reason by calls =
     affected (sql_update (\<lambda>c. row_is i c \<and> \<not> is_final c) (fail_row now errors callback reason by) calls)"

definition terminateCallIfNotTerminated ::
  "int \<Rightarrow> nat \<Rightarrow> termination_reason option \<Rightarrow> terminated_by \<Rightarrow> int option \<Rightarrow> call_status option \<Rightarrow> call list \<Rightarrow> call list \<times> bool" where
  "terminateCallIfNotTerminated now i reason by endedAt requireStatus calls =
     affected (sql_update
       (\<lambda>c. row_is i c \<and> \<not> is_final c \<and> (case requireStatus of None \<Rightarrow> True | Some s \<Rightarrow> c_status c = s))
       (\<lambda>c. c\<lparr>c_status := St_TERMINATED, c_state := None, c_offered_at := None,
              c_termination_reason := reason, c_terminated_by := Some by,
              c_ended_at := Some (nullish endedAt now), c_updated_at := now\<rparr>) calls)"

definition terminateCall ::
  "int \<Rightarrow> nat \<Rightarrow> termination_reason option \<Rightarrow> terminated_by \<Rightarrow> int option \<Rightarrow> call list \<Rightarrow> call list" where
  "terminateCall now i reason by endedAt calls =
     fst (terminateCallIfNotTerminated now i reason by endedAt None calls)"

record webhook_end =
  w_ended_at :: "int option"
  w_answered_at :: "int option"
  w_call_duration :: "nat option"
  w_ringing_duration :: "nat option"

text \<open>Phase 1 of both finalizers: fill what the provider reports, keep what it does not.\<close>

definition patch_timing :: "int \<Rightarrow> nat \<Rightarrow> webhook_end \<Rightarrow> call list \<Rightarrow> call list" where
  "patch_timing now i w calls =
     fst (sql_update (row_is i)
       (\<lambda>c. c\<lparr>c_ended_at := coalesce (w_ended_at w) (c_ended_at c),
              c_answered_at := coalesce (w_answered_at w) (c_answered_at c),
              c_call_duration := nullish (w_call_duration w) (c_call_duration c),
              c_ringing_duration := nullish (w_ringing_duration w) (c_ringing_duration c),
              c_updated_at := now\<rparr>) calls)"

definition finalizeFromWebhook ::
  "int \<Rightarrow> nat \<Rightarrow> call_status option \<Rightarrow> termination_reason option \<Rightarrow> terminated_by option \<Rightarrow> webhook_end
   \<Rightarrow> call list \<Rightarrow> call list \<times> bool" where
  "finalizeFromWebhook now i status reason by w calls =
     (let calls1 = patch_timing now i w calls;
          r = affected (sql_update (\<lambda>c. row_is i c \<and> \<not> is_final c)
            (\<lambda>c. c\<lparr>c_status := nullish status St_TERMINATED, c_state := None,
                   c_termination_reason := coalesce (c_termination_reason c) reason,
                   c_terminated_by := coalesce (c_terminated_by c) by,
                   c_ended_at := Some (nullish (c_ended_at c) now), c_updated_at := now\<rparr>) calls1)
      in (fst (correctNoAnswerIfAnswered now i (fst r)), snd r))"

definition finalizeCallAsFailed ::
  "int \<Rightarrow> nat \<Rightarrow> terminated_by option \<Rightarrow> webhook_end \<Rightarrow> call list \<Rightarrow> call list \<times> bool" where
  "finalizeCallAsFailed now i by w calls =
     affected (sql_update (\<lambda>c. row_is i c \<and> c_status c \<noteq> St_FAILED)
       (\<lambda>c. c\<lparr>c_status := St_FAILED, c_state := None, c_termination_reason := Some Rs_PROVIDER_ERROR,
              c_terminated_by := coalesce (c_terminated_by c) by,
              c_ended_at := Some (nullish (c_ended_at c) now), c_updated_at := now\<rparr>)
       (patch_timing now i w calls))"

definition batchTerminateCalls ::
  "int \<Rightarrow> nat list \<Rightarrow> termination_reason \<Rightarrow> terminated_by \<Rightarrow> call_status option \<Rightarrow> call list \<Rightarrow> call list \<times> nat list" where
  "batchTerminateCalls now ids reason by requireStatus calls =
     (if ids = [] then (calls, [])
      else let calls' = fst (sql_update
                 (\<lambda>c. c_id c \<in> set ids \<and> \<not> is_final c
                      \<and> (case requireStatus of None \<Rightarrow> True | Some s \<Rightarrow> c_status c = s))
                 (\<lambda>c. c\<lparr>c_status := St_TERMINATED, c_state := None, c_termination_reason := Some reason,
                        c_terminated_by := Some by, c_ended_at := Some (nullish (c_ended_at c) now),
                        c_updated_at := now\<rparr>) calls)
           in (calls', case requireStatus of
                  None \<Rightarrow> ids
                | Some _ \<Rightarrow> map c_id (filter (\<lambda>c. c_id c \<in> set ids \<and> c_status c = St_TERMINATED) calls')))"

section \<open>The IVR's writes to a call row\<close>

text \<open>\<open>updateCallState\<close> of IvrRepository.js: no guard on the call's status.\<close>

definition ivr_updateCallState :: "int \<Rightarrow> nat \<Rightarrow> call_state option \<Rightarrow> call_status option \<Rightarrow> call list \<Rightarrow> call list" where
  "ivr_updateCallState now i st status calls =
     (case status of
        Some s \<Rightarrow>
          fst (sql_update (row_is i)
            (\<lambda>c. c\<lparr>c_state := st, c_status := s, c_ringing_at := Some (nullish (c_ringing_at c) now),
                   c_updated_at := now\<rparr>) calls)
      | None \<Rightarrow> updateState now i st calls)"

end
