(* ===== verification/AgentStore.thy ===== *)
theory AgentStore
  imports CallWrites
begin

text \<open>
  \<open>src/src/persistence/AgentRepository.js\<close> and \<open>src/src/persistence/QueueRepository.js\<close>: agents,
  their shift (\<open>availability\<close>) and the call holding them (\<open>busy_call_id\<close>), queues and their
  members. A claim is one guarded statement (or one transaction), so it is modelled as one step
  on the pair of tables it reads and writes.
\<close>

section \<open>What an agent reports\<close>

definition reportedAvailability :: "agent \<Rightarrow> agent_availability" where
  "reportedAvailability a =
     (if a_busy_call_id a \<noteq> None then Av_ON_CALL
      else if a_availability a = Av_OFFLINE then Av_OFFLINE
      else Av_AVAILABLE)"

definition on_shift :: "agent \<Rightarrow> bool" where
  "on_shift a \<longleftrightarrow> a_availability a = Av_AVAILABLE \<or> a_availability a = Av_ON_CALL"

text \<open>What the SELECTs of \<open>AGENT_COLUMNS\<close> return.\<close>

record agent_view =
  v_id :: nat
  v_tenant_id :: nat
  v_name :: "string option"
  v_role :: agent_role
  v_availability :: agent_availability
  v_busy_call_id :: "nat option"

definition agent_view :: "agent \<Rightarrow> agent_view" where
  "agent_view a = \<lparr> v_id = a_id a, v_tenant_id = a_tenant_id a, v_name = a_name a, v_role = a_role a,
                    v_availability = reportedAvailability a, v_busy_call_id = a_busy_call_id a \<rparr>"

text \<open>\<open>noOtherActiveCall\<close>: no active call on the agent, but for the one excluded.\<close>

definition noOtherActiveCall :: "nat option \<Rightarrow> call list \<Rightarrow> agent \<Rightarrow> bool" where
  "noOtherActiveCall exclude calls a \<longleftrightarrow>
     \<not> (\<exists>c \<in> set calls. c_agent_id c = Some (a_id a) \<and> is_live c
           \<and> (case exclude of None \<Rightarrow> True | Some i \<Rightarrow> c_id c \<noteq> i))"

record availability_stats =
  s_total :: nat
  s_available :: nat
  s_on_call :: nat
  s_offline :: nat

definition emptyStats :: availability_stats where
  "emptyStats = \<lparr> s_total = 0, s_available = 0, s_on_call = 0, s_offline = 0 \<rparr>"

text \<open>The rows of a GROUP BY: each reported status with its count.\<close>

fun tallyStats :: "(agent_availability \<times> nat) list \<Rightarrow> availability_stats \<Rightarrow> availability_stats" where
  "tallyStats [] st = st"
| "tallyStats ((av, cnt) # rows) st =
     (let st1 = st\<lparr>s_total := s_total st + cnt\<rparr>
      in tallyStats rows
        (case av of
           Av_AVAILABLE \<Rightarrow> st1\<lparr>s_available := s_available st1 + cnt\<rparr>
         | Av_ON_CALL \<Rightarrow> st1\<lparr>s_on_call := s_on_call st1 + cnt\<rparr>
         | Av_OFFLINE \<Rightarrow> st1\<lparr>s_offline := s_offline st1 + cnt\<rparr>))"

definition group_by_status :: "agent list \<Rightarrow> (agent_availability \<times> nat) list" where
  "group_by_status rows =
     map (\<lambda>av. (av, length (filter (\<lambda>a. reportedAvailability a = av) rows)))
       (remdups (map reportedAvailability rows))"

section \<open>Lookups\<close>

definition agent_findById :: "nat \<Rightarrow> agent list \<Rightarrow> agent_view option" where
  "agent_findById i agents = map_option agent_view (first_row (\<lambda>a. a_id a = i \<and> a_deleted_at a = None) agents)"

definition agent_findByExternalRef :: "nat \<Rightarrow> string \<Rightarrow> agent list \<Rightarrow> agent_view option" where
  "agent_findByExternalRef t ref agents =
     map_option agent_view
       (first_row (\<lambda>a. a_tenant_id a = t \<and> a_external_ref a = ref \<and> a_deleted_at a = None) agents)"

definition agent_findByIds :: "nat list \<Rightarrow> agent list \<Rightarrow> agent_view list" where
  "agent_findByIds ids agents =
     (if ids = [] then []
      else map agent_view (filter (\<lambda>a. a_id a \<in> set ids \<and> a_deleted_at a = None) agents))"

definition getTenantAgents :: "nat \<Rightarrow> agent list \<Rightarrow> agent_view list" where
  "getTenantAgents t agents =
     map agent_view (sort_key a_id (filter (\<lambda>a. a_tenant_id a = t \<and> a_deleted_at a = None) agents))"

definition getSupervisors :: "nat \<Rightarrow> agent list \<Rightarrow> agent_view list" where
  "getSupervisors t agents =
     map agent_view (sort_key a_id
       (filter (\<lambda>a. a_tenant_id a = t \<and> a_role a = Role_SUPERVISOR \<and> a_deleted_at a = None) agents))"

definition getTenantId :: "nat \<Rightarrow> agent list \<Rightarrow> nat option" where
  "getTenantId i agents = map_option a_tenant_id (first_row (\<lambda>a. a_id a = i) agents)"

definition getNameById :: "nat \<Rightarrow> agent list \<Rightarrow> string option" where
  "getNameById i agents = Option.bind (first_row (\<lambda>a. a_id a = i) agents) a_name"

definition getNamesByIds :: "nat list \<Rightarrow> agent list \<Rightarrow> (nat \<times> string option) list" where
  "getNamesByIds ids agents =
     (if ids = [] then [] else map (\<lambda>a. (a_id a, a_name a)) (filter (\<lambda>a. a_id a \<in> set ids) agents))"

section \<open>Provisioning\<close>

text \<open>
  \<open>INSERT ... ON DUPLICATE KEY UPDATE\<close> on the unique \<open>(tenant_id, external_ref)\<close>, then the read
  back. \<open>i\<close> is the AUTO_INCREMENT value for a new row.
\<close>

definition agent_upsert ::
  "nat \<Rightarrow> nat \<Rightarrow> string \<Rightarrow> string option \<Rightarrow> agent_role option \<Rightarrow> agent list \<Rightarrow> agent list \<times> agent_view option" where
  "agent_upsert i t ref name role agents =
     (let key = (\<lambda>a. a_tenant_id a = t \<and> a_external_ref a = ref);
          agents' = (if list_ex key agents
             then fst (sql_update key
               (\<lambda>a. a\<lparr>a_name := name, a_role := nullish role (a_role a), a_deleted_at := None\<rparr>) agents)
             else agents @ [\<lparr> a_id = i, a_tenant_id = t, a_external_ref = ref, a_name = name,
                              a_role = nullish role Role_AGENT, a_availability = Av_OFFLINE,
                              a_busy_call_id = None, a_availability_changed_at = None, a_deleted_at = None \<rparr>])
      in (agents', map_option agent_view (first_row key agents')))"

definition softDelete :: "int \<Rightarrow> nat \<Rightarrow> string \<Rightarrow> agent list \<Rightarrow> agent list \<times> bool" where
  "softDelete now t ref agents =
     affected (sql_update (\<lambda>a. a_tenant_id a = t \<and> a_external_ref a = ref \<and> a_deleted_at a = None)
       (\<lambda>a. a\<lparr>a_deleted_at := Some now, a_availability := Av_OFFLINE, a_busy_call_id := None\<rparr>) agents)"

section \<open>Shift\<close>

definition updateAgentAvailability :: "int \<Rightarrow> nat \<Rightarrow> agent_availability \<Rightarrow> agent list \<Rightarrow> agent list \<times> bool" where
  "updateAgentAvailability now i av agents =
     affected (sql_update (\<lambda>a. a_id a = i \<and> a_deleted_at a = None)
       (\<lambda>a. a\<lparr>a_availability := av, a_availability_changed_at := Some now\<rparr>) agents)"

definition getAvailabilityStatsForAgentIds :: "nat list \<Rightarrow> agent list \<Rightarrow> availability_stats" where
  "getAvailabilityStatsForAgentIds ids agents =
     (if remdups ids = [] then emptyStats
      else tallyStats (group_by_status (filter (\<lambda>a. a_id a \<in> set ids \<and> a_deleted_at a = None) agents)) emptyStats)"

definition getTenantAvailabilityStats :: "nat \<Rightarrow> agent list \<Rightarrow> availability_stats" where
  "getTenantAvailabilityStats t agents =
     tallyStats (group_by_status (filter (\<lambda>a. a_tenant_id a = t \<and> a_deleted_at a = None) agents)) emptyStats"

section \<open>Claims and releases\<close>

record claim_result =
  claimed :: bool
  assigned :: bool

definition claimable :: "bool \<Rightarrow> call list \<Rightarrow> nat \<Rightarrow> agent \<Rightarrow> bool" where
  "claimable anyShift calls i a \<longleftrightarrow>
     a_id a = i \<and> a_busy_call_id a = None \<and> (anyShift \<or> on_shift a) \<and> a_deleted_at a = None
     \<and> noOtherActiveCall None calls a"

text \<open>The transaction: both updates, or neither (rollback).\<close>

definition claimAgentAndAssignCall ::
  "int \<Rightarrow> bool \<Rightarrow> nat \<Rightarrow> nat \<Rightarrow> agent list \<times> call list \<Rightarrow> (agent list \<times> call list) \<times> claim_result" where
  "claimAgentAndAssignCall now anyShift agentId callId db =
     (case affected (sql_update (claimable anyShift (snd db) agentId)
             (\<lambda>a. a\<lparr>a_busy_call_id := Some callId\<rparr>) (fst db)) of
        (_, False) \<Rightarrow> (db, \<lparr> claimed = False, assigned = False \<rparr>)
      | (agents', True) \<Rightarrow>
          (case affected (sql_update (\<lambda>c. row_is callId c \<and> assignable c)
                  (\<lambda>c. c\<lparr>c_agent_id := Some agentId, c_offered_at := Some now, c_updated_at := now\<rparr>) (snd db)) of
             (_, False) \<Rightarrow> (db, \<lparr> claimed = True, assigned = False \<rparr>)
           | (calls', True) \<Rightarrow> ((agents', calls'), \<lparr> claimed = True, assigned = True \<rparr>)))"

definition claimAgentForCall :: "nat \<Rightarrow> nat \<Rightarrow> agent list \<times> call list \<Rightarrow> (agent list \<times> call list) \<times> bool" where
  "claimAgentForCall agentId callId db =
     (let r = affected (sql_update (claimable False (snd db) agentId)
                (\<lambda>a. a\<lparr>a_busy_call_id := Some callId\<rparr>) (fst db))
      in ((fst r, snd db), snd r))"

definition holdForOwnCall :: "nat \<Rightarrow> nat \<Rightarrow> agent list \<times> call list \<Rightarrow> (agent list \<times> call list) \<times> bool" where
  "holdForOwnCall agentId callId db =
     (let r = affected (sql_update
                (\<lambda>a. a_id a = agentId \<and> (a_busy_call_id a = None \<or> a_busy_call_id a = Some callId)
                     \<and> a_deleted_at a = None \<and> noOtherActiveCall (Some callId) (snd db) a
                     \<and> (\<exists>c \<in> set (snd db). c_id c = callId \<and> c_agent_id c = Some (a_id a) \<and> is_live c))
                (\<lambda>a. a\<lparr>a_busy_call_id := Some callId\<rparr>) (fst db))
      in ((fst r, snd db),
          snd r \<or> (case first_row (\<lambda>a. a_id a = agentId) (fst r) of
                      None \<Rightarrow> False
                    | Some a \<Rightarrow> a_busy_call_id a = Some callId)))"

definition releaseFromCall :: "nat \<Rightarrow> nat \<Rightarrow> agent list \<Rightarrow> agent list \<times> bool" where
  "releaseFromCall agentId callId agents =
     affected (sql_update (\<lambda>a. a_id a = agentId \<and> a_busy_call_id a = Some callId)
       (\<lambda>a. a\<lparr>a_busy_call_id := None\<rparr>) agents)"

definition held_by_ended :: "call list \<Rightarrow> agent \<Rightarrow> bool" where
  "held_by_ended calls a \<longleftrightarrow>
     (case a_busy_call_id a of
        None \<Rightarrow> False
      | Some i \<Rightarrow> \<not> (\<exists>c \<in> set calls. c_id c = i \<and> is_live c))"

definition findHeldByEndedCalls :: "nat \<Rightarrow> agent list \<times> call list \<Rightarrow> (nat \<times> nat \<times> nat) list" where
  "findHeldByEndedCalls limit db =
     take (safe_limit 200 1000 limit)
       (List.map_filter
         (\<lambda>a. if held_by_ended (snd db) a
              then map_option (\<lambda>i. (a_id a, a_tenant_id a, i)) (a_busy_call_id a) else None) (fst db))"

section \<open>Queues\<close>

text \<open>A falsy id (\<open>null\<close>) finds nothing.\<close>

definition queue_findById :: "nat option \<Rightarrow> queue list \<Rightarrow> queue option" where
  "queue_findById i queues =
     (case i of None \<Rightarrow> None | Some k \<Rightarrow> first_row (\<lambda>q. q_id q = k) queues)"

definition queue_findForTenant :: "nat option \<Rightarrow> nat \<Rightarrow> queue list \<Rightarrow> queue option" where
  "queue_findForTenant i t queues =
     (case i of None \<Rightarrow> None | Some k \<Rightarrow> first_row (\<lambda>q. q_id q = k \<and> q_tenant_id q = t) queues)"

definition queue_findByExternalRef :: "nat \<Rightarrow> string \<Rightarrow> queue list \<Rightarrow> queue option" where
  "queue_findByExternalRef t ref queues =
     first_row (\<lambda>q. q_tenant_id q = t \<and> q_external_ref q = ref) queues"

definition queue_listForTenant :: "nat \<Rightarrow> queue list \<Rightarrow> queue list" where
  "queue_listForTenant t queues = sort_key q_id (filter (\<lambda>q. q_tenant_id q = t) queues)"

record member =
  mb_id :: nat
  mb_tenant_id :: nat
  mb_name :: "string option"
  mb_role :: agent_role
  mb_availability :: agent_availability
  mb_priority :: nat

definition member_view :: "queue_member \<Rightarrow> agent \<Rightarrow> member" where
  "member_view m a = \<lparr> mb_id = a_id a, mb_tenant_id = a_tenant_id a, mb_name = a_name a, mb_role = a_role a,
                       mb_availability = reportedAvailability a, mb_priority = m_priority m \<rparr>"

text \<open>ORDER BY priority, then agent id: two stable sorts.\<close>

definition getMembers :: "nat \<Rightarrow> queue_member list \<Rightarrow> agent list \<Rightarrow> member list" where
  "getMembers q members agents =
     sort_key mb_priority (sort_key mb_id
       [member_view m a. m \<leftarrow> members, m_queue_id m = q, a \<leftarrow> agents, a_id a = m_agent_id m \<and> a_deleted_at a = None])"

definition getMemberIds :: "nat \<Rightarrow> queue_member list \<Rightarrow> nat list" where
  "getMemberIds q members = map m_agent_id (filter (\<lambda>m. m_queue_id m = q) members)"

definition getQueueIdsForAgent :: "nat \<Rightarrow> queue_member list \<Rightarrow> queue list \<Rightarrow> nat list" where
  "getQueueIdsForAgent a members queues =
     [m_queue_id m. m \<leftarrow> members, m_agent_id m = a, q \<leftarrow> queues, q_id q = m_queue_id m \<and> q_status q = Q_ACTIVE]"

definition isMember :: "nat \<Rightarrow> nat \<Rightarrow> queue_member list \<Rightarrow> bool" where
  "isMember q a members = list_ex (\<lambda>m. m_queue_id m = q \<and> m_agent_id m = a) members"

text \<open>The fields of a queue PUT; strategy and status default.\<close>

record queue_fields =
  qf_name :: string
  qf_strategy :: "queue_strategy option"
  qf_ring_timeout_seconds :: "nat option"
  qf_max_active_calls :: "nat option"
  qf_max_wait_seconds :: "nat option"
  qf_overflow_queue_id :: "nat option"
  qf_hold_audio_asset_id :: "nat option"
  qf_status :: "queue_status option"

definition queue_upsert ::
  "nat \<Rightarrow> nat \<Rightarrow> string \<Rightarrow> queue_fields \<Rightarrow> queue list \<Rightarrow> queue list \<times> queue option" where
  "queue_upsert i t ref f queues =
     (let key = (\<lambda>q. q_tenant_id q = t \<and> q_external_ref q = ref);
          fill = (\<lambda>q. q\<lparr>q_name := qf_name f, q_strategy := nullish (qf_strategy f) ROUND_ROBIN,
                   q_ring_timeout_seconds := qf_ring_timeout_seconds f, q_max_active_calls := qf_max_active_calls f,
                   q_max_wait_seconds := qf_max_wait_seconds f, q_overflow_queue_id := qf_overflow_queue_id f,
                   q_hold_audio_asset_id := qf_hold_audio_asset_id f, q_status := nullish (qf_status f) Q_ACTIVE\<rparr>);
          blank = \<lparr> q_id = i, q_tenant_id = t, q_external_ref = ref, q_name = qf_name f, q_strategy = ROUND_ROBIN,
                    q_ring_timeout_seconds = None, q_max_active_calls = None, q_max_wait_seconds = None,
                    q_overflow_queue_id = None, q_hold_audio_asset_id = None, q_status = Q_ACTIVE \<rparr>;
          queues' = (if list_ex key queues then fst (sql_update key fill queues) else queues @ [fill blank])
      in (queues', queue_findByExternalRef t ref queues'))"

text \<open>
  The member list is replaced in one transaction: a duplicate agent breaks the primary key
  \<open>(queue_id, agent_id)\<close> and rolls everything back.
\<close>

definition replaceMembers ::
  "nat \<Rightarrow> (nat \<times> nat option) list \<Rightarrow> queue_member list \<Rightarrow> db_error + queue_member list" where
  "replaceMembers q new members =
     (if distinct (map fst new)
      then Inr (filter (\<lambda>m. m_queue_id m \<noteq> q) members
             @ map (\<lambda>(a, p). \<lparr> m_queue_id = q, m_agent_id = a, m_priority = nullish p 1 \<rparr>) new)
      else Inl ER_DUP_ENTRY)"

text \<open>
  The foreign keys act with the DELETE: the queue's members go, calls and queues that name it keep
  a NULL.
\<close>

definition queue_deleteIfUnused ::
  "nat \<Rightarrow> nat \<Rightarrow> queue list \<times> queue_member list \<times> call list \<Rightarrow> (queue list \<times> queue_member list \<times> call list) \<times> nat" where
  "queue_deleteIfUnused i t db =
     (let queues = fst db; members = fst (snd db); calls = snd (snd db);
          r = sql_delete (\<lambda>q. q_id q = i \<and> q_tenant_id q = t
                \<and> \<not> (\<exists>c \<in> set calls. c_queue_id c = Some i \<and> is_live c)) queues
      in if snd r = 0 then (db, 0)
         else ((map (\<lambda>q. if q_overflow_queue_id q = Some i then q\<lparr>q_overflow_queue_id := None\<rparr> else q) (fst r),
                filter (\<lambda>m. m_queue_id m \<noteq> i) members,
                map (\<lambda>c. if c_queue_id c = Some i then c\<lparr>c_queue_id := None\<rparr> else c) calls),
               snd r))"

definition overflowingInto :: "nat \<Rightarrow> queue list \<Rightarrow> string list" where
  "overflowingInto i queues = map q_external_ref (filter (\<lambda>q. q_overflow_queue_id q = Some i) queues)"

end
