(* ===== verification/Routing.thy ===== *)
theory Routing
  imports AgentStore
begin

text \<open>
  The decisions of \<open>src/src/core/routing\<close> that change no call or agent row: whom a waiting call
  may be offered to (\<open>OfferHistory.js\<close>), the order in which a queue's members are tried
  (\<open>CallAgentAssignmentService.js\<close>), the IVR flow an inbound call meets (\<open>QueueRouter.js\<close>), where
  it goes first (\<open>InboundRouter.js\<close>) and whether an offer is a double dispatch
  (\<open>OfferDelivery.js\<close>). What these keep in Redis is explicit state; ids are numbers where the code
  compares their \<open>String\<close>s.
\<close>

definition is_available :: "member \<Rightarrow> bool" where
  "is_available a \<longleftrightarrow> mb_availability a = Av_AVAILABLE"

section \<open>OfferHistory\<close>

text \<open>The two Redis sets of a call: \<open>callio:call:<id>:offers:declined\<close> and \<open>:missed\<close>.\<close>

record offer_sets =
  declined_by :: "nat list"
  missed_by :: "nat list"

datatype offer_kind = Declined | Missed

type_synonym offer_history = "nat \<Rightarrow> offer_sets"

definition no_offers :: offer_sets where
  "no_offers = \<lparr> declined_by = [], missed_by = [] \<rparr>"

fun offer_record :: "nat \<Rightarrow> nat \<Rightarrow> offer_kind \<Rightarrow> offer_history \<Rightarrow> offer_history" where
  "offer_record callId agentId Declined h = h(callId := (h callId)\<lparr>declined_by := List.insert agentId (declined_by (h callId))\<rparr>)"
| "offer_record callId agentId Missed h = h(callId := (h callId)\<lparr>missed_by := List.insert agentId (missed_by (h callId))\<rparr>)"

definition clearMissed :: "nat \<Rightarrow> offer_history \<Rightarrow> offer_history" where
  "clearMissed callId h = h(callId := (h callId)\<lparr>missed_by := []\<rparr>)"

definition eligible :: "nat \<Rightarrow> member list \<Rightarrow> offer_history \<Rightarrow> member list \<times> offer_history" where
  "eligible callId members h =
     (let declined = declined_by (h callId); missed = missed_by (h callId) in
      if declined = [] \<and> missed = [] then (members, h)
      else let notDeclined = filter (\<lambda>a. mb_id a \<notin> set declined) members;
               fresh = filter (\<lambda>a. mb_id a \<notin> set missed) notDeclined
           in if missed = [] \<or> list_ex is_available fresh then (fresh, h)
              else (notDeclined, if list_ex is_available notDeclined then clearMissed callId h else h))"

section \<open>The order members are tried in\<close>

text \<open>
  A queue's Redis keys: \<open>:order\<close> (\<open>None\<close> when absent or unreadable), \<open>:meta\<close>, \<open>:seq\<close> and \<open>:last\<close>.
\<close>

record order_meta =
  om_entered_at :: int
  om_join_sequence :: "nat option"
  om_unavailable_since :: "int option"

record queue_redis =
  qr_order :: "nat list option"
  qr_meta :: "nat \<Rightarrow> order_meta option"
  qr_seq :: nat
  qr_last :: "nat option"

definition empty_queue_redis :: queue_redis where
  "empty_queue_redis = \<lparr> qr_order = None, qr_meta = (\<lambda>_. None), qr_seq = 0, qr_last = None \<rparr>"

definition queueReconnectHoldMs :: int where
  "queueReconnectHoldMs = 60000"

definition parseOrder :: "nat list option \<Rightarrow> nat list" where
  "parseOrder raw = nullish raw []"

definition qr_order_ids :: "queue_redis \<Rightarrow> nat list" where
  "qr_order_ids r = parseOrder (qr_order r)"

text \<open>\<open>Number(x) || d\<close>: zero counts as missing.\<close>

definition or_default :: "int \<Rightarrow> int \<Rightarrow> int" where
  "or_default x d = (if x = 0 then d else x)"

definition zero_is_null :: "nat option \<Rightarrow> nat option" where
  "zero_is_null x = (case x of Some 0 \<Rightarrow> None | _ \<Rightarrow> x)"

definition int_zero_is_null :: "int option \<Rightarrow> int option" where
  "int_zero_is_null x = (if x = Some 0 then None else x)"

definition parseMeta :: "int \<Rightarrow> order_meta option \<Rightarrow> order_meta option" where
  "parseMeta now raw =
     map_option (\<lambda>p. \<lparr> om_entered_at = or_default (om_entered_at p) now,
                        om_join_sequence = zero_is_null (om_join_sequence p),
                        om_unavailable_since = int_zero_is_null (om_unavailable_since p) \<rparr>) raw"

text \<open>\<open>[...new Set(xs)]\<close>: the first occurrence of each.\<close>

definition dedup :: "'a list \<Rightarrow> 'a list" where
  "dedup xs = rev (remdups (rev xs))"

definition by_id :: "member list \<Rightarrow> nat \<Rightarrow> member option" where
  "by_id ms i = find (\<lambda>m. mb_id m = i) ms"

definition available_ids :: "member list \<Rightarrow> nat list" where
  "available_ids ms = map mb_id (filter is_available ms)"

text \<open>What happens to one member of the previous order: its new entry, or its place is lost.\<close>

definition keep_place :: "int \<Rightarrow> member list \<Rightarrow> (nat \<Rightarrow> order_meta option) \<Rightarrow> nat \<Rightarrow> (nat \<times> order_meta) option" where
  "keep_place now members current i =
     (let meta = nullish (parseMeta now (current i))
                   \<lparr> om_entered_at = now, om_join_sequence = None, om_unavailable_since = None \<rparr>;
          entered = or_default (om_entered_at meta) now
      in if i \<in> set (available_ids members)
         then Some (i, \<lparr> om_entered_at = entered, om_join_sequence = om_join_sequence meta, om_unavailable_since = None \<rparr>)
         else let since = nullish (om_unavailable_since meta) now
              in if (case by_id members i of None \<Rightarrow> False | Some a \<Rightarrow> mb_availability a = Av_OFFLINE)
                    \<and> now - since \<le> queueReconnectHoldMs
                 then Some (i, \<lparr> om_entered_at = entered, om_join_sequence = om_join_sequence meta,
                                 om_unavailable_since = Some since \<rparr>)
                 else None)"

definition newcomer_entry :: "int \<Rightarrow> nat \<Rightarrow> nat \<Rightarrow> nat \<times> order_meta" where
  "newcomer_entry now seq i =
     (i, \<lparr> om_entered_at = now, om_join_sequence = Some seq, om_unavailable_since = None \<rparr>)"

definition reconcileQueueOrder :: "int \<Rightarrow> member list \<Rightarrow> queue_redis \<Rightarrow> member list \<times> queue_redis" where
  "reconcileQueueOrder now members r =
     (let previous = dedup (parseOrder (qr_order r));
          kept = List.map_filter (keep_place now members (qr_meta r)) previous;
          newcomers = sort (filter (\<lambda>i. i \<notin> set (map fst kept)) (available_ids members));
          joined = map (\<lambda>(k, i). newcomer_entry now (qr_seq r + Suc k) i) (enumerate 0 newcomers);
          entries = kept @ joined;
          order = map fst entries
      in (List.map_filter (by_id (filter is_available members)) order,
          r\<lparr>qr_order := Some order, qr_meta := map_of entries, qr_seq := qr_seq r + length newcomers\<rparr>))"

text \<open>Member order of \<open>pickPriority\<close>: priority, then id (two stable sorts).\<close>

definition priority_order :: "member list \<Rightarrow> member list" where
  "priority_order members = sort_key mb_priority (sort_key mb_id (filter is_available members))"

text \<open>
  \<open>#claimInOrder\<close>: try the candidates in order until the claim takes one, and remember it. The
  claim is an argument: it changes the store and says whether it succeeded.
\<close>

fun claim_first :: "(nat \<Rightarrow> 's \<Rightarrow> 's \<times> bool) \<Rightarrow> member list \<Rightarrow> 's \<Rightarrow> 's \<times> member option" where
  "claim_first claim [] s = (s, None)"
| "claim_first claim (c # cs) s =
     (let r = claim (mb_id c) s in if snd r then (fst r, Some c) else claim_first claim cs (fst r))"

definition claimInOrder ::
  "(nat \<Rightarrow> 's \<Rightarrow> 's \<times> bool) \<Rightarrow> member list \<Rightarrow> 's \<times> queue_redis \<Rightarrow> ('s \<times> queue_redis) \<times> member option" where
  "claimInOrder claim candidates st =
     (case claim_first claim candidates (fst st) of
        (s, None) \<Rightarrow> ((s, snd st), None)
      | (s, Some c) \<Rightarrow> ((s, (snd st)\<lparr>qr_last := Some (mb_id c)\<rparr>), Some c))"

definition pickRoundRobin ::
  "int \<Rightarrow> member list \<Rightarrow> (nat \<Rightarrow> 's \<Rightarrow> 's \<times> bool) \<Rightarrow> 's \<times> queue_redis \<Rightarrow> ('s \<times> queue_redis) \<times> member option" where
  "pickRoundRobin now members claim st =
     (if \<not> list_ex is_available members then (st, None)
      else let (ordered, r) = reconcileQueueOrder now members (snd st)
           in claimInOrder claim ordered (fst st, r))"

definition pickPriority ::
  "member list \<Rightarrow> (nat \<Rightarrow> 's \<Rightarrow> 's \<times> bool) \<Rightarrow> 's \<times> queue_redis \<Rightarrow> ('s \<times> queue_redis) \<times> member option" where
  "pickPriority members claim st = claimInOrder claim (priority_order members) st"

section \<open>Which IVR flow, which destination\<close>

datatype trigger = ALWAYS | ALL_AGENTS_BUSY | ALL_AGENTS_OFFLINE | ALL_AGENTS_UNAVAILABLE | UnknownTrigger

record flow_candidate =
  fl_id :: nat
  fl_scope_order :: nat
  fl_trigger :: "trigger option"

fun trigger_holds :: "availability_stats \<Rightarrow> trigger \<Rightarrow> bool" where
  "trigger_holds s ALWAYS = True"
| "trigger_holds s ALL_AGENTS_BUSY = (0 < s_total s \<and> s_available s = 0 \<and> 0 < s_on_call s)"
| "trigger_holds s ALL_AGENTS_OFFLINE = (0 < s_total s \<and> s_available s = 0 \<and> s_on_call s = 0)"
| "trigger_holds s ALL_AGENTS_UNAVAILABLE = (s_available s = 0)"
| "trigger_holds s UnknownTrigger = False"

definition flow_holds :: "availability_stats \<Rightarrow> flow_candidate \<Rightarrow> bool" where
  "flow_holds s f = trigger_holds s (nullish (fl_trigger f) ALWAYS)"

text \<open>\<open>stats\<close> is \<open>availabilityStats(queue)\<close>, which the code reads at most once.\<close>

definition selectIvrFlow :: "flow_candidate list \<Rightarrow> availability_stats \<Rightarrow> nat option" where
  "selectIvrFlow flows stats =
     map_option fl_id
       (find (flow_holds stats) (filter (\<lambda>f. fl_scope_order f = 0) flows @ filter (\<lambda>f. fl_scope_order f = 1) flows))"

record line =
  ln_id :: nat
  ln_tenant_id :: nat
  ln_type :: channel_type
  ln_address :: "string option"
  ln_owner_agent_id :: "nat option"
  ln_inbound_queue_id :: "nat option"
  ln_ring_timeout_seconds :: "nat option"

datatype route =
    RouteOwner agent_view
  | RouteIvr nat "queue option"
  | RouteQueue queue
  | RouteNone

definition getQueue :: "nat option \<Rightarrow> queue list \<Rightarrow> queue option" where
  "getQueue i queues =
     (case queue_findById i queues of
        None \<Rightarrow> None
      | Some q \<Rightarrow> if q_status q = Q_ACTIVE then Some q else None)"

definition isRingAll :: "queue \<Rightarrow> bool" where
  "isRingAll q \<longleftrightarrow> q_strategy q = RING_ALL"

definition availabilityStats :: "queue option \<Rightarrow> queue_member list \<Rightarrow> agent list \<Rightarrow> availability_stats" where
  "availabilityStats queue members agents =
     (case queue of
        None \<Rightarrow> emptyStats
      | Some q \<Rightarrow> getAvailabilityStatsForAgentIds (getMemberIds (q_id q) members) agents)"

definition inbound_route ::
  "line \<Rightarrow> flow_candidate list \<Rightarrow> queue list \<Rightarrow> queue_member list \<Rightarrow> agent list \<Rightarrow> route" where
  "inbound_route ln flows queues members agents =
     (case ln_owner_agent_id ln of
        Some ow \<Rightarrow> (case agent_findById ow agents of Some a \<Rightarrow> RouteOwner a | None \<Rightarrow> RouteNone)
      | None \<Rightarrow>
          (let queue = getQueue (ln_inbound_queue_id ln) queues
           in case selectIvrFlow flows (availabilityStats queue members agents) of
                Some f \<Rightarrow> RouteIvr f queue
              | None \<Rightarrow> (case queue of Some q \<Rightarrow> RouteQueue q | None \<Rightarrow> RouteNone)))"

definition reachable_agent :: "nat \<Rightarrow> bool \<Rightarrow> bool" where
  "reachable_agent sockets hasPushToken \<longleftrightarrow> 0 < sockets \<or> hasPushToken"

definition ringTimeoutMs :: "line \<Rightarrow> nat" where
  "ringTimeoutMs ln = nullish (ln_ring_timeout_seconds ln) 30 * 1000"

section \<open>OfferDelivery\<close>

datatype delivery = Deliver | Suppress nat

text \<open>\<open>prior\<close> is what \<open>getConflictingRingingCallId\<close> returned, or its failure (\<open>Inl\<close>).\<close>

definition delivery_check :: "nat option \<Rightarrow> assignment_type \<Rightarrow> 'e + nat option \<Rightarrow> delivery" where
  "delivery_check agentId asg prior =
     (if agentId = None \<or> asg = As_TRANSFERRED then Deliver
      else case prior of
             Inl _ \<Rightarrow> Deliver
           | Inr None \<Rightarrow> Deliver
           | Inr (Some c) \<Rightarrow> Suppress c)"

section \<open>Facts: who may be offered a call\<close>

lemma eligible_members: "m \<in> set (fst (eligible c ms h)) \<Longrightarrow> m \<in> set ms \<and> mb_id m \<notin> set (declined_by (h c))"
  by (auto simp: eligible_def Let_def split: if_splits)

lemma eligible_not_stuck:
  assumes "m \<in> set ms" "is_available m" "mb_id m \<notin> set (declined_by (h c))"
  shows "list_ex is_available (fst (eligible c ms h))"
  using assms by (auto simp: eligible_def Let_def list_ex_iff)

text \<open>
  C38: A waiting call is only offered to members who have not declined it; it always has an available
  member to go to when one who has not declined exists; and a member who let it ring out is offered
  it again only in a new round, which starts exactly when every available member who has not
  declined has missed it, and forgets the misses.
\<close>

theorem offers_follow_history:
  "(\<forall>m \<in> set (fst (eligible c ms h)). m \<in> set ms \<and> mb_id m \<notin> set (declined_by (h c)))
   \<and> (list_ex is_available (fst (eligible c ms h)) \<longleftrightarrow>
        (\<exists>m \<in> set ms. is_available m \<and> mb_id m \<notin> set (declined_by (h c))))
   \<and> ((\<exists>m \<in> set (fst (eligible c ms h)). is_available m \<and> mb_id m \<in> set (missed_by (h c))) \<longrightarrow>
        (\<forall>m \<in> set ms. is_available m \<and> mb_id m \<notin> set (declined_by (h c)) \<longrightarrow> mb_id m \<in> set (missed_by (h c)))
        \<and> missed_by (snd (eligible c ms h) c) = [])"
proof (intro conjI ballI impI)
  show "m \<in> set ms" "mb_id m \<notin> set (declined_by (h c))" if "m \<in> set (fst (eligible c ms h))" for m
    using eligible_members [OF that] by auto
  show "list_ex is_available (fst (eligible c ms h)) \<longleftrightarrow>
        (\<exists>m \<in> set ms. is_available m \<and> mb_id m \<notin> set (declined_by (h c)))"
    using eligible_members [of _ c ms h] eligible_not_stuck [of _ ms h c] by (auto simp: list_ex_iff)
  assume "\<exists>m \<in> set (fst (eligible c ms h)). is_available m \<and> mb_id m \<in> set (missed_by (h c))"
  then obtain m where m: "m \<in> set (fst (eligible c ms h))" "is_available m" "mb_id m \<in> set (missed_by (h c))"
    by blast
  let ?fresh = "filter (\<lambda>a. mb_id a \<notin> set (missed_by (h c))) (filter (\<lambda>a. mb_id a \<notin> set (declined_by (h c))) ms)"
  have none: "\<not> list_ex is_available ?fresh"
    using m by (auto simp: eligible_def Let_def split: if_splits)
  show "mb_id x \<in> set (missed_by (h c))"
    if "x \<in> set ms" "is_available x \<and> mb_id x \<notin> set (declined_by (h c))" for x
    using none that by (auto simp: list_ex_iff)
  have "missed_by (h c) \<noteq> []" using m(3) by auto
  with none m show "missed_by (snd (eligible c ms h) c) = []"
    by (auto simp: eligible_def Let_def clearMissed_def list_ex_iff split: if_splits)
qed

theorem offers_follow_history_witness:
  "let m = \<lambda>i. \<lparr> mb_id = i, mb_tenant_id = 1, mb_name = None, mb_role = Role_AGENT, mb_availability = Av_AVAILABLE, mb_priority = 1 \<rparr>;
       h = offer_record 5 1 Missed (offer_record 5 2 Declined (\<lambda>_. no_offers));
       r = eligible 5 [m 1, m 2] h
   in map mb_id (fst r) = [1] \<and> missed_by (snd r 5) = []"
proof -
  let ?m = "\<lambda>i. \<lparr> mb_id = i, mb_tenant_id = 1, mb_name = None, mb_role = Role_AGENT, mb_availability = Av_AVAILABLE, mb_priority = 1 \<rparr>"
  let ?h = "offer_record 5 1 Missed (offer_record 5 2 Declined (\<lambda>_. no_offers))"
  have e: "fst (eligible 5 [?m 1, ?m 2] ?h) = [?m 1]"
    by (simp add: eligible_def no_offers_def is_available_def List.insert_def)
  have "missed_by (snd (eligible 5 [?m 1, ?m 2] ?h) 5) = []"
    using offers_follow_history [of 5 "[?m 1, ?m 2]" ?h] unfolding e
    by (simp add: is_available_def no_offers_def)
  with e show ?thesis by (simp add: Let_def)
qed

section \<open>Facts: the round-robin order\<close>

lemma dedup_simps [simp]: "set (dedup xs) = set xs" "distinct (dedup xs)"
  by (simp_all add: dedup_def)

lemma keep_place_available:
  "i \<in> set (available_ids ms) \<Longrightarrow> \<exists>e. keep_place now ms cur i = Some (i, e)"
  by (simp add: keep_place_def Let_def)

lemma keep_place_id: "keep_place now ms cur i = Some (j, e) \<Longrightarrow> j = i"
  by (auto simp: keep_place_def Let_def split: if_splits)

lemma kept_ids_filter:
  "map fst (List.map_filter (keep_place now ms cur) is) = filter (\<lambda>i. keep_place now ms cur i \<noteq> None) is"
  by (induction "is") (auto simp: List.map_filter_simps split: option.splits dest: keep_place_id)

lemma filter_available_kept:
  "filter (\<lambda>i. i \<in> set (available_ids ms)) (filter (\<lambda>i. keep_place now ms cur i \<noteq> None) is)
     = filter (\<lambda>i. i \<in> set (available_ids ms)) is"
  using keep_place_available by (induction "is") fastforce+

lemma by_id_available:
  assumes "distinct (map mb_id ms)"
  shows "by_id (filter is_available ms) i = Some m \<longleftrightarrow> m \<in> set ms \<and> is_available m \<and> mb_id m = i"
  using assms by (induction ms) (auto simp: by_id_def)

lemma by_id_None: "by_id (filter is_available ms) i = None \<longleftrightarrow> i \<notin> set (available_ids ms)"
  by (auto simp: by_id_def available_ids_def find_None_iff)

lemma map_by_id:
  "map mb_id (List.map_filter (by_id (filter is_available ms)) is) = filter (\<lambda>i. i \<in> set (available_ids ms)) is"
proof (induction "is")
  case Nil
  then show ?case by (simp add: List.map_filter_simps)
next
  case (Cons i "is")
  show ?case
  proof (cases "by_id (filter is_available ms) i")
    case None
    then have "i \<notin> set (available_ids ms)" by (simp add: by_id_None)
    then show ?thesis using Cons None by (simp add: List.map_filter_simps)
  next
    case (Some m)
    then have "mb_id m = i" by (auto simp: by_id_def find_Some_iff)
    moreover have "i \<in> set (available_ids ms)" using Some by_id_None [of ms i] by auto
    ultimately show ?thesis using Cons Some by (simp add: List.map_filter_simps)
  qed
qed

lemma map_enumerate_newcomers: "map fst (map (\<lambda>(k, i). newcomer_entry now (q + Suc k) i) (enumerate n xs)) = xs"
  by (induction xs arbitrary: n) (auto simp: newcomer_entry_def)

lemma newcomers_filter:
  "filter (\<lambda>i. i \<notin> set (filter (\<lambda>i. keep_place now ms cur i \<noteq> None) is)) (available_ids ms)
     = filter (\<lambda>i. i \<notin> set is) (available_ids ms)"
  using keep_place_available by (intro filter_cong) fastforce+

definition next_order :: "int \<Rightarrow> member list \<Rightarrow> queue_redis \<Rightarrow> nat list" where
  "next_order now ms r =
     filter (\<lambda>i. keep_place now ms (qr_meta r) i \<noteq> None) (dedup (parseOrder (qr_order r)))
     @ sort (filter (\<lambda>i. i \<notin> set (parseOrder (qr_order r))) (available_ids ms))"

lemma reconcile_next_order:
  "qr_order (snd (reconcileQueueOrder now ms r)) = Some (next_order now ms r)"
  "fst (reconcileQueueOrder now ms r) = List.map_filter (by_id (filter is_available ms)) (next_order now ms r)"
  unfolding reconcileQueueOrder_def Let_def map_append kept_ids_filter map_enumerate_newcomers newcomers_filter
    next_order_def dedup_simps(1)
  by simp_all

lemma reconcile_members: "m \<in> set (fst (reconcileQueueOrder now ms r)) \<Longrightarrow> m \<in> set ms \<and> is_available m"
proof -
  have found: "by_id xs i = Some m \<Longrightarrow> m \<in> set xs" for xs i
    by (induction xs) (auto simp: by_id_def split: if_splits)
  have "m \<in> set (List.map_filter (by_id xs) is) \<Longrightarrow> m \<in> set xs" for xs "is"
    using found by (induction "is") (auto simp: List.map_filter_simps split: option.splits)
  then show "m \<in> set (fst (reconcileQueueOrder now ms r)) \<Longrightarrow> m \<in> set ms \<and> is_available m"
    unfolding reconcile_next_order(2) by fastforce
qed

text \<open>
  The order round robin tries members in is the order they became available: members of the
  stored order who are available keep their relative places, everybody else available joins at the
  tail by id, and nobody unavailable is tried.
\<close>

theorem reconcile_order:
  "map mb_id (fst (reconcileQueueOrder now ms r)) =
     filter (\<lambda>i. i \<in> set (available_ids ms)) (dedup (parseOrder (qr_order r)))
     @ sort (filter (\<lambda>i. i \<notin> set (parseOrder (qr_order r))) (available_ids ms))"
proof -
  have "filter (\<lambda>i. i \<in> set (available_ids ms)) (sort (filter (\<lambda>i. i \<notin> set xs) (available_ids ms)))
      = sort (filter (\<lambda>i. i \<notin> set xs) (available_ids ms))" for xs
    by (simp add: filter_id_conv)
  then show ?thesis
    unfolding reconcile_next_order(2) map_by_id next_order_def filter_append filter_available_kept by simp
qed

text \<open>
  Round robin is fair: a member seen ON_CALL when the order was last brought up to date loses
  their place, so when they are available again they are tried after everyone who kept theirs.
\<close>

theorem served_member_goes_last:
  assumes "distinct (map mb_id ms1)" and "a \<in> set ms1" and "mb_availability a = Av_ON_CALL"
    and "b \<in> set (qr_order_ids (snd (reconcileQueueOrder now1 ms1 r)))"
    and "b \<in> set (available_ids ms2)" and "mb_id a \<in> set (available_ids ms2)"
  shows "\<exists>xs ys zs. map mb_id (fst (reconcileQueueOrder now2 ms2 (snd (reconcileQueueOrder now1 ms1 r))))
           = xs @ b # ys @ mb_id a # zs"
proof -
  let ?r1 = "snd (reconcileQueueOrder now1 ms1 r)"
  let ?kept = "filter (\<lambda>i. i \<in> set (available_ids ms2)) (dedup (parseOrder (qr_order ?r1)))"
  let ?new = "sort (filter (\<lambda>i. i \<notin> set (parseOrder (qr_order ?r1))) (available_ids ms2))"
  have only_a: "by_id ms1 (mb_id a) = Some a"
    using assms(1,2) by (induction ms1) (auto simp: by_id_def)
  have "mb_id a \<notin> set (available_ids ms1)"
    using assms(3) distinct_key_eq [OF assms(1) _ assms(2)]
    by (force simp: available_ids_def is_available_def)
  then have "mb_id a \<notin> set (next_order now1 ms1 r)"
    using only_a assms(3) by (auto simp: next_order_def keep_place_def Let_def split: if_splits)
  then have "mb_id a \<notin> set (parseOrder (qr_order ?r1))"
    by (simp add: parseOrder_def reconcile_next_order(1))
  then have a: "mb_id a \<in> set ?new" using assms(6) by simp
  have b: "b \<in> set ?kept" using assms(4,5) by (simp add: qr_order_ids_def)
  from split_list [OF b] obtain xs ys where xs: "?kept = xs @ b # ys" by blast
  from split_list [OF a] obtain us zs where us: "?new = us @ mb_id a # zs" by blast
  have "map mb_id (fst (reconcileQueueOrder now2 ms2 ?r1)) = xs @ b # (ys @ us) @ mb_id a # zs"
    unfolding reconcile_order xs us by simp
  then show ?thesis by blast
qed

theorem served_member_goes_last_witness:
  "\<exists>xs ys zs. map mb_id (fst (reconcileQueueOrder 9000
       [\<lparr> mb_id = 1, mb_tenant_id = 1, mb_name = None, mb_role = Role_AGENT, mb_availability = Av_AVAILABLE, mb_priority = 1 \<rparr>,
        \<lparr> mb_id = 2, mb_tenant_id = 1, mb_name = None, mb_role = Role_AGENT, mb_availability = Av_AVAILABLE, mb_priority = 1 \<rparr>]
       (snd (reconcileQueueOrder 5000
         [\<lparr> mb_id = 1, mb_tenant_id = 1, mb_name = None, mb_role = Role_AGENT, mb_availability = Av_ON_CALL, mb_priority = 1 \<rparr>,
          \<lparr> mb_id = 2, mb_tenant_id = 1, mb_name = None, mb_role = Role_AGENT, mb_availability = Av_AVAILABLE, mb_priority = 1 \<rparr>]
         (empty_queue_redis\<lparr>qr_order := Some [1, 2]\<rparr>))))) = xs @ 2 # ys @ 1 # zs"
proof -
  let ?m = "\<lambda>i av. \<lparr> mb_id = i, mb_tenant_id = 1, mb_name = None, mb_role = Role_AGENT, mb_availability = av, mb_priority = 1 \<rparr>"
  let ?r = "empty_queue_redis\<lparr>qr_order := Some [1, 2]\<rparr>"
  have o: "2 \<in> set (qr_order_ids (snd (reconcileQueueOrder 5000 [?m 1 Av_ON_CALL, ?m 2 Av_AVAILABLE] ?r)))"
    by (simp add: qr_order_ids_def parseOrder_def reconcile_next_order(1) next_order_def keep_place_def Let_def
        available_ids_def is_available_def dedup_def)
  show ?thesis
    using served_member_goes_last [of "[?m 1 Av_ON_CALL, ?m 2 Av_AVAILABLE]" "?m 1 Av_ON_CALL" 2 5000 ?r
        "[?m 1 Av_AVAILABLE, ?m 2 Av_AVAILABLE]" 9000] o
    by (simp add: available_ids_def is_available_def)
qed

section \<open>Claims in order\<close>

text \<open>
  What \<open>#claimInOrder\<close> needs of a claim: whether it succeeds is decided by the store alone, and a
  claim that fails leaves the store as it was (a guarded update that matched nothing, a
  transaction rolled back).
\<close>

locale guarded_claim =
  fixes claim :: "nat \<Rightarrow> 's \<Rightarrow> 's \<times> bool" and store :: "'s \<Rightarrow> 'd" and takes :: "nat \<Rightarrow> 'd \<Rightarrow> bool"
  assumes decided_by_store: "snd (claim a s) = takes a (store s)"
    and failure_keeps_store: "\<not> takes a (store s) \<Longrightarrow> store (fst (claim a s)) = store s"
begin

lemma first_that_takes:
  "snd (claim_first claim cs s) = find (\<lambda>c. takes (mb_id c) (store s)) cs"
proof (induction cs arbitrary: s)
  case Nil
  then show ?case by simp
next
  case (Cons c cs)
  show ?case
  proof (cases "takes (mb_id c) (store s)")
    case True
    then show ?thesis by (simp add: Let_def decided_by_store)
  next
    case False
    then show ?thesis by (simp add: Let_def decided_by_store Cons.IH failure_keeps_store)
  qed
qed

lemma none_keeps_store:
  "snd (claim_first claim cs s) = None \<Longrightarrow> store (fst (claim_first claim cs s)) = store s"
proof (induction cs arbitrary: s)
  case Nil
  then show ?case by simp
next
  case (Cons c cs)
  then have "\<not> takes (mb_id c) (store s)" by (auto simp: Let_def decided_by_store split: if_splits)
  then show ?case using Cons by (simp add: Let_def decided_by_store failure_keeps_store)
qed

lemma priority_pick:
  "snd (pickPriority ms claim st) = find (\<lambda>c. takes (mb_id c) (store (fst st))) (priority_order ms)"
  using first_that_takes [of "priority_order ms" "fst st"]
  by (simp add: pickPriority_def claimInOrder_def split: prod.splits option.splits) (metis snd_conv)

lemma round_robin_pick:
  "snd (pickRoundRobin now ms claim st) =
     find (\<lambda>c. takes (mb_id c) (store (fst st))) (fst (reconcileQueueOrder now ms (snd st)))"
proof (cases "list_ex is_available ms")
  case True
  obtain ordered r where o: "reconcileQueueOrder now ms (snd st) = (ordered, r)" by (cases "reconcileQueueOrder now ms (snd st)")
  have "snd (claimInOrder claim ordered (fst st, r)) = snd (claim_first claim ordered (fst st))"
    by (simp add: claimInOrder_def split: prod.splits option.splits)
  then show ?thesis using True o first_that_takes by (simp add: pickRoundRobin_def)
next
  case False
  then have "available_ids ms = []" by (auto simp: available_ids_def list_ex_iff filter_empty_conv)
  then have "map mb_id (fst (reconcileQueueOrder now ms (snd st))) = []" by (simp add: reconcile_order)
  then show ?thesis using False by (simp add: pickRoundRobin_def)
qed

end

text \<open>The transaction of \<open>claimAgentAndAssignCall\<close> and the update of \<open>claimAgentForCall\<close> meet it.\<close>

definition claim_takes :: "bool \<Rightarrow> nat \<Rightarrow> nat \<Rightarrow> agent list \<times> call list \<Rightarrow> bool" where
  "claim_takes anyShift callId agentId db \<longleftrightarrow>
     (\<exists>a \<in> set (fst db). claimable anyShift (snd db) agentId a)
     \<and> (\<exists>c \<in> set (snd db). c_id c = callId \<and> assignable c)"

lemma claim_outcome:
  "claimAgentAndAssignCall now anyShift agentId callId db =
     (if claim_takes anyShift callId agentId db
      then ((map (\<lambda>a. if claimable anyShift (snd db) agentId a then a\<lparr>a_busy_call_id := Some callId\<rparr> else a) (fst db),
             map (\<lambda>c. if c_id c = callId \<and> assignable c
                     then c\<lparr>c_agent_id := Some agentId, c_offered_at := Some now, c_updated_at := now\<rparr> else c) (snd db)),
            \<lparr> claimed = True, assigned = True \<rparr>)
      else (db, \<lparr> claimed = (\<exists>a \<in> set (fst db). claimable anyShift (snd db) agentId a), assigned = False \<rparr>))"
  by (auto simp: claimAgentAndAssignCall_def affected_pair claim_takes_def split: bool.splits)

interpretation assign_claim: guarded_claim
  "\<lambda>a db. (fst (claimAgentAndAssignCall now anyShift a callId db), assigned (snd (claimAgentAndAssignCall now anyShift a callId db)))"
  "\<lambda>db. db" "claim_takes anyShift callId" for now anyShift callId
  by unfold_locales (auto simp: claim_outcome)

interpretation transfer_claim: guarded_claim
  "\<lambda>a db. claimAgentForCall a callId db" "\<lambda>db. db"
  "\<lambda>a db. \<exists>x \<in> set (fst db). claimable False (snd db) a x" for callId
  by unfold_locales (auto simp: claimAgentForCall_def affected_pair Let_def map_if_none)

end
