(* ===== verification/EventLog.thy ===== *)
theory EventLog
  imports DataModel
begin

text \<open>
  The history of a call: lifecycle events (\<open>src/src/core/calls/CallLifecycleLogger.js\<close> over
  \<open>CallLifecycleEventRepository.js\<close>), transfer logs (\<open>CallTransferLogRepository.js\<close>) and
  participants (\<open>CallParticipants.js\<close> over \<open>CallParticipantRepository.js\<close>). Times passed in
  are milliseconds (\<open>Date\<close>); the TIMESTAMP columns hold whole seconds, to which MySQL rounds.
  Failing inserts, which the code only logs, are not modelled.
\<close>

section \<open>Tables\<close>

type_synonym metadata = "(string \<times> json) list"

record lifecycle_event =
  e_call_id :: nat
  e_tenant_id :: "nat option"
  e_agent_id :: "nat option"
  e_type :: string
  e_occurred_at :: int
  e_duration_seconds :: "int option"
  e_metadata :: "json option"

text \<open>A \<open>Date\<close> stored into a TIMESTAMP column: rounded to the nearest second.\<close>

definition to_timestamp :: "int \<Rightarrow> int" where
  "to_timestamp ms = (ms + 500) div 1000"

definition ev_insert ::
  "nat \<Rightarrow> nat option \<Rightarrow> string \<Rightarrow> int option \<Rightarrow> metadata \<Rightarrow> int \<Rightarrow> nat option \<Rightarrow> lifecycle_event list \<Rightarrow> lifecycle_event list" where
  "ev_insert callId agentId eventType dur meta occurredAt tenantId evs =
     evs @ [\<lparr> e_call_id = callId, e_tenant_id = tenantId, e_agent_id = agentId, e_type = eventType,
              e_occurred_at = to_timestamp occurredAt, e_duration_seconds = dur,
              e_metadata = (if meta = [] then None else Some (JObj meta)) \<rparr>]"

text \<open>ORDER BY occurred_at DESC, id DESC LIMIT 1: the last one of a stable sort.\<close>

definition getLatestEvent :: "nat \<Rightarrow> lifecycle_event list \<Rightarrow> lifecycle_event option" where
  "getLatestEvent callId evs =
     (case sort_key e_occurred_at (filter (\<lambda>e. e_call_id e = callId) evs) of
        [] \<Rightarrow> None
      | e # es \<Rightarrow> Some (last (e # es)))"

definition ev_listForCall :: "nat \<Rightarrow> lifecycle_event list \<Rightarrow> lifecycle_event list" where
  "ev_listForCall callId evs = sort_key e_occurred_at (filter (\<lambda>e. e_call_id e = callId) evs)"

record transfer_log =
  t_id :: nat
  t_call_id :: nat
  t_from_agent_id :: "nat option"
  t_to_agent_id :: "nat option"
  t_to_queue_id :: "nat option"
  t_initiated_by_agent_id :: "nat option"
  t_initiated_by_type :: string
  t_transferred_at :: int
  t_accepted_at :: "int option"
  t_acceptance_duration :: "int option"

definition tl_create ::
  "nat \<Rightarrow> nat option \<Rightarrow> nat option \<Rightarrow> nat option \<Rightarrow> string \<Rightarrow> int \<Rightarrow> nat option \<Rightarrow> transfer_log list \<Rightarrow> transfer_log list" where
  "tl_create callId fromAgent toAgent byAgent byType at toQueue logs =
     logs @ [\<lparr> t_id = Suc (length logs), t_call_id = callId, t_from_agent_id = fromAgent, t_to_agent_id = toAgent,
               t_to_queue_id = toQueue, t_initiated_by_agent_id = byAgent,
               t_initiated_by_type = (if byType = '''' then ''system'' else byType),
               t_transferred_at = to_timestamp at, t_accepted_at = None, t_acceptance_duration = None \<rparr>]"

definition pending_transfer :: "nat \<Rightarrow> nat \<Rightarrow> transfer_log \<Rightarrow> bool" where
  "pending_transfer callId toAgent t \<longleftrightarrow>
     t_call_id t = callId \<and> t_to_agent_id t = Some toAgent \<and> t_accepted_at t = None"

definition findPendingTransfer :: "nat \<Rightarrow> nat \<Rightarrow> transfer_log list \<Rightarrow> (nat \<times> int) option" where
  "findPendingTransfer callId toAgent logs =
     map_option (\<lambda>t. (t_id t, t_transferred_at t))
       (first_row (\<lambda>_. True) (sort_key (\<lambda>t. - t_transferred_at t) (filter (pending_transfer callId toAgent) logs)))"

definition hasPendingTransfer :: "nat \<Rightarrow> nat \<Rightarrow> transfer_log list \<Rightarrow> bool" where
  "hasPendingTransfer callId toAgent logs = list_ex (pending_transfer callId toAgent) logs"

definition markAccepted :: "nat \<Rightarrow> int \<Rightarrow> int \<Rightarrow> transfer_log list \<Rightarrow> transfer_log list" where
  "markAccepted i at dur logs =
     fst (sql_update (\<lambda>t. t_id t = i)
       (\<lambda>t. t\<lparr>t_accepted_at := Some (to_timestamp at), t_acceptance_duration := Some dur\<rparr>) logs)"

record history =
  h_events :: "lifecycle_event list"
  h_transfers :: "transfer_log list"

section \<open>The logger\<close>

definition IVR_EVENT_TYPES :: "string list" where
  "IVR_EVENT_TYPES =
     [''ivr_auto_accepted'', ''ivr_started'', ''ivr_node_entered'', ''ivr_dtmf_received'',
      ''ivr_route_selected'', ''ivr_transferred'', ''ivr_terminated'', ''ivr_agent_missed'']"

text \<open>\<open>#insert\<close>; \<open>skip\<close> is \<open>skipDuplicateCheck\<close>.\<close>

definition since_last :: "int \<Rightarrow> lifecycle_event option \<Rightarrow> int option" where
  "since_last occurredAt prev =
     (case prev of
        None \<Rightarrow> None
      | Some e \<Rightarrow> (let secs = (occurredAt - e_occurred_at e * 1000) div 1000
                   in if 0 \<le> secs then Some secs else None))"

definition is_duplicate :: "int \<Rightarrow> nat option \<Rightarrow> string \<Rightarrow> lifecycle_event option \<Rightarrow> bool" where
  "is_duplicate occurredAt agentId eventType prev \<longleftrightarrow>
     eventType \<notin> set IVR_EVENT_TYPES
     \<and> (case prev of
          None \<Rightarrow> False
        | Some e \<Rightarrow> e_type e = eventType \<and> e_agent_id e = agentId
             \<and> (case since_last occurredAt prev of None \<Rightarrow> False | Some d \<Rightarrow> d \<le> 5))"

definition log_insert ::
  "int \<Rightarrow> bool \<Rightarrow> nat \<Rightarrow> nat option \<Rightarrow> string \<Rightarrow> metadata \<Rightarrow> nat option \<Rightarrow> history \<Rightarrow> history" where
  "log_insert occurredAt skip callId agentId eventType meta tenantId h =
     (let prev = getLatestEvent callId (h_events h) in
      if \<not> skip \<and> is_duplicate occurredAt agentId eventType prev then h
      else h\<lparr>h_events := ev_insert callId agentId eventType (since_last occurredAt prev) meta occurredAt tenantId (h_events h)\<rparr>)"

datatype log_error = RequiresValidTenantId string nat

text \<open>\<open>Number(null)\<close> and \<open>0\<close> are refused.\<close>

definition requireTenantId :: "nat option \<Rightarrow> nat \<Rightarrow> string \<Rightarrow> log_error + nat option" where
  "requireTenantId tenantId callId methodName =
     (if nullish tenantId 0 = 0 then Inl (RequiresValidTenantId methodName callId) else Inr tenantId)"

definition log_event ::
  "string \<Rightarrow> bool \<Rightarrow> string \<Rightarrow> int \<Rightarrow> nat \<Rightarrow> nat option \<Rightarrow> nat option \<Rightarrow> metadata \<Rightarrow> history \<Rightarrow> log_error + history" where
  "log_event methodName skip eventType now callId tenantId agentId meta h =
     (case requireTenantId tenantId callId methodName of
        Inl e \<Rightarrow> Inl e
      | Inr t \<Rightarrow> Inr (log_insert now skip callId agentId eventType meta t h))"

definition logQueued where
  "logQueued now callId tenantId meta = log_event ''logQueued'' False ''inbound_queued'' now callId tenantId None meta"

definition logAssigned where
  "logAssigned now callId tenantId agentId meta = log_event ''logAssigned'' False ''inbound_assigned'' now callId tenantId agentId meta"

definition logAccepted where
  "logAccepted now callId tenantId agentId meta = log_event ''logAccepted'' False ''inbound_accepted'' now callId tenantId agentId meta"

definition logRejected where
  "logRejected now callId tenantId agentId meta = log_event ''logRejected'' False ''inbound_rejected'' now callId tenantId agentId meta"

definition logOfferMissed where
  "logOfferMissed now callId tenantId agentId meta = log_event ''logOfferMissed'' True ''inbound_offer_missed'' now callId tenantId agentId meta"

definition logOverflowed where
  "logOverflowed now callId tenantId meta = log_event ''logOverflowed'' True ''inbound_overflowed'' now callId tenantId None meta"

definition logDisconnected where
  "logDisconnected now callId tenantId agentId meta = log_event ''logDisconnected'' False ''inbound_disconnected'' now callId tenantId agentId meta"

definition logReconnected where
  "logReconnected now callId tenantId agentId meta = log_event ''logReconnected'' False ''inbound_reconnected'' now callId tenantId agentId meta"

definition logCustomerNetworkDrop where
  "logCustomerNetworkDrop now callId tenantId agentId meta = log_event ''logCustomerNetworkDrop'' False ''customer_network_drop'' now callId tenantId agentId meta"

definition logCustomerNetworkReconnected where
  "logCustomerNetworkReconnected now callId tenantId agentId meta = log_event ''logCustomerNetworkReconnected'' False ''customer_network_reconnected'' now callId tenantId agentId meta"

definition logDeliveryAttempt where
  "logDeliveryAttempt now callId tenantId agentId meta = log_event ''logDeliveryAttempt'' False ''inbound_delivery_attempt'' now callId tenantId agentId meta"

definition logAgentConnected where
  "logAgentConnected now callId tenantId agentId meta = log_event ''logAgentConnected'' False ''inbound_agent_connected'' now callId tenantId agentId meta"

definition obj_set :: "string \<Rightarrow> json \<Rightarrow> metadata \<Rightarrow> metadata" where
  "obj_set k v m = (if k \<in> fst ` set m then map (\<lambda>(k', v'). if k' = k then (k, v) else (k', v')) m else m @ [(k, v)])"

definition json_id :: "nat option \<Rightarrow> json" where
  "json_id x = (case x of None \<Rightarrow> JNull | Some n \<Rightarrow> JNum (int n))"

definition meta_id :: "string \<Rightarrow> metadata \<Rightarrow> nat option" where
  "meta_id k m = (case map_of m k of Some (JNum n) \<Rightarrow> Some (nat n) | _ \<Rightarrow> None)"

text \<open>A failure here is only logged, a missing tenant included.\<close>

definition logTransferred ::
  "int \<Rightarrow> nat \<Rightarrow> nat option \<Rightarrow> nat option \<Rightarrow> nat option \<Rightarrow> metadata \<Rightarrow> nat option \<Rightarrow> string \<Rightarrow> history \<Rightarrow> history" where
  "logTransferred now callId tenantId fromAgent toAgent meta byAgent byType h =
     (case log_event ''logTransferred'' False ''inbound_transferred'' now callId tenantId toAgent
             (obj_set ''from_agent_id'' (json_id fromAgent) meta) h of
        Inl _ \<Rightarrow> h
      | Inr h' \<Rightarrow> h'\<lparr>h_transfers := tl_create callId fromAgent toAgent byAgent byType now (meta_id ''to_queue_id'' meta) (h_transfers h')\<rparr>)"

definition logFollowUp :: "int \<Rightarrow> nat \<Rightarrow> nat option \<Rightarrow> nat \<Rightarrow> metadata \<Rightarrow> history \<Rightarrow> history" where
  "logFollowUp now callId tenantId agentId meta h =
     (case log_event ''logFollowUp'' False ''inbound_follow_up'' now callId tenantId (Some agentId) meta h of
        Inl _ \<Rightarrow> h
      | Inr h' \<Rightarrow> (case findPendingTransfer callId agentId (h_transfers h') of
            None \<Rightarrow> h'
          | Some (i, transferred) \<Rightarrow>
              h'\<lparr>h_transfers := markAccepted i now (max 0 ((now - transferred * 1000) div 1000)) (h_transfers h')\<rparr>))"

definition isFollowUp :: "nat \<Rightarrow> nat \<Rightarrow> history \<Rightarrow> bool" where
  "isFollowUp callId agentId h = hasPendingTransfer callId agentId (h_transfers h)"

definition logTerminated where
  "logTerminated now callId tenantId agentId direction meta =
     log_event ''logTerminated'' False
       (if direction = Some OUTBOUND then ''outbound_terminated'' else ''inbound_terminated'')
       now callId tenantId agentId meta"

definition logIvrAutoAccepted where
  "logIvrAutoAccepted now callId tenantId meta = log_event ''logIvrAutoAccepted'' True ''ivr_auto_accepted'' now callId tenantId None meta"

definition logIvrStarted where
  "logIvrStarted now callId tenantId meta = log_event ''logIvrStarted'' True ''ivr_started'' now callId tenantId None meta"

definition logIvrNodeEntered where
  "logIvrNodeEntered now callId tenantId meta = log_event ''logIvrNodeEntered'' True ''ivr_node_entered'' now callId tenantId None meta"

definition logIvrDtmfReceived where
  "logIvrDtmfReceived now callId tenantId meta = log_event ''logIvrDtmfReceived'' True ''ivr_dtmf_received'' now callId tenantId None meta"

definition logIvrRouteSelected where
  "logIvrRouteSelected now callId tenantId meta = log_event ''logIvrRouteSelected'' True ''ivr_route_selected'' now callId tenantId None meta"

definition logIvrTransferred where
  "logIvrTransferred now callId tenantId meta = log_event ''logIvrTransferred'' True ''ivr_transferred'' now callId tenantId None meta"

definition logIvrTerminated where
  "logIvrTerminated now callId tenantId meta = log_event ''logIvrTerminated'' True ''ivr_terminated'' now callId tenantId None meta"

definition logIvrAgentMissed where
  "logIvrAgentMissed now callId tenantId agentId meta = log_event ''logIvrAgentMissed'' True ''ivr_agent_missed'' now callId tenantId agentId meta"

definition logOutboundInitiated where
  "logOutboundInitiated now callId tenantId agentId meta = log_event ''logOutboundInitiated'' False ''outbound_initiated'' now callId tenantId agentId meta"

definition logOutboundRinging where
  "logOutboundRinging now callId tenantId agentId meta = log_event ''logOutboundRinging'' False ''outbound_ringing'' now callId tenantId agentId meta"

definition logOutboundAccepted where
  "logOutboundAccepted now callId tenantId agentId meta = log_event ''logOutboundAccepted'' False ''outbound_accepted'' now callId tenantId agentId meta"

definition logOutboundRejected where
  "logOutboundRejected now callId tenantId agentId meta = log_event ''logOutboundRejected'' False ''outbound_rejected'' now callId tenantId agentId meta"

definition logOutboundFailed where
  "logOutboundFailed now callId tenantId agentId meta = log_event ''logOutboundFailed'' False ''outbound_failed'' now callId tenantId agentId meta"

section \<open>Participants\<close>

record participant =
  p_call_id :: nat
  p_tenant_id :: nat
  p_kind :: participant_kind
  p_agent_id :: "nat option"
  p_device_id :: "string option"
  p_joined_at :: int
  p_left_at :: "int option"
  p_leave_reason :: "leave_reason option"

definition open_row :: "nat \<Rightarrow> participant_kind \<Rightarrow> nat option \<Rightarrow> participant \<Rightarrow> bool" where
  "open_row callId kind agentId p \<longleftrightarrow>
     p_call_id p = callId \<and> p_kind p = kind \<and> p_agent_id p = agentId \<and> p_left_at p = None"

definition pt_join ::
  "int \<Rightarrow> nat \<Rightarrow> nat \<Rightarrow> participant_kind \<Rightarrow> nat option \<Rightarrow> string option \<Rightarrow> participant list \<Rightarrow> participant list \<times> bool" where
  "pt_join at callId tenantId kind agentId dev ps =
     (if list_ex (open_row callId kind agentId) ps then (ps, False)
      else (ps @ [\<lparr> p_call_id = callId, p_tenant_id = tenantId, p_kind = kind, p_agent_id = agentId,
                    p_device_id = dev, p_joined_at = to_timestamp at, p_left_at = None, p_leave_reason = None \<rparr>], True))"

definition pt_leave ::
  "int \<Rightarrow> nat \<Rightarrow> participant_kind \<Rightarrow> nat option \<Rightarrow> leave_reason \<Rightarrow> participant list \<Rightarrow> participant list \<times> bool" where
  "pt_leave at callId kind agentId reason ps =
     affected (sql_update (open_row callId kind agentId)
       (\<lambda>p. p\<lparr>p_left_at := Some (to_timestamp at), p_leave_reason := Some reason\<rparr>) ps)"

definition leaveAll :: "int \<Rightarrow> nat \<Rightarrow> leave_reason \<Rightarrow> participant list \<Rightarrow> participant list \<times> nat" where
  "leaveAll at callId reason ps =
     sql_update (\<lambda>p. p_call_id p = callId \<and> p_left_at p = None)
       (\<lambda>p. p\<lparr>p_left_at := Some (to_timestamp at), p_leave_reason := Some reason\<rparr>) ps"

definition setDevice :: "nat \<Rightarrow> participant_kind \<Rightarrow> nat option \<Rightarrow> string option \<Rightarrow> participant list \<Rightarrow> participant list" where
  "setDevice callId kind agentId dev ps =
     fst (sql_update (open_row callId kind agentId) (\<lambda>p. p\<lparr>p_device_id := dev\<rparr>) ps)"

text \<open>\<open>callParticipants.callEnded\<close> and \<open>agentDevice\<close>.\<close>

definition participants_callEnded :: "int \<Rightarrow> nat \<Rightarrow> participant list \<Rightarrow> participant list" where
  "participants_callEnded at callId ps = fst (leaveAll at callId Leave_ENDED ps)"

definition agentDevice :: "nat \<Rightarrow> nat \<Rightarrow> string option \<Rightarrow> participant list \<Rightarrow> participant list" where
  "agentDevice callId agentId dev ps = setDevice callId Kind_AGENT (Some agentId) dev ps"

section \<open>Facts: duplicates\<close>

lemma sort_key_last_new:
  assumes "\<forall>x \<in> set xs. f x \<le> (f y :: int)"
  shows "sort_key f (xs @ [y]) = sort_key f xs @ [y]"
proof -
  have "insort_key f x (zs @ [y]) = insort_key f x zs @ [y]" if "f x \<le> f y" for x zs
    using that by (induction zs) auto
  then show ?thesis using assms by (induction xs) (auto simp: sort_key_def)
qed

lemma getLatestEvent_last:
  "getLatestEvent c evs =
     (let xs = sort_key e_occurred_at (filter (\<lambda>e. e_call_id e = c) evs) in if xs = [] then None else Some (last xs))"
  by (simp add: getLatestEvent_def Let_def split: list.split)

lemma latest_of_new:
  assumes "\<forall>e \<in> set evs. e_call_id e = callId \<longrightarrow> e_occurred_at e \<le> e_occurred_at new" and "e_call_id new = callId"
  shows "getLatestEvent callId (evs @ [new]) = Some new"
proof -
  have "sort_key e_occurred_at (filter (\<lambda>e. e_call_id e = callId) evs @ [new])
      = sort_key e_occurred_at (filter (\<lambda>e. e_call_id e = callId) evs) @ [new]"
    using assms by (intro sort_key_last_new) auto
  then show ?thesis using assms(2) by (simp add: getLatestEvent_last)
qed

lemma since_last_window:
  "(case since_last now (Some e) of None \<Rightarrow> False | Some d \<Rightarrow> d \<le> 5)
     \<longleftrightarrow> e_occurred_at e * 1000 \<le> now \<and> now < e_occurred_at e * 1000 + 6000"
proof -
  have z: "0 \<le> z div 1000 \<longleftrightarrow> 0 \<le> z" "z div 1000 \<le> 5 \<longleftrightarrow> z < (6000::int)" for z by linarith+
  show ?thesis by (simp add: since_last_def Let_def z del: div_pos_pos_trivial) linarith
qed

lemma log_insert_cases:
  "log_insert now skip c a ty meta t h =
     (if \<not> skip \<and> is_duplicate now a ty (getLatestEvent c (h_events h)) then h
      else h\<lparr>h_events := ev_insert c a ty (since_last now (getLatestEvent c (h_events h))) meta now t (h_events h)\<rparr>)"
  by (simp add: log_insert_def Let_def)

lemma ev_insert_longer: "length (ev_insert c a ty d meta now t evs) = Suc (length evs)"
  by (simp add: ev_insert_def)

lemma log_insert_unchanged:
  "log_insert now skip c a ty meta t h = h \<longleftrightarrow> \<not> skip \<and> is_duplicate now a ty (getLatestEvent c (h_events h))"
proof
  show "log_insert now skip c a ty meta t h = h" if "\<not> skip \<and> is_duplicate now a ty (getLatestEvent c (h_events h))"
    using that by (simp add: log_insert_cases)
  show "\<not> skip \<and> is_duplicate now a ty (getLatestEvent c (h_events h))" if eq: "log_insert now skip c a ty meta t h = h"
  proof (rule ccontr)
    assume "\<not> ?thesis"
    then have "length (h_events (log_insert now skip c a ty meta t h)) = Suc (length (h_events h))"
      by (simp add: log_insert_cases ev_insert_longer)
    then show False using eq by simp
  qed
qed

text \<open>
  An event is dropped as a duplicate exactly when it repeats the call's newest event (same type,
  same agent, not an IVR event) less than six seconds after the second that event was stored under.
\<close>

theorem duplicate_window:
  assumes "getLatestEvent callId (h_events h) = Some e" and "e_type e = ty" and "e_agent_id e = agentId"
    and "ty \<notin> set IVR_EVENT_TYPES"
  shows "log_insert now False callId agentId ty meta tenantId h = h
    \<longleftrightarrow> e_occurred_at e * 1000 \<le> now \<and> now < e_occurred_at e * 1000 + 6000"
  using assms since_last_window [of now e] unfolding log_insert_unchanged is_duplicate_def by simp

theorem duplicate_window_witness:
  "let h = log_insert 1200 False 4 (Some 2) ''inbound_accepted'' [] (Some 1) \<lparr> h_events = [], h_transfers = [] \<rparr>
   in log_insert 6999 False 4 (Some 2) ''inbound_accepted'' [] (Some 1) h = h"
proof -
  let ?h = "log_insert 1200 False 4 (Some 2) ''inbound_accepted'' [] (Some 1) \<lparr> h_events = [], h_transfers = [] \<rparr>"
  let ?e = "\<lparr> e_call_id = 4, e_tenant_id = Some 1, e_agent_id = Some 2, e_type = ''inbound_accepted'',
              e_occurred_at = 1, e_duration_seconds = None, e_metadata = None \<rparr>"
  have "getLatestEvent 4 (h_events ?h) = Some ?e"
    by (simp add: log_insert_def is_duplicate_def getLatestEvent_def ev_insert_def since_last_def to_timestamp_def)
  then show ?thesis
    using duplicate_window [of 4 ?h ?e "''inbound_accepted''" "Some 2" 6999 "[]" "Some 1"]
    by (simp add: Let_def IVR_EVENT_TYPES_def)
qed

text \<open>
  The TIMESTAMP column rounds, so an event logged in the second half of a second is stored as
  the next second, which is still to come: the same event logged again at the same instant counts as
  having happened before it and is stored twice.
\<close>

theorem rounded_duplicate_is_stored:
  assumes "500 \<le> now mod 1000" and "ty \<notin> set IVR_EVENT_TYPES"
    and "\<forall>e \<in> set (h_events h). e_call_id e = callId \<longrightarrow> e_type e \<noteq> ty \<and> e_occurred_at e \<le> now div 1000"
  shows "length (h_events (log_insert now False callId agentId ty meta tenantId
                  (log_insert now False callId agentId ty meta tenantId h))) = length (h_events h) + 2"
proof -
  let ?h1 = "log_insert now False callId agentId ty meta tenantId h"
  have fresh: "\<not> is_duplicate now agentId ty (getLatestEvent callId (h_events h))"
  proof (cases "sort_key e_occurred_at (filter (\<lambda>e. e_call_id e = callId) (h_events h))")
    case Nil
    then show ?thesis by (simp add: getLatestEvent_def is_duplicate_def)
  next
    case (Cons x xs)
    then have "set (x # xs) \<subseteq> {e \<in> set (h_events h). e_call_id e = callId}"
      by (metis set_filter set_sort subset_refl)
    then have "last (x # xs) \<in> {e \<in> set (h_events h). e_call_id e = callId}"
      using last_in_set by blast
    then show ?thesis using assms(3) Cons by (auto simp: getLatestEvent_def is_duplicate_def)
  qed
  define e where "e = \<lparr> e_call_id = callId, e_tenant_id = tenantId, e_agent_id = agentId, e_type = ty,
    e_occurred_at = to_timestamp now, e_duration_seconds = since_last now (getLatestEvent callId (h_events h)),
    e_metadata = (if meta = [] then None else Some (JObj meta)) \<rparr>"
  have e: "h_events ?h1 = h_events h @ [e]" "e_call_id e = callId" "e_occurred_at e = to_timestamp now"
  proof -
    show "h_events ?h1 = h_events h @ [e]"
      unfolding log_insert_cases using fresh by (simp add: ev_insert_def e_def)
  qed (simp_all add: e_def)
  have up: "to_timestamp now = now div 1000 + 1"
  proof -
    have "now = 1000 * (now div 1000) + now mod 1000" by simp
    moreover have "now mod 1000 < 1000" by simp
    ultimately show ?thesis using assms(1) unfolding to_timestamp_def by linarith
  qed
  have "getLatestEvent callId (h_events ?h1) = Some e"
    unfolding e(1) using assms(3) e up by (intro latest_of_new) auto
  moreover have "since_last now (Some e) = None"
  proof -
    have "now = 1000 * (now div 1000) + now mod 1000" and "now mod 1000 < 1000" by simp_all
    then have "now - (now div 1000 + 1) * 1000 < 0" by (simp add: algebra_simps)
    then have "(now - (now div 1000 + 1) * 1000) div 1000 < 0" by (subst pos_imp_zdiv_neg_iff) simp_all
    then show ?thesis using e up by (simp add: since_last_def Let_def)
  qed
  ultimately have "\<not> is_duplicate now agentId ty (getLatestEvent callId (h_events ?h1))"
    by (simp add: is_duplicate_def)
  then have "length (h_events (log_insert now False callId agentId ty meta tenantId ?h1)) = length (h_events ?h1) + 1"
    by (simp add: log_insert_cases ev_insert_longer)
  then show ?thesis using e by simp
qed

theorem rounded_duplicate_is_stored_witness:
  "length (h_events (log_insert 1700 False 4 (Some 2) ''inbound_accepted'' [] (Some 1)
     (log_insert 1700 False 4 (Some 2) ''inbound_accepted'' [] (Some 1) \<lparr> h_events = [], h_transfers = [] \<rparr>))) = 2"
  using rounded_duplicate_is_stored [of 1700 "''inbound_accepted''" "\<lparr> h_events = [], h_transfers = [] \<rparr>" 4 "Some 2" "[]" "Some 1"]
  by (simp add: IVR_EVENT_TYPES_def)

section \<open>Facts: who is in a call\<close>

definition once_each :: "participant list \<Rightarrow> bool" where
  "once_each ps \<longleftrightarrow> (\<forall>c k a. length (filter (open_row c k a) ps) \<le> 1)"

inductive participant_step :: "participant list \<Rightarrow> participant list \<Rightarrow> bool" where
  ps_join: "participant_step ps (fst (pt_join at c t k a d ps))"
| ps_leave: "participant_step ps (fst (pt_leave at c k a r ps))"
| ps_leave_all: "participant_step ps (fst (leaveAll at c r ps))"
| ps_device: "participant_step ps (setDevice c k a d ps)"

lemma none_in_map: "(\<And>x. \<not> P (f x)) \<Longrightarrow> \<not> list_ex P (map f xs)"
  by (induction xs) auto

lemma fewer_open:
  assumes "\<And>p. open_row c k a (f p) \<Longrightarrow> open_row c k a p"
  shows "length (filter (open_row c k a) (map f ps)) \<le> length (filter (open_row c k a) ps)"
proof (induction ps)
  case Nil
  then show ?case by simp
next
  case (Cons p ps)
  then show ?case using assms [of p] by auto
qed

lemma once_each_map:
  assumes "once_each ps" and "\<And>c k a p. open_row c k a (f p) \<Longrightarrow> open_row c k a p"
  shows "once_each (map f ps)"
  unfolding once_each_def using assms fewer_open le_trans once_each_def by blast

lemma once_each_join: "once_each ps \<Longrightarrow> once_each (fst (pt_join at c t k a d ps))"
proof (cases "list_ex (open_row c k a) ps")
  case False
  assume ok: "once_each ps"
  let ?p = "\<lparr> p_call_id = c, p_tenant_id = t, p_kind = k, p_agent_id = a,
              p_device_id = d, p_joined_at = to_timestamp at, p_left_at = None, p_leave_reason = None \<rparr>"
  have "length (filter (open_row c' k' a') (ps @ [?p])) \<le> 1" for c' k' a'
  proof (cases "open_row c' k' a' ?p")
    case True
    then have "c' = c" "k' = k" "a' = a" by (auto simp: open_row_def)
    with False have "filter (open_row c' k' a') ps = []" by (simp add: filter_empty_conv list_ex_iff)
    then show ?thesis by simp
  next
    case no: False
    then show ?thesis using ok by (simp add: once_each_def)
  qed
  then show ?thesis using False by (simp add: pt_join_def once_each_def)
qed (simp add: pt_join_def)

lemma once_each_update:
  assumes "once_each ps" and "\<And>c k a p. open_row c k a (f p) \<Longrightarrow> q p \<Longrightarrow> open_row c k a p"
  shows "once_each (fst (sql_update q f ps))"
  unfolding sql_update_fst using assms by (intro once_each_map) (auto split: if_splits)

lemma once_each_step: "participant_step s t \<Longrightarrow> once_each s \<Longrightarrow> once_each t"
proof (induction rule: participant_step.induct)
  case (ps_join ps at c t k a d)
  then show ?case by (rule once_each_join)
next
  case (ps_leave ps at c k a r)
  then show ?case unfolding pt_leave_def affected_fst by (rule once_each_update) (simp add: open_row_def)
next
  case (ps_leave_all ps at c r)
  then show ?case unfolding leaveAll_def by (rule once_each_update) (simp add: open_row_def)
next
  case (ps_device c k a d ps)
  then show ?case unfolding setDevice_def by (rule once_each_update) (simp add: open_row_def)
qed

interpretation participants_run: transition_system "\<lambda>ps. ps = []" participant_step once_each
  by unfold_locales (auto simp: once_each_def [of "[]"] intro: once_each_step)

text \<open>
  Nobody is in a call twice. However often joins, leaves and device updates are reported, a call
  has at most one open row per participant; and when the call ends, nobody is left in it.
\<close>

theorem nobody_joins_twice:
  assumes "reach (\<lambda>ps. ps = []) participant_step ps"
  shows "length (filter (open_row callId kind agentId) ps) \<le> 1
    \<and> \<not> list_ex (open_row callId kind agentId) (participants_callEnded at callId ps)"
proof
  show "length (filter (open_row callId kind agentId) ps) \<le> 1"
    using participants_run.inv_reach [OF assms] by (simp add: once_each_def)
  show "\<not> list_ex (open_row callId kind agentId) (participants_callEnded at callId ps)"
    unfolding participants_callEnded_def leaveAll_def sql_update_fst
    by (rule none_in_map) (simp add: open_row_def)
qed

theorem nobody_joins_twice_witness:
  "length (filter (open_row 4 Kind_AGENT (Some 2))
     (fst (pt_join 2000 4 1 Kind_AGENT (Some 2) None (fst (pt_join 1000 4 1 Kind_AGENT (Some 2) None []))))) \<le> 1"
proof -
  have "reach (\<lambda>ps. ps = []) participant_step []" by (rule reach_start) simp
  then have "reach (\<lambda>ps. ps = []) participant_step (fst (pt_join 1000 4 1 Kind_AGENT (Some 2) None []))"
    by (rule reach_step) (rule ps_join)
  then have "reach (\<lambda>ps. ps = []) participant_step
      (fst (pt_join 2000 4 1 Kind_AGENT (Some 2) None (fst (pt_join 1000 4 1 Kind_AGENT (Some 2) None []))))"
    by (rule reach_step) (rule ps_join)
  then show ?thesis using nobody_joins_twice by blast
qed

end
