(* ===== verification/CallView.thy ===== *)
theory CallView
  imports DataModel
begin

text \<open>
  What agents and consumers are told of a call: \<open>src/src/core/calls/CallView.js\<close> and the payload of
  \<open>call:incoming\<close> (\<open>src/src/core/calls/IncomingCallPayload.js\<close>). Timestamps stay numbers where
  the code formats them as ISO text.
\<close>

section \<open>The call's UUID\<close>

text \<open>Decimal digits of \<open>String(n)\<close>.\<close>

definition digit_char :: "nat \<Rightarrow> char" where
  "digit_char d = char_of (48 + d mod 10 :: nat)"

fun decimal :: "nat \<Rightarrow> string" where
  "decimal n = (if n < 10 then [digit_char n] else decimal (n div 10) @ [digit_char (n mod 10)])"

declare decimal.simps [simp del]

definition padStart :: "nat \<Rightarrow> char \<Rightarrow> string \<Rightarrow> string" where
  "padStart width c s = replicate (width - length s) c @ s"

definition callUuid :: "nat \<Rightarrow> string" where
  "callUuid callId = ''00000000-0000-0000-0000-'' @ padStart 12 (CHR ''0'') (decimal callId)"

section \<open>Views\<close>

record customer_view =
  cv_address :: "string option"
  cv_address_type :: "address_type option"
  cv_name :: "string option"

record call_view =
  vw_callId :: nat
  vw_callUuid :: string
  vw_tenantId :: nat
  vw_channel :: channel_type
  vw_channelId :: "nat option"
  vw_channelAddress :: "string option"
  vw_queueId :: "nat option"
  vw_direction :: call_direction
  vw_status :: call_status
  vw_state :: "call_state option"
  vw_mediaTopology :: media_topology
  vw_customer :: customer_view
  vw_agentId :: "nat option"
  vw_agentName :: "string option"
  vw_externalRef :: "string option"
  vw_ringingAt :: "int option"
  vw_answeredAt :: "int option"
  vw_endedAt :: "int option"
  vw_deviceId :: "string option option"

definition toCallView :: "call option \<Rightarrow> string option \<Rightarrow> string option option \<Rightarrow> call_view option" where
  "toCallView call agentName deviceId =
     map_option (\<lambda>c.
       \<lparr> vw_callId = c_id c, vw_callUuid = callUuid (c_id c), vw_tenantId = c_tenant_id c, vw_channel = c_channel c,
         vw_channelId = c_channel_id c, vw_channelAddress = c_channel_address c, vw_queueId = c_queue_id c,
         vw_direction = c_direction c, vw_status = c_status c, vw_state = c_state c,
         vw_mediaTopology = c_media_topology c,
         vw_customer = \<lparr> cv_address = c_customer_address c, cv_address_type = c_customer_address_type c,
                         cv_name = c_customer_name c \<rparr>,
         vw_agentId = c_agent_id c, vw_agentName = agentName, vw_externalRef = c_external_ref c,
         vw_ringingAt = c_ringing_at c, vw_answeredAt = c_answered_at c, vw_endedAt = c_ended_at c,
         vw_deviceId = deviceId \<rparr>) call"

record consumer_call_view =
  cc_view :: call_view
  cc_tenantRef :: "string option"
  cc_channelRef :: "string option"
  cc_agentRef :: "string option"
  cc_providerCallId :: "string option"
  cc_ivrFlowId :: "nat option"
  cc_terminationReason :: "termination_reason option"
  cc_terminatedBy :: "terminated_by option"
  cc_ringing :: nat
  cc_call :: nat
  cc_queue :: nat
  cc_failureDetails :: "json option"
  cc_consumerMetadata :: "json option"
  cc_createdAt :: int

definition toConsumerCallView ::
  "call option \<Rightarrow> string option \<Rightarrow> string option \<Rightarrow> string option \<Rightarrow> string option \<Rightarrow> consumer_call_view option" where
  "toConsumerCallView call tenantRef agentRef agentName channelRef =
     (case (call, toCallView call agentName None) of
        (Some c, Some v) \<Rightarrow> Some
          \<lparr> cc_view = v, cc_tenantRef = tenantRef, cc_channelRef = channelRef, cc_agentRef = agentRef,
            cc_providerCallId = c_provider_call_id c, cc_ivrFlowId = c_ivr_flow_id c,
            cc_terminationReason = c_termination_reason c, cc_terminatedBy = c_terminated_by c,
            cc_ringing = c_ringing_duration c, cc_call = c_call_duration c, cc_queue = c_queue_duration c,
            cc_failureDetails = c_failure_details c, cc_consumerMetadata = c_consumer_metadata c,
            cc_createdAt = c_created_at c \<rparr>
      | _ \<Rightarrow> None)"

section \<open>The incoming-call payload\<close>

text \<open>Who had a transferred call, or who assigned a waiting one; and who asked, if somebody else.\<close>

record transfer_origin =
  to_id :: "nat option"
  to_name :: "string option"
  to_isAssignment :: bool

record incoming =
  in_view :: call_view
  in_agentId :: "nat option"
  in_agentName :: "string option"
  in_offeredAgentIds :: "nat list"
  in_sdpOffer :: "string option"
  in_assignmentType :: assignment_type
  in_transferredFrom :: "transfer_origin option"
  in_assignedBy :: "(nat \<times> string option) option"

text \<open>An option of the outer kind is an argument that may be left out (\<open>undefined\<close>).\<close>

record incoming_options =
  io_agentId :: "nat option option"
  io_agentName :: "string option"
  io_offeredAgentIds :: "nat list option"
  io_sdpOffer :: "string option"
  io_assignmentType :: "assignment_type option"
  io_transferredFrom :: "transfer_origin option"
  io_assignedBy :: "(nat \<times> string option) option"

datatype payload_error = CallRequired | InvalidAssignmentType

definition fromCall :: "call option \<Rightarrow> incoming_options \<Rightarrow> payload_error + incoming" where
  "fromCall call opt =
     (case toCallView call (io_agentName opt) None of
        None \<Rightarrow> Inl CallRequired
      | Some v \<Rightarrow>
          (case io_assignmentType opt of
             None \<Rightarrow> Inl InvalidAssignmentType
           | Some asg \<Rightarrow>
               (let agentId = nullish (io_agentId opt) (vw_agentId v)
                in Inr \<lparr> in_view = v, in_agentId = agentId, in_agentName = io_agentName opt,
                         in_offeredAgentIds = nullish (io_offeredAgentIds opt)
                           (case agentId of None \<Rightarrow> [] | Some a \<Rightarrow> [a]),
                         in_sdpOffer = io_sdpOffer opt, in_assignmentType = asg,
                         in_transferredFrom = io_transferredFrom opt, in_assignedBy = io_assignedBy opt \<rparr>)))"

section \<open>Facts: a UUID per call\<close>

lemma digit_char_inj: "digit_char d = digit_char e \<Longrightarrow> d mod 10 = e mod 10"
proof -
  assume "digit_char d = digit_char e"
  then have "of_char (digit_char d) = (of_char (digit_char e) :: nat)" by simp
  moreover have "of_char (digit_char k) = 48 + k mod 10" for k
    by (simp add: digit_char_def)
  ultimately show ?thesis by simp
qed

lemma digit_char_zero: "digit_char 0 = CHR ''0''"
  by code_simp

lemma digit_not_zero: "d mod 10 \<noteq> 0 \<Longrightarrow> digit_char d \<noteq> CHR ''0''"
  using digit_char_inj [of d 0] by (metis digit_char_zero mod_0)

lemma decimal_inj: "decimal m = decimal n \<Longrightarrow> m = n"
proof (induction m arbitrary: n rule: decimal.induct)
  case (1 m)
  note eq = "1.prems" [unfolded decimal.simps [of m] decimal.simps [of n]]
  have ne: "decimal k \<noteq> []" "[] \<noteq> decimal k" for k by (subst decimal.simps, simp)+
  show ?case
  proof (cases "m < 10 \<or> n < 10")
    case True
    then show ?thesis using eq ne digit_char_inj [of m n] by (auto split: if_splits)
  next
    case False
    then have "m div 10 = n div 10" "m mod 10 = n mod 10"
      using eq "1.IH" digit_char_inj [of "m mod 10" "n mod 10"] by auto
    then show ?thesis by (metis div_mult_mod_eq)
  qed
qed

lemma decimal_head: "0 < n \<Longrightarrow> hd (decimal n) \<noteq> CHR ''0''"
proof (induction n rule: decimal.induct)
  case (1 n)
  have ne: "decimal k \<noteq> []" for k by (subst decimal.simps) simp
  show ?case
  proof (cases "n < 10")
    case True
    then show ?thesis using "1.prems" digit_not_zero [of n] by (simp add: decimal.simps)
  next
    case False
    then have "0 < n div 10" by (simp add: div_greater_zero_iff)
    then show ?thesis using False "1.IH" ne by (subst decimal.simps) simp
  qed
qed

lemma length_decimal: "n < 10 ^ k \<Longrightarrow> 0 < k \<Longrightarrow> length (decimal n) \<le> k"
proof (induction k arbitrary: n)
  case (Suc k)
  show ?case
  proof (cases "n < 10")
    case True
    then show ?thesis by (subst decimal.simps) simp
  next
    case False
    then have "n div 10 < 10 ^ k" "0 < k" using Suc.prems by (auto intro: Suc_leI ccontr)
    then show ?thesis using False Suc.IH [of "n div 10"] by (subst decimal.simps) simp
  qed
qed simp

lemma pad_inj:
  assumes "replicate a c @ xs = replicate b c @ ys" and "xs \<noteq> []" "ys \<noteq> []" and "hd xs \<noteq> c" "hd ys \<noteq> c"
  shows "xs = ys"
  using assms
proof (induction a arbitrary: b)
  case 0
  then show ?case by (cases b) auto
next
  case (Suc a)
  then show ?case by (cases b) auto
qed

text \<open>
  Every call has its own UUID: two call ids with the same UUID are the same id, and the UUID has
  the 36 characters native call screens require for every id below 10^12.
\<close>

theorem callUuid_distinct:
  "(0 < i \<and> 0 < j \<and> callUuid i = callUuid j \<longrightarrow> i = j) \<and> (i < 10 ^ 12 \<longrightarrow> length (callUuid i) = 36)"
proof (intro conjI impI)
  have ne: "decimal k \<noteq> []" for k by (subst decimal.simps) simp
  assume "0 < i \<and> 0 < j \<and> callUuid i = callUuid j"
  then show "i = j"
    using pad_inj [of "12 - length (decimal i)" "CHR ''0''" "decimal i" "12 - length (decimal j)" "decimal j"]
      ne decimal_head by (auto simp: callUuid_def padStart_def intro: decimal_inj)
next
  assume "i < 10 ^ 12"
  then have "length (decimal i) \<le> 12" by (intro length_decimal) simp_all
  then show "length (callUuid i) = 36" by (simp add: callUuid_def padStart_def)
qed

theorem callUuid_distinct_witness: "callUuid 7 \<noteq> callUuid 70 \<and> length (callUuid 7) = 36"
  using callUuid_distinct [of 7 70] by auto

end
