(* ===== verification/Connections.thy ===== *)
theory Connections
  imports DataModel
begin

text \<open>
  The \<open>call_connections\<close> table (migrations/20260925000011_create_call_connections_table.js), one
  row per leg of a call, with its repository \<open>src/src/persistence/CallConnectionRepository.js\<close>.
  The table is its rows with the AUTO_INCREMENT counter; \<open>(call_id, connection_type)\<close> is unique.
  An UPDATE that writes a value outside an ENUM column is an error of the statement. Foreign
  keys are not modelled.
\<close>

section \<open>Rows\<close>

datatype connection_state = Cs_NEW | Cs_CONNECTING | Cs_CONNECTED | Cs_DISCONNECTED | Cs_FAILED | Cs_CLOSED

datatype ice_gathering_state = Ig_NEW | Ig_GATHERING | Ig_COMPLETE

datatype ice_connection_state =
    Ic_NEW | Ic_CHECKING | Ic_CONNECTED | Ic_COMPLETED | Ic_FAILED | Ic_DISCONNECTED | Ic_CLOSED

datatype sdp_type = Sdp_OFFER | Sdp_ANSWER

record ice_candidate =
  ice_candidate_line :: "json option"
  ice_sdpMid :: "json option"
  ice_sdpMLineIndex :: "json option"
  ice_usernameFragment :: "json option"

text \<open>An element of the JSON column \<open>ice_candidates\<close>: the object the repository builds, or whatever text was parsed.\<close>

datatype stored_candidate = Candidate ice_candidate | Parsed json

text \<open>
  The column as \<open>addICECandidate\<close> reads it: NULL, an array, a JSON string holding the text of
  another document (\<open>None\<close> when that text does not parse), or another document.
\<close>

datatype ice_column =
    IceNull
  | IceArray "stored_candidate list"
  | IceText "ice_column option"
  | IceOther

record leg_row =
  l_id :: nat
  l_call_id :: nat
  l_agent_id :: "nat option"
  l_device_id :: "string option"
  l_connection_type :: connection_type
  l_connection_state :: connection_state
  l_ice_gathering_state :: ice_gathering_state
  l_ice_connection_state :: ice_connection_state
  l_ice_candidates_gathered :: nat
  l_ice_candidates :: ice_column
  l_sdp_type :: "sdp_type option"
  l_local_sdp :: "string option"
  l_remote_sdp :: "string option"
  l_media_types :: "string list"
  l_connected_at :: "int option"
  l_disconnected_at :: "int option"
  l_created_at :: int
  l_updated_at :: int

record leg_table =
  t_next_id :: nat
  t_legs :: "leg_row list"

definition no_legs :: leg_table where
  "no_legs = \<lparr> t_next_id = 1, t_legs = [] \<rparr>"

definition leg_is :: "nat \<Rightarrow> connection_type \<Rightarrow> leg_row \<Rightarrow> bool" where
  "leg_is callId kind r \<longleftrightarrow> l_call_id r = callId \<and> l_connection_type r = kind"

definition update_legs :: "(leg_row \<Rightarrow> bool) \<Rightarrow> (leg_row \<Rightarrow> leg_row) \<Rightarrow> leg_table \<Rightarrow> leg_table" where
  "update_legs p f t = t\<lparr>t_legs := fst (sql_update p f (t_legs t))\<rparr>"

section \<open>Statements\<close>

text \<open>The argument of \<open>create\<close>, with its defaults.\<close>

record new_leg =
  nl_call_id :: nat
  nl_agent_id :: "nat option"
  nl_connection_type :: connection_type
  nl_media_types :: "string list"
  nl_local_sdp :: "string option"
  nl_remote_sdp :: "string option"
  nl_sdp_type :: "sdp_type option"

definition leg_data :: "nat \<Rightarrow> connection_type \<Rightarrow> new_leg" where
  "leg_data callId kind = \<lparr> nl_call_id = callId, nl_agent_id = None, nl_connection_type = kind,
     nl_media_types = [''audio''], nl_local_sdp = None, nl_remote_sdp = None, nl_sdp_type = None \<rparr>"

definition inserted_leg :: "int \<Rightarrow> nat \<Rightarrow> new_leg \<Rightarrow> leg_row" where
  "inserted_leg now newId data =
     \<lparr> l_id = newId, l_call_id = nl_call_id data, l_agent_id = nl_agent_id data, l_device_id = None,
       l_connection_type = nl_connection_type data, l_connection_state = Cs_NEW, l_ice_gathering_state = Ig_NEW,
       l_ice_connection_state = Ic_NEW, l_ice_candidates_gathered = 0, l_ice_candidates = IceNull,
       l_sdp_type = nl_sdp_type data, l_local_sdp = nl_local_sdp data, l_remote_sdp = nl_remote_sdp data,
       l_media_types = nl_media_types data, l_connected_at = None, l_disconnected_at = None,
       l_created_at = now, l_updated_at = now \<rparr>"

text \<open>\<open>INSERT ... ON DUPLICATE KEY UPDATE id = LAST_INSERT_ID(id)\<close>: an existing row is left as it is and its id returned.\<close>

definition create_leg :: "int \<Rightarrow> new_leg \<Rightarrow> leg_table \<Rightarrow> leg_table \<times> nat" where
  "create_leg now data t =
     (case first_row (leg_is (nl_call_id data) (nl_connection_type data)) (t_legs t) of
        Some r \<Rightarrow> (t\<lparr>t_next_id := Suc (t_next_id t)\<rparr>, l_id r)
      | None \<Rightarrow> (t\<lparr>t_next_id := Suc (t_next_id t),
                    t_legs := t_legs t @ [inserted_leg now (t_next_id t) data]\<rparr>, t_next_id t))"

definition findByCallAndType :: "nat \<Rightarrow> connection_type \<Rightarrow> leg_table \<Rightarrow> leg_row option" where
  "findByCallAndType callId kind t = first_row (leg_is callId kind) (t_legs t)"

definition findByCallIdsAndType :: "nat list \<Rightarrow> connection_type \<Rightarrow> leg_table \<Rightarrow> leg_row list" where
  "findByCallIdsAndType callIds kind t =
     (if callIds = [] then []
      else filter (\<lambda>r. l_call_id r \<in> set callIds \<and> l_connection_type r = kind) (t_legs t))"

definition sdp_fields :: "string option \<Rightarrow> string option \<Rightarrow> sdp_type option \<Rightarrow> leg_row \<Rightarrow> leg_row" where
  "sdp_fields localSdp remoteSdp sdpType r =
     r\<lparr>l_local_sdp := coalesce localSdp (l_local_sdp r), l_remote_sdp := coalesce remoteSdp (l_remote_sdp r),
       l_sdp_type := coalesce sdpType (l_sdp_type r)\<rparr>"

definition updateSDP ::
  "int \<Rightarrow> nat \<Rightarrow> connection_type \<Rightarrow> string option \<Rightarrow> string option \<Rightarrow> sdp_type option \<Rightarrow> leg_table \<Rightarrow> leg_table" where
  "updateSDP now callId kind localSdp remoteSdp sdpType t =
     (if localSdp = None \<and> remoteSdp = None \<and> sdpType = None then t
      else update_legs (leg_is callId kind)
             (\<lambda>r. (sdp_fields localSdp remoteSdp sdpType r)\<lparr>l_updated_at := now\<rparr>) t)"

text \<open>\<open>toUpperCase\<close> on ASCII text, and the ENUM columns' values.\<close>

definition upper_char :: "char \<Rightarrow> char" where
  "upper_char c = (let n = of_char c :: nat in if 97 \<le> n \<and> n \<le> 122 then char_of (n - 32) else c)"

definition toUpperCase :: "string \<Rightarrow> string" where
  "toUpperCase s = map upper_char s"

definition connection_states :: "(string \<times> connection_state) list" where
  "connection_states = [(''NEW'', Cs_NEW), (''CONNECTING'', Cs_CONNECTING), (''CONNECTED'', Cs_CONNECTED),
     (''DISCONNECTED'', Cs_DISCONNECTED), (''FAILED'', Cs_FAILED), (''CLOSED'', Cs_CLOSED)]"

definition ice_connection_states :: "(string \<times> ice_connection_state) list" where
  "ice_connection_states = [(''NEW'', Ic_NEW), (''CHECKING'', Ic_CHECKING), (''CONNECTED'', Ic_CONNECTED),
     (''COMPLETED'', Ic_COMPLETED), (''FAILED'', Ic_FAILED), (''DISCONNECTED'', Ic_DISCONNECTED), (''CLOSED'', Ic_CLOSED)]"

definition ice_gathering_states :: "(string \<times> ice_gathering_state) list" where
  "ice_gathering_states = [(''NEW'', Ig_NEW), (''GATHERING'', Ig_GATHERING), (''COMPLETE'', Ig_COMPLETE)]"

datatype leg_error = NotInEnum string | NotJson | NotAnArray

text \<open>An UPDATE of an ENUM column fails when a row matches and the value is not one of the ENUM's.\<close>

definition write_enum ::
  "(leg_row \<Rightarrow> bool) \<Rightarrow> (string \<times> 'v) list \<Rightarrow> string \<Rightarrow> ('v \<Rightarrow> leg_row \<Rightarrow> leg_row) \<Rightarrow> leg_table \<Rightarrow> leg_error + leg_table" where
  "write_enum p enum value f t =
     (case map_of enum value of
        Some v \<Rightarrow> Inr (update_legs p (f v) t)
      | None \<Rightarrow> (if first_row p (t_legs t) = None then Inr t else Inl (NotInEnum value)))"

text \<open>An empty ICE state is falsy, as a missing one: only the connection state is written.\<close>

definition updateConnectionState ::
  "int \<Rightarrow> nat \<Rightarrow> connection_type \<Rightarrow> string \<Rightarrow> string option \<Rightarrow> leg_table \<Rightarrow> leg_error + leg_table" where
  "updateConnectionState now callId kind connectionState iceConnectionState t =
     (case iceConnectionState of
        Some (c # cs) \<Rightarrow>
          (case write_enum (leg_is callId kind) ice_connection_states (toUpperCase (c # cs))
                  (\<lambda>v r. r\<lparr>l_ice_connection_state := v\<rparr>) t of
             Inl e \<Rightarrow> Inl e
           | Inr t' \<Rightarrow> write_enum (leg_is callId kind) connection_states (toUpperCase connectionState)
                         (\<lambda>v r. r\<lparr>l_connection_state := v, l_updated_at := now\<rparr>) t')
      | _ \<Rightarrow> write_enum (leg_is callId kind) connection_states (toUpperCase connectionState)
               (\<lambda>v r. r\<lparr>l_connection_state := v, l_updated_at := now\<rparr>) t)"

definition updateAgentId :: "int \<Rightarrow> nat \<Rightarrow> connection_type \<Rightarrow> nat option \<Rightarrow> leg_table \<Rightarrow> leg_table" where
  "updateAgentId now callId kind agentId =
     update_legs (leg_is callId kind) (\<lambda>r. r\<lparr>l_agent_id := agentId, l_updated_at := now\<rparr>)"

definition updateDeviceId :: "int \<Rightarrow> nat \<Rightarrow> connection_type \<Rightarrow> string option \<Rightarrow> leg_table \<Rightarrow> leg_table" where
  "updateDeviceId now callId kind deviceId =
     update_legs (leg_is callId kind) (\<lambda>r. r\<lparr>l_device_id := deviceId, l_updated_at := now\<rparr>)"

definition markReady :: "int \<Rightarrow> nat \<Rightarrow> connection_type \<Rightarrow> leg_table \<Rightarrow> leg_table" where
  "markReady now callId kind =
     update_legs (leg_is callId kind)
       (\<lambda>r. r\<lparr>l_connected_at := Some now, l_connection_state := Cs_CONNECTED, l_updated_at := now\<rparr>)"

definition markDisconnected :: "int \<Rightarrow> nat \<Rightarrow> connection_type \<Rightarrow> leg_table \<Rightarrow> leg_table" where
  "markDisconnected now callId kind =
     update_legs (leg_is callId kind)
       (\<lambda>r. r\<lparr>l_disconnected_at := coalesce (l_disconnected_at r) (Some now), l_updated_at := now\<rparr>)"

section \<open>ICE candidates\<close>

text \<open>\<open>candidate\<close> is an object, or text: \<open>None\<close> when it does not parse.\<close>

datatype candidate_arg = CandidateObject ice_candidate | CandidateText "json option"

text \<open>The list to append to; \<open>None\<close> when the parsed text is no array, whose \<open>push\<close> throws.\<close>

fun candidates_in :: "ice_column \<Rightarrow> stored_candidate list option" where
  "candidates_in IceNull = Some []"
| "candidates_in (IceArray cs) = Some cs"
| "candidates_in (IceText None) = Some []"
| "candidates_in (IceText (Some (IceArray cs))) = Some cs"
| "candidates_in (IceText (Some _)) = None"
| "candidates_in IceOther = Some []"

fun candidate_object :: "candidate_arg \<Rightarrow> stored_candidate option" where
  "candidate_object (CandidateObject c) = Some (Candidate c)"
| "candidate_object (CandidateText text) = map_option Parsed text"

text \<open>The read and the UPDATE are two statements; \<open>conn\<close> is what the read returned.\<close>

definition appended_candidates :: "leg_row \<Rightarrow> candidate_arg \<Rightarrow> leg_error + stored_candidate list" where
  "appended_candidates conn candidate =
     (case candidate_object candidate of
        None \<Rightarrow> Inl NotJson
      | Some c \<Rightarrow> (case candidates_in (l_ice_candidates conn) of
                     None \<Rightarrow> Inl NotAnArray
                   | Some cs \<Rightarrow> Inr (cs @ [c])))"

definition write_candidates :: "int \<Rightarrow> nat \<Rightarrow> connection_type \<Rightarrow> stored_candidate list \<Rightarrow> leg_table \<Rightarrow> leg_table" where
  "write_candidates now callId kind cs =
     update_legs (leg_is callId kind)
       (\<lambda>r. r\<lparr>l_ice_candidates := IceArray cs, l_ice_candidates_gathered := length cs, l_updated_at := now\<rparr>)"

definition addICECandidate ::
  "int \<Rightarrow> nat \<Rightarrow> connection_type \<Rightarrow> candidate_arg \<Rightarrow> leg_table \<Rightarrow> leg_error + (leg_table \<times> bool)" where
  "addICECandidate now callId kind candidate t =
     (case findByCallAndType callId kind t of
        None \<Rightarrow> Inr (t, False)
      | Some conn \<Rightarrow> (case appended_candidates conn candidate of
                        Inl e \<Rightarrow> Inl e
                      | Inr cs \<Rightarrow> Inr (write_candidates now callId kind cs t, True)))"

definition updateICEState :: "int \<Rightarrow> nat \<Rightarrow> connection_type \<Rightarrow> string \<Rightarrow> leg_table \<Rightarrow> leg_error + leg_table" where
  "updateICEState now callId kind iceConnectionState =
     write_enum (leg_is callId kind) ice_connection_states (toUpperCase iceConnectionState)
       (\<lambda>v r. r\<lparr>l_ice_connection_state := v, l_updated_at := now\<rparr>)"

definition updateICEGatheringState :: "int \<Rightarrow> nat \<Rightarrow> connection_type \<Rightarrow> string \<Rightarrow> leg_table \<Rightarrow> leg_error + leg_table" where
  "updateICEGatheringState now callId kind iceGatheringState =
     write_enum (leg_is callId kind) ice_gathering_states (toUpperCase iceGatheringState)
       (\<lambda>v r. r\<lparr>l_ice_gathering_state := v, l_updated_at := now\<rparr>)"

section \<open>Termination and cleanup\<close>

definition terminateConnections :: "int \<Rightarrow> nat \<Rightarrow> leg_table \<Rightarrow> leg_table" where
  "terminateConnections now callId =
     update_legs (\<lambda>r. l_call_id r = callId)
       (\<lambda>r. r\<lparr>l_connection_state := Cs_CLOSED, l_ice_connection_state := Ic_CLOSED, l_ice_gathering_state := Ig_COMPLETE,
              l_disconnected_at := coalesce (l_disconnected_at r) (Some now), l_updated_at := now\<rparr>)"

definition terminateConnection :: "int \<Rightarrow> nat \<Rightarrow> connection_type \<Rightarrow> leg_table \<Rightarrow> leg_table" where
  "terminateConnection now connectionId kind =
     update_legs (\<lambda>r. l_id r = connectionId \<and> l_connection_type r = kind)
       (\<lambda>r. r\<lparr>l_connection_state := Cs_CLOSED, l_ice_connection_state := Ic_CLOSED, l_ice_gathering_state := Ig_COMPLETE,
              l_updated_at := now\<rparr>)"

definition cleanupConnection :: "nat \<Rightarrow> connection_type \<Rightarrow> leg_table \<Rightarrow> leg_table" where
  "cleanupConnection callId kind t = t\<lparr>t_legs := fst (sql_delete (leg_is callId kind) (t_legs t))\<rparr>"

definition cleanup_legs :: "nat \<Rightarrow> leg_table \<Rightarrow> leg_table" where
  "cleanup_legs callId t = t\<lparr>t_legs := fst (sql_delete (\<lambda>r. l_call_id r = callId) (t_legs t))\<rparr>"

end
