(* ===== verification/MediaLegs.thy ===== *)
theory MediaLegs
  imports Connections
begin

text \<open>
  The core's calls into the media port that also keep a leg's record:
  \<open>src/src/core/media/MediaLegs.js\<close>. The media server is outside: what it answers (a failure or an
  SDP) is an argument. A failure is thrown before anything is recorded.

  Abstractly a leg is what the core asks of it (\<open>leg\<close>: the SDPs, who is on it, from which device,
  whether it is up); \<open>leg_of\<close> reads it from the table, and each method is a map update of the legs
  (\<open>spec_leg\<close>).
\<close>

section \<open>Methods\<close>

type_synonym 'a media_answer = "string + 'a"

definition recording :: "'a media_answer \<Rightarrow> ('a \<Rightarrow> leg_table \<Rightarrow> leg_table) \<Rightarrow> leg_table \<Rightarrow> 'a media_answer \<times> leg_table" where
  "recording media record t = (case media of Inl e \<Rightarrow> (Inl e, t) | Inr x \<Rightarrow> (Inr x, record x t))"

definition replaced_leg :: "int \<Rightarrow> new_leg \<Rightarrow> leg_table \<Rightarrow> leg_table" where
  "replaced_leg now data t = fst (create_leg now data (cleanupConnection (nl_call_id data) (nl_connection_type data) t))"

definition answerCustomer ::
  "int \<Rightarrow> nat \<Rightarrow> string \<Rightarrow> string media_answer \<Rightarrow> leg_table \<Rightarrow> string media_answer \<times> leg_table" where
  "answerCustomer now callId sdpOffer media =
     recording media (\<lambda>answer. updateSDP now callId Conn_CUSTOMER (Some answer) (Some sdpOffer) (Some Sdp_ANSWER))"

definition offerCustomer :: "int \<Rightarrow> nat \<Rightarrow> string media_answer \<Rightarrow> leg_table \<Rightarrow> string media_answer \<times> leg_table" where
  "offerCustomer now callId media =
     recording media (\<lambda>offer. replaced_leg now
       ((leg_data callId Conn_CUSTOMER)\<lparr>nl_local_sdp := Some offer, nl_sdp_type := Some Sdp_OFFER\<rparr>))"

definition customerAnswered ::
  "int \<Rightarrow> nat \<Rightarrow> string \<Rightarrow> unit media_answer \<Rightarrow> leg_table \<Rightarrow> unit media_answer \<times> leg_table" where
  "customerAnswered now callId sdpAnswer media =
     recording media (\<lambda>_ t. markReady now callId Conn_CUSTOMER
       (updateSDP now callId Conn_CUSTOMER None (Some sdpAnswer) None t))"

definition offerAgent :: "int \<Rightarrow> nat \<Rightarrow> string media_answer \<Rightarrow> leg_table \<Rightarrow> string media_answer \<times> leg_table" where
  "offerAgent now callId media =
     recording media (\<lambda>offer. replaced_leg now
       ((leg_data callId Conn_AGENT)\<lparr>nl_local_sdp := Some offer, nl_sdp_type := Some Sdp_OFFER\<rparr>))"

definition storedAgentOffer :: "nat \<Rightarrow> leg_table \<Rightarrow> string option" where
  "storedAgentOffer callId t = Option.bind (findByCallAndType callId Conn_AGENT t) l_local_sdp"

definition agentAccepted ::
  "int \<Rightarrow> nat \<Rightarrow> nat \<Rightarrow> string \<Rightarrow> string option \<Rightarrow> unit media_answer \<Rightarrow> leg_table \<Rightarrow> unit media_answer \<times> leg_table" where
  "agentAccepted now callId agentId sdpAnswer deviceId media =
     recording media (\<lambda>_ t.
       markReady now callId Conn_AGENT
        (updateDeviceId now callId Conn_AGENT deviceId
          (updateAgentId now callId Conn_AGENT (Some agentId)
            (updateSDP now callId Conn_AGENT None (Some sdpAnswer) None t))))"

definition answerAgent ::
  "int \<Rightarrow> nat \<Rightarrow> nat \<Rightarrow> string \<Rightarrow> string option \<Rightarrow> string media_answer \<Rightarrow> leg_table \<Rightarrow> string media_answer \<times> leg_table" where
  "answerAgent now callId agentId sdpOffer deviceId media =
     recording media (\<lambda>answer t.
       markReady now callId Conn_AGENT
        (updateDeviceId now callId Conn_AGENT deviceId
          (replaced_leg now
            ((leg_data callId Conn_AGENT)\<lparr>nl_agent_id := Some agentId, nl_local_sdp := Some answer,
               nl_remote_sdp := Some sdpOffer, nl_sdp_type := Some Sdp_ANSWER\<rparr>) t)))"

definition addSupervisor ::
  "int \<Rightarrow> nat \<Rightarrow> nat \<Rightarrow> string \<Rightarrow> string media_answer \<Rightarrow> leg_table \<Rightarrow> string media_answer \<times> leg_table" where
  "addSupervisor now callId supervisorId sdpOffer media =
     recording media (\<lambda>answer t.
       markReady now callId Conn_MONITOR
        (replaced_leg now
          ((leg_data callId Conn_MONITOR)\<lparr>nl_agent_id := Some supervisorId, nl_local_sdp := Some answer,
             nl_remote_sdp := Some sdpOffer, nl_sdp_type := Some Sdp_ANSWER\<rparr>) t))"

definition offerSupervisor ::
  "int \<Rightarrow> nat \<Rightarrow> nat \<Rightarrow> string media_answer \<Rightarrow> leg_table \<Rightarrow> string media_answer \<times> leg_table" where
  "offerSupervisor now callId supervisorId media =
     recording media (\<lambda>offer. replaced_leg now
       ((leg_data callId Conn_MONITOR)\<lparr>nl_agent_id := Some supervisorId, nl_local_sdp := Some offer,
          nl_sdp_type := Some Sdp_OFFER\<rparr>))"

definition supervisorAnswered ::
  "int \<Rightarrow> nat \<Rightarrow> string \<Rightarrow> unit media_answer \<Rightarrow> leg_table \<Rightarrow> unit media_answer \<times> leg_table" where
  "supervisorAnswered now callId sdpAnswer media =
     recording media (\<lambda>_ t. markReady now callId Conn_MONITOR
       (updateSDP now callId Conn_MONITOR None (Some sdpAnswer) None t))"

definition removeSupervisor :: "nat \<Rightarrow> bool media_answer \<Rightarrow> leg_table \<Rightarrow> bool media_answer \<times> leg_table" where
  "removeSupervisor callId media = recording media (\<lambda>_. cleanupConnection callId Conn_MONITOR)"

definition close_legs :: "int \<Rightarrow> nat \<Rightarrow> unit media_answer \<Rightarrow> leg_table \<Rightarrow> unit media_answer \<times> leg_table" where
  "close_legs now callId media = recording media (\<lambda>_. terminateConnections now callId)"

section \<open>One method call\<close>

text \<open>A call of one of the methods, with what the media server answers in it.\<close>

datatype leg_action =
    AnswerCustomer nat string "string media_answer"
  | OfferCustomer nat "string media_answer"
  | CustomerAnswered nat string "unit media_answer"
  | OfferAgent nat "string media_answer"
  | AgentAccepted nat nat string "string option" "unit media_answer"
  | AnswerAgent nat nat string "string option" "string media_answer"
  | AddSupervisor nat nat string "string media_answer"
  | OfferSupervisor nat nat "string media_answer"
  | SupervisorAnswered nat string "unit media_answer"
  | RemoveSupervisor nat "bool media_answer"
  | CloseLegs nat "unit media_answer"

fun perform_leg :: "int \<Rightarrow> leg_action \<Rightarrow> leg_table \<Rightarrow> leg_table" where
  "perform_leg now (AnswerCustomer c offer m) t = snd (answerCustomer now c offer m t)"
| "perform_leg now (OfferCustomer c m) t = snd (offerCustomer now c m t)"
| "perform_leg now (CustomerAnswered c answer m) t = snd (customerAnswered now c answer m t)"
| "perform_leg now (OfferAgent c m) t = snd (offerAgent now c m t)"
| "perform_leg now (AgentAccepted c a answer d m) t = snd (agentAccepted now c a answer d m t)"
| "perform_leg now (AnswerAgent c a offer d m) t = snd (answerAgent now c a offer d m t)"
| "perform_leg now (AddSupervisor c s offer m) t = snd (addSupervisor now c s offer m t)"
| "perform_leg now (OfferSupervisor c s m) t = snd (offerSupervisor now c s m t)"
| "perform_leg now (SupervisorAnswered c answer m) t = snd (supervisorAnswered now c answer m t)"
| "perform_leg now (RemoveSupervisor c m) t = snd (removeSupervisor c m t)"
| "perform_leg now (CloseLegs c m) t = snd (close_legs now c m t)"

section \<open>Abstract legs\<close>

record leg =
  leg_agent :: "nat option"
  leg_device :: "string option"
  leg_local :: "string option"
  leg_remote :: "string option"
  leg_kind :: "sdp_type option"
  leg_life :: connection_state

type_synonym legs = "nat \<Rightarrow> connection_type \<Rightarrow> leg option"

definition abs_leg :: "leg_row \<Rightarrow> leg" where
  "abs_leg r = \<lparr> leg_agent = l_agent_id r, leg_device = l_device_id r, leg_local = l_local_sdp r,
     leg_remote = l_remote_sdp r, leg_kind = l_sdp_type r, leg_life = l_connection_state r \<rparr>"

definition legs_of :: "leg_table \<Rightarrow> legs" where
  "legs_of t callId kind = map_option abs_leg (findByCallAndType callId kind t)"

definition offered_leg :: "nat option \<Rightarrow> string \<Rightarrow> leg" where
  "offered_leg agentId offer = \<lparr> leg_agent = agentId, leg_device = None, leg_local = Some offer, leg_remote = None,
     leg_kind = Some Sdp_OFFER, leg_life = Cs_NEW \<rparr>"

definition set_leg :: "nat \<Rightarrow> connection_type \<Rightarrow> (leg option \<Rightarrow> leg option) \<Rightarrow> legs \<Rightarrow> legs" where
  "set_leg callId kind f L = L(callId := (L callId)(kind := f (L callId kind)))"

fun spec_leg :: "leg_action \<Rightarrow> legs \<Rightarrow> legs" where
  "spec_leg (AnswerCustomer c offer (Inr answer)) L = set_leg c Conn_CUSTOMER
     (map_option (\<lambda>g. g\<lparr>leg_local := Some answer, leg_remote := Some offer, leg_kind := Some Sdp_ANSWER\<rparr>)) L"
| "spec_leg (OfferCustomer c (Inr offer)) L = set_leg c Conn_CUSTOMER (\<lambda>_. Some (offered_leg None offer)) L"
| "spec_leg (CustomerAnswered c answer (Inr _)) L = set_leg c Conn_CUSTOMER
     (map_option (\<lambda>g. g\<lparr>leg_remote := Some answer, leg_life := Cs_CONNECTED\<rparr>)) L"
| "spec_leg (OfferAgent c (Inr offer)) L = set_leg c Conn_AGENT (\<lambda>_. Some (offered_leg None offer)) L"
| "spec_leg (AgentAccepted c a answer d (Inr _)) L = set_leg c Conn_AGENT
     (map_option (\<lambda>g. g\<lparr>leg_remote := Some answer, leg_agent := Some a, leg_device := d, leg_life := Cs_CONNECTED\<rparr>)) L"
| "spec_leg (AnswerAgent c a offer d (Inr answer)) L = set_leg c Conn_AGENT
     (\<lambda>_. Some \<lparr> leg_agent = Some a, leg_device = d, leg_local = Some answer, leg_remote = Some offer,
                  leg_kind = Some Sdp_ANSWER, leg_life = Cs_CONNECTED \<rparr>) L"
| "spec_leg (AddSupervisor c s offer (Inr answer)) L = set_leg c Conn_MONITOR
     (\<lambda>_. Some \<lparr> leg_agent = Some s, leg_device = None, leg_local = Some answer, leg_remote = Some offer,
                  leg_kind = Some Sdp_ANSWER, leg_life = Cs_CONNECTED \<rparr>) L"
| "spec_leg (OfferSupervisor c s (Inr offer)) L = set_leg c Conn_MONITOR (\<lambda>_. Some (offered_leg (Some s) offer)) L"
| "spec_leg (SupervisorAnswered c answer (Inr _)) L = set_leg c Conn_MONITOR
     (map_option (\<lambda>g. g\<lparr>leg_remote := Some answer, leg_life := Cs_CONNECTED\<rparr>)) L"
| "spec_leg (RemoveSupervisor c (Inr _)) L = set_leg c Conn_MONITOR (\<lambda>_. None) L"
| "spec_leg (CloseLegs c (Inr _)) L = L(c := (\<lambda>kind. map_option (\<lambda>g. g\<lparr>leg_life := Cs_CLOSED\<rparr>) (L c kind)))"
| "spec_leg _ L = L"

end
