(* ===== verification/World.thy ===== *)
theory World
  imports Effects Routing EventLog CallView MediaLegs
begin

text \<open>
  The state the services of \<open>src/src/core\<close> share: the tables, the Redis keys, what the outside
  answers, and the trace of everything announced (EventBus), told to a provider or done to a
  call's media, in order. A service method is an action on this state (\<open>Effects\<close>), so a
  throw is a result and the effects done before it stay.

  The clock \<open>w_now\<close> is in milliseconds and stands still within one method; \<open>NOW()\<close> is its
  second. Ids are positive, so an id that JavaScript tests for truth is present. Between the reads
  and a claim other workers may run: each claim first lets the next entry of \<open>w_others\<close> change
  the agents and calls tables.
\<close>

section \<open>Announcements\<close>

record snapshot_entry =
  se_position :: nat
  se_agentId :: nat
  se_name :: "string option"
  se_availability :: agent_availability
  se_connected :: bool
  se_availableSince :: "int option"

record snapshot_member =
  sm_agentId :: nat
  sm_name :: "string option"
  sm_priority :: nat
  sm_availability :: agent_availability
  sm_connected :: bool

record queue_snapshot =
  qs_tenantId :: nat
  qs_queueId :: nat
  qs_queueName :: string
  qs_strategy :: queue_strategy
  qs_lastAssignedAgentId :: "nat option"
  qs_lastAssignedAgentName :: "string option"
  qs_nextAgentId :: "nat option"
  qs_nextAgentName :: "string option"
  qs_order :: "snapshot_entry list"
  qs_members :: "snapshot_member list"
  qs_availableCount :: nat
  qs_memberCount :: nat
  qs_waitingCount :: nat

record availability_news =
  an_tenantId :: nat
  an_userId :: nat
  an_availability :: agent_availability
  an_changed :: "bool option"
  an_reason :: "string option"
  an_consecutiveMissed :: "nat option"

record termination_news =
  tn_callId :: nat
  tn_tenantId :: "nat option"
  tn_reason :: string
  tn_terminationReason :: string
  tn_terminatedBy :: "terminated_by option"
  tn_source :: "string option"

datatype handled_action = Accepted | Rejected

record handled_news =
  hn_callId :: nat
  hn_tenantId :: nat
  hn_userId :: nat
  hn_agentName :: "string option"
  hn_deviceId :: "string option"
  hn_action :: handled_action

text \<open>\<open>call:reconnected\<close>: an offer for the agent to answer, or the answer to theirs.\<close>

datatype reconnect_sdp = ReconnectOffer string | ReconnectAnswer string

record reconnect_news =
  rn_callId :: nat
  rn_userId :: nat
  rn_tenantId :: nat
  rn_sdp :: reconnect_sdp
  rn_socketId :: "string option"
  rn_deviceId :: "string option"

text \<open>\<open>call:transferred\<close>: the payload of the offer with who had the call and where it went.\<close>

record transfer_news =
  tr_payload :: incoming
  tr_tenantId :: nat
  tr_oldAgentId :: "nat option"
  tr_userId :: nat
  tr_targetType :: string
  tr_targetQueueId :: "nat option"

text \<open>\<open>call:error\<close>, with the code's name.\<close>

record error_news =
  er_callId :: nat
  er_code :: string
  er_message :: string

datatype bus_event =
    AgentQueueEv queue_snapshot
  | AvailabilityEv availability_news
  | IncomingEv incoming
  | WaitingEv nat nat "nat option"
  | OfferWithdrawnEv nat nat "nat list" string
  | OverflowedEv nat nat nat nat
  | TerminatedEv termination_news
  | SuccessEv nat
  | HandledEv handled_news
  | OfferTakenEv nat nat nat nat
  | OfferDeclinedEv nat nat nat "string option"
  | RoomJoinEv nat nat
  | RoomLeaveEv nat nat
  | RoomTerminatedEv nat string
  | TransferredEv transfer_news
  | ReconnectedEv reconnect_news
  | ReconnectCompletedEv nat nat "string option" "string option"
  | RingingDeliverEv "string option" incoming
  | MonitorReconnectedEv nat string bool
  | NetworkTerminatingEv nat
  | ErrorEv error_news
  | MonitorOfferEv nat string "string option"
  | MonitorStartedEv nat "string option" "string option"
  | MonitorModeEv nat string "string option"
  | MonitorEndedEv nat nat "string option"
  | AgentPrivateEv nat bool "string option"
  | StatusEv nat nat string "nat option"

datatype effect =
    Bus bus_event
  | ProviderReject nat bool
  | ProviderTerminate nat
  | DeadlinesCleared nat
  | StateDropped nat
  | MediaClosed nat
  | InboxReleased nat bool
  | InboxPosted nat string
  | CallMeasured nat
  | SocketError string error_news
  | SocketSuperseded string nat
  | Bridged nat
  | AgentDropped nat "nat option"
  | CustomerAccepted nat
  | CustomerDialed nat
  | PushResolved nat nat "nat option" "string option"
  | DeadlineSet string nat nat
  | DeadlineCleared string nat
  | InboxOwned nat
  | SocketDetached "string option" nat
  | Published nat string
  | IvrSessionStarted nat nat

text \<open>What routing announces: everything on the bus but the end of a call.\<close>

fun routing_effect :: "effect \<Rightarrow> bool" where
  "routing_effect (Bus (TerminatedEv _)) = False"
| "routing_effect (Bus _) = True"
| "routing_effect _ = False"

section \<open>State\<close>

text \<open>\<open>tenants.settings.auto_offline\<close> as stored; a threshold that is no number is \<open>None\<close>.\<close>

record auto_offline_settings =
  ao_enabled :: bool
  ao_missed_threshold :: "int option"

text \<open>
  What the media port (\<open>src/src/core/media/CallMedia.js\<close>) and the customer's channel answer for a
  call: outside the core, so any answer is possible. \<open>mp_accept\<close> and the others below give the failure
  thrown or the SDP returned.
\<close>

record media_port =
  mp_owns :: "nat \<Rightarrow> bool"
  mp_hasAgentOffer :: "nat \<Rightarrow> bool"
  mp_offerAgent :: "nat \<Rightarrow> string media_answer"
  mp_accept :: "nat \<Rightarrow> nat \<Rightarrow> unit media_answer"
  mp_answerAgent :: "nat \<Rightarrow> nat \<Rightarrow> string media_answer"
  mp_answerCustomer :: "nat \<Rightarrow> string media_answer"
  mp_offerCustomer :: "nat \<Rightarrow> string media_answer"
  mp_bridge :: "nat \<Rightarrow> unit media_answer"
  mp_dropAgent :: "nat \<Rightarrow> unit media_answer"
  mp_monitor :: "nat \<Rightarrow> (string \<times> bool) option"
  mp_forCall :: "nat \<Rightarrow> unit media_answer"
  mp_channelAccept :: "nat \<Rightarrow> unit media_answer"
  mp_channelInitiate :: "nat \<Rightarrow> string media_answer"
  mp_socketLive :: "string \<Rightarrow> bool"
  mp_hasSupervisor :: "nat \<Rightarrow> bool"
  mp_addSupervisor :: "nat \<Rightarrow> nat \<Rightarrow> string media_answer"
  mp_offerSupervisor :: "nat \<Rightarrow> nat \<Rightarrow> string media_answer"
  mp_supervisorAnswered :: "nat \<Rightarrow> nat \<Rightarrow> unit media_answer"
  mp_removeSupervisor :: "nat \<Rightarrow> nat \<Rightarrow> bool media_answer"
  mp_setSupervisorMode :: "nat \<Rightarrow> string \<Rightarrow> bool media_answer"
  mp_setAgentPrivate :: "nat \<Rightarrow> bool \<Rightarrow> bool media_answer"
  mp_customerAnswered :: "nat \<Rightarrow> unit media_answer"

definition quiet_port :: media_port where
  "quiet_port = \<lparr> mp_owns = (\<lambda>_. True), mp_hasAgentOffer = (\<lambda>_. True), mp_offerAgent = (\<lambda>_. Inr ''v=0''), mp_accept = (\<lambda>_ _. Inr ()),
     mp_answerAgent = (\<lambda>_ _. Inr ''v=0''), mp_answerCustomer = (\<lambda>_. Inr ''v=0''), mp_offerCustomer = (\<lambda>_. Inr ''v=0''),
     mp_bridge = (\<lambda>_. Inr ()), mp_dropAgent = (\<lambda>_. Inr ()), mp_monitor = (\<lambda>_. None), mp_forCall = (\<lambda>_. Inr ()),
     mp_channelAccept = (\<lambda>_. Inr ()), mp_channelInitiate = (\<lambda>_. Inr ''p1''), mp_socketLive = (\<lambda>_. True),
     mp_hasSupervisor = (\<lambda>_. False), mp_addSupervisor = (\<lambda>_ _. Inr ''v=0''), mp_offerSupervisor = (\<lambda>_ _. Inr ''v=0''),
     mp_supervisorAnswered = (\<lambda>_ _. Inr ()), mp_removeSupervisor = (\<lambda>_ _. Inr False),
     mp_setSupervisorMode = (\<lambda>_ _. Inr False), mp_setAgentPrivate = (\<lambda>_ b. Inr b), mp_customerAnswered = (\<lambda>_. Inr ()) \<rparr>"

record world =
  w_now :: int
  w_agents :: "agent list"
  w_calls :: "call list"
  w_queues :: "queue list"
  w_members :: "queue_member list"
  w_order :: "nat \<Rightarrow> queue_redis"
  w_offers :: offer_history
  w_streak :: "nat \<Rightarrow> nat"
  w_auto_offline :: "nat \<Rightarrow> auto_offline_settings"
  w_sockets :: "nat \<Rightarrow> nat"
  w_legs :: leg_table
  w_leg_sockets :: "nat \<Rightarrow> string option"
  w_history :: history
  w_participants :: "participant list"
  w_others :: "(agent list \<times> call list \<Rightarrow> agent list \<times> call list) list"
  w_port :: media_port
  w_provider_fails :: "nat \<Rightarrow> bool"
  w_ivr_ring_timeout :: "nat \<Rightarrow> nat option"
  w_transfer_timeout :: nat
  w_monitor_modes :: "nat \<Rightarrow> string list"
  w_trace :: "effect list"

datatype failure =
    LogFailed log_error
  | PayloadFailed payload_error
  | ProviderFailed nat
  | Thrown string

type_synonym 'a task = "(world, failure, 'a) act"

section \<open>Statements\<close>

text \<open>\<open>NOW()\<close>: the second of the clock.\<close>

definition now_s :: "world \<Rightarrow> int" where
  "now_s w = w_now w div 1000"

definition emit :: "effect \<Rightarrow> unit task" where
  "emit e = change (\<lambda>w. w\<lparr>w_trace := w_trace w @ [e]\<rparr>)"

definition on_calls :: "(int \<Rightarrow> call list \<Rightarrow> call list \<times> 'a) \<Rightarrow> 'a task" where
  "on_calls f = statement (\<lambda>w. let r = f (now_s w) (w_calls w) in (w\<lparr>w_calls := fst r\<rparr>, snd r))"

definition on_agents :: "(int \<Rightarrow> agent list \<Rightarrow> agent list \<times> 'a) \<Rightarrow> 'a task" where
  "on_agents f = statement (\<lambda>w. let r = f (now_s w) (w_agents w) in (w\<lparr>w_agents := fst r\<rparr>, snd r))"

definition on_db ::
  "(int \<Rightarrow> agent list \<times> call list \<Rightarrow> (agent list \<times> call list) \<times> 'a) \<Rightarrow> 'a task" where
  "on_db f = statement (\<lambda>w. let r = f (now_s w) (w_agents w, w_calls w)
      in (w\<lparr>w_agents := fst (fst r), w_calls := snd (fst r)\<rparr>, snd r))"

definition on_offers :: "(offer_history \<Rightarrow> offer_history) \<Rightarrow> unit task" where
  "on_offers f = change (\<lambda>w. w\<lparr>w_offers := f (w_offers w)\<rparr>)"

text \<open>A method of \<open>MediaLegs\<close>: the media server's failure is thrown.\<close>

definition on_legs :: "(world \<Rightarrow> leg_table \<Rightarrow> 'a media_answer \<times> leg_table) \<Rightarrow> 'a task" where
  "on_legs f w = (let r = f w (w_legs w) in
     (case fst r of Inl msg \<Rightarrow> Inl (Thrown msg) | Inr x \<Rightarrow> Inr x, w\<lparr>w_legs := snd r\<rparr>))"

definition throwing :: "'a media_answer \<Rightarrow> 'a task" where
  "throwing r = (case r of Inl msg \<Rightarrow> raise (Thrown msg) | Inr x \<Rightarrow> ret x)"

definition legs_closed :: "nat \<Rightarrow> world \<Rightarrow> world" where
  "legs_closed callId w = w\<lparr>w_legs := snd (close_legs (now_s w) callId (Inr ()) (w_legs w))\<rparr>"

lemma legs_closed_simps [simp]:
  "w_now (legs_closed i w) = w_now w" "w_agents (legs_closed i w) = w_agents w" "w_calls (legs_closed i w) = w_calls w"
  "w_queues (legs_closed i w) = w_queues w" "w_members (legs_closed i w) = w_members w"
  "w_others (legs_closed i w) = w_others w" "w_trace (legs_closed i w) = w_trace w"
  "w_offers (legs_closed i w) = w_offers w" "w_history (legs_closed i w) = w_history w"
  by (simp_all add: legs_closed_def)

lemma legs_closed_trace [simp]: "(legs_closed i (w\<lparr>w_trace := t\<rparr>))\<lparr>w_trace := u\<rparr> = (legs_closed i w)\<lparr>w_trace := u\<rparr>"
  by (simp add: legs_closed_def now_s_def)

text \<open>\<open>agentLegSockets\<close>: which socket a call's agent leg was set up from; the end of the call forgets it.\<close>

definition set_leg_socket :: "nat \<Rightarrow> string option \<Rightarrow> world \<Rightarrow> world" where
  "set_leg_socket callId socketId w =
     (if nullish socketId [] = [] then w else w\<lparr>w_leg_sockets := (w_leg_sockets w)(callId := socketId)\<rparr>)"

definition forget_leg_socket :: "nat \<Rightarrow> world \<Rightarrow> world" where
  "forget_leg_socket callId w = w\<lparr>w_leg_sockets := (w_leg_sockets w)(callId := None)\<rparr>"

definition others_step :: "world \<Rightarrow> world" where
  "others_step w = (case w_others w of
        [] \<Rightarrow> w
      | f # fs \<Rightarrow> w\<lparr>w_agents := fst (f (w_agents w, w_calls w)), w_calls := snd (f (w_agents w, w_calls w)), w_others := fs\<rparr>)"

definition let_others_run :: "unit task" where
  "let_others_run = change others_step"

definition write_log :: "(int \<Rightarrow> history \<Rightarrow> log_error + history) \<Rightarrow> unit task" where
  "write_log f w = (case f (w_now w) (w_history w) of
      Inl e \<Rightarrow> (Inl (LogFailed e), w)
    | Inr h \<Rightarrow> (Inr (), w\<lparr>w_history := h\<rparr>))"

definition members_of :: "queue \<Rightarrow> world \<Rightarrow> member list" where
  "members_of queue w = getMembers (q_id queue) (w_members w) (w_agents w)"

text \<open>The seconds at which an agent accepted the call, for \<open>fillQueueDuration\<close>.\<close>

definition accepted_times :: "nat \<Rightarrow> world \<Rightarrow> int list" where
  "accepted_times callId w =
     map e_occurred_at (filter (\<lambda>e. e_call_id e = callId \<and> e_type e = ''inbound_accepted'') (h_events (w_history w)))"

definition empty_world :: world where
  "empty_world = \<lparr> w_now = 1000000, w_agents = [], w_calls = [], w_queues = [], w_members = [],
     w_order = (\<lambda>_. empty_queue_redis), w_offers = (\<lambda>_. no_offers), w_streak = (\<lambda>_. 0),
     w_auto_offline = (\<lambda>_. \<lparr> ao_enabled = False, ao_missed_threshold = None \<rparr>), w_sockets = (\<lambda>_. 0),
     w_legs = no_legs, w_leg_sockets = (\<lambda>_. None), w_history = \<lparr> h_events = [], h_transfers = [] \<rparr>, w_participants = [],
     w_others = [], w_port = quiet_port, w_provider_fails = (\<lambda>_. False),
     w_ivr_ring_timeout = (\<lambda>_. None), w_transfer_timeout = 30,
     w_monitor_modes = (\<lambda>_. [''listen'', ''whisper'', ''barge'']), w_trace = [] \<rparr>"

section \<open>What a method leaves alone\<close>

text \<open>
  Reading a field back after a statement on another one: the fields an action does not touch are
  the same after it, whatever it returns.
\<close>

definition leaves :: "(world \<Rightarrow> 'b) \<Rightarrow> 'a task \<Rightarrow> bool" where
  "leaves f m \<longleftrightarrow> runs_in (\<lambda>w w'. f w' = f w) m"

interpretation same: effect_relation "\<lambda>w w'. f w' = f w" for f :: "world \<Rightarrow> 'b"
  by unfold_locales auto

end
