(* ===== verification/Assignment.thy ===== *)
theory Assignment
  imports World
begin

text \<open>
  \<open>src/src/core/routing/AgentAssignmentCoordinator.js\<close> with the claims of \<open>QueueRouter.js\<close>, the
  missed-call streak (\<open>AgentMissedCallTracker.js\<close>) and the auto-offline policy
  (\<open>AutoOfflinePolicy.js\<close>): every method as an action on the world, in the code's order.
\<close>

section \<open>Claims of QueueRouter\<close>

text \<open>
  The claim passed to the pick: the transaction on the tables, and the flag the closure sets when
  the agent was free but the call was not.
\<close>

definition claim_waiting ::
  "int \<Rightarrow> nat \<Rightarrow> nat \<Rightarrow> (agent list \<times> call list) \<times> bool \<Rightarrow> ((agent list \<times> call list) \<times> bool) \<times> bool" where
  "claim_waiting now callId agentId s =
     (let r = claimAgentAndAssignCall now False agentId callId (fst s)
      in ((fst r, snd s \<or> claimed (snd r) \<and> \<not> assigned (snd r)), assigned (snd r)))"

definition pick ::
  "int \<Rightarrow> queue_strategy \<Rightarrow> member list \<Rightarrow> (nat \<Rightarrow> 's \<Rightarrow> 's \<times> bool) \<Rightarrow> 's \<times> queue_redis
   \<Rightarrow> ('s \<times> queue_redis) \<times> member option" where
  "pick now strategy members claim st =
     (if strategy = PRIORITY then pickPriority members claim st else pickRoundRobin now members claim st)"

definition claim_step :: "queue \<Rightarrow> nat \<Rightarrow> member list \<Rightarrow> world \<Rightarrow> world \<times> (member option \<times> bool)" where
  "claim_step queue callId pool w =
     (case pick (w_now w) (q_strategy queue) pool (claim_waiting (now_s w) callId)
              (((w_agents w, w_calls w), False), w_order w (q_id queue)) of
         ((s, r), agent) \<Rightarrow>
           (w\<lparr>w_agents := fst (fst s), w_calls := snd (fst s), w_order := (w_order w)(q_id queue := r)\<rparr>,
            (agent, snd s)))"

definition claimForWaitingCall :: "queue \<Rightarrow> nat \<Rightarrow> member list option \<Rightarrow> (member option \<times> bool) task" where
  "claimForWaitingCall queue callId members =
     and_then (read (\<lambda>w. nullish members (members_of queue w))) (\<lambda>pool.
     and_then let_others_run (\<lambda>_.
     statement (claim_step queue callId pool)))"

definition claimForNewCall :: "queue option \<Rightarrow> nat \<Rightarrow> member option task" where
  "claimForNewCall queue callId =
     (case queue of
        None \<Rightarrow> ret None
      | Some q \<Rightarrow>
          if isRingAll q then ret None
          else and_then (read (\<lambda>w. hasUnassignedCalls (q_id q) callId (w_calls w))) (\<lambda>older.
               if older then ret None
               else and_then (claimForWaitingCall q callId None) (\<lambda>r. ret (fst r))))"

definition claimMemberForTransfer :: "queue \<Rightarrow> nat \<Rightarrow> nat option \<Rightarrow> member option task" where
  "claimMemberForTransfer queue callId excludeAgentId =
     and_then (read (\<lambda>w. filter (\<lambda>a. Some (mb_id a) \<noteq> excludeAgentId) (members_of queue w))) (\<lambda>members.
     and_then let_others_run (\<lambda>_.
     statement (\<lambda>w.
       case pick (w_now w) (if q_strategy queue = RING_ALL then ROUND_ROBIN else q_strategy queue) members
              (\<lambda>a db. claimAgentForCall a callId db) ((w_agents w, w_calls w), w_order w (q_id queue)) of
         ((db, r), agent) \<Rightarrow>
           (w\<lparr>w_agents := fst db, w_calls := snd db, w_order := (w_order w)(q_id queue := r)\<rparr>, agent))))"

definition ringAllTargets :: "queue \<Rightarrow> world \<Rightarrow> member list" where
  "ringAllTargets queue w = filter is_available (members_of queue w)"

definition isAtCapacity :: "queue option \<Rightarrow> nat \<Rightarrow> world \<Rightarrow> bool" where
  "isAtCapacity queue excludeCallId w =
     (case Option.bind queue q_max_active_calls of
        None \<Rightarrow> False
      | Some n \<Rightarrow> if n = 0 then False
                  else (case queue of None \<Rightarrow> False
                        | Some q \<Rightarrow> n \<le> countOtherActiveCallsInQueue (q_id q) excludeCallId (w_calls w)))"

section \<open>Missed offers\<close>

definition streak_increment :: "nat \<Rightarrow> nat task" where
  "streak_increment a = statement (\<lambda>w. (w\<lparr>w_streak := (w_streak w)(a := Suc (w_streak w a))\<rparr>, Suc (w_streak w a)))"

definition streak_reset :: "nat \<Rightarrow> unit task" where
  "streak_reset a = change (\<lambda>w. w\<lparr>w_streak := (w_streak w)(a := 0)\<rparr>)"

definition getAutoOfflineSettings :: "nat \<Rightarrow> world \<Rightarrow> bool \<times> int" where
  "getAutoOfflineSettings tenantId w =
     (let p = w_auto_offline w tenantId
      in (ao_enabled p, case ao_missed_threshold p of None \<Rightarrow> 3 | Some t \<Rightarrow> if 0 < t then t else 3))"

definition recordMiss :: "nat \<Rightarrow> nat \<Rightarrow> nat option \<Rightarrow> nat option \<Rightarrow> bool \<Rightarrow> bool task" where
  "recordMiss callId tenantId queueId agentId anyQueue =
     (case agentId of
        None \<Rightarrow> ret False
      | Some a \<Rightarrow>
          and_then (read (\<lambda>w. getQueue queueId (w_queues w))) (\<lambda>queue.
          if \<not> anyQueue \<and> (case queue of None \<Rightarrow> True | Some q \<Rightarrow> isRingAll q) then ret False
          else and_then (read (getAutoOfflineSettings tenantId)) (\<lambda>(enabled, threshold).
          if \<not> enabled then ret False
          else and_then (read (\<lambda>w. hasAgentActiveCall a callId (w_calls w))) (\<lambda>busy.
          if busy then ret False
          else and_then (streak_increment a) (\<lambda>streak.
          if int streak < threshold then ret False
          else and_then (on_agents (\<lambda>now. updateAgentAvailability now a Av_OFFLINE)) (\<lambda>flipped.
               and_then (streak_reset a) (\<lambda>_.
               if \<not> flipped then ret False
               else and_then (emit (Bus (AvailabilityEv
                      \<lparr> an_tenantId = tenantId, an_userId = a, an_availability = Av_OFFLINE, an_changed = None,
                        an_reason = Some ''auto_offline_missed_calls'', an_consecutiveMissed = Some streak \<rparr>)))
                    (\<lambda>_. ret True))))))))"

section \<open>Queue snapshots\<close>

text \<open>\<open>name || null\<close>: an empty name is no name.\<close>

definition name_or_null :: "string option \<Rightarrow> string option" where
  "name_or_null n = (if n = Some [] then None else n)"

definition buildQueueSnapshot :: "queue \<Rightarrow> member list \<Rightarrow> queue_snapshot task" where
  "buildQueueSnapshot queue members = statement (\<lambda>w.
     (let r0 = w_order w (q_id queue);
          lastId = qr_last r0;
          lastAssigned = Option.bind lastId (by_id members);
          picked = (if q_strategy queue = PRIORITY then (filter is_available members, r0)
                    else reconcileQueueOrder (w_now w) members r0);
          order = fst picked; r = snd picked;
          next = (case order of [] \<Rightarrow> None | a # _ \<Rightarrow> Some a)
      in (w\<lparr>w_order := (w_order w)(q_id queue := r)\<rparr>,
          \<lparr> qs_tenantId = q_tenant_id queue, qs_queueId = q_id queue, qs_queueName = q_name queue,
            qs_strategy = q_strategy queue, qs_lastAssignedAgentId = lastId,
            qs_lastAssignedAgentName = name_or_null (Option.bind lastAssigned mb_name),
            qs_nextAgentId = map_option mb_id next, qs_nextAgentName = Option.bind next mb_name,
            qs_order = map (\<lambda>(k, a). \<lparr> se_position = k + 1, se_agentId = mb_id a, se_name = name_or_null (mb_name a),
                se_availability = mb_availability a, se_connected = 0 < w_sockets w (mb_id a),
                se_availableSince = map_option om_entered_at (parseMeta (w_now w) (qr_meta r (mb_id a))) \<rparr>)
              (enumerate 0 order),
            qs_members = map (\<lambda>a. \<lparr> sm_agentId = mb_id a, sm_name = name_or_null (mb_name a), sm_priority = mb_priority a,
                sm_availability = mb_availability a, sm_connected = 0 < w_sockets w (mb_id a) \<rparr>) members,
            qs_availableCount = length (filter is_available members), qs_memberCount = length members,
            qs_waitingCount = countUnassignedCalls (q_id queue) (w_calls w) \<rparr>)))"

definition emitQueueUpdate :: "nat \<Rightarrow> nat option \<Rightarrow> unit task" where
  "emitQueueUpdate tenantId queueId =
     and_then (read (\<lambda>w. case queueId of
         None \<Rightarrow> queue_listForTenant tenantId (w_queues w)
       | Some q \<Rightarrow> (case queue_findForTenant (Some q) tenantId (w_queues w) of None \<Rightarrow> [] | Some x \<Rightarrow> [x])))
     (for_each (\<lambda>queue.
        and_then (read (members_of queue)) (\<lambda>members.
        and_then (buildQueueSnapshot queue members) (\<lambda>snapshot.
        emit (Bus (AgentQueueEv snapshot))))))"

definition emitAgentQueues :: "nat \<Rightarrow> nat \<Rightarrow> unit task" where
  "emitAgentQueues tenantId agentId =
     and_then (read (\<lambda>w. getQueueIdsForAgent agentId (w_members w) (w_queues w)))
       (for_each (\<lambda>queueId. emitQueueUpdate tenantId (Some queueId)))"

section \<open>Availability\<close>

definition broadcast :: "nat \<Rightarrow> nat \<Rightarrow> agent_availability \<Rightarrow> bool option \<Rightarrow> unit task" where
  "broadcast tenantId agentId availability changed =
     emit (Bus (AvailabilityEv \<lparr> an_tenantId = tenantId, an_userId = agentId, an_availability = availability,
                                 an_changed = changed, an_reason = None, an_consecutiveMissed = None \<rparr>))"

definition broadcastCurrent :: "nat \<Rightarrow> (nat \<times> agent_availability) option task" where
  "broadcastCurrent agentId =
     and_then (read (\<lambda>w. agent_findById agentId (w_agents w))) (\<lambda>found.
     case found of
       None \<Rightarrow> ret None
     | Some a \<Rightarrow> and_then (broadcast (v_tenant_id a) agentId (v_availability a) None)
                  (\<lambda>_. ret (Some (v_tenant_id a, v_availability a))))"

definition releaseAgent :: "nat option \<Rightarrow> nat \<Rightarrow> bool \<Rightarrow> bool task" where
  "releaseAgent agentId callId offline =
     (case agentId of
        None \<Rightarrow> ret False
      | Some a \<Rightarrow>
          and_then (on_agents (\<lambda>now. releaseFromCall a callId)) (\<lambda>released.
          and_then (only_when offline (and_then (on_agents (\<lambda>now. updateAgentAvailability now a Av_OFFLINE)) (\<lambda>_. ret ()))) (\<lambda>_.
          and_then (only_when (released \<or> offline)
            (and_then (broadcastCurrent a) (\<lambda>agent.
             case agent of
               None \<Rightarrow> ret ()
             | Some (t, _) \<Rightarrow> logged_failure (emitAgentQueues t a)))) (\<lambda>_.
          ret released))))"

section \<open>Delivering an offer\<close>

definition agentOffer :: "nat \<Rightarrow> string task" where
  "agentOffer callId =
     and_then (read (\<lambda>w. nullish (storedAgentOffer callId (w_legs w)) [])) (\<lambda>stored.
     if stored \<noteq> [] then ret stored
     else on_legs (\<lambda>w. offerAgent (now_s w) callId (mp_offerAgent (w_port w) callId)))"

definition emitIncoming :: "call \<Rightarrow> incoming_options \<Rightarrow> unit task" where
  "emitIncoming call opt =
     (case fromCall (Some call) opt of
        Inl e \<Rightarrow> raise (PayloadFailed e)
      | Inr p \<Rightarrow> emit (Bus (IncomingEv p)))"

fun asg_name :: "assignment_type \<Rightarrow> string" where
  "asg_name As_DIRECT = ''DIRECT''"
| "asg_name As_QUEUED = ''QUEUED''"
| "asg_name As_TRANSFERRED = ''TRANSFERRED''"
| "asg_name As_IVR = ''IVR''"

definition deliverAssignedCall :: "call \<Rightarrow> nat \<Rightarrow> string option \<Rightarrow> assignment_type \<Rightarrow> unit task" where
  "deliverAssignedCall call agentId agentName asg =
     and_then (read (\<lambda>w. w_sockets w agentId)) (\<lambda>socketCount.
     and_then (write_log (\<lambda>now. logAssigned now (c_id call) (Some (c_tenant_id call)) (Some agentId)
         [(''assignment_type'', JStr (asg_name asg)), (''queue_id'', json_id (c_queue_id call)),
          (''agent_connected'', JBool (0 < socketCount)), (''agent_socket_count'', JNum (int socketCount))])) (\<lambda>_.
     and_then (agentOffer (c_id call)) (\<lambda>sdpOffer.
     and_then (emitIncoming (call\<lparr>c_agent_id := Some agentId\<rparr>)
         \<lparr> io_agentId = Some (Some agentId), io_agentName = agentName, io_offeredAgentIds = None,
           io_sdpOffer = Some sdpOffer, io_assignmentType = Some asg, io_transferredFrom = None, io_assignedBy = None \<rparr>) (\<lambda>_.
     broadcast (c_tenant_id call) agentId Av_ON_CALL None))))"

text \<open>\<open>offerHistory.eligible\<close> as a step.\<close>

definition eligible_step :: "nat \<Rightarrow> member list \<Rightarrow> world \<Rightarrow> world \<times> member list" where
  "eligible_step callId members w =
     (let e = eligible callId members (w_offers w) in (w\<lparr>w_offers := snd e\<rparr>, fst e))"

definition offerToAll :: "queue \<Rightarrow> nat \<Rightarrow> unit task" where
  "offerToAll queue callId =
     and_then (read (\<lambda>w. call_findById callId (w_calls w))) (\<lambda>found.
     case found of
       None \<Rightarrow> ret ()
     | Some call \<Rightarrow>
         and_then (statement (\<lambda>w. eligible_step callId (ringAllTargets queue w) w)) (\<lambda>offered.
         if offered = [] then emit (Bus (WaitingEv callId (c_tenant_id call) (Some (q_id queue))))
         else and_then (agentOffer callId) (\<lambda>sdpOffer.
              emitIncoming call
                \<lparr> io_agentId = Some None, io_agentName = None, io_offeredAgentIds = Some (map mb_id offered),
                  io_sdpOffer = Some sdpOffer, io_assignmentType = Some As_QUEUED, io_transferredFrom = None,
                  io_assignedBy = None \<rparr>)))"

section \<open>Draining\<close>

datatype drained = AssignedOne | NoneAssigned bool

text \<open>One pass over the waiting calls; \<open>NoneAssigned raceLost\<close> when none could be assigned.\<close>

fun drain_calls :: "queue \<Rightarrow> member list \<Rightarrow> call list \<Rightarrow> bool \<Rightarrow> drained task" where
  "drain_calls queue members [] raceLost = ret (NoneAssigned raceLost)"
| "drain_calls queue members (call # waiting) raceLost =
     and_then (statement (eligible_step (c_id call) members)) (\<lambda>allowed.
     and_then (claimForWaitingCall queue (c_id call) (Some allowed)) (\<lambda>(agent, takenByAnotherWorker).
     case agent of
       None \<Rightarrow> drain_calls queue members waiting (raceLost \<or> takenByAnotherWorker)
     | Some a \<Rightarrow>
         and_then (deliverAssignedCall call (mb_id a) (mb_name a) As_QUEUED) (\<lambda>_.
         and_then (emitQueueUpdate (c_tenant_id call) (Some (q_id queue))) (\<lambda>_.
         ret AssignedOne))))"

fun drain_attempts :: "nat \<Rightarrow> queue \<Rightarrow> bool task" where
  "drain_attempts 0 queue = ret False"
| "drain_attempts (Suc left) queue =
     and_then (read (members_of queue)) (\<lambda>members.
     if \<not> list_ex is_available members then ret False
     else and_then (read (\<lambda>w. findOldestUnassignedCalls (q_id queue) 25 (w_calls w))) (\<lambda>waiting.
     if waiting = [] then ret False
     else and_then (drain_calls queue members waiting False) (\<lambda>r.
     case r of
       AssignedOne \<Rightarrow> ret True
     | NoneAssigned raceLost \<Rightarrow> if raceLost then drain_attempts left queue else ret False)))"

definition drainQueue :: "queue \<Rightarrow> bool task" where
  "drainQueue queue = drain_attempts 3 queue"

fun drain_queues :: "nat list \<Rightarrow> bool \<Rightarrow> bool task" where
  "drain_queues [] assignedAny = ret assignedAny"
| "drain_queues (queueId # rest) assignedAny =
     and_then (read (\<lambda>w. getQueue (Some queueId) (w_queues w))) (\<lambda>queue.
     case queue of
       None \<Rightarrow> drain_queues rest assignedAny
     | Some q \<Rightarrow>
         if isRingAll q then drain_queues rest assignedAny
         else and_then (drainQueue q) (\<lambda>r. drain_queues rest (assignedAny \<or> r)))"

definition drainForTenant :: "nat \<Rightarrow> bool task" where
  "drainForTenant tenantId =
     and_then (read (\<lambda>w. findQueuesWithWaitingCalls tenantId (w_calls w))) (\<lambda>ids. drain_queues ids False)"

definition assignOldestUnassignedCall :: "nat \<Rightarrow> bool task" where
  "assignOldestUnassignedCall tenantId = drainForTenant tenantId"

definition routeWaitingCall :: "call \<Rightarrow> bool task" where
  "routeWaitingCall call =
     and_then (read (\<lambda>w. getQueue (c_queue_id call) (w_queues w))) (\<lambda>queue.
     case queue of
       None \<Rightarrow> and_then (emit (Bus (WaitingEv (c_id call) (c_tenant_id call) (c_queue_id call)))) (\<lambda>_. ret False)
     | Some q \<Rightarrow>
         if isRingAll q then
           and_then (offerToAll q (c_id call)) (\<lambda>_.
           and_then (emitQueueUpdate (c_tenant_id call) (Some (q_id q))) (\<lambda>_. ret False))
         else
           and_then (drainQueue q) (\<lambda>_.
           and_then (read (\<lambda>w. call_findById (c_id call) (w_calls w))) (\<lambda>after.
           let offered = Option.bind after c_agent_id \<noteq> None in
           and_then (only_when (\<not> offered \<and> map_option c_status after = Some St_RINGING)
             (emit (Bus (WaitingEv (c_id call) (c_tenant_id call) (Some (q_id q)))))) (\<lambda>_.
           and_then (emitQueueUpdate (c_tenant_id call) (Some (q_id q))) (\<lambda>_. ret offered)))))"

section \<open>Transferred calls\<close>

datatype transfer_target = ToAgent "nat option" | ToQueue "nat option"

definition assignTransferredCall :: "nat \<Rightarrow> call \<Rightarrow> nat \<Rightarrow> transfer_target \<Rightarrow> bool task" where
  "assignTransferredCall callId callRecord tenantId target =
     (let finish = (\<lambda>agent.
            case agent of
              Some (i, name) \<Rightarrow>
                and_then (read (\<lambda>w. call_findById callId (w_calls w))) (\<lambda>found.
                and_then (case found of None \<Rightarrow> ret () | Some c \<Rightarrow> deliverAssignedCall c i name As_QUEUED) (\<lambda>_.
                and_then (emitQueueUpdate tenantId (c_queue_id callRecord)) (\<lambda>_. ret True)))
            | None \<Rightarrow>
                and_then (emitQueueUpdate tenantId (c_queue_id callRecord)) (\<lambda>_.
                and_then (emit (Bus (WaitingEv callId tenantId (c_queue_id callRecord)))) (\<lambda>_. ret False)));
          toQueue = (\<lambda>targetId.
            and_then (read (\<lambda>w. getQueue (coalesce targetId (c_queue_id callRecord)) (w_queues w))) (\<lambda>queue.
            case queue of
              None \<Rightarrow> finish None
            | Some q \<Rightarrow>
                if isRingAll q then
                  and_then (offerToAll q callId) (\<lambda>_.
                  and_then (emitQueueUpdate tenantId (Some (q_id q))) (\<lambda>_. ret False))
                else and_then (claimForWaitingCall q callId None) (\<lambda>r.
                     finish (map_option (\<lambda>m. (mb_id m, mb_name m)) (fst r)))))
      in case target of
           ToAgent (Some i) \<Rightarrow>
             and_then (read (\<lambda>w. agent_findById i (w_agents w))) (\<lambda>found.
             case found of
               None \<Rightarrow> finish None
             | Some a \<Rightarrow>
                 if v_tenant_id a = tenantId \<and> v_availability a = Av_AVAILABLE
                 then and_then let_others_run (\<lambda>_.
                      and_then (on_db (\<lambda>now. claimAgentAndAssignCall now False (v_id a) callId)) (\<lambda>r.
                      finish (if assigned r then Some (v_id a, v_name a) else None)))
                 else finish None)
         | ToAgent None \<Rightarrow> toQueue None
         | ToQueue targetId \<Rightarrow> toQueue targetId)"

section \<open>Passing an offer on\<close>

definition passOffer :: "call \<Rightarrow> nat \<Rightarrow> offer_kind \<Rightarrow> int option \<Rightarrow> bool task" where
  "passOffer call agentId kind expiredBefore =
     and_then (on_calls (\<lambda>now. withdrawOffer now (c_id call) agentId expiredBefore)) (\<lambda>withdrawn.
     if \<not> withdrawn then ret False
     else
       and_then (on_offers (offer_record (c_id call) agentId kind)) (\<lambda>_.
       and_then (emit (Bus (OfferWithdrawnEv (c_id call) (c_tenant_id call) [agentId]
           (if kind = Missed then ''timeout'' else ''declined'')))) (\<lambda>_.
       and_then (releaseAgent (Some agentId) (c_id call) False) (\<lambda>_.
       and_then
         (if kind = Missed then
            and_then (logged_failure (write_log (\<lambda>now. logOfferMissed now (c_id call) (Some (c_tenant_id call)) (Some agentId)
              [(''queue_id'', json_id (c_queue_id call))]))) (\<lambda>_.
            and_then (recordMiss (c_id call) (c_tenant_id call) (c_queue_id call) (Some agentId) False) (\<lambda>_. ret ()))
          else
            logged_failure (write_log (\<lambda>now. logRejected now (c_id call) (Some (c_tenant_id call)) (Some agentId)
              [(''reason'', JStr ''agent_declined_offer''), (''queue_id'', json_id (c_queue_id call))]))) (\<lambda>_.
       and_then (routeWaitingCall (call\<lparr>c_agent_id := None\<rparr>)) (\<lambda>_.
       ret True))))))"

text \<open>\<open>waited\<close> is the queue's \<open>max_wait_seconds\<close> the scan read with the call.\<close>

definition callOverflowed :: "call \<Rightarrow> nat option \<Rightarrow> queue \<Rightarrow> unit task" where
  "callOverflowed call waited toQueue =
     and_then (read (\<lambda>w. queue_findById (c_queue_id call) (w_queues w))) (\<lambda>fromQueue.
     and_then (read (\<lambda>w. case c_agent_id call of
         Some a \<Rightarrow> [a]
       | None \<Rightarrow> (case fromQueue of
             Some q \<Rightarrow> if isRingAll q then getMemberIds (q_id q) (w_members w) else []
           | None \<Rightarrow> []))) (\<lambda>withdrawFrom.
     and_then (only_when (withdrawFrom \<noteq> [])
       (emit (Bus (OfferWithdrawnEv (c_id call) (c_tenant_id call) withdrawFrom ''overflow'')))) (\<lambda>_.
     and_then (only_when (c_agent_id call \<noteq> None)
       (and_then (releaseAgent (c_agent_id call) (c_id call) False) (\<lambda>_. ret ()))) (\<lambda>_.
     and_then (on_offers (clearMissed (c_id call))) (\<lambda>_.
     and_then (logged_failure (write_log (\<lambda>now. logOverflowed now (c_id call) (Some (c_tenant_id call))
       [(''from_queue_id'', json_id (c_queue_id call)), (''to_queue_id'', json_id (Some (q_id toQueue))),
        (''waited_seconds'', json_id waited)]))) (\<lambda>_.
     and_then (emit (Bus (OverflowedEv (c_id call) (c_tenant_id call) (nullish (c_queue_id call) 0) (q_id toQueue)))) (\<lambda>_.
     and_then (emitQueueUpdate (c_tenant_id call) (c_queue_id call)) (\<lambda>_.
     and_then (routeWaitingCall (call\<lparr>c_queue_id := Some (q_id toQueue), c_agent_id := None\<rparr>)) (\<lambda>_.
     ret ())))))))))"

section \<open>Availability set by hand, resynced, repaired\<close>

definition setAvailability :: "nat \<Rightarrow> nat \<Rightarrow> nat \<Rightarrow> agent_availability \<Rightarrow> agent_availability option task" where
  "setAvailability tenantId actorId targetId availability =
     (if availability \<notin> {Av_AVAILABLE, Av_OFFLINE} then ret None
      else and_then (read (\<lambda>w. (agent_findById targetId (w_agents w), agent_findById actorId (w_agents w)))) (\<lambda>(found, actor).
      case found of
        None \<Rightarrow> ret None
      | Some target \<Rightarrow>
          if v_tenant_id target \<noteq> tenantId
             \<or> actorId \<noteq> targetId
               \<and> \<not> (case actor of None \<Rightarrow> False | Some x \<Rightarrow> v_role x = Role_SUPERVISOR \<and> v_tenant_id x = tenantId)
          then ret None
          else
            and_then (on_agents (\<lambda>now. updateAgentAvailability now targetId availability)) (\<lambda>_.
            let reported = (if v_busy_call_id target \<noteq> None then Av_ON_CALL else availability) in
            and_then (broadcast tenantId targetId reported (Some (v_availability target \<noteq> reported))) (\<lambda>_.
            and_then (only_when (reported = Av_AVAILABLE)
              (logged_failure (and_then (drainForTenant tenantId) (\<lambda>_. ret ())))) (\<lambda>_.
            and_then (logged_failure (emitAgentQueues tenantId targetId)) (\<lambda>_.
            ret (Some reported)))))))"

definition syncAgentAvailability :: "nat \<Rightarrow> nat \<Rightarrow> nat \<Rightarrow> unit task" where
  "syncAgentAvailability tenantId actorId targetId =
     logged_failure
       (and_then (read (\<lambda>w. (agent_findById targetId (w_agents w), agent_findById actorId (w_agents w)))) (\<lambda>(found, actor).
        case found of
          None \<Rightarrow> ret ()
        | Some target \<Rightarrow>
            if v_tenant_id target \<noteq> tenantId
               \<or> actorId \<noteq> targetId \<and> map_option v_role actor \<noteq> Some Role_SUPERVISOR then ret ()
            else
              and_then
                (case v_busy_call_id target of
                   None \<Rightarrow> ret (v_availability target)
                 | Some held \<Rightarrow>
                     if actorId \<noteq> targetId then ret (v_availability target)
                     else and_then (read (\<lambda>w. call_findById held (w_calls w))) (\<lambda>call.
                       if (case call of None \<Rightarrow> False | Some c \<Rightarrow> is_live c) then ret (v_availability target)
                       else and_then (on_agents (\<lambda>now. releaseFromCall targetId held)) (\<lambda>_.
                            read (\<lambda>w. nullish (map_option v_availability (agent_findById targetId (w_agents w)))
                              (v_availability target))))) (\<lambda>availability.
              and_then (broadcast tenantId targetId availability (Some (availability \<noteq> v_availability target))) (\<lambda>_.
              only_when (availability = Av_AVAILABLE)
                (and_then (drainForTenant tenantId) (\<lambda>assigned.
                 only_when (\<not> assigned) (emitAgentQueues tenantId targetId)))))))"

fun release_held :: "(nat \<times> nat \<times> nat) list \<Rightarrow> nat list \<Rightarrow> nat list task" where
  "release_held [] tenants = ret tenants"
| "release_held ((a, t, callId) # rest) tenants =
     and_then (on_agents (\<lambda>now. releaseFromCall a callId)) (\<lambda>released.
     if \<not> released then release_held rest tenants
     else and_then (broadcastCurrent a) (\<lambda>_.
          release_held rest (if t \<in> set tenants then tenants else tenants @ [t])))"

definition releaseAgentsOfEndedCalls :: "nat task" where
  "releaseAgentsOfEndedCalls =
     and_then (read (\<lambda>w. findHeldByEndedCalls 200 (w_agents w, w_calls w))) (\<lambda>held.
     and_then (release_held held []) (\<lambda>tenants.
     and_then (for_each (\<lambda>t. logged_failure (and_then (drainForTenant t) (\<lambda>_. ret ()))) tenants) (\<lambda>_.
     ret (length held))))"

end
