(* ===== verification/Lifecycle.thy ===== *)
theory Lifecycle
  imports AgentStore
begin

text \<open>
  What the guarded statements of the stores add up to when many workers run them: who ends a
  call, that a call that ended stays ended, and which write is not guarded. The contract of a
  write that ends a call is the locale \<open>finalizer\<close>; \<open>call_step\<close> is one statement of any
  worker on the \<open>calls\<close> table.
\<close>

section \<open>Keys\<close>

definition keyed :: "call list \<Rightarrow> bool" where
  "keyed calls \<longleftrightarrow> distinct (map c_id calls)"

lemma set_timestamp_id [simp]: "c_id (set_timestamp f v c) = c_id c"
  by (cases f) auto

lemma set_timestamp_fields [simp]:
  "c_status (set_timestamp f v c) = c_status c" "c_state (set_timestamp f v c) = c_state c"
  "c_agent_id (set_timestamp f v c) = c_agent_id c" "c_termination_reason (set_timestamp f v c) = c_termination_reason c"
  "c_ivr_flow_id (set_timestamp f v c) = c_ivr_flow_id c"
  by (cases f; simp)+

lemma fail_row_id [simp]: "c_id (fail_row now e p r b c) = c_id c"
  by (simp add: fail_row_def)

lemmas write_defs =
  updateStatus_def transitionStatus_def updateState_def markIvrAutoAccepted_def updateQueue_def
  correctNoAnswerIfAnswered_def fillQueueDuration_def markHandoverOffered_def claimHandover_def
  returnHandoverToQueue_def expireHandover_def updateCallAgentIfCurrent_def
  assignCallToAgentIfUnassigned_def assignCallToAgentIfEligible_def enterQueue_def withdrawOffer_def
  overflowToQueue_def markCallFailed_def markCallFailedIfNotFinal_def terminateCallIfNotTerminated_def
  patch_timing_def finalizeFromWebhook_def finalizeCallAsFailed_def

lemma keys_map_if [simp]:
  "(\<And>c. c_id (f c) = c_id c) \<Longrightarrow> map (c_id \<circ> (\<lambda>c. if p c then f c else c)) cs = map c_id cs"
  by (induction cs) auto

interpretation terminate_keys: table_write c_id "\<lambda>cs. fst (terminateCallIfNotTerminated now i r b e q cs)"
  for now i r b e q
  by unfold_locales (simp add: write_defs)

interpretation fail_keys: table_write c_id "\<lambda>cs. fst (markCallFailedIfNotFinal now i e p r b cs)"
  for now i e p r b
  by unfold_locales (simp add: write_defs)

interpretation webhook_keys: table_write c_id "\<lambda>cs. fst (finalizeFromWebhook now i s r b w cs)"
  for now i s r b w
  by unfold_locales (simp add: write_defs Let_def comp_assoc [symmetric])

interpretation withdraw_keys: table_write c_id "\<lambda>cs. fst (withdrawOffer now i a t cs)" for now i a t
  by unfold_locales (simp add: write_defs)

interpretation overflow_keys: table_write c_id "\<lambda>cs. fst (overflowToQueue now i f t a cs)" for now i f t a
  by unfold_locales (simp add: write_defs)

section \<open>Ending a call\<close>

text \<open>Every row of the call (there is at most one) is final.\<close>

definition ended :: "nat \<Rightarrow> call list \<Rightarrow> bool" where
  "ended i calls \<longleftrightarrow> (\<forall>c \<in> set calls. c_id c = i \<longrightarrow> is_final c)"

text \<open>
  The contract of an operation that ends call \<open>i\<close> and says whether it did: it says so only when
  the call was not final before and is final after, and no call that ended is revived.
\<close>

locale finalizer =
  fixes fin :: "call list \<Rightarrow> call list \<times> bool" and i :: nat
  assumes wins_live: "snd (fin cs) \<Longrightarrow> \<not> ended i cs"
    and wins_end: "keyed cs \<Longrightarrow> snd (fin cs) \<Longrightarrow> ended i (fst (fin cs))"
    and keeps_ended: "ended j cs \<Longrightarrow> ended j (fst (fin cs))"
    and keeps_keys: "keyed cs \<Longrightarrow> keyed (fst (fin cs))"
begin

lemma loses_when_ended: "ended i cs \<Longrightarrow> \<not> snd (fin cs)"
  using wins_live by blast

lemma not_both: "keyed cs \<Longrightarrow> snd (fin cs) \<Longrightarrow> \<not> snd (fin (fst (fin cs)))"
  using wins_end loses_when_ended by blast

end

lemma ended_map_iff:
  "ended j (map g cs) \<longleftrightarrow> (\<forall>c \<in> set cs. c_id (g c) = j \<longrightarrow> is_final (g c))"
  by (auto simp: ended_def)

lemma ended_map:
  assumes "\<And>c. c_id (f c) = c_id c" and "\<And>c. is_final c \<Longrightarrow> is_final (f c)"
  shows "ended j cs \<Longrightarrow> ended j (map (\<lambda>c. if p c then f c else c) cs)"
  using assms by (auto simp: ended_def)

lemma ended_map_same:
  assumes "\<And>c. c_id (f c) = c_id c" and "\<And>c. is_final (f c) = is_final c"
  shows "ended j (map (\<lambda>c. if p c then f c else c) cs) = ended j cs"
  using assms by (auto simp: ended_map_iff) (auto simp: ended_def)

lemma ended_update_wins:
  assumes "keyed cs" and "\<exists>c \<in> set cs. c_id c = i \<and> p c" and "\<And>c. c_id (f c) = c_id c" and "\<And>c. is_final (f c)"
  shows "ended i (map (\<lambda>c. if c_id c = i \<and> p c then f c else c) cs)"
  using assms distinct_key_eq [of c_id cs] by (auto simp: ended_map_iff keyed_def)

lemma fail_row_final [simp]: "is_final (fail_row now e p r b c)"
  by (simp add: fail_row_def is_final_def)

lemma terminated_final [simp]: "c_status c = St_TERMINATED \<Longrightarrow> is_final c"
  by (simp add: is_final_def)

interpretation terminate_fin: finalizer "terminateCallIfNotTerminated now i r b e q" i for now i r b e q
proof
  show "ended i (fst (terminateCallIfNotTerminated now i r b e q cs))"
    if "keyed cs" "snd (terminateCallIfNotTerminated now i r b e q cs)" for cs
    using that unfolding terminateCallIfNotTerminated_def affected_pair
    by (simp add: ended_update_wins [where p = "\<lambda>c. \<not> is_final c \<and> (case q of None \<Rightarrow> True | Some s \<Rightarrow> c_status c = s)"])
next
  show "ended j (fst (terminateCallIfNotTerminated now i r b e q cs))" if "ended j cs" for cs j
    using that by (simp add: terminateCallIfNotTerminated_def ended_map)
next
  show "keyed (fst (terminateCallIfNotTerminated now i r b e q cs))" if "keyed cs" for cs
    using that terminate_keys.distinct_kept by (simp add: keyed_def)
qed (auto simp: terminateCallIfNotTerminated_def affected_pair ended_def)

interpretation fail_fin: finalizer "markCallFailedIfNotFinal now i e p r b" i for now i e p r b
proof
  show "ended i (fst (markCallFailedIfNotFinal now i e p r b cs))"
    if "keyed cs" "snd (markCallFailedIfNotFinal now i e p r b cs)" for cs
    using that unfolding markCallFailedIfNotFinal_def affected_pair
    by (simp add: ended_update_wins)
next
  show "ended j (fst (markCallFailedIfNotFinal now i e p r b cs))" if "ended j cs" for cs j
    using that by (simp add: markCallFailedIfNotFinal_def ended_map)
next
  show "keyed (fst (markCallFailedIfNotFinal now i e p r b cs))" if "keyed cs" for cs
    using that fail_keys.distinct_kept by (simp add: keyed_def)
qed (auto simp: markCallFailedIfNotFinal_def affected_pair ended_def)

lemma ended_patch [simp]: "ended j (patch_timing now i w cs) = ended j cs"
  by (simp add: patch_timing_def ended_map_same is_final_def)

lemma ended_correct [simp]: "ended j (fst (correctNoAnswerIfAnswered now i cs)) = ended j cs"
  by (simp add: correctNoAnswerIfAnswered_def ended_map_same is_final_def)

lemma keyed_patch [simp]: "keyed (patch_timing now i w cs) = keyed cs"
  by (simp add: keyed_def patch_timing_def)

lemma webhook_finalizer:
  assumes s: "s \<in> {None, Some St_TERMINATED, Some St_FAILED}"
  shows "finalizer (finalizeFromWebhook now i s r b w) i"
proof
  have fin: "is_final (c\<lparr>c_status := nullish s St_TERMINATED, c_state := x, c_termination_reason := y,
      c_terminated_by := z, c_ended_at := u, c_updated_at := v\<rparr>)" for c x y z u v
    using s by (auto simp: is_final_def)
  note unf = finalizeFromWebhook_def Let_def fst_conv snd_conv ended_correct affected_pair
  show "\<not> ended i cs" if "snd (finalizeFromWebhook now i s r b w cs)" for cs
    using that ended_patch [of i now i w cs, symmetric] by (auto simp: unf ended_def)
  show "ended i (fst (finalizeFromWebhook now i s r b w cs))"
    if "keyed cs" "snd (finalizeFromWebhook now i s r b w cs)" for cs
    using that unfolding unf by (intro ended_update_wins) (auto simp: fin)
  show "ended j (fst (finalizeFromWebhook now i s r b w cs))" if "ended j cs" for cs j
    using that unfolding unf by (intro ended_map) (auto simp: fin)
  show "keyed (fst (finalizeFromWebhook now i s r b w cs))" if "keyed cs" for cs
    using that webhook_keys.distinct_kept by (simp add: keyed_def)
qed

interpretation webhook_fin: finalizer "finalizeFromWebhook now i (Some St_TERMINATED) r b w" i for now i r b w
  by (rule webhook_finalizer) simp

section \<open>One winner\<close>

text \<open>
  Every path that ends a call commits with one of three statements: \<open>CallTerminator.end\<close> with the
  first two, the provider's end with the third. A run is any sequence of them, by any workers, at
  any times; it counts how many were told that they ended the call.
\<close>

datatype end_attempt =
    EndTerminate "termination_reason option" terminated_by "int option" "call_status option"
  | EndFail "json option" "json option" termination_reason terminated_by
  | EndWebhook "termination_reason option" "terminated_by option" webhook_end

fun attempt :: "nat \<Rightarrow> int \<Rightarrow> end_attempt \<Rightarrow> call list \<Rightarrow> call list \<times> bool" where
  "attempt i now (EndTerminate r b e q) cs = terminateCallIfNotTerminated now i r b e q cs"
| "attempt i now (EndFail e p r b) cs = markCallFailedIfNotFinal now i e p r b cs"
| "attempt i now (EndWebhook r b w) cs = finalizeFromWebhook now i (Some St_TERMINATED) r b w cs"

fun run_attempts :: "nat \<Rightarrow> (int \<times> end_attempt) list \<Rightarrow> call list \<Rightarrow> call list \<times> nat" where
  "run_attempts i [] cs = (cs, 0)"
| "run_attempts i ((now, a) # rest) cs =
     (let r = attempt i now a cs; s = run_attempts i rest (fst r)
      in (fst s, (if snd r then 1 else 0) + snd s))"

lemma attempt_finalizer: "finalizer (attempt i now a) i"
proof (cases a)
  case (EndTerminate r b e q)
  then have "attempt i now a = terminateCallIfNotTerminated now i r b e q" by (simp add: fun_eq_iff)
  then show ?thesis by (simp add: terminate_fin.finalizer_axioms)
next
  case (EndFail e p r b)
  then have "attempt i now a = markCallFailedIfNotFinal now i e p r b" by (simp add: fun_eq_iff)
  then show ?thesis by (simp add: fail_fin.finalizer_axioms)
next
  case (EndWebhook r b w)
  then have "attempt i now a = finalizeFromWebhook now i (Some St_TERMINATED) r b w" by (simp add: fun_eq_iff)
  then show ?thesis by (simp add: webhook_fin.finalizer_axioms)
qed

lemmas attempt_contract =
  finalizer.wins_end [OF attempt_finalizer] finalizer.loses_when_ended [OF attempt_finalizer]
  finalizer.keeps_ended [OF attempt_finalizer] finalizer.keeps_keys [OF attempt_finalizer]

lemma run_attempts_after_end: "ended i cs \<Longrightarrow> snd (run_attempts i ts cs) = 0 \<and> ended i (fst (run_attempts i ts cs))"
  by (induction i ts cs rule: run_attempts.induct) (auto simp: Let_def attempt_contract)

lemma run_attempts_le_one: "keyed cs \<Longrightarrow> snd (run_attempts i ts cs) \<le> 1"
proof (induction i ts cs rule: run_attempts.induct)
  case (1 i cs)
  then show ?case by simp
next
  case (2 i now a rest cs)
  show ?case
  proof (cases "snd (attempt i now a cs)")
    case True
    then have "ended i (fst (attempt i now a cs))" by (rule attempt_contract(1) [OF "2.prems"])
    then show ?thesis using True by (simp add: Let_def run_attempts_after_end)
  next
    case False
    then show ?thesis using "2.IH" "2.prems" by (simp add: Let_def attempt_contract)
  qed
qed

text \<open>An attempt that asks for no particular status ends a call that is not final.\<close>

fun unconditional :: "end_attempt \<Rightarrow> bool" where
  "unconditional (EndTerminate _ _ _ q) = (q = None)"
| "unconditional _ = True"

lemma unconditional_wins: "\<not> ended i cs \<Longrightarrow> unconditional a \<Longrightarrow> snd (attempt i now a cs)"
  using ended_patch [of i now i _ cs]
  by (cases a) (auto simp: terminateCallIfNotTerminated_def markCallFailedIfNotFinal_def
      finalizeFromWebhook_def Let_def affected_pair ended_def)

lemma losing_changes_nothing:
  assumes "\<not> ended i cs" and "\<not> snd (attempt i now a cs)"
  shows "fst (attempt i now a cs) = cs"
proof -
  from assms unconditional_wins have "\<not> unconditional a" by blast
  then obtain r b e q where a: "a = EndTerminate r b e (Some q)" by (cases a) auto
  with assms(2) have "\<not> snd (terminateCallIfNotTerminated now i r b e (Some q) cs)" by simp
  then have "fst (terminateCallIfNotTerminated now i r b e (Some q) cs) = cs"
    unfolding terminateCallIfNotTerminated_def by (rule affected_lose)
  with a show ?thesis by simp
qed

lemma run_attempts_some_winner:
  "keyed cs \<Longrightarrow> \<not> ended i cs \<Longrightarrow> \<exists>t \<in> set ts. unconditional (snd t) \<Longrightarrow> 1 \<le> snd (run_attempts i ts cs)"
proof (induction i ts cs rule: run_attempts.induct)
  case (1 i cs)
  then show ?case by simp
next
  case (2 i now a rest cs)
  show ?case
  proof (cases "snd (attempt i now a cs)")
    case True
    then show ?thesis by (simp add: Let_def)
  next
    case False
    with "2.prems" have rest: "\<exists>t \<in> set rest. unconditional (snd t)" using unconditional_wins by auto
    have "\<not> ended i (fst (attempt i now a cs))"
      using False "2.prems"(2) losing_changes_nothing by simp
    then show ?thesis using "2.IH" rest "2.prems"(1) by (simp add: Let_def attempt_contract)
  qed
qed



section \<open>Ended calls stay ended\<close>

text \<open>
  One statement on the \<open>calls\<close> table by any worker, except the two that write \<open>status\<close> with no
  guard at all (\<open>updateStatus\<close> and the IVR's \<open>ivr_updateCallState\<close>) and \<open>markCallFailed\<close>, which nothing
  calls. \<open>updateState\<close> is only ever called with NULL or \<open>ACTIVE\<close>.
\<close>

inductive call_step :: "call list \<Rightarrow> call list \<Rightarrow> bool" where
  cs_create: "i \<notin> c_id ` set cs \<Longrightarrow> call_create i now d cs = Inr (cs', i) \<Longrightarrow> call_step cs cs'"
| cs_transition: "e \<in> set live_statuses \<Longrightarrow> call_step cs (fst (transitionStatus now i e s cs))"
| cs_state: "st \<noteq> Some IVR \<Longrightarrow> call_step cs (updateState now i st cs)"
| cs_ivr_accepted: "call_step cs (fst (markIvrAutoAccepted now i cs))"
| cs_provider_id: "updateProviderCallId now i p cs = Inr cs' \<Longrightarrow> call_step cs cs'"
| cs_queue: "call_step cs (updateQueue now i q cs)"
| cs_timestamp: "updateTimestamp now i f t cs = Inr cs' \<Longrightarrow> call_step cs cs'"
| cs_queue_duration: "call_step cs (fillQueueDuration now acc i cs)"
| cs_handover_offered: "call_step cs (markHandoverOffered now i a cs)"
| cs_handover_claimed: "call_step cs (fst (claimHandover now i a cs))"
| cs_handover_returned: "call_step cs (fst (returnHandoverToQueue now i a t cs))"
| cs_handover_expired: "call_step cs (fst (expireHandover now i a t cs))"
| cs_agent_changed: "call_step cs (fst (updateCallAgentIfCurrent now i old new cs))"
| cs_assigned: "call_step cs (fst (assignCallToAgentIfUnassigned now i a cs))"
| cs_accepted: "call_step cs (fst (assignCallToAgentIfEligible now i a cs))"
| cs_enter_queue: "call_step cs (enterQueue now i q cs)"
| cs_withdrawn: "call_step cs (fst (withdrawOffer now i a t cs))"
| cs_overflow: "call_step cs (fst (overflowToQueue now i f t a cs))"
| cs_ended: "call_step cs (fst (attempt i now a cs))"
| cs_provider_failed: "call_step cs (fst (finalizeCallAsFailed now i b w cs))"
| cs_corrected: "call_step cs (fst (correctNoAnswerIfAnswered now i cs))"
| cs_failure_details: "call_step cs (updateFailureDetails now i d cs)"
| cs_failed_by: "call_step cs (updateTerminatedByIfFailed now i b cs)"

text \<open>
  The invariant that makes the guard of \<open>markIvrAutoAccepted\<close> (\<open>state = 'IVR'\<close>, not a status)
  enough: a call that ended is never in the IVR.
\<close>

definition settled_row :: "call \<Rightarrow> bool" where
  "settled_row c \<longleftrightarrow> is_final c \<and> c_state c \<noteq> Some IVR"

definition settled :: "nat \<Rightarrow> call list \<Rightarrow> bool" where
  "settled i cs \<longleftrightarrow> i \<in> c_id ` set cs \<and> (\<forall>c \<in> set cs. c_id c = i \<longrightarrow> settled_row c)"

lemma settled_map:
  assumes "settled j cs" and "\<And>c. c_id (f c) = c_id c" and "\<And>c. p c \<Longrightarrow> settled_row c \<Longrightarrow> settled_row (f c)"
  shows "settled j (map (\<lambda>c. if p c then f c else c) cs)"
proof -
  have "map c_id (map (\<lambda>c. if p c then f c else c) cs) = map c_id cs"
    using assms(2) by (induction cs) auto
  then have ids: "c_id ` set (map (\<lambda>c. if p c then f c else c) cs) = c_id ` set cs"
    by (metis set_map)
  show ?thesis unfolding settled_def ids
    using assms by (auto simp: settled_def)
qed

lemma settled_patch: "settled j cs \<Longrightarrow> settled j (patch_timing now i w cs)"
  by (auto simp: patch_timing_def settled_row_def is_final_def intro!: settled_map)

lemma settled_correct: "settled j cs \<Longrightarrow> settled j (fst (correctNoAnswerIfAnswered now i cs))"
  by (auto simp: correctNoAnswerIfAnswered_def settled_row_def is_final_def intro!: settled_map)

lemma settled_attempt: "settled j cs \<Longrightarrow> settled j (fst (attempt i now a cs))"
  by (cases a)
    (auto simp: terminateCallIfNotTerminated_def markCallFailedIfNotFinal_def finalizeFromWebhook_def Let_def
      settled_row_def is_final_def fail_row_def intro!: settled_map settled_correct settled_patch)

lemma live_not_settled [simp]: "is_live c \<Longrightarrow> \<not> settled_row c"
  by (auto simp: settled_row_def dest: live_not_final)

lemma settled_timestamp:
  assumes "updateTimestamp now i f t cs = Inr cs'" and "settled j cs"
  shows "settled j cs'"
proof -
  obtain g where "parse_timestamp_field f = Some g"
    using assms(1) by (auto simp: updateTimestamp_def split: option.splits)
  then show ?thesis using assms
    by (auto simp: updateTimestamp_def Let_def settled_row_def is_final_def split: if_splits
        intro!: settled_correct settled_map)
qed

lemma call_step_settled: "call_step cs cs' \<Longrightarrow> settled j cs \<Longrightarrow> settled j cs'"
proof (induction rule: call_step.induct)
  case (cs_create i cs now d cs')
  then have "cs' = cs @ [call_row i now d]" by (auto simp: call_create_def split: if_splits)
  then show ?case using cs_create by (auto simp: settled_def call_row_def)
next
  case (cs_transition e cs now i s)
  then show ?case
    by (auto simp: transitionStatus_def live_statuses_def settled_row_def is_final_def intro!: settled_map)
next
  case (cs_timestamp now i f t cs cs')
  then show ?case by (rule settled_timestamp)
next
  case (cs_provider_id now i p cs cs')
  then show ?case
    by (auto simp: updateProviderCallId_def settled_row_def is_final_def split: if_splits intro!: settled_map)
next
  case (cs_queue_duration cs now acc i)
  then show ?case
    by (auto simp: fillQueueDuration_def Let_def settled_row_def is_final_def split: option.splits intro!: settled_map)
next
  case (cs_ended cs i now a)
  then show ?case by (simp add: settled_attempt)
next
  case (cs_provider_failed cs now i b w)
  then show ?case
    by (auto simp: finalizeCallAsFailed_def settled_row_def is_final_def intro!: settled_map settled_patch)
next
  case (cs_corrected cs now i)
  then show ?case by (rule settled_correct)
next
  case (cs_state st cs now i)
  then show ?case by (auto simp: updateState_def settled_row_def is_final_def intro!: settled_map)
next
  case (cs_ivr_accepted cs now i)
  then show ?case by (auto simp: markIvrAutoAccepted_def settled_row_def is_final_def intro!: settled_map)
next
  case (cs_queue cs now i q)
  then show ?case by (auto simp: updateQueue_def settled_row_def is_final_def intro!: settled_map)
next
  case (cs_handover_offered cs now i a)
  then show ?case by (auto simp: markHandoverOffered_def settled_row_def is_final_def intro!: settled_map)
next
  case (cs_handover_claimed cs now i a)
  then show ?case by (auto simp: claimHandover_def settled_row_def is_final_def intro!: settled_map)
next
  case (cs_handover_returned cs now i a t)
  then show ?case by (auto simp: returnHandoverToQueue_def settled_row_def is_final_def intro!: settled_map)
next
  case (cs_handover_expired cs now i a t)
  then show ?case by (auto simp: expireHandover_def settled_row_def is_final_def intro!: settled_map)
next
  case (cs_agent_changed cs now i old new)
  then show ?case by (auto simp: updateCallAgentIfCurrent_def intro!: settled_map)
next
  case (cs_assigned cs now i a)
  then show ?case
    by (auto simp: assignCallToAgentIfUnassigned_def assignable_def settled_row_def is_final_def intro!: settled_map)
next
  case (cs_accepted cs now i a)
  then show ?case by (auto simp: assignCallToAgentIfEligible_def intro!: settled_map)
next
  case (cs_enter_queue cs now i q)
  then show ?case by (auto simp: enterQueue_def settled_row_def is_final_def intro!: settled_map)
next
  case (cs_withdrawn cs now i a t)
  then show ?case by (auto simp: withdrawOffer_def settled_row_def is_final_def intro!: settled_map)
next
  case (cs_overflow cs now i f t a)
  then show ?case by (auto simp: overflowToQueue_def settled_row_def is_final_def intro!: settled_map)
next
  case (cs_failure_details cs now i d)
  then show ?case by (auto simp: updateFailureDetails_def settled_row_def is_final_def intro!: settled_map)
next
  case (cs_failed_by cs now i b)
  then show ?case by (auto simp: updateTerminatedByIfFailed_def settled_row_def is_final_def intro!: settled_map)
qed

interpretation calls_run: transition_system "settled j" call_step "settled j" for j
  by unfold_locales (auto intro: call_step_settled)

text \<open>
  C2: A call that ended stays ended. Whatever statements any workers run on the calls table, in any
  order (offers, claims, accepts, handovers, queue timeouts, IVR accepts, further ends), a call
  that has ended and left the IVR is still ended afterwards, and still not in the IVR.
\<close>

theorem ended_calls_stay_ended:
  assumes "settled i cs" and "call_step\<^sup>*\<^sup>* cs cs'"
  shows "settled i cs'"
  using assms by (rule calls_run.inv_run)

theorem ended_calls_stay_ended_witness:
  "settled 4 (fst (assignCallToAgentIfUnassigned 9 4 2 [(example_call 4)\<lparr>c_status := St_FAILED\<rparr>]))"
proof (rule ended_calls_stay_ended)
  show "settled 4 [(example_call 4)\<lparr>c_status := St_FAILED\<rparr>]"
    by (simp add: settled_def settled_row_def is_final_def)
  show "call_step\<^sup>*\<^sup>* [(example_call 4)\<lparr>c_status := St_FAILED\<rparr>]
          (fst (assignCallToAgentIfUnassigned 9 4 2 [(example_call 4)\<lparr>c_status := St_FAILED\<rparr>]))"
    by (rule r_into_rtranclp) (rule cs_assigned)
qed

text \<open>
  C36: The IVR's transfer writes state QUEUE and status RINGING with no guard on the status, so it
  revives a call that ended while the IVR was handing it over: whatever the row said before, the
  call is ringing again, and with no agent on it, it is waiting in its queue to be offered.
\<close>

theorem ivr_transfer_revives_ended_call:
  assumes "c \<in> set cs" and "c_id c = i" and "c_agent_id c = None" and "c_direction c = INBOUND"
  shows "\<exists>c' \<in> set (ivr_updateCallState now i (Some QUEUE) (Some St_RINGING) cs).
           c_id c' = i \<and> waiting_in_queue c'"
proof -
  let ?f = "\<lambda>c. c\<lparr>c_state := Some QUEUE, c_status := St_RINGING, c_ringing_at := Some (nullish (c_ringing_at c) now),
               c_updated_at := now\<rparr>"
  have "?f c \<in> set (ivr_updateCallState now i (Some QUEUE) (Some St_RINGING) cs)"
    using assms(1,2) by (auto simp: ivr_updateCallState_def)
  then show ?thesis using assms by (intro bexI [of _ "?f c"]) (auto simp: waiting_in_queue_def)
qed

theorem ivr_transfer_revives_ended_call_witness:
  "ended 4 [(example_call 4)\<lparr>c_status := St_TERMINATED\<rparr>]
   \<and> (\<exists>c' \<in> set (ivr_updateCallState 9 4 (Some QUEUE) (Some St_RINGING) [(example_call 4)\<lparr>c_status := St_TERMINATED\<rparr>]).
        c_id c' = 4 \<and> waiting_in_queue c')"
  using ivr_transfer_revives_ended_call [of "(example_call 4)\<lparr>c_status := St_TERMINATED\<rparr>"
      "[(example_call 4)\<lparr>c_status := St_TERMINATED\<rparr>]" 4 9]
  by (simp add: ended_def is_final_def)

end
