(* ===== verification/AssignmentRuns.thy ===== *)
theory AssignmentRuns
  imports Assignment Lifecycle
begin

text \<open>
  What holds of every run of the coordinator's methods, whatever they return or throw and whatever
  other workers do in between. \<open>announcing_relation\<close> lists the effects of the methods that only
  announce (events, logs, snapshots, offers made), \<open>routing_relation\<close> those of all of them; the
  lemmas lift a fact about each effect to every method.
\<close>

locale announcing_relation = effect_relation R for R :: "world \<Rightarrow> world \<Rightarrow> bool" +
  assumes trace_appended: "routing_effect e \<Longrightarrow> R w (w\<lparr>w_trace := w_trace w @ [e]\<rparr>)"
    and order_free: "R w (w\<lparr>w_order := od\<rparr>)"
    and streak_free: "R w (w\<lparr>w_streak := sk\<rparr>)"
    and sdp_free: "R w (w\<lparr>w_legs := lg\<rparr>)"
    and history_free: "R w (w\<lparr>w_history := hi\<rparr>)"
begin

lemma run_emit: "routing_effect e \<Longrightarrow> runs_in R (emit e)"
  unfolding emit_def by (rule run_change) (rule trace_appended)

lemma run_write_log: "runs_in R (write_log f)"
  by (auto simp: runs_in_def write_log_def stays history_free split: sum.split)

lemma run_streak: "runs_in R (streak_increment a)" "runs_in R (streak_reset a)"
  by (simp_all add: runs_in_def streak_increment_def streak_reset_def statement_def change_def streak_free)

lemma run_snapshot: "runs_in R (buildQueueSnapshot queue members)"
  unfolding buildQueueSnapshot_def by (rule run_statement) (simp add: Let_def order_free)

lemma run_emitQueueUpdate: "runs_in R (emitQueueUpdate t q)"
  unfolding emitQueueUpdate_def by (intro run_rules run_emit run_write_log run_snapshot; simp)

lemma run_emitAgentQueues: "runs_in R (emitAgentQueues t a)"
  unfolding emitAgentQueues_def by (intro run_rules run_emit run_write_log run_emitQueueUpdate; simp)

lemma run_broadcast: "runs_in R (broadcast t a av ch)" "runs_in R (broadcastCurrent a)"
  unfolding broadcastCurrent_def broadcast_def by (intro run_rules run_emit run_write_log; simp)+

lemma run_on_legs: "runs_in R (on_legs f)"
  by (simp add: runs_in_def on_legs_def Let_def sdp_free)

lemma run_agentOffer: "runs_in R (agentOffer c)"
  unfolding agentOffer_def by (intro run_rules run_on_legs)

lemma run_emitIncoming: "runs_in R (emitIncoming c opt)"
  unfolding emitIncoming_def by (intro run_rules run_emit run_write_log; simp)

lemma run_deliver: "runs_in R (deliverAssignedCall call a nm asg)"
  unfolding deliverAssignedCall_def by (intro run_rules run_emit run_write_log run_agentOffer run_emitIncoming run_broadcast; simp)

end

text \<open>
  The methods that claim only for members the offer history allows. \<open>may\<close> is the least the
  relation asks of a claim: it has to allow every member who has not declined the call.
\<close>

lemma pick_store:
  "\<exists>ms'. fst (fst (pick now strategy ms claim (s, r))) = fst (claim_first claim ms' s) \<and> set ms' \<subseteq> set ms"
proof -
  have in_order: "fst (fst (claimInOrder claim cs (s, r'))) = fst (claim_first claim cs s)" for cs r'
    by (auto simp: claimInOrder_def split: prod.splits option.splits)
  show ?thesis
  proof (cases "strategy \<noteq> PRIORITY \<and> \<not> list_ex is_available ms")
    case True
    then have "fst (fst (pick now strategy ms claim (s, r))) = fst (claim_first claim [] s)"
      by (simp add: pick_def pickRoundRobin_def)
    then show ?thesis by (intro exI [of _ "[]"]) simp
  next
    case False
    let ?cs = "if strategy = PRIORITY then priority_order ms else fst (reconcileQueueOrder now ms r)"
    have "fst (fst (pick now strategy ms claim (s, r))) = fst (claim_first claim ?cs s)"
      using False in_order by (auto simp: pick_def pickPriority_def pickRoundRobin_def split: prod.split)
    moreover have "set ?cs \<subseteq> set ms"
      by (auto simp: priority_order_def reconcile_members)
    ultimately show ?thesis by blast
  qed
qed

locale drain_relation = announcing_relation R for R :: "world \<Rightarrow> world \<Rightarrow> bool" +
  fixes may :: "offer_sets \<Rightarrow> nat \<Rightarrow> bool"
  assumes undeclined_may: "a \<notin> set (declined_by h) \<Longrightarrow> may h a"
    and offers_eligible: "R w (w\<lparr>w_offers := snd (eligible c ms (w_offers w))\<rparr>)"
    and offers_recorded: "R w (w\<lparr>w_offers := offer_record c a k (w_offers w)\<rparr>)"
    and offers_cleared: "R w (w\<lparr>w_offers := clearMissed c (w_offers w)\<rparr>)"
    and others_run: "R w (others_step w)"
    and claim_made: "may (w_offers w c) a \<Longrightarrow> R w (w\<lparr>w_agents := fst (fst (claimAgentAndAssignCall (now_s w) False a c (w_agents w, w_calls w))),
                             w_calls := snd (fst (claimAgentAndAssignCall (now_s w) False a c (w_agents w, w_calls w)))\<rparr>)"
    and released: "R w (w\<lparr>w_agents := fst (releaseFromCall a c (w_agents w))\<rparr>)"
    and shift_set: "R w (w\<lparr>w_agents := fst (updateAgentAvailability (now_s w) a av (w_agents w))\<rparr>)"
    and offer_withdrawn: "R w (w\<lparr>w_calls := fst (withdrawOffer (now_s w) c a tm (w_calls w))\<rparr>)"
begin

lemma run_others: "runs_in R let_others_run"
  unfolding let_others_run_def by (rule run_change) (rule others_run)

lemma run_eligible:
  "runs_in R (statement (\<lambda>w. eligible_step c (ms w) w))"
  by (simp add: runs_in_def statement_def eligible_step_def Let_def offers_eligible)

lemma run_release: "runs_in R (on_agents (\<lambda>now. releaseFromCall a c))"
  by (simp add: runs_in_def on_agents_def statement_def Let_def released)

lemma run_shift: "runs_in R (on_agents (\<lambda>now. updateAgentAvailability now a av))"
  by (simp add: runs_in_def on_agents_def statement_def Let_def shift_set)

lemma run_withdraw: "runs_in R (on_calls (\<lambda>now. withdrawOffer now c a tm))"
  by (simp add: runs_in_def on_calls_def statement_def Let_def offer_withdrawn)

lemma run_record_offer: "runs_in R (on_offers (offer_record c a k))" "runs_in R (on_offers (clearMissed c))"
  by (simp_all add: runs_in_def on_offers_def change_def offers_recorded offers_cleared)

text \<open>The loop of \<open>#claimInOrder\<close>: each claim is made on the tables the one before left.\<close>

lemma claims_in_order:
  assumes "\<forall>m \<in> set ms. may (w_offers w c) (mb_id m)"
  shows "R w (w\<lparr>w_agents := fst (fst (fst (claim_first (claim_waiting (now_s w) c) ms ((w_agents w, w_calls w), b)))),
          w_calls := snd (fst (fst (claim_first (claim_waiting (now_s w) c) ms ((w_agents w, w_calls w), b))))\<rparr>)"
  using assms
proof (induction ms arbitrary: w b)
  case Nil
  then show ?case by (simp add: stays)
next
  case (Cons m ms)
  let ?r = "claimAgentAndAssignCall (now_s w) False (mb_id m) c (w_agents w, w_calls w)"
  let ?w = "w\<lparr>w_agents := fst (fst ?r), w_calls := snd (fst ?r)\<rparr>"
  have made: "R w ?w" using Cons.prems by (intro claim_made) simp
  have "now_s ?w = now_s w" by (simp add: now_s_def)
  then have "R ?w (?w\<lparr>w_agents := fst (fst (fst (claim_first (claim_waiting (now_s w) c) ms (fst ?r, b')))),
                     w_calls := snd (fst (fst (claim_first (claim_waiting (now_s w) c) ms (fst ?r, b'))))\<rparr>)" for b'
    using Cons.IH [of ?w b'] Cons.prems by simp
  then have rest: "R w (w\<lparr>w_agents := fst (fst (fst (claim_first (claim_waiting (now_s w) c) ms (fst ?r, b')))),
                     w_calls := snd (fst (fst (claim_first (claim_waiting (now_s w) c) ms (fst ?r, b'))))\<rparr>)" for b'
    using chains [OF made] by simp
  have step: "fst (claim_waiting (now_s w) c (mb_id m) ((w_agents w, w_calls w), b))
      = (fst ?r, b \<or> claimed (snd ?r) \<and> \<not> assigned (snd ?r))"
    by (simp add: claim_waiting_def Let_def)
  show ?case using made rest by (simp add: Let_def step)
qed

lemma pick_claims:
  assumes "\<forall>m \<in> set pool. may (w_offers w c) (mb_id m)"
  shows "R w (fst (claim_step queue c pool w))"
proof -
  let ?p = "pick (w_now w) (q_strategy queue) pool (claim_waiting (now_s w) c)
              (((w_agents w, w_calls w), False), w_order w (q_id queue))"
  obtain ms where ms: "fst (fst ?p) = fst (claim_first (claim_waiting (now_s w) c) ms ((w_agents w, w_calls w), False))"
      "set ms \<subseteq> set pool"
    using pick_store [of "w_now w" "q_strategy queue" pool "claim_waiting (now_s w) c"
        "((w_agents w, w_calls w), False)" "w_order w (q_id queue)"] by blast
  have "\<forall>m \<in> set ms. may (w_offers w c) (mb_id m)" using assms ms(2) by blast
  from claims_in_order [OF this, of False]
  have "R w (w\<lparr>w_agents := fst (fst (fst (fst ?p))), w_calls := snd (fst (fst (fst ?p)))\<rparr>)"
    by (simp add: ms(1))
  from chains [OF this order_free] show ?thesis by (simp add: claim_step_def case_prod_beta)
qed

text \<open>A claim for a call offered only to the members its history allows.\<close>

lemma run_eligible_claim:
  assumes "\<And>x. runs_in R (f x)"
  shows "runs_in R (and_then (statement (eligible_step c ms))
    (\<lambda>allowed. and_then (claimForWaitingCall queue c (Some allowed)) f))"
  unfolding runs_in_def
proof
  fix w :: world
  let ?e = "eligible c ms (w_offers w)"
  let ?w2 = "others_step (w\<lparr>w_offers := snd ?e\<rparr>)"
  let ?r = "claim_step queue c (fst ?e) ?w2"
  have "declined_by (snd ?e c) = declined_by (w_offers w c)"
    by (auto simp: eligible_def Let_def clearMissed_def)
  moreover have "w_offers ?w2 = snd ?e"
    by (simp add: others_step_def split: list.split)
  ultimately have "\<forall>m \<in> set (fst ?e). may (w_offers ?w2 c) (mb_id m)"
    using eligible_members undeclined_may by fastforce
  then have "R w (fst ?r)"
    using chains [OF chains [OF offers_eligible others_run] pick_claims] by blast
  then have "R w (snd (f (snd ?r) (fst ?r)))"
    using assms chains unfolding runs_in_def by blast
  then show "R w (snd (and_then (statement (eligible_step c ms))
    (\<lambda>allowed. and_then (claimForWaitingCall queue c (Some allowed)) f) w))"
    by (simp add: claimForWaitingCall_def let_others_run_def and_then_assoc eligible_step_def Let_def)
qed

lemmas primitives = run_emit run_others run_write_log run_eligible run_release run_shift run_withdraw run_record_offer

lemma run_recordMiss: "runs_in R (recordMiss c t q a any)"
  unfolding recordMiss_def by (intro run_rules primitives run_streak; simp)

lemma run_releaseAgent: "runs_in R (releaseAgent a c offline)"
  unfolding releaseAgent_def by (intro run_rules primitives run_broadcast run_emitAgentQueues; simp)

lemma run_offerToAll: "runs_in R (offerToAll q c)"
  unfolding offerToAll_def by (intro run_rules primitives run_agentOffer run_emitIncoming; simp)

lemma run_drain_calls: "runs_in R (drain_calls q ms cs b)"
proof (induction cs arbitrary: b)
  case Nil
  show ?case by (simp add: run_ret)
next
  case (Cons c cs)
  show ?case unfolding drain_calls.simps
    by (intro run_eligible_claim run_rules primitives run_deliver run_emitQueueUpdate Cons.IH; simp)
qed

lemma run_drained:
  "runs_in R m \<Longrightarrow> (\<And>b. runs_in R (f b)) \<Longrightarrow> runs_in R (case d of AssignedOne \<Rightarrow> m | NoneAssigned b \<Rightarrow> f b)"
  by (cases d) auto

lemma run_drain_attempts: "runs_in R (drain_attempts n q)"
proof (induction n)
  case 0
  show ?case by (simp add: run_ret)
next
  case (Suc n)
  show ?case unfolding drain_attempts.simps
    by (intro run_rules run_drained primitives run_drain_calls Suc.IH; simp)
qed

lemma run_drainQueue: "runs_in R (drainQueue q)"
  by (simp add: drainQueue_def run_drain_attempts)

lemma run_drain_queues: "runs_in R (drain_queues qs b)"
proof (induction qs arbitrary: b)
  case Nil
  show ?case by (simp add: run_ret)
next
  case (Cons q qs)
  show ?case unfolding drain_queues.simps
    by (intro run_rules primitives run_drainQueue Cons.IH; simp)
qed

lemma run_drainForTenant: "runs_in R (drainForTenant t)" "runs_in R (assignOldestUnassignedCall t)"
  unfolding assignOldestUnassignedCall_def drainForTenant_def by (intro run_rules run_drain_queues; simp)+

lemma run_routeWaitingCall: "runs_in R (routeWaitingCall call)"
  unfolding routeWaitingCall_def
  by (intro run_rules primitives run_offerToAll run_emitQueueUpdate run_drainQueue; simp)

lemma run_target:
  "(\<And>i. runs_in R (f i)) \<Longrightarrow> (\<And>q. runs_in R (g q)) \<Longrightarrow> runs_in R (case t of ToAgent i \<Rightarrow> f i | ToQueue q \<Rightarrow> g q)"
  by (cases t) auto

lemma run_passOffer: "runs_in R (passOffer call a k tm)"
  unfolding passOffer_def
  by (intro run_rules primitives run_releaseAgent run_recordMiss run_routeWaitingCall; simp)

lemma run_callOverflowed: "runs_in R (callOverflowed call wt q)"
  unfolding callOverflowed_def
  by (intro run_rules primitives run_releaseAgent run_emitQueueUpdate run_routeWaitingCall; simp)

lemma run_setAvailability: "runs_in R (setAvailability t x y av)"
  unfolding setAvailability_def Let_def
  by (intro run_rules primitives run_broadcast run_drainForTenant run_emitAgentQueues; simp)

lemma run_syncAgentAvailability: "runs_in R (syncAgentAvailability t x y)"
  unfolding syncAgentAvailability_def
  by (intro run_rules primitives run_broadcast run_drainForTenant run_emitAgentQueues; simp)

lemma run_release_held: "runs_in R (release_held hs ts)"
proof (induction hs arbitrary: ts)
  case Nil
  show ?case by (simp add: run_ret)
next
  case (Cons h hs)
  obtain a t c where "h = (a, t, c)" by (cases h)
  then show ?case
    by (simp only: release_held.simps) (intro run_rules primitives run_broadcast Cons.IH)
qed

lemma run_releaseAgentsOfEndedCalls: "runs_in R releaseAgentsOfEndedCalls"
  unfolding releaseAgentsOfEndedCalls_def by (intro run_rules run_release_held run_drainForTenant; simp)

end

text \<open>The methods that may claim any member: new and transferred calls are offered to nobody yet.\<close>

locale routing_relation = drain_relation R "\<lambda>_ _. True" for R :: "world \<Rightarrow> world \<Rightarrow> bool" +
  assumes held_for_transfer: "R w (w\<lparr>w_agents := fst (fst (claimAgentForCall a c (w_agents w, w_calls w)))\<rparr>)"
begin

lemma run_claim: "runs_in R (on_db (\<lambda>now. claimAgentAndAssignCall now False a c))"
  by (simp add: runs_in_def on_db_def statement_def Let_def claim_made)

lemma run_claimForWaitingCall: "runs_in R (claimForWaitingCall queue c members)"
  unfolding claimForWaitingCall_def
  by (intro run_and_then run_read run_others run_statement pick_claims; simp)

lemma holds_in_order:
  "snd (fst (claim_first (\<lambda>a db. claimAgentForCall a c db) ms (w_agents w, w_calls w))) = w_calls w
   \<and> R w (w\<lparr>w_agents := fst (fst (claim_first (\<lambda>a db. claimAgentForCall a c db) ms (w_agents w, w_calls w)))\<rparr>)"
proof (induction ms arbitrary: w)
  case Nil
  then show ?case by (simp add: stays)
next
  case (Cons m ms)
  let ?r = "claimAgentForCall (mb_id m) c (w_agents w, w_calls w)"
  let ?w = "w\<lparr>w_agents := fst (fst ?r)\<rparr>"
  have same: "snd (fst ?r) = w_calls w" by (simp add: claimAgentForCall_def Let_def)
  then have "(w_agents ?w, w_calls ?w) = fst ?r" by (simp add: prod_eq_iff)
  then show ?case
    using Cons.IH [of ?w] same held_for_transfer [of w "mb_id m" c] chains [OF held_for_transfer [of w "mb_id m" c]]
    by (auto simp: Let_def)
qed

lemma run_claimMemberForTransfer: "runs_in R (claimMemberForTransfer queue c ex)"
proof -
  have "R w (fst (case pick (w_now w) st ms (\<lambda>a db. claimAgentForCall a c db) ((w_agents w, w_calls w), w_order w (q_id queue)) of
         ((db, r), agent) \<Rightarrow>
           (w\<lparr>w_agents := fst db, w_calls := snd db, w_order := (w_order w)(q_id queue := r)\<rparr>, agent)))" for w st ms
  proof -
    let ?p = "pick (w_now w) st ms (\<lambda>a db. claimAgentForCall a c db) ((w_agents w, w_calls w), w_order w (q_id queue))"
    obtain ms' where ms: "fst (fst ?p) = fst (claim_first (\<lambda>a db. claimAgentForCall a c db) ms' (w_agents w, w_calls w))"
      using pick_store [of "w_now w" st ms "\<lambda>a. claimAgentForCall a c" "(w_agents w, w_calls w)" "w_order w (q_id queue)"]
      by blast
    from holds_in_order [of c ms' w]
    have "snd (fst (fst ?p)) = w_calls w" "R w (w\<lparr>w_agents := fst (fst (fst ?p))\<rparr>)"
      by (simp_all add: ms)
    from this(1) chains [OF this(2) order_free] show ?thesis by (simp add: case_prod_beta)
  qed
  then show ?thesis unfolding claimMemberForTransfer_def
    by (intro run_and_then run_read run_others run_statement; simp)
qed

lemma run_claimForNewCall: "runs_in R (claimForNewCall queue c)"
  unfolding claimForNewCall_def by (intro run_rules primitives run_claimForWaitingCall; simp)

lemma run_assignTransferredCall: "runs_in R (assignTransferredCall c call t target)"
  unfolding assignTransferredCall_def Let_def
  by (intro run_rules run_target primitives run_claim run_claimForWaitingCall run_offerToAll run_emitQueueUpdate run_deliver; simp)

end

end
