(* ===== verification/AssignmentFacts.thy ===== *)
theory AssignmentFacts
  imports AssignmentRuns
begin

text \<open>
  Properties of the coordinator (\<open>src/src/core/routing/AgentAssignmentCoordinator.js\<close>) and of the
  claims of \<open>QueueRouter.js\<close>: what no run of them can do, and what a drain assigns.
\<close>

section \<open>Announcing changes no table\<close>

definition tables :: "world \<Rightarrow> agent list \<times> call list \<times> queue list \<times> queue_member list" where
  "tables w = (w_agents w, w_calls w, w_queues w, w_members w)"

definition announces_only :: "world \<Rightarrow> world \<Rightarrow> bool" where
  "announces_only w w' \<longleftrightarrow> tables w' = tables w \<and> w_offers w' = w_offers w \<and> w_others w' = w_others w
     \<and> w_now w' = w_now w"

interpretation announced: announcing_relation announces_only
  by unfold_locales (auto simp: announces_only_def tables_def)

lemma deliver_tables: "announces_only w (snd (deliverAssignedCall call a nm asg w))"
  using announced.run_deliver by (simp add: runs_in_def)

lemma queue_update_tables: "announces_only w (snd (emitQueueUpdate t q w))"
  using announced.run_emitQueueUpdate by (simp add: runs_in_def)

section \<open>Only guarded statements\<close>

text \<open>Other workers run guarded statements only.\<close>

definition disciplined :: "world \<Rightarrow> bool" where
  "disciplined w \<longleftrightarrow> (\<forall>f \<in> set (w_others w). \<forall>a c. call_step\<^sup>*\<^sup>* c (snd (f (a, c))))"

definition guarded_run :: "world \<Rightarrow> world \<Rightarrow> bool" where
  "guarded_run w w' \<longleftrightarrow> (disciplined w \<longrightarrow> disciplined w' \<and> call_step\<^sup>*\<^sup>* (w_calls w) (w_calls w'))"

lemma claim_is_assignment:
  "snd (fst (claimAgentAndAssignCall now any a c db)) = snd db
   \<or> snd (fst (claimAgentAndAssignCall now any a c db)) = fst (assignCallToAgentIfUnassigned now c a (snd db))"
  by (simp add: claim_outcome assignCallToAgentIfUnassigned_def)

lemma claim_is_step: "call_step\<^sup>*\<^sup>* (snd db) (snd (fst (claimAgentAndAssignCall now any a c db)))"
  using claim_is_assignment [of now any a c db] by (metis cs_assigned r_into_rtranclp rtranclp.rtrancl_refl)

interpretation guarded: routing_relation guarded_run
proof
  show "guarded_run w w" for w by (simp add: guarded_run_def)
  show "guarded_run w u" if "guarded_run w v" "guarded_run v u" for w v u
    using that by (auto simp: guarded_run_def)
  show "guarded_run w (others_step w)" for w
    by (cases "w_others w") (auto simp: guarded_run_def disciplined_def others_step_def)
  show "guarded_run w (w\<lparr>w_agents := fst (fst (claimAgentAndAssignCall (now_s w) False a c (w_agents w, w_calls w))),
          w_calls := snd (fst (claimAgentAndAssignCall (now_s w) False a c (w_agents w, w_calls w)))\<rparr>)" for w a c
    using claim_is_step [of "(w_agents w, w_calls w)" "now_s w" False a c]
    by (simp add: guarded_run_def disciplined_def)
  show "guarded_run w (w\<lparr>w_calls := fst (withdrawOffer (now_s w) c a tm (w_calls w))\<rparr>)" for w c a tm
    using r_into_rtranclp [of call_step, OF cs_withdrawn] by (simp add: guarded_run_def disciplined_def)
qed (auto simp: guarded_run_def disciplined_def)

text \<open>The methods of the coordinator, as one action each.\<close>

datatype routing_op =
    DrainForTenant nat
  | PassOffer call nat offer_kind "int option"
  | CallOverflowed call "nat option" queue
  | RouteWaitingCall call
  | AssignTransferredCall nat call nat transfer_target
  | SetAvailability nat nat nat agent_availability
  | SyncAgentAvailability nat nat nat
  | ReleaseAgent "nat option" nat bool
  | ReleaseAgentsOfEndedCalls
  | ClaimForNewCall "queue option" nat
  | RecordMiss nat nat "nat option" "nat option" bool

definition silent :: "'a task \<Rightarrow> unit task" where
  "silent m = and_then m (\<lambda>_. ret ())"

fun perform :: "routing_op \<Rightarrow> unit task" where
  "perform (DrainForTenant t) = silent (drainForTenant t)"
| "perform (PassOffer c a k tm) = silent (passOffer c a k tm)"
| "perform (CallOverflowed c wt q) = callOverflowed c wt q"
| "perform (RouteWaitingCall c) = silent (routeWaitingCall c)"
| "perform (AssignTransferredCall i c t tg) = silent (assignTransferredCall i c t tg)"
| "perform (SetAvailability t x y av) = silent (setAvailability t x y av)"
| "perform (SyncAgentAvailability t x y) = syncAgentAvailability t x y"
| "perform (ReleaseAgent a c off) = silent (releaseAgent a c off)"
| "perform ReleaseAgentsOfEndedCalls = silent releaseAgentsOfEndedCalls"
| "perform (ClaimForNewCall q c) = silent (claimForNewCall q c)"
| "perform (RecordMiss c t q a any) = silent (recordMiss c t q a any)"

text \<open>A worker's history: methods one after another, a throw ending only its own method.\<close>

fun perform_all :: "routing_op list \<Rightarrow> world \<Rightarrow> world" where
  "perform_all [] w = w"
| "perform_all (p # ps) w = perform_all ps (snd (perform p w))"

text \<open>The methods that offer a call through its queue, so only as its offer history allows.\<close>

fun by_queue :: "routing_op \<Rightarrow> bool" where
  "by_queue (AssignTransferredCall _ _ _ _) = False"
| "by_queue (ClaimForNewCall _ _) = False"
| "by_queue _ = True"

context drain_relation
begin

lemma run_by_queue: "by_queue p \<Longrightarrow> runs_in R (perform p)"
  by (cases p)
    (simp_all add: silent_def run_and_then run_ret run_drainForTenant run_passOffer run_callOverflowed
      run_routeWaitingCall run_setAvailability run_syncAgentAvailability run_releaseAgent
      run_releaseAgentsOfEndedCalls run_recordMiss)

lemma run_all_by_queue: "list_all by_queue ps \<Longrightarrow> R w (perform_all ps w)"
proof (induction ps arbitrary: w)
  case Nil
  then show ?case by (simp add: stays)
next
  case (Cons p ps)
  then have "R w (snd (perform p w))" using run_by_queue by (simp add: runs_in_def)
  then show ?case using Cons chains by simp
qed

end

context routing_relation
begin

lemma run_perform: "runs_in R (perform p)"
proof (cases "by_queue p")
  case True
  then show ?thesis by (rule run_by_queue)
next
  case False
  then show ?thesis
    by (cases p) (simp_all add: silent_def run_and_then run_ret run_assignTransferredCall run_claimForNewCall)
qed

lemma run_perform_all: "R w (perform_all ps w)"
proof (induction ps arbitrary: w)
  case Nil
  then show ?case by (simp add: stays)
next
  case (Cons p ps)
  have "R w (snd (perform p w))" using run_perform by (simp add: runs_in_def)
  then show ?case using Cons.IH chains by simp
qed

end

section \<open>One live call per agent\<close>

definition one_live_call :: "call list \<Rightarrow> bool" where
  "one_live_call cs \<longleftrightarrow> keyed cs \<and>
     (\<forall>c \<in> set cs. \<forall>d \<in> set cs. \<forall>a. is_live c \<and> is_live d \<and> c_agent_id c = Some a \<and> c_agent_id d = Some a
        \<longrightarrow> c_id c = c_id d)"

definition others_keep :: "(call list \<Rightarrow> bool) \<Rightarrow> world \<Rightarrow> bool" where
  "others_keep P w \<longleftrightarrow> (\<forall>f \<in> set (w_others w). \<forall>a c. P c \<longrightarrow> P (snd (f (a, c))))"

definition keeps_one_live :: "world \<Rightarrow> world \<Rightarrow> bool" where
  "keeps_one_live w w' \<longleftrightarrow>
     (others_keep one_live_call w \<and> one_live_call (w_calls w)
      \<longrightarrow> others_keep one_live_call w' \<and> one_live_call (w_calls w'))"

text \<open>A write keeps it when the only agent it may put on a call is one who is on none.\<close>

lemma one_live_map:
  assumes ok: "one_live_call cs" and id: "\<And>c. c_id (g c) = c_id c" and live: "\<And>c. is_live (g c) \<Longrightarrow> is_live c"
    and agent: "\<And>c x. c \<in> set cs \<Longrightarrow> c_agent_id (g c) = Some x \<Longrightarrow>
      c_agent_id c = Some x \<or> c_id c = i \<and> (\<forall>d \<in> set cs. is_live d \<longrightarrow> c_agent_id d \<noteq> Some x)"
  shows "one_live_call (map g cs)"
proof -
  have "c_id (g c) = c_id (g d)"
    if "c \<in> set cs" "d \<in> set cs" "is_live (g c)" "is_live (g d)" "c_agent_id (g c) = Some x" "c_agent_id (g d) = Some x"
    for c d x
    using agent [of c x] agent [of d x] that live [of c] live [of d] ok id unfolding one_live_call_def by metis
  moreover have "distinct (map c_id (map g cs))"
    using ok id by (simp add: one_live_call_def keyed_def comp_def)
  ultimately show ?thesis unfolding one_live_call_def keyed_def by auto
qed

lemma one_live_claim:
  assumes "one_live_call (snd db)"
  shows "one_live_call (snd (fst (claimAgentAndAssignCall now any a i db)))"
proof (cases "claim_takes any i a db")
  case False
  then show ?thesis using assms by (simp add: claim_outcome)
next
  case True
  from True have "\<forall>d \<in> set (snd db). is_live d \<longrightarrow> c_agent_id d \<noteq> Some a"
    by (auto simp: claim_takes_def claimable_def noOtherActiveCall_def)
  then have "one_live_call (map (\<lambda>c. if c_id c = i \<and> assignable c
        then c\<lparr>c_agent_id := Some a, c_offered_at := Some now, c_updated_at := now\<rparr> else c) (snd db))"
    using assms by (intro one_live_map [where i = i]) (simp_all add: is_live_def split: if_splits)
  then show ?thesis using True by (simp add: claim_outcome)
qed

lemma one_live_withdraw: "one_live_call cs \<Longrightarrow> one_live_call (fst (withdrawOffer now i a tm cs))"
  unfolding withdrawOffer_def affected_fst sql_update_fst
  by (rule one_live_map [where i = i]) (simp_all add: is_live_def split: if_splits)

interpretation one_live: routing_relation keeps_one_live
proof
  show "keeps_one_live w w" for w by (simp add: keeps_one_live_def)
  show "keeps_one_live w u" if "keeps_one_live w v" "keeps_one_live v u" for w v u
    using that by (auto simp: keeps_one_live_def)
  show "keeps_one_live w (others_step w)" for w
    by (cases "w_others w") (auto simp: keeps_one_live_def others_keep_def others_step_def)
  show "keeps_one_live w (w\<lparr>w_agents := fst (fst (claimAgentAndAssignCall (now_s w) False a c (w_agents w, w_calls w))),
          w_calls := snd (fst (claimAgentAndAssignCall (now_s w) False a c (w_agents w, w_calls w)))\<rparr>)" for w a c
    using one_live_claim [of "(w_agents w, w_calls w)" "now_s w" False a c]
    by (simp add: keeps_one_live_def others_keep_def)
  show "keeps_one_live w (w\<lparr>w_calls := fst (withdrawOffer (now_s w) c a tm (w_calls w))\<rparr>)" for w c a tm
    using one_live_withdraw by (simp add: keeps_one_live_def others_keep_def)
qed (simp_all add: keeps_one_live_def others_keep_def)

lemma at_most_one:
  assumes "distinct (map f xs)" and "\<forall>x \<in> set xs. \<forall>y \<in> set xs. f x = f y"
  shows "length xs \<le> 1"
proof (rule ccontr)
  assume "\<not> length xs \<le> 1"
  then obtain x y zs where "xs = x # y # zs" by (metis One_nat_def Suc_length_conv le_SucI le_add1 length_Cons list.exhaust list.size(3) not_less_eq_eq plus_1_eq_Suc)
  then show False using assms by simp
qed

section \<open>A declined offer does not come back\<close>

definition off_call :: "nat \<Rightarrow> nat \<Rightarrow> call list \<Rightarrow> bool" where
  "off_call i a cs \<longleftrightarrow> (\<forall>c \<in> set cs. c_id c = i \<longrightarrow> c_agent_id c \<noteq> Some a)"

definition declined_off :: "nat \<Rightarrow> nat \<Rightarrow> world \<Rightarrow> bool" where
  "declined_off i a w \<longleftrightarrow> w_others w = [] \<and> a \<in> set (declined_by (w_offers w i)) \<and> off_call i a (w_calls w)"

lemma off_call_map:
  assumes "off_call i a cs" and "\<And>c. c_id (g c) = c_id c" and "\<And>c. c_id c = i \<Longrightarrow> c_agent_id (g c) = Some a \<Longrightarrow> c_agent_id c = Some a"
  shows "off_call i a (map g cs)"
  using assms by (auto simp: off_call_def)

lemma declined_kept [simp]:
  "declined_by (snd (eligible c ms h) i) = declined_by (h i)"
  "declined_by (clearMissed c h i) = declined_by (h i)"
  by (auto simp: eligible_def Let_def clearMissed_def)

lemma declined_recorded: "a \<in> set (declined_by (h i)) \<Longrightarrow> a \<in> set (declined_by (offer_record c b k h i))"
  by (cases k) auto

interpretation declined: drain_relation "\<lambda>w w'. declined_off i a w \<longrightarrow> declined_off i a w'" "\<lambda>h x. x \<notin> set (declined_by h)" for i a
proof
  show "declined_off i a w \<longrightarrow>
      declined_off i a (w\<lparr>w_agents := fst (fst (claimAgentAndAssignCall (now_s w) False b c (w_agents w, w_calls w))),
          w_calls := snd (fst (claimAgentAndAssignCall (now_s w) False b c (w_agents w, w_calls w)))\<rparr>)"
    if "b \<notin> set (declined_by (w_offers w c))" for w b c
  proof (cases "claim_takes False c b (w_agents w, w_calls w)")
    case False
    then show ?thesis by (simp add: claim_outcome declined_off_def)
  next
    case True
    have "off_call i a (w_calls w) \<Longrightarrow> a \<in> set (declined_by (w_offers w i)) \<Longrightarrow>
        off_call i a (map (\<lambda>x. if c_id x = c \<and> assignable x
          then x\<lparr>c_agent_id := Some b, c_offered_at := Some (now_s w), c_updated_at := now_s w\<rparr> else x) (w_calls w))"
      using that by (intro off_call_map) (auto split: if_splits)
    then show ?thesis using True by (auto simp: claim_outcome declined_off_def)
  qed
  show "declined_off i a w \<longrightarrow> declined_off i a (w\<lparr>w_calls := fst (withdrawOffer (now_s w) c b tm (w_calls w))\<rparr>)"
    for w c b tm
    by (auto simp: declined_off_def withdrawOffer_def intro!: off_call_map split: if_splits)
qed (auto simp: declined_off_def others_step_def declined_recorded)

lemma pass_declined:
  assumes "keyed (w_calls w)" and "w_others w = []" and "fst (passOffer call a Declined tm w) \<noteq> Inr False"
  shows "declined_off (c_id call) a (snd (passOffer call a Declined tm w))"
proof -
  let ?wd = "withdrawOffer (now_s w) (c_id call) a tm (w_calls w)"
  let ?w1 = "w\<lparr>w_calls := fst ?wd\<rparr>"
  let ?w2 = "?w1\<lparr>w_offers := offer_record (c_id call) a Declined (w_offers ?w1)\<rparr>"
  let ?rest = "and_then (emit (Bus (OfferWithdrawnEv (c_id call) (c_tenant_id call) [a] ''declined''))) (\<lambda>_.
       and_then (releaseAgent (Some a) (c_id call) False) (\<lambda>_.
       and_then (logged_failure (write_log (\<lambda>now. logRejected now (c_id call) (Some (c_tenant_id call)) (Some a)
              [(''reason'', JStr ''agent_declined_offer''), (''queue_id'', json_id (c_queue_id call))]))) (\<lambda>_.
       and_then (routeWaitingCall (call\<lparr>c_agent_id := None\<rparr>)) (\<lambda>_. ret True))))"
  have unfolded: "passOffer call a Declined tm w = (if snd ?wd then ?rest ?w2 else (Inr False, ?w1))"
    by (simp add: passOffer_def on_calls_def on_offers_def ret_def Let_def)
  then have won: "snd ?wd" using assms(3) by (auto split: if_splits)
  then obtain c where c: "c \<in> set (w_calls w)" "c_id c = c_id call" "c_agent_id c = Some a" "c_status c = St_RINGING"
      "c_direction c = INBOUND" "c_offered_at c \<noteq> None" "case tm of None \<Rightarrow> True | Some t \<Rightarrow> opt_le (c_offered_at c) t"
    by (auto simp: withdrawOffer_def affected_pair)
  have only: "d = c" if "d \<in> set (w_calls w)" "c_id d = c_id call" for d
    using that c(1,2) assms(1) distinct_key_eq [of c_id] by (metis keyed_def)
  have "off_call (c_id call) a (fst ?wd)"
    unfolding off_call_def withdrawOffer_def affected_fst sql_update_fst set_map
  proof (intro ballI impI)
    fix x assume "x \<in> (\<lambda>r. if c_id r = c_id call \<and> c_agent_id r = Some a \<and> c_status r = St_RINGING \<and> c_direction r = INBOUND
        \<and> c_offered_at r \<noteq> None \<and> (case tm of None \<Rightarrow> True | Some t \<Rightarrow> opt_le (c_offered_at r) t)
        then r\<lparr>c_agent_id := None, c_offered_at := None, c_updated_at := now_s w\<rparr> else r) ` set (w_calls w)"
      and "c_id x = c_id call"
    then obtain d where d: "d \<in> set (w_calls w)" "c_id d = c_id call" and x: "x = (if c_id d = c_id call \<and> c_agent_id d = Some a
        \<and> c_status d = St_RINGING \<and> c_direction d = INBOUND
        \<and> c_offered_at d \<noteq> None \<and> (case tm of None \<Rightarrow> True | Some t \<Rightarrow> opt_le (c_offered_at d) t)
        then d\<lparr>c_agent_id := None, c_offered_at := None, c_updated_at := now_s w\<rparr> else d)"
      by (auto split: if_splits)
    then show "c_agent_id x \<noteq> Some a" using c unfolding x only [OF d] by simp
  qed
  then have "declined_off (c_id call) a ?w2" using assms(2) by (simp add: declined_off_def)
  moreover have "runs_in (\<lambda>v v'. declined_off (c_id call) a v \<longrightarrow> declined_off (c_id call) a v') ?rest"
    by (intro declined.run_rules declined.primitives declined.run_releaseAgent declined.run_routeWaitingCall; simp)
  ultimately have "declined_off (c_id call) a (snd (?rest ?w2))" by (auto simp: runs_in_def)
  then show ?thesis using unfolded won by simp
qed


lemma pass_taken:
  assumes "snd (withdrawOffer (now_s w) (c_id call) a tm (w_calls w))"
  shows "fst (passOffer call a Declined tm w) \<noteq> Inr False"
proof -
  have ends: "fst (and_then m (\<lambda>_. ret True) v) \<noteq> Inr False" for m :: "'b task" and v
    by (auto simp: and_then_def ret_def split: sum.splits prod.splits)
  show ?thesis
    using assms by (simp add: passOffer_def on_calls_def Let_def ends and_then_assoc [symmetric] del: and_then_assoc)
qed


end
