(* ===== verification/DrainFacts.thy ===== *)
theory DrainFacts
  imports AssignmentFacts
begin

text \<open>
  What a drain of a queue (\<open>drainQueue\<close> of \<open>AgentAssignmentCoordinator.js\<close>) assigns, which call a
  new call may not overtake (\<open>claimForNewCall\<close> of \<open>QueueRouter.js\<close>), what the queue board says
  of the next agent (\<open>buildQueueSnapshot\<close>), and when missed offers take an agent offline.
\<close>

section \<open>One pick\<close>

interpretation waiting_claim: guarded_claim "claim_waiting now c" fst "claim_takes False c" for now c
  by unfold_locales (auto simp: claim_waiting_def claim_outcome)

definition tried :: "int \<Rightarrow> queue_strategy \<Rightarrow> member list \<Rightarrow> queue_redis \<Rightarrow> member list" where
  "tried now strategy pool r =
     (if strategy = PRIORITY then priority_order pool else fst (reconcileQueueOrder now pool r))"

lemma pick_first:
  "snd (pick now strategy pool (claim_waiting now' c) (s, r)) =
     find (\<lambda>m. claim_takes False c (mb_id m) (fst s)) (tried now strategy pool r)"
  using waiting_claim.priority_pick [of pool now' c "(s, r)"] waiting_claim.round_robin_pick [of now pool now' c "(s, r)"]
  by (simp add: pick_def tried_def)

lemma reconcile_complete:
  assumes "distinct (map mb_id pool)" and "m \<in> set pool" and "is_available m"
  shows "m \<in> set (fst (reconcileQueueOrder now pool r))"
proof -
  have "mb_id m \<in> set (available_ids pool)" using assms by (simp add: available_ids_def)
  then have "mb_id m \<in> set (map mb_id (fst (reconcileQueueOrder now pool r)))"
    unfolding reconcile_order by auto
  then obtain m' where m': "m' \<in> set (fst (reconcileQueueOrder now pool r))" "mb_id m' = mb_id m" by auto
  then have "m' = m" using reconcile_members distinct_key_eq [OF assms(1)] assms(2) by blast
  then show ?thesis using m' by simp
qed

lemma tried_members:
  assumes "distinct (map mb_id pool)"
  shows "set (tried now strategy pool r) = {m \<in> set pool. is_available m}"
  using reconcile_members reconcile_complete [OF assms]
  by (auto simp: tried_def priority_order_def)

definition takable :: "world \<Rightarrow> nat \<Rightarrow> member list \<Rightarrow> bool" where
  "takable w c pool \<longleftrightarrow> list_ex (\<lambda>m. is_available m \<and> claim_takes False c (mb_id m) (w_agents w, w_calls w)) pool"

text \<open>Which claim it was: the tables are the ones the claim left.\<close>

definition claimed_by :: "nat \<Rightarrow> nat \<Rightarrow> world \<Rightarrow> world \<Rightarrow> bool" where
  "claimed_by c a w w' \<longleftrightarrow>
     (w_agents w', w_calls w') = fst (claimAgentAndAssignCall (now_s w) False a c (w_agents w, w_calls w))"

lemma claim_first_store:
  "fst (fst (claim_first (claim_waiting now c) ms (db, b))) =
     (case find (\<lambda>m. claim_takes False c (mb_id m) db) ms of
        None \<Rightarrow> db
      | Some m \<Rightarrow> fst (claimAgentAndAssignCall now False (mb_id m) c db))"
proof (induction ms arbitrary: b)
  case Nil
  then show ?case by simp
next
  case (Cons m ms)
  then show ?case by (simp add: claim_waiting_def Let_def claim_outcome)
qed

lemma claim_first_flag:
  assumes "\<exists>x \<in> set (snd db). c_id x = c \<and> assignable x"
  shows "snd (fst (claim_first (claim_waiting now c) ms (db, False))) = False"
  using assms
proof (induction ms)
  case Nil
  then show ?case by simp
next
  case (Cons m ms)
  then show ?case by (auto simp: claim_waiting_def Let_def claim_outcome claim_takes_def)
qed

lemma pick_first_store:
  assumes "pick now strategy pool claim (s, r) = ((s', r'), agent)"
  shows "s' = fst (claim_first claim (if strategy \<noteq> PRIORITY \<and> \<not> list_ex is_available pool then [] else tried now strategy pool r) s)"
proof -
  have in_order: "fst (fst (claimInOrder claim cs (s, r'))) = fst (claim_first claim cs s)" for cs r'
    by (auto simp: claimInOrder_def split: prod.splits option.splits)
  have "fst (fst (pick now strategy pool claim (s, r))) =
      fst (claim_first claim (if strategy \<noteq> PRIORITY \<and> \<not> list_ex is_available pool then [] else tried now strategy pool r) s)"
    using in_order by (auto simp: pick_def pickPriority_def pickRoundRobin_def tried_def split: prod.split)
  then show ?thesis using assms by simp
qed

lemma claim_step_outcome:
  assumes ids: "distinct (map mb_id pool)" and step: "claim_step q c pool w = (w', agent, lost)"
  shows "agent = None \<longleftrightarrow> \<not> takable w c pool"
    and "agent = None \<Longrightarrow> tables w' = tables w"
    and "agent = Some m \<Longrightarrow> m \<in> set pool \<and> is_available m \<and> claim_takes False c (mb_id m) (w_agents w, w_calls w)
           \<and> claimed_by c (mb_id m) w w'"
    and "w_offers w' = w_offers w" "w_others w' = w_others w" "w_now w' = w_now w"
    and "\<exists>x \<in> set (w_calls w). c_id x = c \<and> assignable x \<Longrightarrow> \<not> lost"
proof -
  let ?db = "(w_agents w, w_calls w)"
  let ?st = "((?db, False), w_order w (q_id q))"
  obtain s r a where p: "pick (w_now w) (q_strategy q) pool (claim_waiting (now_s w) c) ?st = ((s, r), a)"
    by (metis prod.collapse)
  let ?tried = "tried (w_now w) (q_strategy q) pool (w_order w (q_id q))"
  let ?ms = "if q_strategy q \<noteq> PRIORITY \<and> \<not> list_ex is_available pool then [] else ?tried"
  have agent: "agent = a" "lost = snd s" "w' = w\<lparr>w_agents := fst (fst s), w_calls := snd (fst s), w_order := (w_order w)(q_id q := r)\<rparr>"
    using step p by (auto simp: claim_step_def)
  have a: "a = find (\<lambda>m. claim_takes False c (mb_id m) ?db) ?tried"
    using pick_first [of "w_now w" "q_strategy q" pool "now_s w" c "(?db, False)" "w_order w (q_id q)"] p by simp
  have s: "s = fst (claim_first (claim_waiting (now_s w) c) ?ms (?db, False))"
    using pick_first_store [OF p] by simp
  have "\<not> list_ex is_available pool \<Longrightarrow> set ?tried = {}"
    using tried_members [OF ids] by (auto simp: list_ex_iff)
  then have same: "find P ?ms = find P ?tried" for P by simp
  then have store: "fst s = (case a of None \<Rightarrow> ?db | Some m \<Rightarrow> fst (claimAgentAndAssignCall (now_s w) False (mb_id m) c ?db))"
    unfolding s claim_first_store a by simp
  show "agent = None \<longleftrightarrow> \<not> takable w c pool"
    using tried_members [OF ids] by (auto simp: agent a find_None_iff takable_def list_ex_iff)
  show "agent = None \<Longrightarrow> tables w' = tables w" using store by (simp add: agent tables_def)
  show "agent = Some m \<Longrightarrow> m \<in> set pool \<and> is_available m \<and> claim_takes False c (mb_id m) ?db \<and> claimed_by c (mb_id m) w w'"
  proof -
    assume some: "agent = Some m"
    then have "m \<in> set ?tried \<and> claim_takes False c (mb_id m) ?db" using agent a by (auto simp: find_Some_iff)
    then show ?thesis using some store tried_members [OF ids] by (simp add: agent claimed_by_def)
  qed
  show "w_offers w' = w_offers w" "w_others w' = w_others w" "w_now w' = w_now w" by (simp_all add: agent)
  show "\<not> lost" if "\<exists>x \<in> set (w_calls w). c_id x = c \<and> assignable x"
    using claim_first_flag [of ?db c "now_s w" ?ms] that by (simp add: agent s)
qed

section \<open>What a drain assigns\<close>

text \<open>A waiting call that somebody its history allows can take now.\<close>

definition servable :: "world \<Rightarrow> member list \<Rightarrow> call \<Rightarrow> bool" where
  "servable w members c \<longleftrightarrow> takable w (c_id c) (fst (eligible (c_id c) members (w_offers w)))"

lemma eligible_other: "c \<noteq> c' \<Longrightarrow> fst (eligible c' ms (snd (eligible c ms h))) = fst (eligible c' ms h)"
  by (auto simp: eligible_def Let_def clearMissed_def)

lemma eligible_distinct: "distinct (map mb_id ms) \<Longrightarrow> distinct (map mb_id (fst (eligible c ms h)))"
  by (auto simp: eligible_def Let_def distinct_map_filter)

lemma servable_tables:
  "tables v = tables w \<Longrightarrow> fst (eligible (c_id c) ms (w_offers v)) = fst (eligible (c_id c) ms (w_offers w)) \<Longrightarrow>
     servable v ms c = servable w ms c"
  by (simp add: servable_def takable_def tables_def)

text \<open>The claim of one pass: the eligibility read, then the claims in order.\<close>

definition try_call :: "queue \<Rightarrow> member list \<Rightarrow> call \<Rightarrow> world \<Rightarrow> world \<times> (member option \<times> bool)" where
  "try_call q members c w =
     (let e = eligible (c_id c) members (w_offers w)
      in claim_step q (c_id c) (fst e) (others_step (w\<lparr>w_offers := snd e\<rparr>)))"

lemma drain_calls_try:
  "drain_calls q members (c # cs) b w =
     (case try_call q members c w of (v, agent, lost) \<Rightarrow>
        (case agent of
           None \<Rightarrow> drain_calls q members cs (b \<or> lost) v
         | Some m \<Rightarrow> and_then (deliverAssignedCall c (mb_id m) (mb_name m) As_QUEUED) (\<lambda>_.
             and_then (emitQueueUpdate (c_tenant_id c) (Some (q_id q))) (\<lambda>_. ret AssignedOne)) v))"
  by (simp add: try_call_def claimForWaitingCall_def let_others_run_def and_then_assoc eligible_step_def Let_def
      split: prod.split option.split)

lemma try_call_outcome:
  assumes "w_others w = []" and "distinct (map mb_id members)" and "try_call q members c w = (v, agent, lost)"
  shows "w_others v = []" and "agent = None \<longleftrightarrow> \<not> servable w members c"
    and "agent = None \<Longrightarrow> tables v = tables w"
    and "agent = Some m \<Longrightarrow> m \<in> set members \<and> mb_id m \<notin> set (declined_by (w_offers w (c_id c)))
           \<and> is_available m \<and> claim_takes False (c_id c) (mb_id m) (w_agents w, w_calls w) \<and> claimed_by (c_id c) (mb_id m) w v"
    and "c_id c \<noteq> i \<Longrightarrow> fst (eligible i members (w_offers v)) = fst (eligible i members (w_offers w))"
    and "\<exists>x \<in> set (w_calls w). c_id x = c_id c \<and> assignable x \<Longrightarrow> \<not> lost"
    and "declined_by (w_offers v i) = declined_by (w_offers w i)" and "now_s v = now_s w"
proof -
  let ?e = "eligible (c_id c) members (w_offers w)"
  let ?w = "w\<lparr>w_offers := snd ?e\<rparr>"
  have step: "claim_step q (c_id c) (fst ?e) ?w = (v, agent, lost)"
    using assms(1,3) by (simp add: try_call_def Let_def others_step_def)
  note out = claim_step_outcome [OF eligible_distinct [OF assms(2)] step]
  have same: "takable ?w (c_id c) p = takable w (c_id c) p" for p by (simp add: takable_def)
  show "w_others v = []" using out(5) assms(1) by simp
  show "agent = None \<longleftrightarrow> \<not> servable w members c" using out(1) same by (simp add: servable_def)
  show "agent = None \<Longrightarrow> tables v = tables w" using out(2) by (simp add: tables_def)
  show "agent = Some m \<Longrightarrow> m \<in> set members \<and> mb_id m \<notin> set (declined_by (w_offers w (c_id c)))
           \<and> is_available m \<and> claim_takes False (c_id c) (mb_id m) (w_agents w, w_calls w) \<and> claimed_by (c_id c) (mb_id m) w v"
    using out(3) [of m] by (auto simp: claimed_by_def now_s_def dest: eligible_members)
  show "fst (eligible i members (w_offers v)) = fst (eligible i members (w_offers w))" if "c_id c \<noteq> i"
    using out(4) eligible_other that by simp
  show "\<not> lost" if "\<exists>x \<in> set (w_calls w). c_id x = c_id c \<and> assignable x"
    using out(7) that by simp
  show "declined_by (w_offers v i) = declined_by (w_offers w i)" "now_s v = now_s w"
    using out(4,6) by (simp_all add: now_s_def)
qed

text \<open>What a successful pass leaves: the call it served is the first that could be.\<close>

definition serves :: "member list \<Rightarrow> call \<Rightarrow> world \<Rightarrow> world \<Rightarrow> bool" where
  "serves members c w w' \<longleftrightarrow>
     (\<exists>m \<in> set members. mb_id m \<notin> set (declined_by (w_offers w (c_id c))) \<and> is_available m
        \<and> claim_takes False (c_id c) (mb_id m) (w_agents w, w_calls w) \<and> claimed_by (c_id c) (mb_id m) w w')"

lemma deliver_then_update:
  shows "announces_only v (snd (and_then (deliverAssignedCall c a nm As_QUEUED) (\<lambda>_.
             and_then (emitQueueUpdate t q) (\<lambda>_. ret AssignedOne)) v))"
    and "fst (and_then (deliverAssignedCall c a nm As_QUEUED) (\<lambda>_.
             and_then (emitQueueUpdate t q) (\<lambda>_. ret AssignedOne)) v) \<noteq> Inr (NoneAssigned b)"
proof -
  have "runs_in announces_only (and_then (deliverAssignedCall c a nm As_QUEUED) (\<lambda>_.
             and_then (emitQueueUpdate t q) (\<lambda>_. ret AssignedOne)))"
    by (intro announced.run_rules announced.run_deliver announced.run_emitQueueUpdate)
  then show "announces_only v (snd (and_then (deliverAssignedCall c a nm As_QUEUED) (\<lambda>_.
             and_then (emitQueueUpdate t q) (\<lambda>_. ret AssignedOne)) v))"
    by (simp add: runs_in_def)
  show "fst (and_then (deliverAssignedCall c a nm As_QUEUED) (\<lambda>_.
             and_then (emitQueueUpdate t q) (\<lambda>_. ret AssignedOne)) v) \<noteq> Inr (NoneAssigned b)"
    by (auto simp: and_then_def ret_def split: sum.splits prod.splits)
qed

lemma drain_calls_outcome:
  assumes "w_others w = []" and "distinct (map mb_id members)" and "distinct (map c_id cs)"
    and "\<forall>c \<in> set cs. \<exists>x \<in> set (w_calls w). c_id x = c_id c \<and> assignable x"
  shows "case find (servable w members) cs of
      None \<Rightarrow> fst (drain_calls q members cs False w) = Inr (NoneAssigned False)
              \<and> tables (snd (drain_calls q members cs False w)) = tables w
    | Some c \<Rightarrow> (\<forall>b. fst (drain_calls q members cs False w) \<noteq> Inr (NoneAssigned b))
              \<and> serves members c w (snd (drain_calls q members cs False w))"
  using assms
proof (induction cs arbitrary: w)
  case Nil
  then show ?case by (simp add: ret_def)
next
  case (Cons c cs)
  obtain v agent lost where t: "try_call q members c w = (v, agent, lost)" by (metis prod.collapse)
  note out = try_call_outcome [OF Cons.prems(1,2) t]
  show ?case
  proof (cases agent)
    case None
    have tab: "tables v = tables w" using out(3) None by simp
    have "servable v members d = servable w members d" if "d \<in> set cs" for d
    proof (rule servable_tables [OF tab])
      have "c_id c \<noteq> c_id d" using that Cons.prems(3) by auto
      then show "fst (eligible (c_id d) members (w_offers v)) = fst (eligible (c_id d) members (w_offers w))"
        by (rule out(5))
    qed
    then have find: "find (servable v members) cs = find (servable w members) cs"
      by (intro find_cong) auto
    have srv: "serves members d v x = serves members d w x" for d x
      using tab out(7) out(8) by (simp add: serves_def claimed_by_def tables_def)
    have no: "\<not> servable w members c" using out(2) None by simp
    have "\<not> lost" using out(6) Cons.prems(4) by simp
    then have run: "drain_calls q members (c # cs) False w = drain_calls q members cs False v"
      unfolding drain_calls_try t using None by simp
    have "case find (servable v members) cs of
      None \<Rightarrow> fst (drain_calls q members cs False v) = Inr (NoneAssigned False)
              \<and> tables (snd (drain_calls q members cs False v)) = tables v
    | Some c \<Rightarrow> (\<forall>b. fst (drain_calls q members cs False v) \<noteq> Inr (NoneAssigned b))
              \<and> serves members c v (snd (drain_calls q members cs False v))"
      using Cons.prems out(1) tab by (intro Cons.IH) (simp_all add: tables_def)
    then show ?thesis
      unfolding run find srv tab using no by simp
  next
    case (Some m)
    let ?m = "and_then (deliverAssignedCall c (mb_id m) (mb_name m) As_QUEUED) (\<lambda>_.
             and_then (emitQueueUpdate (c_tenant_id c) (Some (q_id q))) (\<lambda>_. ret AssignedOne))"
    have run: "drain_calls q members (c # cs) False w = ?m v"
      unfolding drain_calls_try t using Some by simp
    have "tables (snd (?m v)) = tables v"
      using deliver_then_update(1) by (simp add: announces_only_def)
    then have "serves members c w (snd (?m v))"
      using out(4) [OF Some] by (auto simp: serves_def claimed_by_def tables_def)
    then show ?thesis
      unfolding run using out(2) Some deliver_then_update(2) by simp
  qed
qed

lemma drain_three: "drainQueue q = drain_attempts (Suc 2) q"
  by (simp add: drainQueue_def numeral_3_eq_3 numeral_2_eq_2)

lemma waiting_is_assignable:
  assumes "c \<in> set (findOldestUnassignedCalls q n cs)"
  shows "c \<in> set cs \<and> assignable c"
proof -
  have "c \<in> set (filter (\<lambda>c. c_queue_id c = Some q \<and> waiting_in_queue c) cs)"
    using assms unfolding findOldestUnassignedCalls_def by (metis in_set_takeD set_sort)
  then show ?thesis by (auto simp: waiting_in_queue_def assignable_def not_in_ivr_def)
qed

lemma waiting_distinct: "keyed cs \<Longrightarrow> distinct (map c_id (findOldestUnassignedCalls q n cs))"
proof -
  assume "keyed cs"
  then have "distinct (map c_id (filter (\<lambda>c. c_queue_id c = Some q \<and> waiting_in_queue c) cs))"
    by (simp add: keyed_def distinct_map_filter)
  then have "distinct (map c_id (sort_key c_ringing_at (filter (\<lambda>c. c_queue_id c = Some q \<and> waiting_in_queue c) cs)))"
    by (simp add: distinct_map)
  then show ?thesis
    unfolding findOldestUnassignedCalls_def take_map [symmetric] by (rule distinct_take)
qed

text \<open>
  C17: A drain serves the oldest waiting call that anybody may take. Of the 25 oldest waiting calls of
  the queue, the one assigned is the first for which some available member, who has not declined it,
  can be claimed; that member and that call are claimed together and nothing else changes; and when
  there is no such call, nothing changes and the drain says so.
\<close>

theorem drain_serves_oldest:
  assumes "w_others w = []" and "keyed (w_calls w)" and "distinct (map mb_id (members_of q w))"
  shows "case find (servable w (members_of q w)) (findOldestUnassignedCalls (q_id q) 25 (w_calls w)) of
      None \<Rightarrow> fst (drainQueue q w) = Inr False \<and> tables (snd (drainQueue q w)) = tables w
    | Some c \<Rightarrow> fst (drainQueue q w) \<noteq> Inr False \<and> serves (members_of q w) c w (snd (drainQueue q w))"
proof -
  let ?ms = "members_of q w"
  let ?waiting = "findOldestUnassignedCalls (q_id q) 25 (w_calls w)"
  have out: "case find (servable w ?ms) ?waiting of
      None \<Rightarrow> fst (drain_calls q ?ms ?waiting False w) = Inr (NoneAssigned False)
              \<and> tables (snd (drain_calls q ?ms ?waiting False w)) = tables w
    | Some c \<Rightarrow> (\<forall>b. fst (drain_calls q ?ms ?waiting False w) \<noteq> Inr (NoneAssigned b))
              \<and> serves ?ms c w (snd (drain_calls q ?ms ?waiting False w))"
    using assms waiting_is_assignable waiting_distinct by (intro drain_calls_outcome) blast+
  show ?thesis
  proof (cases "list_ex is_available ?ms \<and> ?waiting \<noteq> []")
    case False
    have "find (servable w ?ms) ?waiting = None"
    proof (cases "?waiting = []")
      case no: False
      then have "\<not> list_ex is_available ?ms" using False by simp
      then have "\<not> servable w ?ms c" for c
        using eligible_members by (fastforce simp: servable_def takable_def list_ex_iff)
      then show ?thesis by (simp add: find_None_iff)
    qed simp
    moreover have "drainQueue q w = (Inr False, w)"
      unfolding drain_three drain_attempts.simps using False by (auto simp: ret_def)
    ultimately show ?thesis by simp
  next
    case True
    then have "drainQueue q w = and_then (drain_calls q ?ms ?waiting False) (\<lambda>r. case r of
       AssignedOne \<Rightarrow> ret True
     | NoneAssigned raceLost \<Rightarrow> if raceLost then drain_attempts 2 q else ret False) w"
      unfolding drain_three drain_attempts.simps by simp
    then show ?thesis using out
      by (auto simp: and_then_def ret_def split: option.splits sum.splits prod.splits drained.splits)
  qed
qed

definition example_queue :: queue where
  "example_queue = \<lparr> q_id = 1, q_tenant_id = 1, q_external_ref = ''support'', q_name = ''Support'',
     q_strategy = ROUND_ROBIN, q_ring_timeout_seconds = Some 20, q_max_active_calls = None, q_max_wait_seconds = Some 60,
     q_overflow_queue_id = None, q_hold_audio_asset_id = None, q_status = Q_ACTIVE \<rparr>"

definition example_agent :: "nat \<Rightarrow> agent" where
  "example_agent i = \<lparr> a_id = i, a_tenant_id = 1, a_external_ref = ''agent'', a_name = Some ''Ann'', a_role = Role_AGENT,
     a_availability = Av_AVAILABLE, a_busy_call_id = None, a_availability_changed_at = None, a_deleted_at = None \<rparr>"

definition example_waiting :: "nat \<Rightarrow> int \<Rightarrow> call" where
  "example_waiting i t = (example_call i)\<lparr>c_queue_id := Some 1, c_ringing_at := Some t, c_state := Some QUEUE\<rparr>"

text \<open>Two calls wait, agent 2 is free; agent 2 declined call 5, which has waited longest.\<close>

definition example_world :: world where
  "example_world = empty_world\<lparr>w_agents := [example_agent 2], w_queues := [example_queue],
     w_members := [\<lparr> m_queue_id = 1, m_agent_id = 2, m_priority = 1 \<rparr>],
     w_calls := [example_waiting 4 100, example_waiting 5 50, example_waiting 6 200],
     w_offers := offer_record 5 2 Declined (\<lambda>_. no_offers)\<rparr>"

lemma example_members:
  "members_of example_queue example_world =
     [\<lparr> mb_id = 2, mb_tenant_id = 1, mb_name = Some ''Ann'', mb_role = Role_AGENT, mb_availability = Av_AVAILABLE, mb_priority = 1 \<rparr>]"
  by (simp add: members_of_def getMembers_def example_world_def example_queue_def example_agent_def member_view_def
      reportedAvailability_def)

lemma example_oldest:
  "findOldestUnassignedCalls (q_id example_queue) 25 (w_calls example_world) = [example_waiting 5 50, example_waiting 4 100, example_waiting 6 200]"
  by (simp add: findOldestUnassignedCalls_def example_queue_def example_world_def example_waiting_def waiting_in_queue_def safe_limit_def
      example_call_fields)

lemma example_fields:
  "w_agents example_world = [example_agent 2]" "w_others example_world = []"
  "w_calls example_world = [example_waiting 4 100, example_waiting 5 50, example_waiting 6 200]"
  "w_offers example_world = (\<lambda>_. no_offers)(5 := \<lparr> declined_by = [2], missed_by = [] \<rparr>)"
  by (simp_all add: example_world_def empty_world_def no_offers_def fun_eq_iff)

theorem drain_serves_oldest_witness:
  "fst (drainQueue example_queue example_world) \<noteq> Inr False
   \<and> serves (members_of example_queue example_world) (example_waiting 4 100) example_world
        (snd (drainQueue example_queue example_world))"
proof -
  have h: "w_others example_world = []" "keyed (w_calls example_world)"
    by (simp_all add: example_world_def empty_world_def keyed_def example_waiting_def example_call_fields)
  have d: "distinct (map mb_id (members_of example_queue example_world))" by (simp add: example_members)
  have no: "\<not> servable example_world (members_of example_queue example_world) (example_waiting 5 50)"
    unfolding servable_def takable_def example_members
    by (simp add: eligible_def example_fields example_waiting_def no_offers_def)
  have yes: "servable example_world (members_of example_queue example_world) (example_waiting 4 100)"
    unfolding servable_def takable_def example_members
    by (simp add: eligible_def example_fields example_waiting_def no_offers_def is_available_def claim_takes_def
        claimable_def example_agent_def on_shift_def noOtherActiveCall_def assignable_def not_in_ivr_def)
  show ?thesis
    using drain_serves_oldest [OF h d] no yes unfolding example_oldest by simp
qed

section \<open>New calls do not overtake\<close>


lemma new_call_claimed:
  assumes "distinct (map mb_id (members_of q w))" and "w_others w = []" and "\<not> isRingAll q"
    and "\<not> hasUnassignedCalls (q_id q) i (w_calls w)" and "takable w i (members_of q w)"
  shows "\<exists>m w'. claimForNewCall (Some q) i w = (Inr (Some m), w')"
proof -
  obtain v agent lost where step: "claim_step q i (members_of q w) w = (v, agent, lost)" by (metis prod.collapse)
  have "others_step w = w" using assms(2) by (simp add: others_step_def)
  then have "claimForWaitingCall q i None w = (Inr (agent, lost), v)"
    using step by (simp add: claimForWaitingCall_def let_others_run_def statement_def)
  moreover obtain m where "agent = Some m" using claim_step_outcome(1) [OF assms(1) step] assms(5) by auto
  ultimately show ?thesis using assms(3,4) by (simp add: claimForNewCall_def and_then_def read_def ret_def)
qed


section \<open>The board\<close>

lemma parse_stored [simp]: "parseOrder (Some xs) = xs"
  by (simp add: parseOrder_def)

lemma dedup_distinct: "distinct xs \<Longrightarrow> dedup xs = xs"
  by (simp add: dedup_def distinct_remdups_id)

lemma next_order_distinct: "distinct (map mb_id ms) \<Longrightarrow> distinct (next_order now ms r)"
  by (auto simp: next_order_def available_ids_def distinct_map_filter)

lemma available_in_next_order: "i \<in> set (available_ids ms) \<Longrightarrow> i \<in> set (next_order now ms r)"
  using keep_place_available [of i ms now "qr_meta r"] by (auto simp: next_order_def)

lemma map_key_eq:
  assumes "map f xs = map f ys" and "set xs \<subseteq> A" "set ys \<subseteq> A" and "inj_on f A"
  shows "xs = ys"
proof (rule map_inj_on [OF assms(1)])
  show "inj_on f (set xs \<union> set ys)" using assms(2-4) by (meson Un_least inj_on_subset)
qed

text \<open>Bringing the order up to date twice at one instant is the same as once.\<close>

lemma reconcile_idem:
  assumes "distinct (map mb_id ms)"
  shows "fst (reconcileQueueOrder now ms (snd (reconcileQueueOrder now ms r))) = fst (reconcileQueueOrder now ms r)"
proof (rule map_key_eq)
  let ?n = "next_order now ms r"
  have "filter (\<lambda>i. i \<notin> set ?n) (available_ids ms) = []"
    using available_in_next_order by (auto simp: filter_empty_conv)
  then have "map mb_id (fst (reconcileQueueOrder now ms (snd (reconcileQueueOrder now ms r))))
      = filter (\<lambda>i. i \<in> set (available_ids ms)) ?n"
    by (simp add: reconcile_order reconcile_next_order(1) dedup_distinct [OF next_order_distinct [OF assms]])
  also have "\<dots> = map mb_id (fst (reconcileQueueOrder now ms r))"
    unfolding reconcile_next_order(2) map_by_id by simp
  finally show "map mb_id (fst (reconcileQueueOrder now ms (snd (reconcileQueueOrder now ms r))))
      = map mb_id (fst (reconcileQueueOrder now ms r))" .
  show "set (fst (reconcileQueueOrder now ms (snd (reconcileQueueOrder now ms r)))) \<subseteq> set ms"
       "set (fst (reconcileQueueOrder now ms r)) \<subseteq> set ms"
    using reconcile_members by blast+
  show "inj_on mb_id (set ms)" using assms by (simp add: distinct_map)
qed

lemma members_in_priority_order:
  assumes "distinct (map mb_id (members_of q w))"
  shows "priority_order (members_of q w) = filter is_available (members_of q w)"
proof -
  obtain xs where xs: "members_of q w = sort_key mb_priority (sort_key mb_id xs)"
    by (auto simp: members_of_def getMembers_def)
  let ?ys = "filter is_available xs"
  have av: "filter is_available (members_of q w) = sort_key mb_priority (sort_key mb_id ?ys)"
    by (simp add: xs filter_sort)
  have d: "distinct (map mb_id (filter is_available (members_of q w)))"
    using assms by (simp add: distinct_map_filter)
  then have inj: "inj_on mb_id (set ?ys)" and ys: "distinct (map mb_id ?ys)"
    by (simp_all add: av distinct_map)
  have "map mb_id (sort_key mb_id (sort_key mb_priority (sort_key mb_id ?ys))) = map mb_id (sort_key mb_id ?ys)"
    using ys by (intro sorted_distinct_set_unique) (simp_all add: distinct_map)
  then have "sort_key mb_id (sort_key mb_priority (sort_key mb_id ?ys)) = sort_key mb_id ?ys"
    by (rule map_key_eq) (use inj in simp_all)
  then show ?thesis by (simp add: priority_order_def av)
qed

text \<open>
  The queue board tells the truth: the agent a snapshot names as next (nobody, when it names
  nobody) is the member the queue's next pick tries first, whatever its strategy.
\<close>

theorem board_names_first_tried:
  assumes "distinct (map mb_id (members_of q w))"
    and "buildQueueSnapshot q (members_of q w) w = (Inr snap, w')"
  shows "qs_nextAgentId snap =
    map_option mb_id (List.find (\<lambda>_. True) (tried (w_now w') (q_strategy q) (members_of q w') (w_order w' (q_id q))))"
proof -
  let ?ms = "members_of q w"
  let ?r = "w_order w (q_id q)"
  have same: "members_of q w' = ?ms" "w_now w' = w_now w"
    and ord: "w_order w' (q_id q) = (if q_strategy q = PRIORITY then ?r else snd (reconcileQueueOrder (w_now w) ?ms ?r))"
    and nxt: "qs_nextAgentId snap = map_option mb_id (List.find (\<lambda>_. True)
        (if q_strategy q = PRIORITY then filter is_available ?ms else fst (reconcileQueueOrder (w_now w) ?ms ?r)))"
    using assms(2) by (auto simp: buildQueueSnapshot_def statement_def Let_def members_of_def split: list.split)
  show ?thesis
    unfolding nxt same tried_def ord
    by (simp add: members_in_priority_order [OF assms(1)] reconcile_idem [OF assms(1)])
qed

theorem board_names_first_tried_witness:
  "\<exists>snap w'. buildQueueSnapshot example_queue (members_of example_queue example_world) example_world = (Inr snap, w')
     \<and> qs_nextAgentId snap = map_option mb_id (List.find (\<lambda>_. True)
          (tried (w_now w') ROUND_ROBIN (members_of example_queue w') (w_order w' 1)))"
proof -
  obtain snap w' where s: "buildQueueSnapshot example_queue (members_of example_queue example_world) example_world = (Inr snap, w')"
    by (simp add: buildQueueSnapshot_def statement_def Let_def)
  have "distinct (map mb_id (members_of example_queue example_world))" by (simp add: example_members)
  from board_names_first_tried [OF this s] s show ?thesis
    by (auto simp: example_queue_def)
qed

section \<open>Missed offers\<close>

text \<open>Misses of one agent, one after another: the offers of some calls of the queue rang out.\<close>

fun misses :: "nat list \<Rightarrow> nat \<Rightarrow> nat option \<Rightarrow> nat \<Rightarrow> world \<Rightarrow> world" where
  "misses [] t q a w = w"
| "misses (c # cs) t q a w = misses cs t q a (snd (recordMiss c t q (Some a) False w))"

definition counted :: "nat \<Rightarrow> nat option \<Rightarrow> nat \<Rightarrow> nat list \<Rightarrow> world \<Rightarrow> bool" where
  "counted t q a cs w \<longleftrightarrow>
     fst (getAutoOfflineSettings t w)
     \<and> (case getQueue q (w_queues w) of None \<Rightarrow> False | Some x \<Rightarrow> \<not> isRingAll x)
     \<and> list_all (\<lambda>c. \<not> hasAgentActiveCall a c (w_calls w)) cs"

lemma miss_below:
  assumes "counted t q a (c # cs) w" and "int (Suc (w_streak w a)) < snd (getAutoOfflineSettings t w)"
  shows "recordMiss c t q (Some a) False w = (Inr False, w\<lparr>w_streak := (w_streak w)(a := Suc (w_streak w a))\<rparr>)"
  using assms by (auto simp: counted_def recordMiss_def streak_increment_def ret_def split: option.splits prod.splits)

lemma miss_reached:
  assumes "counted t q a (c # cs) w" and "snd (getAutoOfflineSettings t w) \<le> int (Suc (w_streak w a))"
  shows "w_agents (snd (recordMiss c t q (Some a) False w)) = fst (updateAgentAvailability (now_s w) a Av_OFFLINE (w_agents w))
    \<and> w_streak (snd (recordMiss c t q (Some a) False w)) a = 0
    \<and> fst (recordMiss c t q (Some a) False w) = Inr (snd (updateAgentAvailability (now_s w) a Av_OFFLINE (w_agents w)))"
  using assms
  by (auto simp: counted_def recordMiss_def streak_increment_def streak_reset_def on_agents_def emit_def ret_def Let_def
      now_s_def change_def and_then_def read_def statement_def split: option.splits prod.splits)

text \<open>
  C40: An agent is taken offline by exactly the configured number of missed offers in a row. With the
  policy on, a queue that rings one agent at a time and the agent on no other call: the misses before
  the threshold only count, the miss that reaches it sets the shift OFFLINE and starts the count anew.
\<close>

theorem auto_offline_at_threshold:
  assumes "counted t q a (cs @ [c]) w" and "w_streak w a = 0"
    and "snd (getAutoOfflineSettings t w) = int (length cs + 1)"
  shows "w_agents (misses cs t q a w) = w_agents w \<and> w_streak (misses cs t q a w) a = length cs
    \<and> w_agents (misses (cs @ [c]) t q a w) = fst (updateAgentAvailability (now_s w) a Av_OFFLINE (w_agents w))
    \<and> w_streak (misses (cs @ [c]) t q a w) a = 0"
proof -
  have step: "counted t q a ds w \<Longrightarrow> int (w_streak w a + length ds) < snd (getAutoOfflineSettings t w) \<Longrightarrow>
      misses ds t q a w = w\<lparr>w_streak := (w_streak w)(a := w_streak w a + length ds)\<rparr>" for ds w
  proof (induction ds arbitrary: w)
    case Nil
    then show ?case by simp
  next
    case (Cons d ds)
    let ?w = "w\<lparr>w_streak := (w_streak w)(a := Suc (w_streak w a))\<rparr>"
    have "recordMiss d t q (Some a) False w = (Inr False, ?w)"
      using Cons.prems by (intro miss_below) auto
    moreover have "misses ds t q a ?w = ?w\<lparr>w_streak := (w_streak ?w)(a := w_streak ?w a + length ds)\<rparr>"
      using Cons.prems by (intro Cons.IH) (auto simp: counted_def getAutoOfflineSettings_def Let_def)
    ultimately show ?case by (simp add: fun_upd_def cong: if_cong)
  qed
  have app: "misses (cs @ [c]) t q a w = snd (recordMiss c t q (Some a) False (misses cs t q a w))" for w
    by (induction cs arbitrary: w) simp_all
  let ?v = "w\<lparr>w_streak := (w_streak w)(a := length cs)\<rparr>"
  have v: "misses cs t q a w = ?v"
    using step [of cs w] assms by (simp add: counted_def)
  have "counted t q a (c # []) ?v" "snd (getAutoOfflineSettings t ?v) \<le> int (Suc (w_streak ?v a))"
    using assms by (simp_all add: counted_def getAutoOfflineSettings_def Let_def)
  from miss_reached [OF this] show ?thesis
    unfolding app v by (simp add: now_s_def)
qed

theorem auto_offline_at_threshold_witness:
  "map a_availability (w_agents (misses [4, 6] 1 (Some 1) 2
     (example_world\<lparr>w_auto_offline := (\<lambda>_. \<lparr> ao_enabled = True, ao_missed_threshold = Some 2 \<rparr>)\<rparr>))) = [Av_OFFLINE]"
proof -
  let ?w = "example_world\<lparr>w_auto_offline := (\<lambda>_. \<lparr> ao_enabled = True, ao_missed_threshold = Some 2 \<rparr>)\<rparr>"
  have c: "counted 1 (Some 1) 2 ([4] @ [6]) ?w"
    by (simp add: counted_def getAutoOfflineSettings_def getQueue_def queue_findById_def first_row_def example_world_def
        example_queue_def isRingAll_def hasAgentActiveCall_def example_waiting_def)
  have s: "w_streak ?w 2 = 0" "snd (getAutoOfflineSettings 1 ?w) = int (length [4::nat] + 1)"
    by (simp_all add: example_world_def empty_world_def getAutoOfflineSettings_def)
  show ?thesis
    using auto_offline_at_threshold [OF c s] by (simp add: updateAgentAvailability_def example_fields example_agent_def)
qed

end
