(* ===== verification/Termination.thy ===== *)
theory Termination
  imports DrainFacts
begin

text \<open>
  How a call ends: \<open>src/src/core/calls/CallTerminator.js\<close>, the queue's timers
  (\<open>src/src/core/routing/QueueTimeoutService.js\<close>) and the cleanup of stuck calls
  (\<open>src/src/core/calls/CallCleanupService.js\<close>).
\<close>

section \<open>CallTerminator\<close>

datatype call_ref = Row call | ById nat

datatype provider_action = Provider_end | Provider_terminate | Provider_reject | Provider_busy | Provider_none

datatype media_scope = Broadcast | Local

record end_options =
  eo_reason :: termination_reason
  eo_terminatedBy :: terminated_by
  eo_failure :: "json option option"
  eo_onlyIfStatus :: "call_status option"
  eo_provider :: provider_action
  eo_media :: media_scope
  eo_source :: "string option"
  eo_log :: metadata
  eo_agentOffline :: bool

definition end_defaults :: "termination_reason \<Rightarrow> terminated_by \<Rightarrow> end_options" where
  "end_defaults reason by = \<lparr> eo_reason = reason, eo_terminatedBy = by, eo_failure = None, eo_onlyIfStatus = None,
     eo_provider = Provider_none, eo_media = Broadcast, eo_source = None, eo_log = [], eo_agentOffline = False \<rparr>"

definition load :: "call_ref \<Rightarrow> world \<Rightarrow> call option" where
  "load r w = (case r of Row c \<Rightarrow> Some c | ById i \<Rightarrow> call_findById i (w_calls w))"

definition closeMedia :: "nat \<Rightarrow> media_scope \<Rightarrow> unit task" where
  "closeMedia callId media =
     and_then (emit (DeadlinesCleared callId)) (\<lambda>_.
     and_then (emit (StateDropped callId)) (\<lambda>_.
     and_then (emit (MediaClosed callId)) (\<lambda>_.
     and_then (change (legs_closed callId)) (\<lambda>_.
     if media = Local then emit (InboxReleased callId True)
     else emit (InboxPosted callId ''CALL_TERMINATED'')))))"

text \<open>What the provider is told, when this path is the one ending the call.\<close>

definition provider_action :: "provider_action \<Rightarrow> call \<Rightarrow> provider_action" where
  "provider_action p c =
     (if p = Provider_end
      then (if c_direction c = INBOUND \<and> c_answered_at c = None then Provider_reject else Provider_terminate)
      else p)"

definition tell_provider :: "provider_action \<Rightarrow> call \<Rightarrow> unit task" where
  "tell_provider p c =
     only_when (p \<noteq> Provider_none \<and> c_provider_call_id c \<noteq> None)
       (let action = provider_action p c in
        logged_failure
          (and_then (emit (if action = Provider_reject \<or> action = Provider_busy
                           then ProviderReject (c_id c) (action = Provider_busy) else ProviderTerminate (c_id c))) (\<lambda>_.
           and_then (read (\<lambda>w. w_provider_fails w (c_id c))) (\<lambda>fails.
           if fails then raise (ProviderFailed (c_id c)) else ret ()))))"

fun reason_name :: "termination_reason \<Rightarrow> string" where
  "reason_name Rs_COMPLETED = ''COMPLETED''"
| "reason_name Rs_NO_ANSWER = ''NO_ANSWER''"
| "reason_name Rs_TIMEOUT = ''TIMEOUT''"
| "reason_name Rs_CANCELLED = ''CANCELLED''"
| "reason_name Rs_REJECTED = ''REJECTED''"
| "reason_name Rs_BUSY = ''BUSY''"
| "reason_name Rs_AGENT_DISCONNECTED = ''AGENT_DISCONNECTED''"
| "reason_name Rs_AGENT_MEDIA_NOT_READY = ''AGENT_MEDIA_NOT_READY''"
| "reason_name Rs_SYSTEM_ERROR = ''SYSTEM_ERROR''"
| "reason_name Rs_SERVICE_MAINTENANCE = ''SERVICE_MAINTENANCE''"
| "reason_name Rs_NETWORK_ERROR = ''NETWORK_ERROR''"
| "reason_name Rs_CUSTOMER_NETWORK_LOSS = ''CUSTOMER_NETWORK_LOSS''"
| "reason_name Rs_PROVIDER_ERROR = ''PROVIDER_ERROR''"
| "reason_name Rs_PROVIDER_TRIGGER_FAILED = ''PROVIDER_TRIGGER_FAILED''"
| "reason_name Rs_IVR_AGENT_NO_ANSWER = ''IVR_AGENT_NO_ANSWER''"

fun by_name :: "terminated_by \<Rightarrow> string" where
  "by_name By_AGENT = ''AGENT''"
| "by_name By_SYSTEM = ''SYSTEM''"
| "by_name By_CUSTOMER = ''CUSTOMER''"
| "by_name By_PROVIDER = ''PROVIDER''"
| "by_name By_CONSUMER = ''CONSUMER''"

fun direction_name :: "call_direction \<Rightarrow> string" where
  "direction_name INBOUND = ''INBOUND''"
| "direction_name OUTBOUND = ''OUTBOUND''"

fun status_name :: "call_status \<Rightarrow> string" where
  "status_name St_INITIATED = ''INITIATED''"
| "status_name St_RINGING = ''RINGING''"
| "status_name St_IN_PROGRESS = ''IN_PROGRESS''"
| "status_name St_TERMINATED = ''TERMINATED''"
| "status_name St_FAILED = ''FAILED''"
| "status_name St_CANCELLED = ''CANCELLED''"

text \<open>The agent's part of \<open>settle\<close>, in its try block.\<close>

definition free_agent :: "call \<Rightarrow> bool \<Rightarrow> unit task" where
  "free_agent c offline =
     only_when (c_agent_id c \<noteq> None)
       (logged_failure
         (and_then (releaseAgent (c_agent_id c) (c_id c) offline) (\<lambda>_.
          only_when (\<not> offline) (and_then (assignOldestUnassignedCall (c_tenant_id c)) (\<lambda>_. ret ())))))"

definition settle_row :: "call \<Rightarrow> end_options \<Rightarrow> unit task" where
  "settle_row c opt =
     and_then (change (\<lambda>w. w\<lparr>w_calls := fillQueueDuration (now_s w) (accepted_times (c_id c) w) (c_id c) (w_calls w)\<rparr>)) (\<lambda>_.
     and_then (change (\<lambda>w. w\<lparr>w_participants := participants_callEnded (w_now w) (c_id c) (w_participants w)\<rparr>)) (\<lambda>_.
     and_then (emit (Bus (TerminatedEv \<lparr> tn_callId = c_id c, tn_tenantId = Some (c_tenant_id c),
         tn_reason = reason_name (eo_reason opt), tn_terminationReason = reason_name (eo_reason opt),
         tn_terminatedBy = Some (eo_terminatedBy opt), tn_source = eo_source opt \<rparr>))) (\<lambda>_.
     and_then (change (forget_leg_socket (c_id c))) (\<lambda>_.
     and_then (free_agent c (eo_agentOffline opt)) (\<lambda>_.
     and_then (tell_provider (eo_provider opt) c) (\<lambda>_.
     and_then (closeMedia (c_id c) (eo_media opt)) (\<lambda>_.
     and_then (logged_failure (write_log (\<lambda>now. logTerminated now (c_id c) (Some (c_tenant_id c)) (c_agent_id c) (Some (c_direction c))
         ([(''reason'', JStr (reason_name (eo_reason opt))), (''terminated_by'', JStr (by_name (eo_terminatedBy opt)))]
          @ (case eo_source opt of None \<Rightarrow> [] | Some s \<Rightarrow> [(''source'', JStr s)]) @ eo_log opt)))) (\<lambda>_.
     and_then (only_when (c_queue_id c \<noteq> None)
         (logged_failure (emitQueueUpdate (c_tenant_id c) (c_queue_id c)))) (\<lambda>_.
     emit (CallMeasured (c_id c)))))))))))"

definition settle :: "call_ref \<Rightarrow> end_options \<Rightarrow> unit task" where
  "settle r opt =
     and_then (read (load r)) (\<lambda>found.
     case found of None \<Rightarrow> ret () | Some c \<Rightarrow> settle_row c opt)"

text \<open>Step 1 of \<open>end\<close>: the guarded commit.\<close>

definition commit_end :: "nat \<Rightarrow> end_options \<Rightarrow> int \<Rightarrow> call list \<Rightarrow> call list \<times> bool" where
  "commit_end i opt now cs =
     (case eo_failure opt of
        Some errors \<Rightarrow> markCallFailedIfNotFinal now i errors None (eo_reason opt) (eo_terminatedBy opt) cs
      | None \<Rightarrow> terminateCallIfNotTerminated now i (Some (eo_reason opt)) (eo_terminatedBy opt) None (eo_onlyIfStatus opt) cs)"

definition end_call :: "call_ref \<Rightarrow> end_options \<Rightarrow> bool task" where
  "end_call r opt =
     and_then (read (load r)) (\<lambda>found.
     case found of
       None \<Rightarrow> ret False
     | Some c \<Rightarrow>
         and_then (on_calls (commit_end (c_id c) opt)) (\<lambda>committed.
         if committed then and_then (settle_row c opt) (\<lambda>_. ret True)
         else and_then (read (\<lambda>w. getStatus (c_id c) (w_calls w))) (\<lambda>status.
           if eo_onlyIfStatus opt \<noteq> None \<and> (case status of None \<Rightarrow> False | Some s \<Rightarrow> s \<in> set live_statuses)
           then ret False
           else and_then (closeMedia (c_id c) Local) (\<lambda>_. ret False))))"

section \<open>Queue timers\<close>

definition MAX_OVERFLOWS :: nat where
  "MAX_OVERFLOWS = 3"

definition expireOffers :: "unit task" where
  "expireOffers =
     and_then (read (\<lambda>w. findExpiredOffers (now_s w) 50 (w_queues w) (w_calls w)))
       (for_each (\<lambda>(c, q).
          case c_agent_id c of
            None \<Rightarrow> ret ()
          | Some a \<Rightarrow> logged_failure (and_then (passOffer c a Missed (c_offered_at c)) (\<lambda>_. ret ()))))"

definition waitExpired :: "call \<Rightarrow> queue \<Rightarrow> unit task" where
  "waitExpired c q =
     and_then (read (\<lambda>w.
       if q_overflow_queue_id q \<noteq> None \<and> q_overflow_queue_id q \<noteq> c_queue_id c \<and> c_overflow_count c < MAX_OVERFLOWS
       then getQueue (q_overflow_queue_id q) (w_queues w) else None)) (\<lambda>overflow.
     case overflow of
       Some to \<Rightarrow>
         if q_tenant_id to = c_tenant_id c then
           and_then (on_calls (\<lambda>now. overflowToQueue now (c_id c) (q_id q) (q_id to) (c_agent_id c))) (\<lambda>moved.
           only_when moved (callOverflowed c (q_max_wait_seconds q) to))
         else and_then (end_call (Row c) ((end_defaults Rs_TIMEOUT By_SYSTEM)\<lparr>eo_onlyIfStatus := Some St_RINGING,
             eo_provider := Provider_end, eo_source := Some ''queue_max_wait'',
             eo_log := [(''queue_id'', json_id (c_queue_id c)), (''max_wait_seconds'', json_id (q_max_wait_seconds q)),
                        (''overflow_count'', JNum (int (c_overflow_count c)))]\<rparr>)) (\<lambda>_. ret ())
     | None \<Rightarrow>
         and_then (end_call (Row c) ((end_defaults Rs_TIMEOUT By_SYSTEM)\<lparr>eo_onlyIfStatus := Some St_RINGING,
             eo_provider := Provider_end, eo_source := Some ''queue_max_wait'',
             eo_log := [(''queue_id'', json_id (c_queue_id c)), (''max_wait_seconds'', json_id (q_max_wait_seconds q)),
                        (''overflow_count'', JNum (int (c_overflow_count c)))]\<rparr>)) (\<lambda>_. ret ()))"

definition expireWaits :: "unit task" where
  "expireWaits =
     and_then (read (\<lambda>w. findExpiredWaits (now_s w) 50 (w_queues w) (w_calls w)))
       (for_each (\<lambda>(c, q). logged_failure (waitExpired c q)))"

definition handoverExpired :: "call \<Rightarrow> unit task" where
  "handoverExpired c =
     (case (c_agent_id c, c_offered_at c) of
        (Some a, Some offered) \<Rightarrow>
          if c_direction c = INBOUND \<and> c_queue_id c \<noteq> None then
            and_then (on_calls (\<lambda>now. returnHandoverToQueue now (c_id c) a offered)) (\<lambda>returned.
            only_when returned (and_then (passOffer (c\<lparr>c_status := St_RINGING\<rparr>) a Missed None) (\<lambda>_. ret ())))
          else
            and_then (on_calls (\<lambda>now. expireHandover now (c_id c) a offered)) (\<lambda>expired.
            only_when expired
              (and_then (read w_transfer_timeout) (\<lambda>secs.
               and_then (end_call (Row c) ((end_defaults Rs_TIMEOUT By_SYSTEM)\<lparr>eo_onlyIfStatus := Some St_IN_PROGRESS,
                 eo_provider := Provider_terminate, eo_source := Some ''transfer_unanswered'',
                 eo_log := [(''transfer_timeout_seconds'', JNum (int secs))]\<rparr>)) (\<lambda>_. ret ()))))
      | _ \<Rightarrow> ret ())"

definition expireHandovers :: "unit task" where
  "expireHandovers =
     and_then (read (\<lambda>w. findExpiredHandovers (now_s w) (w_transfer_timeout w) 50 (w_calls w)))
       (for_each (\<lambda>c. logged_failure (handoverExpired c)))"

text \<open>One scan, by the worker that took the lock.\<close>

definition timeouts_tick :: "unit task" where
  "timeouts_tick = and_then expireOffers (\<lambda>_. and_then expireWaits (\<lambda>_. expireHandovers))"

section \<open>Stuck calls\<close>

record cleanup_item =
  ci_callId :: nat
  ci_tenantId :: nat
  ci_reason :: "termination_reason option"

record cleanup =
  cl_queue :: "cleanup_item list"
  cl_last :: "nat \<Rightarrow> int option"

definition CLEANUP_COOLDOWN :: int where
  "CLEANUP_COOLDOWN = 30000"

text \<open>\<open>Map.set\<close>: a call already queued keeps its place.\<close>

definition enqueue :: "cleanup_item \<Rightarrow> cleanup \<Rightarrow> cleanup" where
  "enqueue it cl =
     (if ci_callId it \<in> ci_callId ` set (cl_queue cl)
      then cl\<lparr>cl_queue := map (\<lambda>x. if ci_callId x = ci_callId it then it else x) (cl_queue cl)\<rparr>
      else cl\<lparr>cl_queue := cl_queue cl @ [it]\<rparr>)"

text \<open>The items a tenant's batch will end, and the state until it has run.\<close>

definition processCleanupQueue :: "int \<Rightarrow> nat \<Rightarrow> cleanup \<Rightarrow> cleanup \<times> cleanup_item list" where
  "processCleanupQueue now tenantId cl =
     (if now - nullish (cl_last cl tenantId) 0 < CLEANUP_COOLDOWN then (cl, [])
      else let items = filter (\<lambda>it. ci_tenantId it = tenantId) (cl_queue cl)
           in if items = [] then (cl, []) else (cl\<lparr>cl_last := (cl_last cl)(tenantId \<mapsto> now)\<rparr>, items))"

definition dequeue :: "cleanup_item list \<Rightarrow> cleanup \<Rightarrow> cleanup" where
  "dequeue items cl = cl\<lparr>cl_queue := filter (\<lambda>x. ci_callId x \<notin> ci_callId ` set items) (cl_queue cl)\<rparr>"

fun end_stuck :: "call list \<Rightarrow> cleanup_item list \<Rightarrow> nat list \<Rightarrow> nat list task" where
  "end_stuck calls [] done_ids = ret done_ids"
| "end_stuck calls (it # items) done_ids =
     (case find (\<lambda>c. c_id c = ci_callId it) calls of
        None \<Rightarrow> end_stuck calls items done_ids
      | Some c \<Rightarrow>
          (let reason = nullish (ci_reason it) Rs_SYSTEM_ERROR in
           and_then (catching (end_call (Row c) ((end_defaults reason By_SYSTEM)\<lparr>
               eo_onlyIfStatus := (if reason = Rs_NO_ANSWER \<or> reason = Rs_IVR_AGENT_NO_ANSWER then Some St_RINGING else None),
               eo_provider := Provider_end, eo_source := Some ''cleanup''\<rparr>)) (\<lambda>_. ret False)) (\<lambda>ended.
           end_stuck calls items (if ended then List.insert (c_id c) done_ids else done_ids))))"

definition batchCleanupCalls :: "cleanup_item list \<Rightarrow> nat list task" where
  "batchCleanupCalls items =
     (if items = [] then ret []
      else and_then (read (\<lambda>w. call_findByIds (map ci_callId items) (w_calls w))) (\<lambda>calls. end_stuck calls items []))"

definition stuck_reason :: "call \<Rightarrow> termination_reason" where
  "stuck_reason c = (if c_status c = St_RINGING then Rs_NO_ANSWER else nullish (c_termination_reason c) Rs_COMPLETED)"

definition stuck_item :: "call \<Rightarrow> cleanup_item" where
  "stuck_item c = \<lparr> ci_callId = c_id c, ci_tenantId = c_tenant_id c, ci_reason = Some (stuck_reason c) \<rparr>"

definition releaseStaleCallsForUser :: "nat \<Rightarrow> nat task" where
  "releaseStaleCallsForUser userId =
     and_then (read (\<lambda>w. findStuckCallsForUser (now_s w) userId 1 (w_calls w))) (\<lambda>stuck.
     if stuck = [] then ret 0
     else and_then (batchCleanupCalls (map stuck_item stuck)) (\<lambda>ids. ret (length ids)))"

text \<open>Each tenant's batch at once (the cooldown is lifted first), its items leaving the queue after it.\<close>

fun run_batches :: "nat list \<Rightarrow> cleanup \<Rightarrow> cleanup task" where
  "run_batches [] cl = ret cl"
| "run_batches (t # ts) cl =
     and_then (read w_now) (\<lambda>now.
     let p = processCleanupQueue now t (cl\<lparr>cl_last := (cl_last cl)(t := None)\<rparr>) in
     and_then (batchCleanupCalls (snd p)) (\<lambda>_. run_batches ts (dequeue (snd p) (fst p))))"

definition expireOutboundIntents :: "unit task" where
  "expireOutboundIntents =
     and_then (read (\<lambda>w. findExpiredOutboundIntents (now_s w) 2 (w_calls w)))
       (for_each (\<lambda>c. and_then (end_call (ById (c_id c)) ((end_defaults Rs_CANCELLED By_SYSTEM)\<lparr>
          eo_onlyIfStatus := Some St_INITIATED, eo_source := Some ''outbound_intent_expired''\<rparr>)) (\<lambda>_. ret ())))"

definition scanStuckCalls :: "cleanup \<Rightarrow> cleanup task" where
  "scanStuckCalls cl =
     and_then (read (\<lambda>w. findAllStuckCalls (now_s w) 1 (w_queues w) (w_calls w))) (\<lambda>stuck.
     if stuck = [] then ret cl
     else run_batches (remdups (map c_tenant_id stuck)) (fold (\<lambda>c. enqueue (stuck_item c)) stuck cl))"

definition missed_ivr_ring :: "call \<Rightarrow> unit task" where
  "missed_ivr_ring c =
     and_then (read (\<lambda>w. (w_now w, w_ivr_ring_timeout w))) (\<lambda>(now, timeouts).
     and_then (logged_failure (write_log (\<lambda>t. logIvrAgentMissed t (c_id c) (Some (c_tenant_id c)) (c_agent_id c)
         [(''ring_duration_seconds'', JNum ((now - nullish (c_ringing_at c) 0 * 1000) div 1000)),
          (''ivr_flow_id'', json_id (c_ivr_flow_id c)),
          (''configured_timeout'', json_id (Option.bind (c_ivr_flow_id c) timeouts))]))) (\<lambda>_.
     and_then (recordMiss (c_id c) (c_tenant_id c) (c_queue_id c) (c_agent_id c) True) (\<lambda>flipped.
     case c_agent_id c of
       None \<Rightarrow> ret ()
     | Some a \<Rightarrow> only_when flipped (logged_failure (emitAgentQueues (c_tenant_id c) a)))))"

definition runIvrRingCleanup :: "cleanup \<Rightarrow> cleanup task" where
  "runIvrRingCleanup cl =
     catching
       (and_then (read (\<lambda>w. findStuckIvrTransferredCalls (now_s w) (w_ivr_ring_timeout w) (w_queues w) (w_calls w))) (\<lambda>stuck.
        if stuck = [] then ret cl
        else and_then (for_each missed_ivr_ring stuck) (\<lambda>_.
             run_batches (remdups (map c_tenant_id stuck))
               (fold (\<lambda>c. enqueue \<lparr> ci_callId = c_id c, ci_tenantId = c_tenant_id c, ci_reason = Some Rs_IVR_AGENT_NO_ANSWER \<rparr>)
                  stuck cl))))
       (\<lambda>_. ret cl)"

text \<open>\<open>local\<close> are the calls whose media this worker holds.\<close>

definition reconcileOrphanedLegs :: "nat list \<Rightarrow> unit task" where
  "reconcileOrphanedLegs local =
     and_then (read (\<lambda>w. call_findByIds local (w_calls w))) (\<lambda>calls.
     for_each (\<lambda>i.
       (let found = find (\<lambda>c. c_id c = i) calls in
        case found of
          Some c \<Rightarrow>
            if c_status c \<in> {St_TERMINATED, St_FAILED, St_CANCELLED} then
              and_then (emit (MediaClosed i)) (\<lambda>_.
              emit (Bus (TerminatedEv \<lparr> tn_callId = i, tn_tenantId = Some (c_tenant_id c),
                tn_reason = ''orphan_cleanup'', tn_terminationReason = status_name (c_status c),
                tn_terminatedBy = None, tn_source = None \<rparr>)))
            else ret ()
        | None \<Rightarrow>
            and_then (emit (MediaClosed i)) (\<lambda>_.
            emit (Bus (TerminatedEv \<lparr> tn_callId = i, tn_tenantId = None, tn_reason = ''orphan_cleanup'',
              tn_terminationReason = ''NOT_FOUND'', tn_terminatedBy = None, tn_source = None \<rparr>))))) local)"

definition runPeriodicCleanup :: "nat list \<Rightarrow> cleanup \<Rightarrow> cleanup task" where
  "runPeriodicCleanup local cl =
     and_then (reconcileOrphanedLegs local) (\<lambda>_.
     and_then (logged_failure expireOutboundIntents) (\<lambda>_.
     and_then (logged_failure (and_then releaseAgentsOfEndedCalls (\<lambda>_. ret ()))) (\<lambda>_.
     catching (scanStuckCalls cl) (\<lambda>_. ret cl))))"

end
