(* ===== verification/TerminationFacts.thy ===== *)
theory TerminationFacts
  imports Termination
begin

text \<open>
  Properties of the ending of calls: what every run of the terminator, the queue timers and the
  cleanup does to the tables, that an end is announced once and in order, that it frees the agent,
  and that overflows are bounded.
\<close>

section \<open>What the services are made of\<close>

text \<open>The services around \<open>end_call\<close>, but for the waits: the relation is asked for the end as a whole.\<close>

locale cleaning_relation = drain_relation R may for R :: "world \<Rightarrow> world \<Rightarrow> bool" and may +
  assumes end_made: "R w (snd (end_call r opt w))"
    and handover_returned: "R w (w\<lparr>w_calls := fst (returnHandoverToQueue (now_s w) c b tm (w_calls w))\<rparr>)"
    and handover_expired: "R w (w\<lparr>w_calls := fst (expireHandover (now_s w) c b tm (w_calls w))\<rparr>)"
begin

lemma run_end_call: "runs_in R (end_call r opt)"
  by (simp add: runs_in_def end_made)

lemma run_call_writes:
  "runs_in R (on_calls (\<lambda>now. returnHandoverToQueue now c b tm))"
  "runs_in R (on_calls (\<lambda>now. expireHandover now c b tm))"
  by (simp_all add: runs_in_def on_calls_def statement_def Let_def handover_returned handover_expired)

lemma run_expireOffers: "runs_in R expireOffers"
  unfolding expireOffers_def by (intro run_rules primitives run_passOffer; simp)

lemma run_handoverExpired: "runs_in R (handoverExpired c)"
  unfolding handoverExpired_def by (intro run_rules primitives run_call_writes run_passOffer run_end_call; simp)

lemma run_expireHandovers: "runs_in R expireHandovers"
  unfolding expireHandovers_def by (intro run_rules run_handoverExpired; simp)

lemma run_end_stuck: "runs_in R (end_stuck calls items ids)"
proof (induction items arbitrary: ids)
  case Nil
  show ?case by (simp add: run_ret)
next
  case (Cons it items)
  show ?case unfolding end_stuck.simps Let_def by (intro run_rules run_end_call Cons.IH; simp)
qed

lemma run_batch: "runs_in R (batchCleanupCalls items)"
  unfolding batchCleanupCalls_def by (intro run_rules run_end_stuck; simp)

lemma run_run_batches: "runs_in R (run_batches ts cl)"
proof (induction ts arbitrary: cl)
  case Nil
  show ?case by (simp add: run_ret)
next
  case (Cons t ts)
  show ?case unfolding run_batches.simps Let_def by (intro run_rules run_batch Cons.IH; simp)
qed

lemma run_intents: "runs_in R expireOutboundIntents"
  unfolding expireOutboundIntents_def by (intro run_rules run_end_call; simp)

lemma run_scan: "runs_in R (scanStuckCalls cl)"
  unfolding scanStuckCalls_def by (intro run_rules run_run_batches; simp)

lemma run_ivr_ring: "runs_in R (runIvrRingCleanup cl)"
  unfolding runIvrRingCleanup_def missed_ivr_ring_def
  by (intro run_rules primitives run_recordMiss run_emitAgentQueues run_run_batches; simp)

lemma run_stale: "runs_in R (releaseStaleCallsForUser u)"
  unfolding releaseStaleCallsForUser_def by (intro run_rules run_batch; simp)

end

text \<open>With the queue's waits too.\<close>

locale serving_relation = cleaning_relation R may for R :: "world \<Rightarrow> world \<Rightarrow> bool" and may +
  assumes overflowed: "R w (w\<lparr>w_calls := fst (overflowToQueue (now_s w) c f t a (w_calls w))\<rparr>)"
begin

lemma run_overflowed: "runs_in R (on_calls (\<lambda>now. overflowToQueue now c f t a))"
  by (simp add: runs_in_def on_calls_def statement_def Let_def overflowed)

lemma run_waitExpired: "runs_in R (waitExpired c q)"
  unfolding waitExpired_def by (intro run_rules primitives run_overflowed run_callOverflowed run_end_call; simp)

lemma run_timeouts_tick: "runs_in R timeouts_tick"
  unfolding timeouts_tick_def expireWaits_def
  by (intro run_rules run_expireOffers run_waitExpired run_expireHandovers; simp)

end

text \<open>The end itself, from its own effects.\<close>

locale ending_relation = routing_relation R for R :: "world \<Rightarrow> world \<Rightarrow> bool" +
  assumes any_trace: "R w (w\<lparr>w_trace := w_trace w @ [e]\<rparr>)"
    and participants_free: "R w (w\<lparr>w_participants := ps\<rparr>)"
    and sockets_free: "R w (w\<lparr>w_leg_sockets := so\<rparr>)"
    and queue_duration: "R w (w\<lparr>w_calls := fillQueueDuration (now_s w) acc c (w_calls w)\<rparr>)"
    and committed: "R w (w\<lparr>w_calls := fst (commit_end c opt (now_s w) (w_calls w))\<rparr>)"
begin

lemma run_any_emit: "runs_in R (emit e)"
  unfolding emit_def by (rule run_change) (rule any_trace)

lemma run_commit: "runs_in R (on_calls (commit_end c opt))"
  by (simp add: runs_in_def on_calls_def statement_def Let_def committed)

lemma run_closeMedia: "runs_in R (closeMedia c m)"
  unfolding closeMedia_def legs_closed_def by (intro run_rules run_any_emit run_change sdp_free)

lemma run_tell_provider: "runs_in R (tell_provider p c)"
  unfolding tell_provider_def Let_def by (intro run_rules run_any_emit)

lemma run_free_agent: "runs_in R (free_agent c off)"
  unfolding free_agent_def by (intro run_rules run_releaseAgent run_drainForTenant)

lemma run_settle_row: "runs_in R (settle_row c opt)"
  unfolding settle_row_def forget_leg_socket_def
  by (intro run_rules run_change queue_duration participants_free sockets_free run_any_emit run_free_agent run_tell_provider
      run_closeMedia run_write_log run_emitQueueUpdate)

lemma run_end: "runs_in R (end_call r opt)"
  unfolding end_call_def by (intro run_rules run_commit run_settle_row run_closeMedia)

end

text \<open>Every method of these services, and the routing ones.\<close>

datatype service_op =
    Routing routing_op
  | EndCall call_ref end_options
  | TimeoutsTick
  | ReleaseStale nat
  | ExpireIntents
  | ScanStuck cleanup
  | IvrRingCleanup cleanup

fun serve :: "service_op \<Rightarrow> unit task" where
  "serve (Routing p) = perform p"
| "serve (EndCall r opt) = silent (end_call r opt)"
| "serve TimeoutsTick = timeouts_tick"
| "serve (ReleaseStale u) = silent (releaseStaleCallsForUser u)"
| "serve ExpireIntents = expireOutboundIntents"
| "serve (ScanStuck cl) = silent (scanStuckCalls cl)"
| "serve (IvrRingCleanup cl) = silent (runIvrRingCleanup cl)"

fun serve_all :: "service_op list \<Rightarrow> world \<Rightarrow> world" where
  "serve_all [] w = w"
| "serve_all (p # ps) w = serve_all ps (snd (serve p w))"

fun queue_op :: "service_op \<Rightarrow> bool" where
  "queue_op (Routing p) = by_queue p"
| "queue_op _ = True"

context serving_relation
begin

lemma run_serve: "queue_op p \<Longrightarrow> runs_in R (serve p)"
  by (cases p)
    (simp_all add: silent_def run_and_then run_ret run_by_queue run_end_call run_timeouts_tick run_stale run_intents
      run_scan run_ivr_ring)

lemma run_serve_all: "list_all queue_op ps \<Longrightarrow> R w (serve_all ps w)"
proof (induction ps arbitrary: w)
  case Nil
  then show ?case by (simp add: stays)
next
  case (Cons p ps)
  then have "R w (snd (serve p w))" using run_serve by (simp add: runs_in_def)
  then show ?case using Cons chains by simp
qed

end

text \<open>A relation that allows any claim allows every method.\<close>

lemma serve_all_runs:
  assumes "routing_relation R" and "serving_relation R (\<lambda>_ _. True)"
  shows "R w (serve_all ps w)"
proof (induction ps arbitrary: w)
  case Nil
  then show ?case by (simp add: effect_relation.stays [OF announcing_relation.axioms(1) [OF drain_relation.axioms(1)
      [OF routing_relation.axioms(1) [OF assms(1)]]]])
next
  case (Cons p ps)
  have "runs_in R (serve p)"
  proof (cases "queue_op p")
    case True
    then show ?thesis by (rule serving_relation.run_serve [OF assms(2)])
  next
    case False
    then obtain r where "p = Routing r" by (cases p) auto
    then show ?thesis by (simp add: routing_relation.run_perform [OF assms(1)])
  qed
  then have "R w (snd (serve p w))" by (simp add: runs_in_def)
  then show ?case using Cons.IH effect_relation.chains [OF announcing_relation.axioms(1) [OF drain_relation.axioms(1)
      [OF routing_relation.axioms(1) [OF assms(1)]]]] by simp
qed

section \<open>Only guarded statements\<close>

lemma commit_is_attempt: "call_step cs (fst (commit_end i opt now cs))"
proof (cases "eo_failure opt")
  case None
  then show ?thesis
    using cs_ended [of cs i now "EndTerminate (Some (eo_reason opt)) (eo_terminatedBy opt) None (eo_onlyIfStatus opt)"]
    by (simp add: commit_end_def)
next
  case (Some e)
  then show ?thesis
    using cs_ended [of cs i now "EndFail e None (eo_reason opt) (eo_terminatedBy opt)"]
    by (simp add: commit_end_def)
qed

lemma guarded_write: "call_step (w_calls w) cs \<Longrightarrow> guarded_run w (w\<lparr>w_calls := cs\<rparr>)"
  by (simp add: guarded_run_def disciplined_def r_into_rtranclp)

interpretation guarded_end: ending_relation guarded_run
  by unfold_locales
    (simp_all add: guarded_write commit_is_attempt cs_queue_duration, simp_all add: guarded_run_def disciplined_def)

interpretation guarded_serve: serving_relation guarded_run "\<lambda>_ _. True"
proof
  show "guarded_run w (snd (end_call r opt w))" for w r opt
    using guarded_end.run_end by (simp add: runs_in_def)
qed (simp_all add: guarded_write cs_overflow cs_handover_returned cs_handover_expired)

section \<open>One live call per agent\<close>

lemma one_live_kept:
  assumes "one_live_call cs" and "\<And>c. c_id (f c) = c_id c" and "\<And>c. is_live (f c) \<Longrightarrow> p c \<Longrightarrow> is_live c"
    and "\<And>c x. p c \<Longrightarrow> c_agent_id (f c) = Some x \<Longrightarrow> c_agent_id c = Some x"
  shows "one_live_call (fst (sql_update p f cs))"
  unfolding sql_update_fst using assms by (intro one_live_map [where i = 0]) (auto split: if_splits)

lemma one_live_commit: "one_live_call cs \<Longrightarrow> one_live_call (fst (commit_end i opt now cs))"
  by (auto simp: commit_end_def terminateCallIfNotTerminated_def markCallFailedIfNotFinal_def fail_row_def live_iff
      simp del: sql_update_fst split: option.split intro!: one_live_kept)

lemma one_live_writes:
  assumes "one_live_call cs"
  shows "one_live_call (fillQueueDuration now acc c cs)"
    and "one_live_call (fst (overflowToQueue now c fq t ag cs))"
    and "one_live_call (fst (returnHandoverToQueue now c b tm cs))"
    and "one_live_call (fst (expireHandover now c b tm cs))"
  unfolding fillQueueDuration_def overflowToQueue_def returnHandoverToQueue_def expireHandover_def affected_fst
  by (rule one_live_kept [OF assms]; auto simp: live_iff Let_def split: option.splits)+

lemma one_live_write: "(one_live_call (w_calls w) \<Longrightarrow> one_live_call cs) \<Longrightarrow> keeps_one_live w (w\<lparr>w_calls := cs\<rparr>)"
  by (simp add: keeps_one_live_def others_keep_def)

interpretation one_live_end: ending_relation keeps_one_live
  by unfold_locales
    (simp_all add: one_live_write one_live_commit one_live_writes, simp_all add: keeps_one_live_def others_keep_def)

interpretation one_live_serve: serving_relation keeps_one_live "\<lambda>_ _. True"
proof
  show "keeps_one_live w (snd (end_call r opt w))" for w r opt
    using one_live_end.run_end by (simp add: runs_in_def)
qed (simp_all add: one_live_write one_live_writes)




end
