(* ===== verification/EndFacts.thy ===== *)
theory EndFacts
  imports TerminationFacts
begin

text \<open>
  One end in detail (\<open>CallTerminator.end\<close> and \<open>settle\<close>): when it does nothing, what it announces
  and in which order, that it is announced once, that it frees the agent, and how often a call can
  overflow before the queue timer ends it (\<open>QueueTimeoutService.js\<close>).
\<close>

section \<open>An end that lost\<close>

lemma same_calls [simp]: "w\<lparr>w_calls := w_calls w\<rparr> = (w :: world)"
  by simp

lemma commit_lost:
  assumes "\<not> snd (commit_end i opt now cs)"
  shows "fst (commit_end i opt now cs) = cs"
  using assms by (cases "eo_failure opt")
    (simp_all add: commit_end_def terminateCallIfNotTerminated_def markCallFailedIfNotFinal_def affected_lose del: affected_fst affected_snd)

lemma getStatus_row: "keyed cs \<Longrightarrow> x \<in> set cs \<Longrightarrow> getStatus (c_id x) cs = Some (c_status x)"
  using first_row_unique [of c_id cs x] by (simp add: getStatus_def call_findById_def keyed_def)

text \<open>
  C26: A guarded end spares a call that moved on. An end that asks for a status (a ring timeout, a queue
  timer, a cleanup) does nothing at all when the call is live in another status, e.g. was answered just
  before: the row, the agents, the media and the announcements are as they were.
\<close>

theorem guarded_end_spares_live_call:
  assumes "keyed (w_calls w)" and "x \<in> set (w_calls w)" and "is_live x"
    and "eo_failure opt = None" and "eo_onlyIfStatus opt = Some s" and "c_status x \<noteq> s" and "c_id scanned = c_id x"
  shows "end_call (Row scanned) opt w = (Inr False, w)"
proof -
  have "\<not> snd (commit_end (c_id x) opt (now_s w) (w_calls w))"
    using assms distinct_key_eq [of c_id "w_calls w" _ x]
    by (auto simp: commit_end_def terminateCallIfNotTerminated_def affected_pair keyed_def)
  then have "on_calls (commit_end (c_id x) opt) w = (Inr False, w)"
    using commit_lost by (simp add: on_calls_def statement_def Let_def)
  then show ?thesis
    using assms(3,5,7) getStatus_row [OF assms(1,2)]
    by (simp add: end_call_def load_def and_then_def read_def is_live_def ret_def)
qed

theorem guarded_end_spares_live_call_witness:
  "end_call (Row ((example_call 4)\<lparr>c_status := St_IN_PROGRESS\<rparr>\<lparr>c_status := St_RINGING\<rparr>))
      ((end_defaults Rs_NO_ANSWER By_SYSTEM)\<lparr>eo_onlyIfStatus := Some St_RINGING\<rparr>)
      (empty_world\<lparr>w_calls := [(example_call 4)\<lparr>c_status := St_IN_PROGRESS\<rparr>]\<rparr>)
   = (Inr False, empty_world\<lparr>w_calls := [(example_call 4)\<lparr>c_status := St_IN_PROGRESS\<rparr>]\<rparr>)"
  by (rule guarded_end_spares_live_call [where x = "(example_call 4)\<lparr>c_status := St_IN_PROGRESS\<rparr>" and s = St_RINGING])
    (simp_all add: keyed_def is_live_def live_statuses_def end_defaults_def)

section \<open>What an end announces\<close>

definition extends_trace :: "world \<Rightarrow> world \<Rightarrow> bool" where
  "extends_trace w w' \<longleftrightarrow> (\<exists>xs. w_trace w' = w_trace w @ xs \<and> list_all routing_effect xs)"

lemma extends_same [simp]: "w_trace w' = w_trace w \<Longrightarrow> extends_trace w w'"
  by (simp add: extends_trace_def)

interpretation traced: routing_relation extends_trace
proof
  show "extends_trace w u" if "extends_trace w v" "extends_trace v u" for w v u
    using that by (auto simp: extends_trace_def)
  show "extends_trace w (others_step w)" for w
    by (simp add: others_step_def split: list.split)
qed (auto simp: extends_trace_def)

lemma and_then_unit: "fst (m s) = Inr () \<Longrightarrow> and_then m f s = f () (snd (m s))"
  by (cases "m s") (simp add: and_then_def)

lemma free_agent_returns: "fst (free_agent c off w) = Inr ()"
  by (cases "c_agent_id c") (simp_all add: free_agent_def ret_def)

definition provider_effects :: "provider_action \<Rightarrow> call \<Rightarrow> effect list" where
  "provider_effects p c =
     (if p = Provider_none \<or> c_provider_call_id c = None then []
      else if provider_action p c = Provider_reject \<or> provider_action p c = Provider_busy
           then [ProviderReject (c_id c) (provider_action p c = Provider_busy)]
      else [ProviderTerminate (c_id c)])"

lemma tell_provider_run:
  "tell_provider p c w = (Inr (), w\<lparr>w_trace := w_trace w @ provider_effects p c\<rparr>)"
  by (auto simp: tell_provider_def provider_effects_def Let_def act_defs emit_def)

definition media_effects :: "nat \<Rightarrow> media_scope \<Rightarrow> effect list" where
  "media_effects i m = [DeadlinesCleared i, StateDropped i, MediaClosed i,
     (if m = Local then InboxReleased i True else InboxPosted i ''CALL_TERMINATED'')]"

lemma closeMedia_run: "closeMedia i m w = (Inr (), (legs_closed i w)\<lparr>w_trace := w_trace w @ media_effects i m\<rparr>)"
  by (simp add: closeMedia_def media_effects_def act_defs emit_def legs_closed_def now_s_def)

definition ended_news :: "call \<Rightarrow> end_options \<Rightarrow> termination_news" where
  "ended_news c opt = \<lparr> tn_callId = c_id c, tn_tenantId = Some (c_tenant_id c),
     tn_reason = reason_name (eo_reason opt), tn_terminationReason = reason_name (eo_reason opt),
     tn_terminatedBy = Some (eo_terminatedBy opt), tn_source = eo_source opt \<rparr>"

text \<open>The state in which the agent is freed, and the one after everything else.\<close>

definition announced_end :: "call \<Rightarrow> end_options \<Rightarrow> world \<Rightarrow> world" where
  "announced_end c opt w = w\<lparr>w_calls := fillQueueDuration (now_s w) (accepted_times (c_id c) w) (c_id c) (w_calls w),
     w_participants := participants_callEnded (w_now w) (c_id c) (w_participants w),
     w_trace := w_trace w @ [Bus (TerminatedEv (ended_news c opt))],
     w_leg_sockets := (w_leg_sockets w)(c_id c := None)\<rparr>"

definition last_steps :: "call \<Rightarrow> end_options \<Rightarrow> unit task" where
  "last_steps c opt =
     and_then (logged_failure (write_log (\<lambda>now. logTerminated now (c_id c) (Some (c_tenant_id c)) (c_agent_id c) (Some (c_direction c))
         ([(''reason'', JStr (reason_name (eo_reason opt))), (''terminated_by'', JStr (by_name (eo_terminatedBy opt)))]
          @ (case eo_source opt of None \<Rightarrow> [] | Some s \<Rightarrow> [(''source'', JStr s)]) @ eo_log opt)))) (\<lambda>_.
     only_when (c_queue_id c \<noteq> None) (logged_failure (emitQueueUpdate (c_tenant_id c) (c_queue_id c))))"

lemma last_steps_returns: "fst (last_steps c opt w) = Inr ()"
  by (cases "c_queue_id c") (simp_all add: last_steps_def and_then_unit ret_def)

lemma last_steps_announce: "announces_only w (snd (last_steps c opt w)) \<and> extends_trace w (snd (last_steps c opt w))"
proof -
  have "runs_in announces_only (last_steps c opt)"
    unfolding last_steps_def by (intro announced.run_rules announced.run_write_log announced.run_emitQueueUpdate)
  moreover have "runs_in extends_trace (last_steps c opt)"
    unfolding last_steps_def by (intro traced.run_rules traced.run_write_log traced.run_emitQueueUpdate)
  ultimately show ?thesis by (simp add: runs_in_def)
qed

lemma settle_row_run:
  "settle_row c opt w =
     (let w1 = snd (free_agent c (eo_agentOffline opt) (announced_end c opt w));
          w2 = (legs_closed (c_id c) w1)\<lparr>w_trace := w_trace w1 @ provider_effects (eo_provider opt) c @ media_effects (c_id c) (eo_media opt)\<rparr>;
          w3 = snd (last_steps c opt w2)
      in (Inr (), w3\<lparr>w_trace := w_trace w3 @ [CallMeasured (c_id c)]\<rparr>))"
proof -
  let ?w1 = "snd (free_agent c (eo_agentOffline opt) (announced_end c opt w))"
  let ?w2 = "(legs_closed (c_id c) ?w1)\<lparr>w_trace := w_trace ?w1 @ provider_effects (eo_provider opt) c @ media_effects (c_id c) (eo_media opt)\<rparr>"
  have "settle_row c opt w = and_then (free_agent c (eo_agentOffline opt)) (\<lambda>_.
     and_then (tell_provider (eo_provider opt) c) (\<lambda>_.
     and_then (closeMedia (c_id c) (eo_media opt)) (\<lambda>_.
     and_then (last_steps c opt) (\<lambda>_. emit (CallMeasured (c_id c)))))) (announced_end c opt w)"
    by (simp add: settle_row_def announced_end_def ended_news_def last_steps_def and_then_assoc emit_def now_s_def forget_leg_socket_def)
  also have "\<dots> = and_then (tell_provider (eo_provider opt) c) (\<lambda>_.
     and_then (closeMedia (c_id c) (eo_media opt)) (\<lambda>_.
     and_then (last_steps c opt) (\<lambda>_. emit (CallMeasured (c_id c))))) ?w1"
    by (rule and_then_unit) (rule free_agent_returns)
  also have "\<dots> = and_then (last_steps c opt) (\<lambda>_. emit (CallMeasured (c_id c))) ?w2"
    by (simp add: and_then_unit tell_provider_run closeMedia_run)
  also have "\<dots> = emit (CallMeasured (c_id c)) (snd (last_steps c opt ?w2))"
    by (rule and_then_unit) (rule last_steps_returns)
  finally show ?thesis by (simp add: Let_def emit_def change_def)
qed

lemma settle_row_trace:
  "\<exists>xs ys. list_all routing_effect xs \<and> list_all routing_effect ys
     \<and> w_trace (snd (settle_row c opt w)) =
         w_trace w @ [Bus (TerminatedEv (ended_news c opt))] @ xs @ provider_effects (eo_provider opt) c
         @ media_effects (c_id c) (eo_media opt) @ ys @ [CallMeasured (c_id c)]"
proof -
  let ?w1 = "snd (free_agent c (eo_agentOffline opt) (announced_end c opt w))"
  let ?w2 = "(legs_closed (c_id c) ?w1)\<lparr>w_trace := w_trace ?w1 @ provider_effects (eo_provider opt) c @ media_effects (c_id c) (eo_media opt)\<rparr>"
  have "runs_in extends_trace (free_agent c (eo_agentOffline opt))"
    unfolding free_agent_def by (intro traced.run_rules traced.run_releaseAgent traced.run_drainForTenant)
  then have "extends_trace (announced_end c opt w) ?w1" by (simp add: runs_in_def)
  then obtain xs where xs: "w_trace ?w1 = w_trace (announced_end c opt w) @ xs" "list_all routing_effect xs"
    by (auto simp: extends_trace_def)
  obtain ys where ys: "w_trace (snd (last_steps c opt ?w2)) = w_trace ?w2 @ ys" "list_all routing_effect ys"
    using last_steps_announce [of ?w2 c opt] by (auto simp: extends_trace_def)
  have "w_trace (snd (settle_row c opt w)) =
         w_trace w @ [Bus (TerminatedEv (ended_news c opt))] @ xs @ provider_effects (eo_provider opt) c
         @ media_effects (c_id c) (eo_media opt) @ ys @ [CallMeasured (c_id c)]"
    unfolding settle_row_run Let_def using xs(1) ys(1) by (simp add: announced_end_def)
  then show ?thesis using xs(2) ys(2) by blast
qed

lemma end_call_run:
  "end_call r opt w =
     (case load r w of
        None \<Rightarrow> (Inr False, w)
      | Some c \<Rightarrow>
          (let cm = commit_end (c_id c) opt (now_s w) (w_calls w); w1 = w\<lparr>w_calls := fst cm\<rparr> in
           if snd cm then (Inr True, snd (settle_row c opt w1))
           else if eo_onlyIfStatus opt \<noteq> None \<and> (case getStatus (c_id c) (w_calls w) of None \<Rightarrow> False | Some s \<Rightarrow> s \<in> set live_statuses)
           then (Inr False, w)
           else (Inr False, (legs_closed (c_id c) w)\<lparr>w_trace := w_trace w @ media_effects (c_id c) Local\<rparr>)))"
proof (cases "load r w")
  case None
  then show ?thesis by (simp add: end_call_def ret_def)
next
  case (Some c)
  have r: "fst (settle_row c opt v) = Inr ()" for v by (simp add: settle_row_run Let_def)
  show ?thesis
  proof (cases "snd (commit_end (c_id c) opt (now_s w) (w_calls w))")
    case True
    then show ?thesis using Some
      by (simp add: end_call_def on_calls_def Let_def and_then_unit [OF r] ret_def)
  next
    case False
    then show ?thesis using Some commit_lost [OF False]
      by (simp add: end_call_def on_calls_def Let_def and_then_unit closeMedia_run ret_def)
  qed
qed


lemma unguarded_end_commits:
  assumes "c \<in> set (w_calls w)" and "keyed (w_calls w)" and "\<not> is_final c" and "eo_onlyIfStatus opt = None"
  shows "end_call (ById (c_id c)) opt w = (Inr True, snd (end_call (ById (c_id c)) opt w))"
proof -
  have "call_findById (c_id c) (w_calls w) = Some c"
    using first_row_unique [of c_id "w_calls w" c] assms(1,2) by (simp add: call_findById_def keyed_def)
  moreover have "snd (commit_end (c_id c) opt (now_s w) (w_calls w))"
    using assms by (auto simp: commit_end_def terminateCallIfNotTerminated_def markCallFailedIfNotFinal_def affected_pair
        split: option.split)
  ultimately show ?thesis by (simp add: end_call_run load_def Let_def)
qed


section \<open>Announced once\<close>

definition announcements :: "nat \<Rightarrow> effect list \<Rightarrow> nat" where
  "announcements i tr = length (filter (\<lambda>e. case e of Bus (TerminatedEv n) \<Rightarrow> tn_callId n = i | _ \<Rightarrow> False) tr)"

lemma announcements_append [simp]: "announcements i (xs @ ys) = announcements i xs + announcements i ys"
  by (simp add: announcements_def)

lemma announcements_none:
  "list_all routing_effect xs \<Longrightarrow> announcements i xs = 0" "announcements i (media_effects c m) = 0"
  "announcements i (provider_effects p c') = 0" "announcements i [CallMeasured c] = 0"
proof -
  show "list_all routing_effect xs \<Longrightarrow> announcements i xs = 0"
  proof (induction xs)
    case Nil
    then show ?case by (simp add: announcements_def)
  next
    case (Cons x xs)
    then show ?case by (cases x rule: routing_effect.cases) (auto simp: announcements_def)
  qed
qed (simp_all add: announcements_def media_effects_def provider_effects_def)

lemma announcements_end:
  "announcements i (Bus (TerminatedEv (ended_news c opt)) # xs) = (if c_id c = i then 1 else 0) + announcements i xs"
  by (simp add: announcements_def ended_news_def)

definition present :: "nat \<Rightarrow> call list \<Rightarrow> bool" where
  "present i cs \<longleftrightarrow> i \<in> c_id ` set cs"

lemma present_map: "(\<And>c. c_id (f c) = c_id c) \<Longrightarrow> present i (map (\<lambda>c. if p c then f c else c) cs) = present i cs"
proof -
  assume f: "\<And>c. c_id (f c) = c_id c"
  have "map c_id (map (\<lambda>c. if p c then f c else c) cs) = map c_id cs" using f by (induction cs) simp_all
  then have "set (map c_id (map (\<lambda>c. if p c then f c else c) cs)) = set (map c_id cs)" by (rule arg_cong)
  then show ?thesis unfolding present_def set_map by (rule arg_cong)
qed

text \<open>Other workers neither drop nor duplicate rows nor revive the call, and announce ends elsewhere.\<close>

definition others_spare :: "nat \<Rightarrow> world \<Rightarrow> bool" where
  "others_spare i w \<longleftrightarrow> (\<forall>f \<in> set (w_others w). \<forall>a c. keyed c \<longrightarrow> keyed (snd (f (a, c)))
     \<and> (present i c \<longrightarrow> present i (snd (f (a, c)))) \<and> (ended i c \<longrightarrow> ended i (snd (f (a, c)))))"

definition once_announced :: "nat \<Rightarrow> world \<Rightarrow> bool" where
  "once_announced i w \<longleftrightarrow> others_spare i w \<and> keyed (w_calls w) \<and> present i (w_calls w) \<and> announcements i (w_trace w) \<le> 1
     \<and> (announcements i (w_trace w) = 1 \<longrightarrow> ended i (w_calls w))"

definition keeps_once :: "nat \<Rightarrow> world \<Rightarrow> world \<Rightarrow> bool" where
  "keeps_once i w w' \<longleftrightarrow> (once_announced i w \<longrightarrow> once_announced i w')"

text \<open>The same without the trace: what the tables keep under everything but the announcement.\<close>

definition table_safe :: "nat \<Rightarrow> world \<Rightarrow> bool" where
  "table_safe i w \<longleftrightarrow> others_spare i w \<and> keyed (w_calls w) \<and> present i (w_calls w)"

definition keeps_ended :: "nat \<Rightarrow> world \<Rightarrow> world \<Rightarrow> bool" where
  "keeps_ended i w w' \<longleftrightarrow>
     (table_safe i w \<longrightarrow> table_safe i w' \<and> (ended i (w_calls w) \<longrightarrow> ended i (w_calls w')))"

lemma keeps_ended_calls:
  assumes "\<And>c. c_id (f c) = c_id c" and "\<And>c. p c \<Longrightarrow> is_final c \<Longrightarrow> is_final (f c)"
  shows "keeps_ended i w (w\<lparr>w_calls := fst (sql_update p f (w_calls w))\<rparr>)"
proof -
  have "ended i (w_calls w) \<Longrightarrow> ended i (map (\<lambda>c. if p c then f c else c) (w_calls w))"
    using assms by (auto simp: ended_def)
  then show ?thesis
    using assms(1) by (simp add: keeps_ended_def table_safe_def others_spare_def keyed_def present_map)
qed

lemma ended_claim:
  "keyed (snd (fst (claimAgentAndAssignCall now any a c db))) = keyed (snd db)
   \<and> (ended i (snd db) \<longrightarrow> ended i (snd (fst (claimAgentAndAssignCall now any a c db))))"
proof (cases "claim_takes any c a db")
  case False
  then show ?thesis by (simp add: claim_outcome)
next
  case True
  have "ended i (snd db) \<Longrightarrow> ended i (map (\<lambda>x. if c_id x = c \<and> assignable x
      then x\<lparr>c_agent_id := Some a, c_offered_at := Some now, c_updated_at := now\<rparr> else x) (snd db))"
    by (intro ended_map) (simp_all add: is_final_def)
  then show ?thesis using True by (simp add: claim_outcome keyed_def)
qed

lemma present_claim: "present i (snd (fst (claimAgentAndAssignCall now any a c db))) = present i (snd db)"
  by (simp add: claim_outcome present_map)

lemma ended_commit: "keeps_ended i w (w\<lparr>w_calls := fst (commit_end c opt (now_s w) (w_calls w))\<rparr>)"
  by (cases "eo_failure opt")
    (simp_all add: commit_end_def terminateCallIfNotTerminated_def markCallFailedIfNotFinal_def keeps_ended_calls
      del: sql_update_fst)

lemma ended_withdraw: "keeps_ended i w (w\<lparr>w_calls := fst (withdrawOffer (now_s w) c a tm (w_calls w))\<rparr>)"
  unfolding withdrawOffer_def affected_fst by (rule keeps_ended_calls) (simp_all add: is_final_def)

lemma ended_queue_duration: "keeps_ended i w (w\<lparr>w_calls := fillQueueDuration (now_s w) acc c (w_calls w)\<rparr>)"
  unfolding fillQueueDuration_def Let_def
  by (rule keeps_ended_calls) (simp_all add: is_final_def split: option.split)

lemma ended_overflow: "keeps_ended i w (w\<lparr>w_calls := fst (overflowToQueue (now_s w) c f t ag (w_calls w))\<rparr>)"
  unfolding overflowToQueue_def affected_fst by (rule keeps_ended_calls) (simp_all add: is_final_def)

lemma ended_handover_returned: "keeps_ended i w (w\<lparr>w_calls := fst (returnHandoverToQueue (now_s w) c b ofd (w_calls w))\<rparr>)"
  unfolding returnHandoverToQueue_def affected_fst
  by (rule keeps_ended_calls) (auto simp add: is_final_def)

lemma ended_handover_expired: "keeps_ended i w (w\<lparr>w_calls := fst (expireHandover (now_s w) c b ofd (w_calls w))\<rparr>)"
  unfolding expireHandover_def affected_fst by (rule keeps_ended_calls) (simp_all add: is_final_def)

lemmas ended_writes = ended_withdraw ended_queue_duration ended_overflow ended_handover_returned ended_handover_expired

lemma ended_others: "keeps_ended i w (others_step w)"
  by (cases "w_others w") (auto simp: keeps_ended_def table_safe_def others_spare_def others_step_def)

lemma ended_claimed:
  "keeps_ended i w (w\<lparr>w_agents := ag, w_calls := snd (fst (claimAgentAndAssignCall (now_s w) False a c (w_agents w, w_calls w)))\<rparr>)"
  using ended_claim [of "now_s w" False a c "(w_agents w, w_calls w)" i]
    present_claim [of i "now_s w" False a c "(w_agents w, w_calls w)"]
  by (simp add: keeps_ended_def table_safe_def others_spare_def)

lemma ended_tables: "w_calls w' = w_calls w \<Longrightarrow> w_others w' = w_others w \<Longrightarrow> keeps_ended i w w'"
  by (simp add: keeps_ended_def table_safe_def others_spare_def)

lemma ended_chain: "keeps_ended i w v \<Longrightarrow> keeps_ended i v u \<Longrightarrow> keeps_ended i w u"
  by (simp add: keeps_ended_def)

interpretation ended_end: ending_relation "keeps_ended i" for i
proof
  show "keeps_ended i w u" if "keeps_ended i w v" "keeps_ended i v u" for w v u
    using that by (rule ended_chain)
qed (rule TrueI ended_claimed ended_writes ended_commit ended_others | rule ended_tables; simp)+

lemma once_step:
  assumes "keeps_ended i w w'" and "announcements i (w_trace w') = announcements i (w_trace w)"
  shows "keeps_once i w w'"
  using assms by (auto simp: keeps_once_def once_announced_def keeps_ended_def table_safe_def)

lemma commit_finalizes: "finalizer (commit_end c opt now) c"
proof (cases "eo_failure opt")
  case None
  then have "commit_end c opt now =
      terminateCallIfNotTerminated now c (Some (eo_reason opt)) (eo_terminatedBy opt) None (eo_onlyIfStatus opt)"
    by (simp add: fun_eq_iff commit_end_def)
  then show ?thesis by (simp only: terminate_fin.finalizer_axioms)
next
  case (Some e)
  then have "commit_end c opt now = markCallFailedIfNotFinal now c e None (eo_reason opt) (eo_terminatedBy opt)"
    by (simp add: fun_eq_iff commit_end_def)
  then show ?thesis by (simp only: fail_fin.finalizer_axioms)
qed

lemma once_end: "keeps_once i w (snd (end_call r opt w))"
proof (cases "load r w")
  case None
  then show ?thesis by (simp add: end_call_run keeps_once_def)
next
  case (Some c)
  have safe: "keeps_ended i w (snd (end_call r opt w))"
    using ended_end.run_end by (simp add: runs_in_def)
  let ?cm = "commit_end (c_id c) opt (now_s w) (w_calls w)"
  show ?thesis
  proof (cases "snd ?cm \<and> c_id c = i")
    case False
    have "announcements i (w_trace (snd (end_call r opt w))) = announcements i (w_trace w)"
    proof (cases "snd ?cm")
      case True
      then have run: "snd (end_call r opt w) = snd (settle_row c opt (w\<lparr>w_calls := fst ?cm\<rparr>))"
        using Some by (simp add: end_call_run Let_def)
      show ?thesis
        unfolding run using settle_row_trace [of c opt "w\<lparr>w_calls := fst ?cm\<rparr>"] False True
        by (auto simp: announcements_none announcements_end)
    next
      case no: False
      then show ?thesis using Some by (simp add: end_call_run Let_def announcements_none)
    qed
    then show ?thesis using safe by (rule once_step [rotated])
  next
    case True
    let ?w1 = "w\<lparr>w_calls := fst ?cm\<rparr>"
    have run: "snd (end_call r opt w) = snd (settle_row c opt ?w1)"
      using Some conjunct1 [OF True] by (simp add: end_call_run Let_def)
    have one: "announcements i (w_trace (snd (settle_row c opt ?w1))) = announcements i (w_trace w) + 1"
      using settle_row_trace [of c opt ?w1] True by (auto simp: announcements_none announcements_end)
    show ?thesis
      unfolding keeps_once_def
    proof
      assume ok: "once_announced i w"
      note fin = commit_finalizes [of "c_id c" opt "now_s w"]
      have "\<not> ended i (w_calls w)" using finalizer.wins_live [OF fin] True by blast
      then have zero: "announcements i (w_trace w) = 0" using ok by (auto simp: once_announced_def)
      have "keyed (w_calls w)" using ok by (simp add: once_announced_def)
      then have "ended (c_id c) (w_calls ?w1)" using finalizer.wins_end [OF fin _ conjunct1 [OF True]] by simp
      then have "ended i (w_calls ?w1)" unfolding conjunct2 [OF True] .
      moreover have "keeps_ended i ?w1 (snd (settle_row c opt ?w1))"
        using ended_end.run_settle_row by (simp add: runs_in_def)
      moreover have "table_safe i ?w1"
        using ended_commit [of i w "c_id c" opt] ok by (simp add: keeps_ended_def once_announced_def table_safe_def)
      ultimately show "once_announced i (snd (end_call r opt w))"
        unfolding run using one zero by (simp add: keeps_ended_def table_safe_def once_announced_def)
    qed
  qed
qed

lemma once_same_trace: "keeps_ended i w w' \<Longrightarrow> w_trace w' = w_trace w \<Longrightarrow> keeps_once i w w'"
  by (rule once_step) simp_all

interpretation once_routing: routing_relation "keeps_once i" for i
proof
  show "keeps_once i w u" if "keeps_once i w v" "keeps_once i v u" for w v u using that by (simp add: keeps_once_def)
  show "keeps_once i w (w\<lparr>w_trace := w_trace w @ [e]\<rparr>)" if "routing_effect e" for w e
    using that announcements_none(1) [of "[e]" i]
    by (intro once_step) (simp_all add: keeps_ended_def table_safe_def others_spare_def)
  show "keeps_once i w (others_step w)" for w
    by (intro once_same_trace ended_others) (simp add: others_step_def split: list.split)
qed (simp_all add: once_same_trace ended_claimed ended_writes,
     simp_all add: keeps_once_def once_announced_def others_spare_def)

interpretation once_serve: serving_relation "keeps_once i" "\<lambda>_ _. True" for i
  by unfold_locales (simp_all add: once_end once_same_trace ended_writes)

end
