(* ===== verification/AfterEnd.thy ===== *)
theory AfterEnd
  imports EndFacts
begin

text \<open>
  What the tables hold after an end or a queue timer: the agent of an ended call is free of it
  (\<open>CallTerminator.settle\<close> with \<open>AgentAssignmentCoordinator.releaseAgent\<close>), and a call
  overflows at most three times (\<open>QueueTimeoutService.#waitExpired\<close>).
\<close>

section \<open>The agent is free\<close>

definition free_of :: "nat \<Rightarrow> nat \<Rightarrow> agent list \<Rightarrow> bool" where
  "free_of i a agents \<longleftrightarrow> (\<forall>r \<in> set agents. a_id r = a \<longrightarrow> a_busy_call_id r \<noteq> Some i)"

definition idle :: "nat \<Rightarrow> nat \<Rightarrow> world \<Rightarrow> bool" where
  "idle i a w \<longleftrightarrow> w_others w = [] \<and> ended i (w_calls w) \<and> free_of i a (w_agents w)"

lemma free_of_update:
  assumes "free_of i a agents" and "\<And>r. a_id (f r) = a_id r"
    and "\<And>r. p r \<Longrightarrow> a_busy_call_id (f r) = Some i \<Longrightarrow> a_busy_call_id r = Some i"
  shows "free_of i a (fst (sql_update p f agents))"
  using assms by (auto simp: free_of_def)

lemma idle_claim:
  assumes "ended i (snd db)" and "free_of i a (fst db)"
  shows "ended i (snd (fst (claimAgentAndAssignCall now any b c db)))
    \<and> free_of i a (fst (fst (claimAgentAndAssignCall now any b c db)))"
proof (cases "claim_takes any c b db")
  case False
  then show ?thesis using assms by (simp add: claim_outcome)
next
  case True
  have "\<not> claim_takes any i b db"
    using assms(1) by (auto simp: claim_takes_def ended_def assignable_def is_final_def)
  with True have other: "c \<noteq> i" by blast
  have "free_of i a (map (\<lambda>r. if claimable any (snd db) b r then r\<lparr>a_busy_call_id := Some c\<rparr> else r) (fst db))"
    using assms(2) other by (auto simp: free_of_def)
  then show ?thesis using True ended_claim [of now any b c db i] assms by (simp add: claim_outcome)
qed

lemma free_of_release: "free_of i a agents \<Longrightarrow> free_of i a (fst (releaseFromCall b c agents))"
  unfolding releaseFromCall_def affected_fst by (rule free_of_update) simp_all

lemma free_of_shift: "free_of i a agents \<Longrightarrow> free_of i a (fst (updateAgentAvailability now b av agents))"
  unfolding updateAgentAvailability_def affected_fst by (rule free_of_update) simp_all

lemma idle_withdraw: "ended i cs \<Longrightarrow> ended i (fst (withdrawOffer now c b tm cs))"
  unfolding withdrawOffer_def affected_fst sql_update_fst by (rule ended_map) (simp_all add: is_final_def)

interpretation idle: drain_relation "\<lambda>w w'. idle i a w \<longrightarrow> idle i a w'" "\<lambda>_ _. True" for i a
proof
  show "idle i a w \<longrightarrow> idle i a (others_step w)" for w
    by (simp add: idle_def others_step_def split: list.split)
  show "idle i a w \<longrightarrow>
      idle i a (w\<lparr>w_agents := fst (fst (claimAgentAndAssignCall (now_s w) False b c (w_agents w, w_calls w))),
          w_calls := snd (fst (claimAgentAndAssignCall (now_s w) False b c (w_agents w, w_calls w)))\<rparr>)" for w b c
    using idle_claim [of i "(w_agents w, w_calls w)" a "now_s w" False b c] by (simp add: idle_def)
  show "idle i a w \<longrightarrow> idle i a (w\<lparr>w_agents := fst (releaseFromCall b c (w_agents w))\<rparr>)" for w b c
    by (simp add: idle_def free_of_release)
  show "idle i a w \<longrightarrow> idle i a (w\<lparr>w_agents := fst (updateAgentAvailability (now_s w) b av (w_agents w))\<rparr>)" for w b av
    by (simp add: idle_def free_of_shift)
  show "idle i a w \<longrightarrow> idle i a (w\<lparr>w_calls := fst (withdrawOffer (now_s w) c b tm (w_calls w))\<rparr>)" for w c b tm
    by (simp add: idle_def idle_withdraw)
qed (simp_all add: idle_def)

lemma released_is_free: "free_of i a (fst (releaseFromCall a i agents))"
  unfolding free_of_def releaseFromCall_def affected_fst sql_update_fst set_map ball_simps by simp

lemma free_agent_frees:
  assumes "c_agent_id c = Some a" and "w_others w = []" and "ended (c_id c) (w_calls w)"
  shows "idle (c_id c) a (snd (free_agent c off w))"
proof -
  let ?rest = "\<lambda>released. and_then (only_when off (and_then (on_agents (\<lambda>now. updateAgentAvailability now a Av_OFFLINE)) (\<lambda>_. ret ()))) (\<lambda>_.
          and_then (only_when (released \<or> off)
            (and_then (broadcastCurrent a) (\<lambda>agent.
             case agent of None \<Rightarrow> ret () | Some (t, _) \<Rightarrow> logged_failure (emitAgentQueues t a)))) (\<lambda>_.
          ret released))"
  let ?after = "\<lambda>_. only_when (\<not> off) (and_then (assignOldestUnassignedCall (c_tenant_id c)) (\<lambda>_. ret ()))"
  let ?r = "releaseFromCall a (c_id c) (w_agents w)"
  let ?w1 = "w\<lparr>w_agents := fst ?r\<rparr>"
  have "free_agent c off w = logged_failure (and_then (?rest (snd ?r)) ?after) ?w1"
    using assms(1)
    by (simp add: free_agent_def releaseAgent_def and_then_assoc on_agents_def Let_def logged_failure_def catching_def)
  moreover have "idle (c_id c) a ?w1"
    using assms released_is_free by (simp add: idle_def)
  moreover have "runs_in (\<lambda>w w'. idle (c_id c) a w \<longrightarrow> idle (c_id c) a w') (logged_failure (and_then (?rest b) ?after))" for b
    by (intro idle.run_rules idle.primitives idle.run_broadcast idle.run_emitAgentQueues idle.run_drainForTenant)
  ultimately show ?thesis by (simp add: runs_in_def)
qed

lemma settle_frees:
  assumes "c_agent_id c = Some a" and "w_others w = []" and "ended (c_id c) (w_calls w)"
  shows "idle (c_id c) a (snd (settle_row c opt w))"
proof -
  have "ended (c_id c) (w_calls (announced_end c opt w))"
    using assms(3) unfolding announced_end_def fillQueueDuration_def
    by (auto simp: Let_def is_final_def split: option.splits intro!: ended_map)
  then have freed: "idle (c_id c) a (snd (free_agent c (eo_agentOffline opt) (announced_end c opt w)))"
    using assms(1,2) by (intro free_agent_frees) (simp_all add: announced_end_def)
  have "announces_only v (snd (last_steps c opt v))" for v using last_steps_announce by blast
  then have same: "w_agents (snd (last_steps c opt v)) = w_agents v" "w_calls (snd (last_steps c opt v)) = w_calls v"
    "w_others (snd (last_steps c opt v)) = w_others v" for v
    by (simp_all add: announces_only_def tables_def)
  show ?thesis unfolding settle_row_run Let_def using freed by (simp add: same idle_def legs_closed_def)
qed

lemma end_frees:
  assumes "load r w = Some c" and "c_agent_id c = Some a" and "keyed (w_calls w)" and "w_others w = []"
    and "end_call r opt w = (Inr True, w')"
  shows "ended (c_id c) (w_calls w') \<and> free_of (c_id c) a (w_agents w')"
proof -
  let ?cm = "commit_end (c_id c) opt (now_s w) (w_calls w)"
  have cm: "snd ?cm" and w': "w' = snd (settle_row c opt (w\<lparr>w_calls := fst ?cm\<rparr>))"
    using assms(1,5) by (auto simp: end_call_run Let_def split: if_splits)
  have "ended (c_id c) (fst ?cm)"
    using finalizer.wins_end [OF commit_finalizes assms(3) cm] .
  then show ?thesis
    using settle_frees [of c a "w\<lparr>w_calls := fst ?cm\<rparr>" opt] assms(2,4) by (simp add: w' idle_def)
qed

text \<open>
  C24: Ending a call frees its agent. When an end commits, the agent its row named is held by that call
  no longer once the end returns, although routing has run in between; and the call is final.
\<close>

theorem ended_call_frees_agent:
  assumes "load r w = Some c" and "c_agent_id c = Some a" and "keyed (w_calls w)" and "w_others w = []"
    and "end_call r opt w = (Inr True, w')"
  shows "ended (c_id c) (w_calls w') \<and> free_of (c_id c) a (w_agents w')"
  using assms by (rule end_frees)

definition busy_agent :: "nat \<Rightarrow> agent" where
  "busy_agent i = (example_agent 2)\<lparr>a_availability := Av_AVAILABLE, a_busy_call_id := Some i\<rparr>"

theorem ended_call_frees_agent_witness:
  "free_of 4 2 (w_agents (snd (end_call (ById 4) (end_defaults Rs_COMPLETED By_AGENT)
     (empty_world\<lparr>w_calls := [(example_call 4)\<lparr>c_agent_id := Some 2\<rparr>], w_agents := [busy_agent 4]\<rparr>))))"
proof -
  let ?c = "(example_call 4)\<lparr>c_agent_id := Some 2\<rparr>"
  let ?w = "empty_world\<lparr>w_calls := [?c], w_agents := [busy_agent 4]\<rparr>"
  let ?o = "end_defaults Rs_COMPLETED By_AGENT"
  have l: "load (ById 4) ?w = Some ?c" by (simp add: load_def call_findById_def first_row_def)
  have e: "end_call (ById 4) ?o ?w = (Inr True, snd (end_call (ById 4) ?o ?w))"
    using unguarded_end_commits [of ?c ?w ?o] by (simp add: keyed_def is_final_def end_defaults_def)
  show ?thesis
    using ended_call_frees_agent [OF l _ _ _ e, of 2] by (simp add: keyed_def empty_world_def)
qed

section \<open>Overflows are bounded\<close>

definition overflows :: "call list \<Rightarrow> (nat \<times> nat) list" where
  "overflows cs = map (\<lambda>c. (c_id c, c_overflow_count c)) cs"

text \<open>Nothing but an overflow counts one.\<close>

definition counts_kept :: "world \<Rightarrow> world \<Rightarrow> bool" where
  "counts_kept w w' \<longleftrightarrow> (w_others w = [] \<longrightarrow>
     w_others w' = [] \<and> w_queues w' = w_queues w \<and> overflows (w_calls w') = overflows (w_calls w))"

lemma overflows_update:
  assumes "\<And>c. c_id (f c) = c_id c" and "\<And>c. c_overflow_count (f c) = c_overflow_count c"
  shows "overflows (fst (sql_update p f cs)) = overflows cs"
  using assms by (simp add: overflows_def)

lemma counts_calls: "overflows cs = overflows (w_calls w) \<Longrightarrow> counts_kept w (w\<lparr>w_calls := cs\<rparr>)"
  by (simp add: counts_kept_def)

lemma counts_writes:
  "overflows (fst (withdrawOffer now c a tm cs)) = overflows cs"
  "overflows (fillQueueDuration now acc c cs) = overflows cs"
  "overflows (fst (returnHandoverToQueue now c b ofd cs)) = overflows cs"
  "overflows (fst (expireHandover now c b ofd cs)) = overflows cs"
  "overflows (fst (commit_end c opt now cs)) = overflows cs"
      apply (simp_all add: withdrawOffer_def returnHandoverToQueue_def expireHandover_def overflows_update del: sql_update_fst)
   apply (simp add: fillQueueDuration_def overflows_update Let_def split: option.split del: sql_update_fst)
  apply (simp add: commit_end_def terminateCallIfNotTerminated_def markCallFailedIfNotFinal_def fail_row_def overflows_update
      split: option.split del: sql_update_fst)
  done

lemma counts_claim:
  "overflows (snd (fst (claimAgentAndAssignCall now any a c db))) = overflows (snd db)"
  by (simp add: claim_outcome overflows_def)

lemma counts_same: "w_calls w' = w_calls w \<Longrightarrow> w_others w' = w_others w \<Longrightarrow> w_queues w' = w_queues w \<Longrightarrow> counts_kept w w'"
  by (simp add: counts_kept_def)

interpretation counted: ending_relation counts_kept
proof
  show "counts_kept w u" if "counts_kept w v" "counts_kept v u" for w v u
    using that by (simp add: counts_kept_def)
  show "counts_kept w (others_step w)" for w
    by (simp add: counts_kept_def others_step_def split: list.split)
  show "counts_kept w (w\<lparr>w_agents := fst (fst (claimAgentAndAssignCall (now_s w) False b c (w_agents w, w_calls w))),
          w_calls := snd (fst (claimAgentAndAssignCall (now_s w) False b c (w_agents w, w_calls w)))\<rparr>)" for w b c
    using counts_claim [of "now_s w" False b c "(w_agents w, w_calls w)"] by (simp add: counts_kept_def)
qed (simp_all add: counts_calls counts_writes counts_same)

lemma counts_run: "runs_in counts_kept m \<Longrightarrow> w_others w = [] \<Longrightarrow>
    w_others (snd (m w)) = [] \<and> w_queues (snd (m w)) = w_queues w \<and> overflows (w_calls (snd (m w))) = overflows (w_calls w)"
  by (simp add: runs_in_def counts_kept_def)

text \<open>What one expired wait may do to the counts.\<close>

definition may_count :: "call \<Rightarrow> nat \<times> nat \<Rightarrow> nat \<times> nat \<Rightarrow> bool" where
  "may_count c x y \<longleftrightarrow> y = x \<or> c_overflow_count c < MAX_OVERFLOWS \<and> fst x = c_id c \<and> y = (fst x, snd x + 1)"

definition counts_step :: "call \<Rightarrow> world \<Rightarrow> world \<Rightarrow> bool" where
  "counts_step c w w' \<longleftrightarrow> w_others w' = [] \<and> w_queues w' = w_queues w
     \<and> list_all2 (may_count c) (overflows (w_calls w)) (overflows (w_calls w'))"

lemma may_count_same: "list_all2 (may_count c) xs xs"
  by (rule list_all2_refl) (simp add: may_count_def)

lemma counts_kept_step: "runs_in counts_kept m \<Longrightarrow> w_others w = [] \<Longrightarrow> counts_step c w (snd (m w))"
  using counts_run [of m w] may_count_same by (simp add: counts_step_def)

lemma overflow_counts:
  assumes "c_overflow_count c < MAX_OVERFLOWS"
  shows "list_all2 (may_count c) (overflows cs) (overflows (fst (overflowToQueue now (c_id c) f t ag cs)))"
  using assms by (simp add: overflows_def overflowToQueue_def list_all2_conv_all_nth may_count_def)

lemma moved_then:
  assumes "c_overflow_count c < MAX_OVERFLOWS" and "w_others w = []" and "\<And>b. runs_in counts_kept (f b)"
  shows "counts_step c w (snd (and_then (on_calls (\<lambda>now. overflowToQueue now (c_id c) fr t ag)) f w))"
proof -
  let ?r = "overflowToQueue (now_s w) (c_id c) fr t ag (w_calls w)"
  let ?w1 = "w\<lparr>w_calls := fst ?r\<rparr>"
  have "w_others (snd (f (snd ?r) ?w1)) = [] \<and> w_queues (snd (f (snd ?r) ?w1)) = w_queues w
      \<and> overflows (w_calls (snd (f (snd ?r) ?w1))) = overflows (fst ?r)"
    using counts_run [OF assms(3), of ?w1] assms(2) by simp
  then show ?thesis
    using overflow_counts [OF assms(1)] by (simp add: counts_step_def on_calls_def Let_def)
qed

lemma waitExpired_counts:
  assumes "w_others w = []"
  shows "counts_step c w (snd (waitExpired c q w))"
proof -
  have ends: "runs_in counts_kept (and_then (end_call r opt) (\<lambda>_. ret ()))" for r opt
    by (intro counted.run_rules counted.run_end)
  have goes: "runs_in counts_kept (only_when b (callOverflowed c mw q'))" for b mw q'
    by (intro counted.run_rules counted.run_callOverflowed)
  show ?thesis
  proof (cases "q_overflow_queue_id q \<noteq> None \<and> q_overflow_queue_id q \<noteq> c_queue_id c \<and> c_overflow_count c < MAX_OVERFLOWS")
    case False
    show ?thesis
      unfolding waitExpired_def and_then_read if_not_P [OF False] option.case
      by (rule counts_kept_step [OF ends assms])
  next
    case True
    show ?thesis
    proof (cases "getQueue (q_overflow_queue_id q) (w_queues w)")
      case None
      then show ?thesis using counts_kept_step [OF ends assms] by (simp add: waitExpired_def)
    next
      case (Some to)
      then show ?thesis
        using True counts_kept_step [OF ends assms] moved_then [OF _ assms goes]
        by (simp add: waitExpired_def)
    qed
  qed
qed

text \<open>Along one scan: no count passes the maximum, and a call still to come has the count it was read with.\<close>

definition scan_safe :: "(call \<times> queue) list \<Rightarrow> world \<Rightarrow> bool" where
  "scan_safe rest w \<longleftrightarrow> w_others w = [] \<and>
     (\<forall>x \<in> set (overflows (w_calls w)). snd x \<le> MAX_OVERFLOWS
        \<and> (\<forall>r \<in> set rest. c_id (fst r) = fst x \<longrightarrow> snd x = c_overflow_count (fst r)))"

lemma scan_safe_step:
  assumes "scan_safe (r # rest) w" and "counts_step (fst r) w w'" and "distinct (map (c_id \<circ> fst) (r # rest))"
  shows "scan_safe rest w'"
proof -
  have "snd y \<le> MAX_OVERFLOWS \<and> (\<forall>s \<in> set rest. c_id (fst s) = fst y \<longrightarrow> snd y = c_overflow_count (fst s))"
    if y: "y \<in> set (overflows (w_calls w'))" for y
  proof -
    obtain x where x: "x \<in> set (overflows (w_calls w))" "may_count (fst r) x y"
      using assms(2) y unfolding counts_step_def by (metis in_set_conv_nth list_all2_conv_all_nth)
    have safe: "snd x \<le> MAX_OVERFLOWS" "c_id (fst r) = fst x \<Longrightarrow> snd x = c_overflow_count (fst r)"
        "\<forall>s \<in> set rest. c_id (fst s) = fst x \<longrightarrow> snd x = c_overflow_count (fst s)"
      using assms(1) x(1) unfolding scan_safe_def by auto
    show ?thesis
    proof (cases "y = x")
      case True
      then show ?thesis using safe by simp
    next
      case False
      then have up: "c_overflow_count (fst r) < MAX_OVERFLOWS" "fst x = c_id (fst r)" "y = (fst x, snd x + 1)"
        using x(2) by (auto simp: may_count_def)
      have "c_id (fst s) \<noteq> fst y" if "s \<in> set rest" for s
      proof -
        have "(c_id \<circ> fst) r \<notin> (c_id \<circ> fst) ` set rest" using assms(3) by simp
        moreover have "(c_id \<circ> fst) s \<in> (c_id \<circ> fst) ` set rest" using that by (rule imageI)
        ultimately show ?thesis using up(2,3) by (metis comp_apply fst_conv)
      qed
      then show ?thesis using up safe(2) by auto
    qed
  qed
  then show ?thesis using assms(2) by (simp add: scan_safe_def counts_step_def)
qed

lemma scan_all:
  assumes "scan_safe rs w" and "distinct (map (c_id \<circ> fst) rs)"
  shows "scan_safe [] (snd (for_each (\<lambda>(c, q). logged_failure (waitExpired c q)) rs w))"
  using assms
proof (induction rs arbitrary: w)
  case Nil
  then show ?case by simp
next
  case (Cons r rs)
  obtain c q where r: "r = (c, q)" by (cases r)
  let ?w1 = "snd (logged_failure (waitExpired c q) w)"
  have "snd (logged_failure m w) = snd (m w)" for m :: "unit task"
    by (simp add: act_defs split: prod.split sum.split)
  then have "counts_step c w ?w1"
    using waitExpired_counts Cons.prems(1) by (simp add: scan_safe_def)
  then have "scan_safe rs ?w1"
    using scan_safe_step [OF Cons.prems(1) _ Cons.prems(2)] by (simp add: r)
  then have "scan_safe [] (snd (for_each (\<lambda>(c, q). logged_failure (waitExpired c q)) rs ?w1))"
    using Cons.IH Cons.prems(2) by simp
  then show ?case by (simp add: r and_then_unit)
qed

lemma joined_once:
  assumes "distinct (map k ys)"
  shows "distinct (map g xs) \<Longrightarrow> distinct (map (g \<circ> fst) [(x, y). x \<leftarrow> xs, y \<leftarrow> ys, h x = Some (k y)])"
proof (induction xs)
  case Nil
  then show ?case by simp
next
  case (Cons x xs)
  let ?row = "concat (map (\<lambda>y. if h x = Some (k y) then [(x, y)] else []) ys)"
  have one: "\<exists>n \<le> 1. map (g \<circ> fst) ?row = replicate n (g x)"
    using assms
  proof (induction ys)
    case Nil
    then show ?case by simp
  next
    case (Cons y ys)
    then have "distinct (map k ys)" by simp
    from Cons.IH [OF this] obtain n where n: "n \<le> 1"
        "map (g \<circ> fst) (concat (map (\<lambda>y. if h x = Some (k y) then [(x, y)] else []) ys)) = replicate n (g x)"
      by (elim exE conjE)
    show ?case
    proof (cases "h x = Some (k y)")
      case False
      then show ?thesis using n by (intro exI [of _ n]) (simp add: comp_def)
    next
      case True
      then have "concat (map (\<lambda>y. if h x = Some (k y) then [(x, y)] else []) ys) = []"
        using Cons.prems by auto
      then show ?thesis using True by (intro exI [of _ 1]) simp
    qed
  qed
  obtain n where n: "n \<le> 1" "map (g \<circ> fst) ?row = replicate n (g x)" using one by (elim exE conjE)
  have "distinct (map (g \<circ> fst) ?row)" unfolding n(2) using n(1) by (cases n) auto
  moreover have "set (map (g \<circ> fst) ?row) \<subseteq> {g x}" unfolding n(2) by (simp add: set_replicate_conv_if)
  moreover have "set (map (g \<circ> fst) [(x, y). x \<leftarrow> xs, y \<leftarrow> ys, h x = Some (k y)]) \<subseteq> g ` set xs" by auto
  ultimately show ?case using Cons by (auto simp: comp_def)
qed

lemma overflows_ids: "map fst (overflows cs) = map c_id cs"
  by (simp add: overflows_def comp_def)

lemma counts_step_keyed: "counts_step c w w' \<Longrightarrow> map c_id (w_calls w') = map c_id (w_calls w)"
proof -
  assume "counts_step c w w'"
  then have l: "list_all2 (may_count c) (overflows (w_calls w)) (overflows (w_calls w'))" by (simp add: counts_step_def)
  have "map fst xs = map fst ys" if "list_all2 (may_count c) xs ys" for xs ys
    using that by (induction rule: list_all2_induct) (auto simp: may_count_def)
  from this [OF l] show ?thesis by (simp add: overflows_ids)
qed

text \<open>The state between two services: calls and queues keyed, nobody interfering, counts bounded.\<close>

definition bounded :: "world \<Rightarrow> bool" where
  "bounded w \<longleftrightarrow> w_others w = [] \<and> keyed (w_calls w) \<and> distinct (map q_id (w_queues w))
     \<and> (\<forall>c \<in> set (w_calls w). c_overflow_count c \<le> MAX_OVERFLOWS)"

definition keeps_bounded :: "world \<Rightarrow> world \<Rightarrow> bool" where
  "keeps_bounded w w' \<longleftrightarrow> (bounded w \<longrightarrow> bounded w')"

lemma bounded_counts:
  "bounded w \<longleftrightarrow> w_others w = [] \<and> distinct (map fst (overflows (w_calls w))) \<and> distinct (map q_id (w_queues w))
     \<and> (\<forall>x \<in> set (overflows (w_calls w)). snd x \<le> MAX_OVERFLOWS)"
  unfolding overflows_ids by (simp add: bounded_def keyed_def overflows_def)

lemma kept_bounded: "counts_kept w w' \<Longrightarrow> keeps_bounded w w'"
  by (simp add: keeps_bounded_def bounded_counts counts_kept_def)

lemma waits_distinct:
  assumes "keyed cs" and "distinct (map q_id qs)"
  shows "distinct (map (c_id \<circ> fst) (findExpiredWaits now n qs cs))"
proof -
  let ?j = "[(c, q). c \<leftarrow> cs, q \<leftarrow> qs, c_queue_id c = Some (q_id q)]"
  have "distinct (map (c_id \<circ> fst) ?j)"
    using joined_once [of q_id qs c_id cs c_queue_id] assms by (simp add: keyed_def)
  then have "distinct (map (c_id \<circ> fst) (sort_key (\<lambda>r. c_queued_at (fst r)) (filter p ?j)))" for p
    using distinct_map_filter [of "c_id \<circ> fst" ?j p] by (simp add: distinct_map)
  then show ?thesis
    unfolding findExpiredWaits_def take_map [symmetric] by (intro distinct_take)
qed

lemma waits_scanned:
  assumes "keyed cs" and "x \<in> set (overflows cs)" and "r \<in> set (findExpiredWaits now n qs cs)" and "c_id (fst r) = fst x"
  shows "snd x = c_overflow_count (fst r)"
proof -
  obtain c where c: "c \<in> set cs" "x = (c_id c, c_overflow_count c)" using assms(2) by (auto simp: overflows_def)
  have "fst r \<in> set cs"
    using assms(3) unfolding findExpiredWaits_def by (auto dest!: in_set_takeD)
  then have "fst r = c" using assms(1,4) c distinct_key_eq [of c_id cs] by (auto simp: keyed_def)
  then show ?thesis using c by simp
qed

lemma scan_keeps_ids:
  "w_others w = [] \<Longrightarrow> (let w' = snd (for_each (\<lambda>(c, q). logged_failure (waitExpired c q)) rs w) in
     map c_id (w_calls w') = map c_id (w_calls w) \<and> w_queues w' = w_queues w)"
proof (induction rs arbitrary: w)
  case Nil
  then show ?case by simp
next
  case (Cons r rs)
  obtain c q where r: "r = (c, q)" by (cases r)
  let ?w1 = "snd (logged_failure (waitExpired c q) w)"
  have "snd (logged_failure m w) = snd (m w)" for m :: "unit task"
    by (simp add: act_defs split: prod.split sum.split)
  then have step: "counts_step c w ?w1" using waitExpired_counts Cons.prems by simp
  then show ?case
    using Cons.IH [of ?w1] counts_step_keyed [OF step] by (simp add: r and_then_unit counts_step_def Let_def)
qed

lemma expireWaits_bounded: "keeps_bounded w (snd (expireWaits w))"
proof -
  let ?rs = "findExpiredWaits (now_s w) 50 (w_queues w) (w_calls w)"
  let ?w' = "snd (for_each (\<lambda>(c, q). logged_failure (waitExpired c q)) ?rs w)"
  have "bounded ?w'" if ok: "bounded w"
  proof -
    have "scan_safe ?rs w"
      using ok waits_scanned [of "w_calls w"] unfolding scan_safe_def bounded_counts
      by (auto simp: overflows_ids keyed_def)
    moreover have "distinct (map (c_id \<circ> fst) ?rs)" using ok by (intro waits_distinct) (simp_all add: bounded_def)
    ultimately have "scan_safe [] ?w'" by (rule scan_all)
    then show ?thesis
      using scan_keeps_ids [of w ?rs] ok by (simp add: bounded_counts scan_safe_def overflows_ids Let_def)
  qed
  then show ?thesis by (simp add: keeps_bounded_def expireWaits_def)
qed

interpretation bounded: routing_relation keeps_bounded
proof
  show "keeps_bounded w u" if "keeps_bounded w v" "keeps_bounded v u" for w v u
    using that by (simp add: keeps_bounded_def)
qed (simp_all add: kept_bounded counted.stays counted.trace_appended counted.order_free counted.streak_free
    counted.sdp_free counted.history_free counted.offers_eligible counted.offers_recorded counted.offers_cleared
    counted.others_run counted.claim_made counted.released counted.shift_set counted.offer_withdrawn counted.held_for_transfer)

interpretation bounded_clean: cleaning_relation keeps_bounded "\<lambda>_ _. True"
proof
  show "keeps_bounded w (snd (end_call r opt w))" for w r opt
    using counted.run_end kept_bounded by (simp add: runs_in_def)
qed (simp_all add: kept_bounded counts_calls counts_writes)

lemma run_serve_bounded: "runs_in keeps_bounded (serve p)"
proof (cases p)
  case TimeoutsTick
  have "runs_in keeps_bounded expireWaits" using expireWaits_bounded by (simp add: runs_in_def)
  then show ?thesis unfolding TimeoutsTick serve.simps timeouts_tick_def
    by (intro bounded.run_rules bounded_clean.run_expireOffers bounded_clean.run_expireHandovers)
qed (simp_all add: silent_def bounded.run_and_then bounded.run_ret bounded.run_perform bounded_clean.run_end_call
    bounded_clean.run_stale bounded_clean.run_intents bounded_clean.run_scan bounded_clean.run_ivr_ring)


definition looping_queue :: "nat \<Rightarrow> nat \<Rightarrow> queue" where
  "looping_queue i j = example_queue\<lparr>q_id := i, q_overflow_queue_id := Some j, q_max_wait_seconds := Some 10\<rparr>"


end
