(* ===== verification/AgentEvents.thy ===== *)
theory AgentEvents
  imports AfterEnd
begin

text \<open>
  The agent's side of a call: \<open>src/src/core/events/handlers/AgentEventHandler.js\<close> (an agent accepts, comes
  back to a ringing call, reconnects to a live one). A thrown \<open>Error\<close> is \<open>Thrown\<close> with its message,
  because the handlers decide by the message. Each wait for the media server, the provider or a claim
  lets other workers run.
\<close>

section \<open>Errors\<close>

fun starts_with :: "string \<Rightarrow> string \<Rightarrow> bool" where
  "starts_with [] s = True"
| "starts_with (p # ps) (c # cs) = (p = c \<and> starts_with ps cs)"
| "starts_with (p # ps) [] = False"

text \<open>\<open>s.includes(m)\<close>.\<close>

fun str_includes :: "string \<Rightarrow> string \<Rightarrow> bool" where
  "str_includes m [] = (m = [])"
| "str_includes m (c # cs) = (starts_with m (c # cs) \<or> str_includes m cs)"

fun message_of :: "failure \<Rightarrow> string" where
  "message_of (LogFailed (RequiresValidTenantId methodName callId)) =
     ''[CallLifecycleLogger] '' @ methodName @ '' requires a valid tenantId for call '' @ decimal callId"
| "message_of (PayloadFailed CallRequired) = ''IncomingCallPayload: call required''"
| "message_of (PayloadFailed InvalidAssignmentType) = ''IncomingCallPayload: invalid assignmentType''"
| "message_of (ProviderFailed callId) = ''provider''"
| "message_of (Thrown m) = m"

definition emitCallError :: "nat \<Rightarrow> string \<Rightarrow> string \<Rightarrow> string option \<Rightarrow> unit task" where
  "emitCallError callId code message socketId =
     (let payload = \<lparr> er_callId = callId, er_code = code, er_message = message \<rparr> in
      if nullish socketId [] \<noteq> [] then emit (SocketError (nullish socketId []) payload)
      else emit (Bus (ErrorEv payload)))"

definition endedDuringWork :: "failure \<Rightarrow> bool" where
  "endedDuringWork e \<longleftrightarrow>
     list_ex (\<lambda>m. str_includes m (message_of e)) [''already terminated'', ''already failed'', ''RTCPeerConnection is closed'']"

definition lower_status :: "call_status \<Rightarrow> string" where
  "lower_status s = (case s of St_TERMINATED \<Rightarrow> ''terminated'' | St_FAILED \<Rightarrow> ''failed'' | St_INITIATED \<Rightarrow> ''initiated''
     | St_RINGING \<Rightarrow> ''ringing'' | St_IN_PROGRESS \<Rightarrow> ''in_progress'' | St_CANCELLED \<Rightarrow> ''cancelled'')"

definition optional_status :: "call_status option \<Rightarrow> string" where
  "optional_status s = (case s of None \<Rightarrow> ''null'' | Some x \<Rightarrow> status_name x)"

section \<open>Small steps\<close>

record joined =
  jn_callId :: nat
  jn_userId :: nat
  jn_tenantId :: nat
  jn_sdpAnswer :: string
  jn_socketId :: "string option"
  jn_deviceId :: "string option"

definition join_participant :: "call \<Rightarrow> participant_kind \<Rightarrow> nat option \<Rightarrow> string option \<Rightarrow> unit task" where
  "join_participant c kind agentId deviceId = change (\<lambda>w.
     w\<lparr>w_participants := fst (pt_join (w_now w) (c_id c) (c_tenant_id c) kind agentId deviceId (w_participants w))\<rparr>)"

definition set_agent_device :: "nat \<Rightarrow> nat \<Rightarrow> string option \<Rightarrow> unit task" where
  "set_agent_device callId userId deviceId = change (\<lambda>w.
     w\<lparr>w_participants := agentDevice callId userId deviceId (w_participants w)\<rparr>)"

definition announceToMonitor :: "nat \<Rightarrow> unit task" where
  "announceToMonitor callId =
     and_then (read (\<lambda>w. mp_monitor (w_port w) callId)) (\<lambda>monitor.
     case monitor of
       None \<Rightarrow> ret ()
     | Some (mode, private) \<Rightarrow> emit (Bus (MonitorReconnectedEv callId mode private)))"

definition bridge :: "nat \<Rightarrow> unit task" where
  "bridge callId =
     and_then (emit (Bridged callId)) (\<lambda>_.
     and_then (read (\<lambda>w. mp_bridge (w_port w) callId)) throwing)"

text \<open>\<open>new Date()\<close> in a TIMESTAMP column.\<close>

definition set_time_now :: "nat \<Rightarrow> string \<Rightarrow> unit task" where
  "set_time_now callId field = change (\<lambda>w.
     case updateTimestamp (now_s w) callId field (Some (to_timestamp (w_now w))) (w_calls w) of
       Inl _ \<Rightarrow> w
     | Inr cs \<Rightarrow> w\<lparr>w_calls := cs\<rparr>)"

definition set_state :: "nat \<Rightarrow> call_state option \<Rightarrow> unit task" where
  "set_state callId st = change (\<lambda>w. w\<lparr>w_calls := updateState (now_s w) callId st (w_calls w)\<rparr>)"

section \<open>Accepting\<close>

definition conflict :: "string \<Rightarrow> failure" where
  "conflict why = Thrown (''Call assignment conflict. '' @ why)"

definition accept_guards :: "nat \<Rightarrow> nat \<Rightarrow> (call option \<times> queue option) task" where
  "accept_guards callId userId =
     and_then (read (\<lambda>w. let row = call_findById callId (w_calls w) in
       (row, case Option.bind row c_queue_id of None \<Rightarrow> None | Some q \<Rightarrow> getQueue (Some q) (w_queues w)))) (\<lambda>(row, queue).
     and_then (read (isAtCapacity queue callId)) (\<lambda>full.
     if full then raise (Thrown ''The queue is at its active-call limit.'')
     else and_then (read (\<lambda>w. hasAgentActiveCall userId callId (w_calls w))) (\<lambda>active.
       if active then raise (Thrown ''Agent already has an active call.'')
       else ret (row, queue))))"

definition hold_winner :: "nat \<Rightarrow> nat \<Rightarrow> nat \<Rightarrow> unit task" where
  "hold_winner callId userId tenantId =
     and_then (read (\<lambda>w. Option.bind (agent_findById userId (w_agents w)) v_busy_call_id = Some callId)) (\<lambda>wasHeld.
     and_then (on_db (\<lambda>now. holdForOwnCall userId callId)) (\<lambda>held.
     only_when (held \<and> \<not> wasHeld) (broadcast tenantId userId Av_ON_CALL None)))"

definition accept_claim :: "nat \<Rightarrow> nat \<Rightarrow> nat \<Rightarrow> call_status option \<Rightarrow> unit task" where
  "accept_claim callId userId tenantId preGateStatus =
     and_then let_others_run (\<lambda>_.
     if preGateStatus = Some St_RINGING then
       and_then (on_calls (\<lambda>now. assignCallToAgentIfEligible now callId userId)) (\<lambda>claimed.
       if \<not> claimed then raise (conflict ''Call ownership changed.'')
       else hold_winner callId userId tenantId)
     else
       and_then (on_calls (\<lambda>now. claimHandover now callId userId)) (\<lambda>claimed.
       if \<not> claimed then raise (conflict ''The transfer is no longer yours.'') else ret ()))"

text \<open>The microphone never came up: the call ends as failed and everybody on it is told.\<close>

definition media_not_ready :: end_options where
  "media_not_ready = (end_defaults Rs_AGENT_MEDIA_NOT_READY By_SYSTEM)\<lparr>
     eo_failure := Some (Some (JArr [JObj [(''code'', JStr ''AGENT_MEDIA_NOT_READY''),
       (''title'', JStr ''Microphone not detected - audio did not reach the server'')]])),
     eo_provider := Provider_terminate, eo_media := Local, eo_source := Some ''agent_media_not_ready''\<rparr>"

definition abortAcceptOnMediaFailure :: "nat \<Rightarrow> nat \<Rightarrow> unit task" where
  "abortAcceptOnMediaFailure callId userId =
     and_then (logged_failure
       (and_then (read (\<lambda>w. call_findById callId (w_calls w))) (\<lambda>found.
        case found of
          None \<Rightarrow> ret ()
        | Some call \<Rightarrow>
            and_then (end_call (Row (call\<lparr>c_agent_id := Some (nullish (c_agent_id call) userId)\<rparr>)) media_not_ready)
              (\<lambda>_. ret ())))) (\<lambda>_.
     emitCallError callId ''AGENT_MEDIA_NOT_READY''
       ''Your microphone was not detected. Please check that your microphone is connected and permissions are allowed, then try again.''
       None)"

definition accept_media :: "joined \<Rightarrow> unit task" where
  "accept_media d =
     and_then (change (set_leg_socket (jn_callId d) (jn_socketId d))) (\<lambda>_.
     and_then
       (catching
         (on_legs (\<lambda>w. agentAccepted (now_s w) (jn_callId d) (jn_userId d) (jn_sdpAnswer d) (jn_deviceId d)
            (mp_accept (w_port w) (jn_callId d) (jn_userId d))))
         (\<lambda>mediaErr.
            and_then (only_when (str_includes ''Microphone audio did not reach'' (message_of mediaErr))
                       (abortAcceptOnMediaFailure (jn_callId d) (jn_userId d))) (\<lambda>_.
            raise mediaErr))) (\<lambda>_.
     let_others_run))"

text \<open>The customer is answered, unless the IVR or an earlier agent did.\<close>

definition accept_customer :: "call \<Rightarrow> unit task" where
  "accept_customer c =
     only_when (c_ivr_flow_id c = None \<and> c_answered_at c = None)
       (and_then (read (\<lambda>w. nullish (Option.bind (findByCallAndType (c_id c) Conn_CUSTOMER (w_legs w)) l_remote_sdp) [])) (\<lambda>offer.
        if offer = [] then raise (Thrown ''Customer offer not found'')
        else
          and_then (read (\<lambda>w. mp_forCall (w_port w) (c_id c))) (\<lambda>channel.
          and_then (throwing channel) (\<lambda>_.
          and_then (on_legs (\<lambda>w. answerCustomer (now_s w) (c_id c) offer (mp_answerCustomer (w_port w) (c_id c)))) (\<lambda>_.
          and_then (emit (CustomerAccepted (c_id c))) (\<lambda>_.
          and_then (read (\<lambda>w. mp_channelAccept (w_port w) (c_id c))) (\<lambda>r.
          and_then (throwing r) (\<lambda>_.
          and_then let_others_run (\<lambda>_.
          and_then (read (\<lambda>w. getStatus (c_id c) (w_calls w))) (\<lambda>status.
          case status of
            Some St_TERMINATED \<Rightarrow> raise (Thrown (''Call already '' @ lower_status St_TERMINATED @ '', cannot accept''))
          | Some St_FAILED \<Rightarrow> raise (Thrown (''Call already '' @ lower_status St_FAILED @ '', cannot accept''))
          | _ \<Rightarrow> ret ()))))))))))"

definition accept_commit :: "call \<Rightarrow> nat \<Rightarrow> unit task" where
  "accept_commit c userId =
     and_then (on_calls (\<lambda>now. assignCallToAgentIfEligible now (c_id c) userId)) (\<lambda>assigned.
     if \<not> assigned then raise (conflict ''Call ownership changed.'')
     else
       and_then let_others_run (\<lambda>_.
       and_then (on_calls (\<lambda>now. transitionStatus now (c_id c) St_RINGING St_IN_PROGRESS)) (\<lambda>transitioned.
       if \<not> transitioned then
         and_then (read (\<lambda>w. getStatus (c_id c) (w_calls w))) (\<lambda>nowStatus.
         raise (Thrown (''Call status changed to '' @ optional_status nowStatus @ '' before accept could complete'')))
       else
         and_then (set_state (c_id c) (Some ACTIVE)) (\<lambda>_.
         only_when (c_answered_at c = None \<or> c_ivr_flow_id c \<noteq> None) (set_time_now (c_id c) ''answered_at'')))))"

definition accept_announce :: "joined \<Rightarrow> call option \<Rightarrow> queue option \<Rightarrow> unit task" where
  "accept_announce d callRecord queue =
     (let callId = jn_callId d; userId = jn_userId d; tenantId = jn_tenantId d in
      and_then (bridge callId) (\<lambda>_.
      and_then (announceToMonitor callId) (\<lambda>_.
      and_then (change (\<lambda>w. w\<lparr>w_participants := fst (pt_join (w_now w) callId
          (case callRecord of None \<Rightarrow> tenantId | Some c \<Rightarrow> c_tenant_id c) Kind_AGENT (Some userId) (jn_deviceId d) (w_participants w))\<rparr>)) (\<lambda>_.
      and_then (read (\<lambda>w. (getNameById userId (w_agents w), isFollowUp callId userId (w_history w)))) (\<lambda>(agentName, followUp).
      and_then (if followUp
                then change (\<lambda>w. w\<lparr>w_history := logFollowUp (w_now w) callId (Some tenantId) userId [] (w_history w)\<rparr>)
                else write_log (\<lambda>now. logAccepted now callId (Some tenantId) (Some userId) [])) (\<lambda>_.
      and_then (streak_reset userId) (\<lambda>_.
      and_then (emit (Bus (SuccessEv callId))) (\<lambda>_.
      and_then (emit (Bus (HandledEv \<lparr> hn_callId = callId, hn_tenantId = tenantId, hn_userId = userId,
          hn_agentName = agentName, hn_deviceId = jn_deviceId d, hn_action = Accepted \<rparr>))) (\<lambda>_.
      and_then (case queue of
           Some q \<Rightarrow> only_when (isRingAll q) (emit (Bus (OfferTakenEv callId tenantId userId (q_id q))))
         | None \<Rightarrow> ret ()) (\<lambda>_.
      emit (PushResolved callId userId (case queue of Some q \<Rightarrow> (if isRingAll q then Some (q_id q) else None) | None \<Rightarrow> None)
        (jn_deviceId d))))))))))))"

definition accept_body :: "joined \<Rightarrow> unit task" where
  "accept_body d =
     and_then (accept_guards (jn_callId d) (jn_userId d)) (\<lambda>(row, queue).
     and_then (read (\<lambda>w. getStatus (jn_callId d) (w_calls w))) (\<lambda>preGateStatus.
     if preGateStatus \<noteq> Some St_RINGING \<and> preGateStatus \<noteq> Some St_IN_PROGRESS then ret ()
     else
       and_then (accept_claim (jn_callId d) (jn_userId d) (jn_tenantId d) preGateStatus) (\<lambda>_.
       and_then (accept_media d) (\<lambda>_.
       and_then (read (\<lambda>w. call_findById (jn_callId d) (w_calls w))) (\<lambda>callRecord.
       and_then (case callRecord of
            None \<Rightarrow> ret ()
          | Some c \<Rightarrow> only_when (c_status c = St_RINGING)
              (and_then (accept_customer c) (\<lambda>_. accept_commit c (jn_userId d)))) (\<lambda>_.
       accept_announce d callRecord queue))))))"

text \<open>The catch block: what the agent is told, and when the error goes on.\<close>

definition accept_failed :: "joined \<Rightarrow> failure \<Rightarrow> unit task" where
  "accept_failed d error =
     (let callId = jn_callId d in
      if str_includes ''already has an active call'' (message_of error) then
        emitCallError callId ''CALL_ALREADY_ENDED'' ''Unable to accept: you are already on an active call.'' (jn_socketId d)
      else if str_includes ''Call assignment conflict'' (message_of error) then
        emitCallError callId ''ACCEPT_FAILED'' ''This call was already answered by another agent.'' (jn_socketId d)
      else
        and_then
          (catching
            (and_then (read (\<lambda>w. call_findById callId (w_calls w))) (\<lambda>found.
             case found of
               None \<Rightarrow> ret False
             | Some c \<Rightarrow>
                 if c_status c \<in> {St_TERMINATED, St_FAILED, St_CANCELLED} then
                   and_then (releaseAgent (Some (jn_userId d)) callId False) (\<lambda>_.
                   and_then (assignOldestUnassignedCall (c_tenant_id c)) (\<lambda>_.
                   and_then (emitCallError callId ''CALL_ALREADY_ENDED'' ''This call has already ended.'' (jn_socketId d)) (\<lambda>_.
                   ret True)))
                 else ret False))
            (\<lambda>_. ret False)) (\<lambda>handled.
        if handled then ret () else raise error))"

definition handleAgentJoined :: "joined \<Rightarrow> unit task" where
  "handleAgentJoined d =
     and_then (read (\<lambda>w. mp_hasAgentOffer (w_port w) (jn_callId d))) (\<lambda>holdsLeg.
     if \<not> holdsLeg then ret () else catching (accept_body d) (accept_failed d))"

section \<open>Coming back\<close>

text \<open>An agent's socket came back while the call still rings: a fresh leg, and the offer again.\<close>

definition seconds_since :: "int \<Rightarrow> int option \<Rightarrow> json" where
  "seconds_since now t = (case t of None \<Rightarrow> JNull | Some r \<Rightarrow> JNum ((now - r * 1000 + 500) div 1000))"

definition offer_agent_leg :: "nat \<Rightarrow> string task" where
  "offer_agent_leg callId = on_legs (\<lambda>w. offerAgent (now_s w) callId (mp_offerAgent (w_port w) callId))"

definition ringing_reconnect_body :: "nat \<Rightarrow> nat \<Rightarrow> string option \<Rightarrow> unit task" where
  "ringing_reconnect_body callId userId socketId =
     and_then (read (\<lambda>w. call_findById callId (w_calls w))) (\<lambda>found.
     case found of
       None \<Rightarrow> ret ()
     | Some call \<Rightarrow>
         and_then (offer_agent_leg callId) (\<lambda>sdpOffer.
         and_then (read (\<lambda>w. agent_findById userId (w_agents w))) (\<lambda>agent.
         and_then (case fromCall (Some call) \<lparr> io_agentId = Some (c_agent_id call),
               io_agentName = Option.bind agent v_name, io_offeredAgentIds = None, io_sdpOffer = Some sdpOffer,
               io_assignmentType = Some As_DIRECT, io_transferredFrom = None, io_assignedBy = None \<rparr> of
             Inl e \<Rightarrow> raise (PayloadFailed e)
           | Inr payload \<Rightarrow> emit (Bus (RingingDeliverEv socketId payload))) (\<lambda>_.
         and_then (read w_now) (\<lambda>now.
         write_log (\<lambda>t. logAgentConnected t callId (Some (c_tenant_id call)) (Some userId)
           [(''seconds_since_assignment'', seconds_since now (c_ringing_at call)), (''is_first_socket'', JBool True),
            (''re_delivered'', JBool True), (''transport'', JStr ''websocket'')])))))) "

definition handleRingingAgentReconnect :: "nat \<Rightarrow> nat \<Rightarrow> string option \<Rightarrow> unit task" where
  "handleRingingAgentReconnect callId userId socketId =
     and_then (read (\<lambda>w. mp_owns (w_port w) callId)) (\<lambda>owned.
     if \<not> owned then ret () else logged_failure (ringing_reconnect_body callId userId socketId))"

text \<open>The agent's answer to the offer a reconnect got.\<close>

definition handleReconnectAnswered :: "joined \<Rightarrow> unit task" where
  "handleReconnectAnswered d =
     (let callId = jn_callId d; userId = jn_userId d in
      catching
        (and_then (read (\<lambda>w. (getUserActiveCall (jn_tenantId d) callId userId (w_calls w), mp_hasAgentOffer (w_port w) callId)))
         (\<lambda>(found, waiting).
         case found of
           None \<Rightarrow> raise (Thrown ''No active call found for reconnecting.'')
         | Some call \<Rightarrow>
             if \<not> waiting then raise (Thrown ''No reconnect offer is waiting for this call.'')
             else
               and_then (change (set_leg_socket callId (jn_socketId d))) (\<lambda>_.
               and_then (on_legs (\<lambda>w. agentAccepted (now_s w) callId userId (jn_sdpAnswer d) (jn_deviceId d)
                 (mp_accept (w_port w) callId userId))) (\<lambda>_.
               and_then (bridge callId) (\<lambda>_.
               and_then (announceToMonitor callId) (\<lambda>_.
               and_then (set_agent_device callId userId (jn_deviceId d)) (\<lambda>_.
               and_then (write_log (\<lambda>t. logReconnected t callId (Some (jn_tenantId d)) (Some userId)
                 [(''source'', JStr ''reconnect_offer'')])) (\<lambda>_.
               emit (Bus (ReconnectCompletedEv callId userId (jn_socketId d) (jn_deviceId d)))))))))))
        (\<lambda>e. emitCallError callId ''RECONNECT_FAILED'' (message_of e) (jn_socketId d)))"

record reconnect =
  rc_callId :: nat
  rc_userId :: nat
  rc_tenantId :: nat
  rc_sdpOffer :: "string option"
  rc_socketId :: "string option"
  rc_deviceId :: "string option"
  rc_iceTrigger :: bool

text \<open>The socket the call is taken from, when it is another one and still connected.\<close>

definition superseded_socket :: "nat \<Rightarrow> string option \<Rightarrow> world \<Rightarrow> string option" where
  "superseded_socket callId socketId w =
     (case w_leg_sockets w callId of
        None \<Rightarrow> None
      | Some s \<Rightarrow> if s \<noteq> [] \<and> Some s \<noteq> socketId \<and> mp_socketLive (w_port w) s then Some s else None)"

definition reconnected_news :: "reconnect \<Rightarrow> reconnect_sdp \<Rightarrow> reconnect_news" where
  "reconnected_news d sdp = \<lparr> rn_callId = rc_callId d, rn_userId = rc_userId d, rn_tenantId = rc_tenantId d, rn_sdp = sdp,
     rn_socketId = rc_socketId d, rn_deviceId = rc_deviceId d \<rparr>"

definition reconnect_leg :: "reconnect \<Rightarrow> call \<Rightarrow> (call_view \<times> string) option task" where
  "reconnect_leg d call =
     (let callId = rc_callId d; userId = rc_userId d in
      if nullish (rc_sdpOffer d) [] = [] then
        and_then (offer_agent_leg callId) (\<lambda>offer.
        and_then (emit (Bus (ReconnectedEv (reconnected_news d (ReconnectOffer offer))))) (\<lambda>_.
        ret None))
      else
        and_then (on_legs (\<lambda>w. answerAgent (now_s w) callId userId (nullish (rc_sdpOffer d) []) (rc_deviceId d)
          (mp_answerAgent (w_port w) callId userId))) (\<lambda>sdpAnswer.
        and_then (bridge callId) (\<lambda>_.
        and_then (announceToMonitor callId) (\<lambda>_.
        and_then (set_agent_device callId userId (rc_deviceId d)) (\<lambda>_.
        and_then (read (\<lambda>w. getNameById userId (w_agents w))) (\<lambda>agentName.
        and_then (write_log (\<lambda>t. logReconnected t callId (Some (rc_tenantId d)) (Some userId)
          [(''source'', JStr (if rc_iceTrigger d then ''ice_failure_recovery'' else ''network_reconnect''))])) (\<lambda>_.
        and_then (emit (Bus (ReconnectedEv (reconnected_news d (ReconnectAnswer sdpAnswer))))) (\<lambda>_.
        ret (map_option (\<lambda>v. (v, sdpAnswer)) (toCallView (Some call) agentName (Some (rc_deviceId d))))))))))))"

definition handleAgentReconnected :: "reconnect \<Rightarrow> (call_view \<times> string) option task" where
  "handleAgentReconnected d =
     (let callId = rc_callId d; userId = rc_userId d in
      and_then (read (\<lambda>w. getUserActiveCall (rc_tenantId d) callId userId (w_calls w))) (\<lambda>found.
      case found of
        None \<Rightarrow> raise (Thrown ''No active call found for reconnecting.'')
      | Some call \<Rightarrow>
          and_then (only_when (rc_iceTrigger d)
            (logged_failure (write_log (\<lambda>t. logDisconnected t callId (Some (rc_tenantId d)) (Some userId)
              [(''reason'', JStr ''ice_failure''), (''auto_reconnect'', JBool True)])))) (\<lambda>_.
          and_then (read (\<lambda>w. (superseded_socket callId (rc_socketId d) w, mp_owns (w_port w) callId))) (\<lambda>(previous, owned).
          if \<not> owned then raise (Thrown ''No active call found for reconnecting.'')
          else
            and_then (change (set_leg_socket callId (rc_socketId d))) (\<lambda>_.
            and_then (case previous of None \<Rightarrow> ret () | Some s \<Rightarrow> emit (SocketSuperseded s callId)) (\<lambda>_.
            reconnect_leg d call))))))"

end
