(* ===== verification/CallControl.thy ===== *)
theory CallControl
  imports AgentEvents
begin

text \<open>
  The other handlers of \<open>src/src/core/events/handlers\<close> (decline, transfer, hang up, disconnect, dial out,
  the customer's answer), the grace period of a silent customer
  (\<open>src/src/core/calls/CustomerNetworkLossPolicy.js\<close>) and the dispatch of a call's inputs
  (\<open>src/src/core/events/CallEventHandler.js\<close>).
\<close>

section \<open>Declining (RejectionEventHandler)\<close>

record rejection =
  rj_callId :: nat
  rj_userId :: nat
  rj_tenantId :: nat
  rj_deviceId :: "string option"
  rj_socketId :: "string option"

definition handled :: "rejection \<Rightarrow> string option \<Rightarrow> unit task" where
  "handled d agentName = emit (Bus (HandledEv \<lparr> hn_callId = rj_callId d, hn_tenantId = rj_tenantId d, hn_userId = rj_userId d,
     hn_agentName = agentName, hn_deviceId = rj_deviceId d, hn_action = Rejected \<rparr>))"

definition decline_offer :: "rejection \<Rightarrow> unit task" where
  "decline_offer d =
     (let callId = rj_callId d; userId = rj_userId d; tenantId = rj_tenantId d in
      and_then (write_log (\<lambda>t. logRejected t callId (Some tenantId) (Some userId) [(''reason'', JStr ''agent_declined_offer'')])) (\<lambda>_.
      and_then (emit (Bus (RoomLeaveEv userId callId))) (\<lambda>_.
      and_then (emit (Bus (OfferDeclinedEv callId tenantId userId (rj_deviceId d)))) (\<lambda>_.
      emit (PushResolved callId userId None None)))))"

definition pass_on :: "rejection \<Rightarrow> call \<Rightarrow> unit task" where
  "pass_on d call =
     and_then (if c_agent_id call \<noteq> Some (rj_userId d) then ret False else passOffer call (rj_userId d) Declined None) (\<lambda>passed.
     if \<not> passed then emit (Bus (OfferWithdrawnEv (rj_callId d) (rj_tenantId d) [rj_userId d] ''declined''))
     else and_then (read (\<lambda>w. getNameById (rj_userId d) (w_agents w))) (handled d))"

definition rejected_end :: "call \<Rightarrow> end_options" where
  "rejected_end call = (end_defaults Rs_REJECTED By_AGENT)\<lparr>
     eo_provider := (if c_ivr_flow_id call \<noteq> None then Provider_terminate else Provider_reject),
     eo_media := Local, eo_source := Some ''agent_rejected''\<rparr>"

definition decline_call :: "rejection \<Rightarrow> call \<Rightarrow> unit task" where
  "decline_call d call =
     (let callId = rj_callId d; userId = rj_userId d; tenantId = rj_tenantId d in
      and_then let_others_run (\<lambda>_.
      and_then (on_calls (\<lambda>now. assignCallToAgentIfEligible now callId userId)) (\<lambda>assigned.
      if \<not> assigned then raise (conflict ''Call ownership changed.'')
      else
        and_then (write_log (\<lambda>t. logRejected t callId (Some tenantId) (Some userId) [(''reason'', JStr ''agent_rejected'')])) (\<lambda>_.
        and_then (end_call (Row (call\<lparr>c_agent_id := Some userId\<rparr>)) (rejected_end call)) (\<lambda>_.
        and_then (read (\<lambda>w. getNameById userId (w_agents w))) (\<lambda>agentName.
        and_then (handled d agentName) (\<lambda>_.
        emit (PushResolved callId userId None None))))))))"

definition reject_body :: "rejection \<Rightarrow> unit task" where
  "reject_body d =
     and_then (read (\<lambda>w. call_findById (rj_callId d) (w_calls w))) (\<lambda>found.
     case found of
       None \<Rightarrow> ret ()
     | Some call \<Rightarrow>
         if c_status call \<noteq> St_RINGING \<and> c_status call \<noteq> St_INITIATED then ret ()
         else
           and_then (read (\<lambda>w. case c_queue_id call of None \<Rightarrow> None | Some q \<Rightarrow> getQueue (Some q) (w_queues w))) (\<lambda>queue.
           let inboundRinging = (c_direction call = INBOUND \<and> c_status call = St_RINGING) in
           case queue of
             Some q \<Rightarrow>
               if inboundRinging \<and> c_agent_id call = None \<and> isRingAll q then decline_offer d
               else if inboundRinging \<and> \<not> isRingAll q then pass_on d call
               else decline_call d call
           | None \<Rightarrow> decline_call d call))"

definition handleCallRejected :: "rejection \<Rightarrow> unit task" where
  "handleCallRejected d =
     catching (reject_body d) (\<lambda>error.
       if str_includes ''Call assignment conflict'' (message_of error) then
         emitCallError (rj_callId d) ''REJECT_FAILED'' ''This call was already handled by another agent.'' (rj_socketId d)
       else raise error)"

section \<open>Transferring (TransferEventHandler)\<close>

record transfer_request =
  tq_callId :: nat
  tq_newAgentId :: "nat option"
  tq_tenantId :: nat
  tq_assignorId :: "nat option"
  tq_targetType :: string
  tq_targetQueueId :: "nat option"

record resolved_target =
  rt_targetType :: string
  rt_queueId :: "nat option"
  rt_agentId :: nat
  rt_agentName :: "string option"

definition resolveTransferTarget :: "transfer_request \<Rightarrow> nat option \<Rightarrow> resolved_target task" where
  "resolveTransferTarget d excludeAgentId =
     (if tq_targetType d = ''queue'' \<or> (tq_newAgentId d = None \<and> tq_targetQueueId d \<noteq> None) then
        (case tq_targetQueueId d of
           None \<Rightarrow> raise (Thrown ''Missing target queue'')
         | Some queueId \<Rightarrow>
             and_then (read (\<lambda>w. queue_findForTenant (Some queueId) (tq_tenantId d) (w_queues w))) (\<lambda>found.
             case found of
               None \<Rightarrow> raise (Thrown ''Target queue not found for this tenant'')
             | Some queue \<Rightarrow>
                 if q_status queue \<noteq> Q_ACTIVE then raise (Thrown ''Target queue not found for this tenant'')
                 else and_then (claimMemberForTransfer queue (tq_callId d) excludeAgentId) (\<lambda>agent.
                   case agent of
                     None \<Rightarrow> raise (Thrown ''No available agents in the selected queue'')
                   | Some m \<Rightarrow> ret \<lparr> rt_targetType = ''queue'', rt_queueId = Some (q_id queue), rt_agentId = mb_id m,
                                      rt_agentName = mb_name m \<rparr>)))
      else
        (case tq_newAgentId d of
           None \<Rightarrow> raise (Thrown ''Missing target agent'')
         | Some newAgentId \<Rightarrow>
             and_then (read (\<lambda>w. agent_findById newAgentId (w_agents w))) (\<lambda>found.
             case found of
               None \<Rightarrow> raise (Thrown ''Target agent does not belong to this tenant'')
             | Some target \<Rightarrow>
                 if v_tenant_id target \<noteq> tq_tenantId d then raise (Thrown ''Target agent does not belong to this tenant'')
                 else
                   and_then let_others_run (\<lambda>_.
                   and_then (on_db (\<lambda>now. claimAgentForCall newAgentId (tq_callId d))) (\<lambda>claimed.
                   if \<not> claimed then raise (Thrown ''Target agent is not available'')
                   else ret \<lparr> rt_targetType = ''agent'', rt_queueId = None, rt_agentId = v_id target,
                              rt_agentName = v_name target \<rparr>)))))"

definition initiator_name :: "agent_view option \<Rightarrow> string" where
  "initiator_name assignor =
     (case assignor of None \<Rightarrow> ''SYSTEM'' | Some a \<Rightarrow> if v_role a = Role_SUPERVISOR then ''SUPERVISOR'' else ''AGENT'')"

text \<open>The row changes hands, guarded by who had it; a lost race gives the claimed target back.\<close>

definition move_call :: "call \<Rightarrow> resolved_target \<Rightarrow> unit task" where
  "move_call call target =
     (let callId = c_id call in
      and_then let_others_run (\<lambda>_.
      and_then (case c_agent_id call of
           None \<Rightarrow> on_calls (\<lambda>now. assignCallToAgentIfUnassigned now callId (rt_agentId target))
         | Some old \<Rightarrow> on_calls (\<lambda>now. updateCallAgentIfCurrent now callId (Some old) (Some (rt_agentId target)))) (\<lambda>moved.
      if \<not> moved then
        and_then (releaseAgent (Some (rt_agentId target)) callId False) (\<lambda>_.
        raise (Thrown ''Call transfer conflict: call state changed during transfer''))
      else
        and_then (only_when (rt_queueId target \<noteq> None \<and> rt_queueId target \<noteq> c_queue_id call)
          (change (\<lambda>w. w\<lparr>w_calls := updateQueue (now_s w) callId (rt_queueId target) (w_calls w)\<rparr>))) (\<lambda>_.
        only_when (c_status call = St_IN_PROGRESS)
          (change (\<lambda>w. w\<lparr>w_calls := markHandoverOffered (now_s w) callId (rt_agentId target) (w_calls w)\<rparr>))))))"

definition leave_old_agent :: "call \<Rightarrow> unit task" where
  "leave_old_agent call =
     (case c_agent_id call of
        None \<Rightarrow> ret ()
      | Some old \<Rightarrow>
          and_then (change (\<lambda>w. w\<lparr>w_participants :=
            fst (pt_leave (w_now w) (c_id call) Kind_AGENT (Some old) Leave_TRANSFERRED (w_participants w))\<rparr>)) (\<lambda>_.
          and_then (releaseAgent (Some old) (c_id call) False) (\<lambda>_.
          and_then (emit (AgentDropped (c_id call) (Some old))) (\<lambda>_.
          and_then (read (\<lambda>w. mp_dropAgent (w_port w) (c_id call))) throwing))))"

definition transfer_origin_of :: "call \<Rightarrow> agent_view option \<Rightarrow> agent_view option \<Rightarrow> transfer_origin" where
  "transfer_origin_of call oldAgent assignor =
     (if c_agent_id call = None
      then \<lparr> to_id = map_option v_id assignor, to_name = Option.bind assignor v_name, to_isAssignment = True \<rparr>
      else \<lparr> to_id = c_agent_id call, to_name = Option.bind oldAgent v_name, to_isAssignment = False \<rparr>)"

definition assigned_by :: "call \<Rightarrow> agent_view option \<Rightarrow> (nat \<times> string option) option" where
  "assigned_by call assignor =
     (case assignor of
        Some a \<Rightarrow> if c_agent_id call \<noteq> None \<and> Some (v_id a) \<noteq> c_agent_id call then Some (v_id a, v_name a) else None
      | None \<Rightarrow> None)"

definition announce_transfer ::
  "transfer_request \<Rightarrow> call \<Rightarrow> resolved_target \<Rightarrow> agent_view option \<Rightarrow> agent_view option \<Rightarrow> string \<Rightarrow> unit task" where
  "announce_transfer d call target oldAgent assignor sdpOffer =
     (let callId = c_id call; tenantId = tq_tenantId d; wasUnassigned = (c_agent_id call = None) in
      and_then (emit (Bus (RoomTerminatedEv callId ''transferred''))) (\<lambda>_.
      and_then (case c_agent_id call of None \<Rightarrow> ret () | Some old \<Rightarrow> emit (Bus (RoomLeaveEv old callId))) (\<lambda>_.
      and_then (emit (Bus (RoomJoinEv (rt_agentId target) callId))) (\<lambda>_.
      and_then (change (\<lambda>w. w\<lparr>w_history := logTransferred (w_now w) callId (Some tenantId) (c_agent_id call) (Some (rt_agentId target))
          [(''assignor_id'', json_id (map_option v_id assignor)),
           (''assignor_name'', case Option.bind assignor v_name of None \<Rightarrow> JNull | Some n \<Rightarrow> JStr n),
           (''assignor_type'', JStr (initiator_name assignor)), (''was_unassigned'', JBool wasUnassigned),
           (''target_type'', JStr (rt_targetType target)), (''to_queue_id'', json_id (rt_queueId target))]
          (map_option v_id assignor) (initiator_name assignor) (w_history w)\<rparr>)) (\<lambda>_.
      and_then (write_log (\<lambda>t. logAssigned t callId (Some tenantId) (Some (rt_agentId target))
          [(''assignment_type'', JStr (asg_name (if wasUnassigned then As_DIRECT else As_TRANSFERRED)))])) (\<lambda>_.
      and_then (read (\<lambda>w. fromCall (call_findById callId (w_calls w)) \<lparr> io_agentId = Some (Some (rt_agentId target)),
          io_agentName = rt_agentName target, io_offeredAgentIds = None, io_sdpOffer = Some sdpOffer,
          io_assignmentType = Some As_TRANSFERRED, io_transferredFrom = Some (transfer_origin_of call oldAgent assignor),
          io_assignedBy = assigned_by call assignor \<rparr>)) (\<lambda>built.
      case built of
        Inl e \<Rightarrow> raise (PayloadFailed e)
      | Inr payload \<Rightarrow>
          and_then (emit (Bus (IncomingEv payload))) (\<lambda>_.
          and_then (emit (Bus (TransferredEv \<lparr> tr_payload = payload, tr_tenantId = tenantId, tr_oldAgentId = c_agent_id call,
              tr_userId = rt_agentId target, tr_targetType = rt_targetType target, tr_targetQueueId = rt_queueId target \<rparr>))) (\<lambda>_.
          and_then (emitAgentQueues tenantId (rt_agentId target)) (\<lambda>_.
          and_then (case c_agent_id call of None \<Rightarrow> ret () | Some old \<Rightarrow> emitAgentQueues tenantId old) (\<lambda>_.
          only_when (rt_queueId target \<noteq> None) (emitQueueUpdate tenantId (rt_queueId target)))))))))))))"

definition handleCallTransferred :: "transfer_request \<Rightarrow> unit task" where
  "handleCallTransferred d =
     and_then (read (\<lambda>w. call_findById (tq_callId d) (w_calls w))) (\<lambda>found.
     case found of
       None \<Rightarrow> raise (Thrown ''Call not found'')
     | Some call \<Rightarrow>
         if c_tenant_id call \<noteq> tq_tenantId d then raise (Thrown ''Call not found'')
         else
           and_then (read (\<lambda>w. (Option.bind (c_agent_id call) (\<lambda>a. agent_findById a (w_agents w)),
                                Option.bind (tq_assignorId d) (\<lambda>a. agent_findById a (w_agents w))))) (\<lambda>(oldAgent, assignor).
           and_then (resolveTransferTarget d (c_agent_id call)) (\<lambda>target.
           if c_agent_id call = Some (rt_agentId target) then raise (Thrown ''Call is already assigned to this agent'')
           else
             and_then (move_call call target) (\<lambda>_.
             and_then (leave_old_agent call) (\<lambda>_.
             and_then (offer_agent_leg (c_id call)) (\<lambda>sdpOffer.
             announce_transfer d call target oldAgent assignor sdpOffer))))))"

section \<open>Hanging up (TerminationEventHandler)\<close>

record hangup =
  hu_callId :: nat
  hu_reason :: "string option"
  hu_byConsumer :: bool

definition network_error :: json where
  "network_error = JArr [JObj [(''code'', JNum 90001),
     (''title'', JStr ''ICE/WebRTC connectivity failure - reconnect attempts exhausted''),
     (''details'', JStr ''Server-side ICE reconnect was attempted but could not restore the WebRTC connection within the allowed retries.''),
     (''source'', JStr ''SYSTEM'')]]"

definition customer_network_loss :: json where
  "customer_network_loss = JArr [JObj [(''code'', JNum 90002),
     (''title'', JStr ''Customer network loss - no incoming audio from the customer''),
     (''details'', JStr ''Server-side silence watchdog detected sustained RTP silence from the customer leg beyond the configured threshold.''),
     (''source'', JStr ''SYSTEM'')]]"

text \<open>How the call ends, from what the input says and the state of the call.\<close>

definition hangup_options :: "hangup \<Rightarrow> call \<Rightarrow> end_options" where
  "hangup_options d call =
     (if hu_reason d = Some ''system_failed'' then
        (end_defaults Rs_NETWORK_ERROR By_SYSTEM)\<lparr>eo_failure := Some (Some network_error), eo_provider := Provider_terminate,
          eo_media := Local, eo_source := Some ''ice_reconnect_exhausted''\<rparr>
      else if hu_reason d = Some ''customer_network_loss'' then
        (end_defaults Rs_CUSTOMER_NETWORK_LOSS By_SYSTEM)\<lparr>eo_failure := Some (Some customer_network_loss),
          eo_provider := Provider_terminate, eo_media := Local, eo_source := Some ''silence_watchdog''\<rparr>
      else
        (end_defaults
           (if hu_reason d = Some ''cancelled'' then Rs_CANCELLED
            else if c_answered_at call = None \<and> (c_status call = St_RINGING \<or> c_status call = St_INITIATED) then Rs_NO_ANSWER
            else Rs_COMPLETED)
           (if hu_byConsumer d then By_CONSUMER else By_AGENT))\<lparr>eo_provider := Provider_end, eo_media := Local,
             eo_source := Some (if hu_byConsumer d then ''api'' else ''agent'')\<rparr>)"

definition handleCallTerminated :: "hangup \<Rightarrow> unit task" where
  "handleCallTerminated d =
     logged_failure
       (and_then (read (\<lambda>w. call_findById (hu_callId d) (w_calls w))) (\<lambda>found.
        case found of
          None \<Rightarrow> ret ()
        | Some call \<Rightarrow>
            if c_status call = St_TERMINATED \<or> c_status call = St_FAILED then
              and_then (emit (MediaClosed (hu_callId d))) (\<lambda>_. change (legs_closed (hu_callId d)))
            else and_then let_others_run (\<lambda>_. and_then (end_call (Row call) (hangup_options d call)) (\<lambda>_. ret ()))))"

section \<open>A broken connection (ConnectionEventHandler)\<close>

definition RECONNECT_TIMEOUT_MS :: nat where
  "RECONNECT_TIMEOUT_MS = 120000"

definition clearReconnectTimer :: "nat \<Rightarrow> unit task" where
  "clearReconnectTimer callId = emit (DeadlineCleared ''agent-reconnect'' callId)"

definition reconnectExpired :: "nat \<Rightarrow> unit task" where
  "reconnectExpired callId =
     and_then (read (\<lambda>w. call_findById callId (w_calls w))) (\<lambda>found.
     case found of
       None \<Rightarrow> ret ()
     | Some call \<Rightarrow>
         and_then let_others_run (\<lambda>_.
         and_then (end_call (Row call) ((end_defaults Rs_AGENT_DISCONNECTED By_SYSTEM)\<lparr>eo_provider := Provider_terminate,
           eo_source := Some ''agent_disconnect_timeout'', eo_agentOffline := True\<rparr>)) (\<lambda>_. ret ())))"

definition handleFrontendDisconnected :: "nat \<Rightarrow> nat option \<Rightarrow> nat option \<Rightarrow> string option \<Rightarrow> unit task" where
  "handleFrontendDisconnected callId userId tenantId reason =
     and_then (read (\<lambda>w. case userId of
         None \<Rightarrow> False
       | Some u \<Rightarrow> (case call_findById callId (w_calls w) of None \<Rightarrow> True | Some c \<Rightarrow> c_agent_id c \<noteq> Some u))) (\<lambda>stale.
     if stale then ret ()
     else
       and_then (logged_failure (write_log (\<lambda>t. logDisconnected t callId tenantId userId
         [(''reason'', JStr (nullish reason ''disconnect''))]))) (\<lambda>_.
       and_then (logged_failure
         (and_then (emit (AgentDropped callId userId)) (\<lambda>_.
          and_then (read (\<lambda>w. mp_dropAgent (w_port w) callId)) throwing))) (\<lambda>_.
       emit (DeadlineSet ''agent-reconnect'' callId RECONNECT_TIMEOUT_MS))))"

section \<open>A silent customer (CustomerNetworkLossPolicy)\<close>

definition WARN_AFTER_MS :: nat where
  "WARN_AFTER_MS = 15000"

definition END_AFTER_MS :: nat where
  "END_AFTER_MS = 20000"

definition cancel_network_loss :: "nat \<Rightarrow> unit task" where
  "cancel_network_loss callId =
     and_then (emit (DeadlineCleared ''network-warn'' callId)) (\<lambda>_. emit (DeadlineCleared ''network-end'' callId))"

definition network_warn :: "nat \<Rightarrow> unit task" where
  "network_warn callId =
     and_then (read (\<lambda>w. getStatus callId (w_calls w))) (\<lambda>status.
     only_when (status = Some St_IN_PROGRESS) (emit (Bus (NetworkTerminatingEv callId))))"

definition network_end :: "nat \<Rightarrow> unit task" where
  "network_end callId =
     and_then (read (\<lambda>w. call_findById callId (w_calls w))) (\<lambda>found.
     case found of
       None \<Rightarrow> ret ()
     | Some c \<Rightarrow> only_when (\<not> is_final c) (emit (InboxPosted callId ''CALL_TERMINATED'')))"

datatype media_state = MediaDrop | MediaActive

definition onMediaState :: "nat \<Rightarrow> media_state \<Rightarrow> unit task" where
  "onMediaState callId state =
     and_then (read (\<lambda>w. call_findById callId (w_calls w))) (\<lambda>found.
     case found of
       None \<Rightarrow> ret ()
     | Some c \<Rightarrow>
         (case state of
            MediaDrop \<Rightarrow>
              and_then (write_log (\<lambda>t. logCustomerNetworkDrop t callId (Some (c_tenant_id c)) (c_agent_id c)
                [(''detection_method'', JStr ''silence_watchdog'')])) (\<lambda>_.
              and_then (emit (DeadlineSet ''network-warn'' callId WARN_AFTER_MS)) (\<lambda>_.
              emit (DeadlineSet ''network-end'' callId END_AFTER_MS)))
          | MediaActive \<Rightarrow>
              and_then (cancel_network_loss callId) (\<lambda>_.
              write_log (\<lambda>t. logCustomerNetworkReconnected t callId (Some (c_tenant_id c)) (c_agent_id c)
                [(''detection_method'', JStr ''silence_watchdog'')]))))"

end
