(* ===== verification/CallInputs.thy ===== *)
theory CallInputs
  imports CallControl
begin

text \<open>
  Outbound calls (\<open>InitiationEventHandler.js\<close>, with the choice of media in
  \<open>src/src/core/media/MediaTopology.js\<close>), supervisors (\<open>MonitorEventHandler.js\<close>), the customer's answer
  (\<open>CustomerEventHandler.js\<close>), and the dispatch of a call's inputs to the handlers
  (\<open>src/src/core/events/CallEventHandler.js\<close>).
\<close>

section \<open>Media topology\<close>

record channel_row =
  ch_id :: nat
  ch_tenant_id :: nat
  ch_type :: channel_type
  ch_address :: "string option"
  ch_active :: bool
  ch_owner_agent_id :: "nat option"
  ch_recording_enabled :: bool

text \<open>\<open>directPath\<close> is \<open>config.media.directPath\<close>; \<open>transport\<close> the channel adapter's, if it is registered.\<close>

definition decide_topology :: "bool \<Rightarrow> string list \<Rightarrow> string option \<Rightarrow> channel_row \<Rightarrow> bool \<Rightarrow> media_topology" where
  "decide_topology directPath modes transport channel outbound =
     (if \<not> directPath then Top_ROOM
      else if ch_owner_agent_id channel = None then Top_ROOM
      else if ch_recording_enabled channel then Top_ROOM
      else if list_ex (\<lambda>m. m \<noteq> ''listen'') modes then Top_ROOM
      else if outbound \<and> transport \<noteq> Some ''rtp'' then Top_ROOM
      else Top_DIRECT)"

section \<open>Outbound calls\<close>

record outbound_request =
  ob_tenantId :: nat
  ob_channel :: channel_row
  ob_agent :: agent_view
  ob_customerName :: "string option"
  ob_externalRef :: "string option"
  ob_consumerMetadata :: "json option"

text \<open>
  What the channel's adapter says: \<open>None\<close> without one; whether it can dial out, its transport, and the
  customer's address in its form (or the message of the error it throws).
\<close>

record adapter =
  ad_supportsOutbound :: bool
  ad_transport :: "string option"
  ad_normalized :: "string + string \<times> address_type"

datatype outbound_error = OutboundCallError string string | OutboundFailed failure

type_synonym 'a outbound_task = "(world, outbound_error, 'a) act"

text \<open>The AUTO_INCREMENT value an INSERT draws.\<close>

definition fresh_call_id :: "call list \<Rightarrow> nat" where
  "fresh_call_id cs = Suc (foldr max (map c_id cs) 0)"

definition intent_row :: "outbound_request \<Rightarrow> string \<times> address_type \<Rightarrow> media_topology \<Rightarrow> new_call" where
  "intent_row d address topology = \<lparr> n_tenant_id = ob_tenantId d, n_channel_id = Some (ch_id (ob_channel d)),
     n_channel = ch_type (ob_channel d), n_channel_address = ch_address (ob_channel d), n_provider_call_id = None,
     n_queue_id = None, n_agent_id = Some (v_id (ob_agent d)), n_ivr_flow_id = None, n_state = None,
     n_media_topology = Some topology, n_customer_address = Some (fst address),
     n_customer_address_type = Some (snd address), n_customer_name = ob_customerName d,
     n_external_ref = ob_externalRef d, n_consumer_metadata = ob_consumerMetadata d, n_direction = OUTBOUND,
     n_type = None, n_status = Some St_INITIATED, n_ringing_at = None, n_queued_at = None, n_offered_at = None,
     n_metadata = None \<rparr>"

definition create_call :: "new_call \<Rightarrow> world \<Rightarrow> (db_error + nat) \<times> world" where
  "create_call d w =
     (case call_create (fresh_call_id (w_calls w)) (now_s w) d (w_calls w) of
        Inl e \<Rightarrow> (Inl e, w)
      | Inr (cs, i) \<Rightarrow> (Inr i, w\<lparr>w_calls := cs\<rparr>))"

definition channel_name :: "channel_type \<Rightarrow> string" where
  "channel_name t = (case t of WHATSAPP \<Rightarrow> ''WHATSAPP'' | SIP \<Rightarrow> ''SIP'')"

definition publish_created :: "nat \<Rightarrow> unit outbound_task" where
  "publish_created callId = change (\<lambda>w. w\<lparr>w_trace := w_trace w @ [Published callId ''call.created'']\<rparr>)"

definition createOutboundIntent :: "bool \<Rightarrow> adapter option \<Rightarrow> outbound_request \<Rightarrow> call option outbound_task" where
  "createOutboundIntent directPath adapterOpt d =
     (let channel = ob_channel d; agent = ob_agent d; err = (\<lambda>code msg. raise (OutboundCallError code msg)) in
      if ch_tenant_id channel \<noteq> ob_tenantId d then err ''invalid_channel'' ''Channel does not belong to this tenant''
      else if \<not> ch_active channel then err ''channel_disabled'' ''Channel is not active''
      else (case adapterOpt of
        None \<Rightarrow> err ''unsupported_channel'' (''Outbound calls are not supported on '' @ channel_name (ch_type channel) @ '' channels yet'')
      | Some adapter \<Rightarrow>
          if \<not> ad_supportsOutbound adapter then err ''unsupported_channel'' (''Outbound calls are not supported on '' @ channel_name (ch_type channel) @ '' channels yet'')
          else if v_tenant_id agent \<noteq> ob_tenantId d then err ''invalid_agent'' ''Agent does not belong to this tenant''
          else if ch_owner_agent_id channel \<noteq> None \<and> ch_owner_agent_id channel \<noteq> Some (v_id agent)
          then err ''line_not_owned'' ''This line belongs to another agent''
          else
            and_then (read (\<lambda>w. hasAgentActiveCall (v_id agent) 0 (w_calls w))) (\<lambda>busy.
            if busy then err ''agent_busy'' ''Agent already has an active call''
            else (case ad_normalized adapter of
              Inl message \<Rightarrow> err ''invalid_customer'' message
            | Inr address \<Rightarrow>
                and_then (read (\<lambda>w. decide_topology directPath (w_monitor_modes w (ch_tenant_id channel))
                                       (ad_transport adapter) channel True)) (\<lambda>topology.
                and_then (\<lambda>w. case create_call (intent_row d address topology) w of
                    (Inl e, w') \<Rightarrow> (Inl (OutboundFailed (Thrown ''Duplicate entry'')), w')
                  | (Inr i, w') \<Rightarrow> (Inr i, w')) (\<lambda>callId.
                and_then (publish_created callId) (\<lambda>_.
                read (\<lambda>w. call_findById callId (w_calls w)))))))))"

record call_start =
  cs_callId :: nat
  cs_userId :: nat
  cs_tenantId :: nat
  cs_sdpOffer :: string
  cs_socketId :: "string option"
  cs_deviceId :: "string option"

definition handleCallStart :: "call_start \<Rightarrow> (call_view option \<times> string) task" where
  "handleCallStart d =
     (let callId = cs_callId d; userId = cs_userId d; tenantId = cs_tenantId d in
      and_then (read (\<lambda>w. (call_findById callId (w_calls w),
          list_ex (\<lambda>p. p_call_id p = callId \<and> p_kind p = Kind_AGENT) (w_participants w)))) (\<lambda>(found, started).
      case found of
        None \<Rightarrow> raise (Thrown ''Call not found'')
      | Some call \<Rightarrow>
          if c_tenant_id call \<noteq> tenantId then raise (Thrown ''Call not found'')
          else if c_direction call \<noteq> OUTBOUND then raise (Thrown ''Not an outbound call'')
          else if c_agent_id call \<noteq> Some userId then raise (Thrown ''This call belongs to another agent'')
          else if c_status call \<noteq> St_INITIATED then raise (Thrown (''Call is already '' @ lower_status (c_status call)))
          else if started then raise (Thrown ''Call was already started'')
          else
            and_then let_others_run (\<lambda>_.
            and_then (on_db (\<lambda>now. holdForOwnCall userId callId)) (\<lambda>held.
            if \<not> held then raise (Thrown ''Agent already has an active call'')
            else
              and_then (set_time_now callId ''ringing_at'') (\<lambda>_.
              and_then (emit (InboxOwned callId)) (\<lambda>_.
              and_then (change (set_leg_socket callId (cs_socketId d))) (\<lambda>_.
              and_then (on_legs (\<lambda>w. answerAgent (now_s w) callId userId (cs_sdpOffer d) (cs_deviceId d)
                (mp_answerAgent (w_port w) callId userId))) (\<lambda>sdpAnswer.
              and_then (join_participant call Kind_AGENT (Some userId) (cs_deviceId d)) (\<lambda>_.
              and_then (broadcast tenantId userId Av_ON_CALL None) (\<lambda>_.
              and_then (read (\<lambda>w. getNameById userId (w_agents w))) (\<lambda>agentName.
              and_then (logged_failure (write_log (\<lambda>t. logOutboundInitiated t callId (Some tenantId) (Some userId)
                [(''channel_id'', json_id (c_channel_id call)),
                 (''customer_address'', case c_customer_address call of None \<Rightarrow> JNull | Some a \<Rightarrow> JStr a)]))) (\<lambda>_.
              ret (toCallView (Some call) agentName None, sdpAnswer)))))))))))))"

definition dial_failed :: "string \<Rightarrow> end_options" where
  "dial_failed message = (end_defaults Rs_PROVIDER_TRIGGER_FAILED By_PROVIDER)\<lparr>
     eo_failure := Some (Some (JArr [JObj [(''code'', JStr ''PROVIDER_TRIGGER_FAILED''), (''title'', JStr message)]])),
     eo_media := Local, eo_source := Some ''dial_failed''\<rparr>"

definition dial_customer :: "nat \<Rightarrow> unit task" where
  "dial_customer callId =
     and_then (read (\<lambda>w. mp_forCall (w_port w) callId)) (\<lambda>channel.
     and_then (throwing channel) (\<lambda>_.
     and_then (on_legs (\<lambda>w. offerCustomer (now_s w) callId (mp_offerCustomer (w_port w) callId))) (\<lambda>sdpOffer.
     and_then (emit (CustomerDialed callId)) (\<lambda>_.
     and_then (read (\<lambda>w. mp_channelInitiate (w_port w) callId)) (\<lambda>r.
     and_then (throwing r) (\<lambda>providerCallId.
     and_then let_others_run (\<lambda>_.
     (\<lambda>w. case updateProviderCallId (now_s w) callId providerCallId (w_calls w) of
        Inl e \<Rightarrow> (Inl (Thrown ''Duplicate entry''), w)
      | Inr cs \<Rightarrow> (Inr (), w\<lparr>w_calls := cs\<rparr>)))))))))"

definition triggerCustomerConnection :: "nat \<Rightarrow> unit task" where
  "triggerCustomerConnection callId =
     and_then (read (\<lambda>w. mp_owns (w_port w) callId)) (\<lambda>owned.
     if \<not> owned then ret ()
     else
       and_then (read (\<lambda>w. call_findById callId (w_calls w))) (\<lambda>row.
       catching (dial_customer callId) (\<lambda>error.
         and_then (logged_failure (write_log (\<lambda>t. logOutboundFailed t callId (map_option c_tenant_id row)
           (Option.bind row c_agent_id) [(''error'', JStr (message_of error))]))) (\<lambda>_.
         and_then (emitCallError callId ''PROVIDER_TRIGGER_FAILED'' (message_of error) None) (\<lambda>_.
         and_then (end_call (ById callId) (dial_failed (message_of error))) (\<lambda>_. ret ()))))))"

section \<open>The customer's answer to an outbound call\<close>

definition handleCustomerAnswerReceived :: "nat \<Rightarrow> string \<Rightarrow> unit task" where
  "handleCustomerAnswerReceived callId sdpAnswer =
     and_then (read (\<lambda>w. mp_forCall (w_port w) callId)) (\<lambda>channel.
     and_then (throwing channel) (\<lambda>_.
     and_then (on_legs (\<lambda>w. customerAnswered (now_s w) callId sdpAnswer (mp_customerAnswered (w_port w) callId))) (\<lambda>_.
     bridge callId)))"

section \<open>Supervisors\<close>

record monitor_request =
  mr_callId :: nat
  mr_userId :: nat
  mr_tenantId :: nat
  mr_sdp :: "string option"
  mr_socketId :: "string option"

definition monitor_failed :: "monitor_request \<Rightarrow> string \<Rightarrow> unit task" where
  "monitor_failed d message =
     and_then (emit (SocketDetached (mr_socketId d) (mr_callId d))) (\<lambda>_.
     emitCallError (mr_callId d) ''MONITOR_FAILED'' message (mr_socketId d))"

definition remove_supervisor :: "nat \<Rightarrow> nat \<Rightarrow> bool task" where
  "remove_supervisor callId userId = on_legs (\<lambda>w. removeSupervisor callId (mp_removeSupervisor (w_port w) callId userId))"

definition monitor_start_body :: "monitor_request \<Rightarrow> unit task" where
  "monitor_start_body d =
     (let callId = mr_callId d; userId = mr_userId d in
      and_then (read (\<lambda>w. (getInProgressCall (mr_tenantId d) callId (w_calls w), w_monitor_modes w (mr_tenantId d),
                           mp_hasSupervisor (w_port w) callId))) (\<lambda>(found, modes, watched).
      case found of
        None \<Rightarrow> raise (Thrown ''Call not found or already ended'')
      | Some call \<Rightarrow>
          if ''listen'' \<notin> set modes then
            and_then (emit (SocketDetached (mr_socketId d) callId)) (\<lambda>_.
            emitCallError callId ''MONITOR_MODE_NOT_ALLOWED'' ''This tenant does not allow monitoring calls'' (mr_socketId d))
          else if watched then raise (Thrown ''Another supervisor is monitoring this call right now.'')
          else if nullish (mr_sdp d) [] = [] then
            and_then (on_legs (\<lambda>w. offerSupervisor (now_s w) callId userId (mp_offerSupervisor (w_port w) callId userId))) (\<lambda>offer.
            emit (Bus (MonitorOfferEv callId offer (mr_socketId d))))
          else
            and_then (on_legs (\<lambda>w. addSupervisor (now_s w) callId userId (nullish (mr_sdp d) [])
              (mp_addSupervisor (w_port w) callId userId))) (\<lambda>sdpAnswer.
            and_then (join_participant call Kind_SUPERVISOR (Some userId) None) (\<lambda>_.
            emit (Bus (MonitorStartedEv callId (Some sdpAnswer) (mr_socketId d)))))))"

definition handleMonitorStarted :: "monitor_request \<Rightarrow> unit task" where
  "handleMonitorStarted d =
     catching (monitor_start_body d) (\<lambda>error.
       let message = message_of error in
       and_then (only_when (message \<noteq> ''Call not found or already ended''
                    \<and> message \<noteq> ''Another supervisor is monitoring this call right now.'')
         (logged_failure (and_then (remove_supervisor (mr_callId d) (mr_userId d)) (\<lambda>_. ret ())))) (\<lambda>_.
       monitor_failed d message))"

definition handleMonitorAnswered :: "monitor_request \<Rightarrow> unit task" where
  "handleMonitorAnswered d =
     (let callId = mr_callId d; userId = mr_userId d in
      catching
        (and_then (read (\<lambda>w. getInProgressCall (mr_tenantId d) callId (w_calls w))) (\<lambda>found.
         case found of
           None \<Rightarrow> raise (Thrown ''Call not found or already ended'')
         | Some call \<Rightarrow>
             and_then (on_legs (\<lambda>w. supervisorAnswered (now_s w) callId (nullish (mr_sdp d) [])
               (mp_supervisorAnswered (w_port w) callId userId))) (\<lambda>_.
             and_then (join_participant call Kind_SUPERVISOR (Some userId) None) (\<lambda>_.
             emit (Bus (MonitorStartedEv callId None (mr_socketId d)))))))
        (\<lambda>error.
           and_then (logged_failure (and_then (remove_supervisor callId userId) (\<lambda>_. ret ()))) (\<lambda>_.
           monitor_failed d (message_of error))))"

definition handleMonitorModeChanged :: "nat \<Rightarrow> string \<Rightarrow> string option \<Rightarrow> unit task" where
  "handleMonitorModeChanged callId mode socketId =
     (if mode \<notin> {''listen'', ''whisper'', ''barge''} then
        emitCallError callId ''MONITOR_FAILED'' (''Invalid supervisor mode: '' @ mode) socketId
      else
        catching
          (and_then (read (\<lambda>w. case call_findById callId (w_calls w) of
              None \<Rightarrow> True
            | Some c \<Rightarrow> mode \<in> set (w_monitor_modes w (c_tenant_id c)))) (\<lambda>allowed.
           if \<not> allowed then emitCallError callId ''MONITOR_MODE_NOT_ALLOWED'' (''This tenant does not allow '' @ [CHR 0x27] @ mode @ [CHR 0x27]) socketId
           else
             and_then (read (\<lambda>w. mp_setSupervisorMode (w_port w) callId mode)) (\<lambda>r.
             and_then (throwing r) (\<lambda>endedPrivate.
             and_then (emit (Bus (MonitorModeEv callId mode socketId))) (\<lambda>_.
             only_when endedPrivate (emit (Bus (AgentPrivateEv callId False None))))))))
          (\<lambda>error. emitCallError callId ''MONITOR_FAILED'' (message_of error) socketId))"

definition handleAgentPrivateChanged :: "nat \<Rightarrow> bool \<Rightarrow> string option \<Rightarrow> unit task" where
  "handleAgentPrivateChanged callId active socketId =
     catching
       (and_then (read (\<lambda>w. mp_setAgentPrivate (w_port w) callId active)) (\<lambda>r.
        and_then (throwing r) (\<lambda>nowPrivate.
        and_then (emit (Bus (AgentPrivateEv callId nowPrivate socketId))) (\<lambda>_.
        only_when (active \<and> \<not> nowPrivate)
          (emitCallError callId ''MONITOR_FAILED'' ''A private reply only works while a supervisor is whispering to you'' socketId)))))
       (\<lambda>error. emitCallError callId ''MONITOR_FAILED'' (message_of error) socketId)"

definition handleMonitorStopped :: "nat \<Rightarrow> nat \<Rightarrow> string option \<Rightarrow> unit task" where
  "handleMonitorStopped callId userId socketId =
     catching
       (and_then (remove_supervisor callId userId) (\<lambda>wasPrivate.
        and_then (change (\<lambda>w. w\<lparr>w_participants :=
          fst (pt_leave (w_now w) callId Kind_SUPERVISOR (Some userId) Leave_MONITOR_STOPPED (w_participants w))\<rparr>)) (\<lambda>_.
        and_then (only_when wasPrivate (emit (Bus (AgentPrivateEv callId False None)))) (\<lambda>_.
        and_then (emit (SocketDetached socketId callId)) (\<lambda>_.
        emit (Bus (MonitorEndedEv callId userId socketId)))))))
       (\<lambda>error. emitCallError callId ''MONITOR_FAILED'' (message_of error) socketId)"

section \<open>Dispatch\<close>

text \<open>An input of a call (\<open>EventTypes.js\<close>), with its data.\<close>

datatype call_input =
    In_OFFER_AGENT nat
  | In_CALL_INITIATE nat
  | In_AGENT_JOINED joined
  | In_AGENT_RECONNECTED reconnect
  | In_AGENT_RECONNECT_ANSWERED joined
  | In_RINGING_AGENT_RECONNECT nat nat "string option"
  | In_AGENT_DISCONNECTED nat "nat option" "nat option" "string option"
  | In_ICE_CANDIDATE nat
  | In_MONITOR_STARTED monitor_request
  | In_MONITOR_ANSWERED monitor_request
  | In_MONITOR_STOPPED nat nat "string option"
  | In_MONITOR_MODE_CHANGED nat string "string option"
  | In_AGENT_PRIVATE_CHANGED nat bool "string option"
  | In_CUSTOMER_ANSWER_RECEIVED nat string
  | In_CALL_TERMINATED hangup "string option"
  | In_CALL_REJECTED rejection
  | In_CALL_TRANSFERRED transfer_request "string option"
  | In_UNKNOWN nat string

definition releaseIfEnded :: "nat \<Rightarrow> unit task" where
  "releaseIfEnded callId =
     and_then (read (\<lambda>w. case call_findById callId (w_calls w) of None \<Rightarrow> True | Some c \<Rightarrow> is_final c)) (\<lambda>over.
     only_when over (emit (InboxReleased callId True)))"

fun input_call :: "call_input \<Rightarrow> nat" where
  "input_call (In_OFFER_AGENT i) = i"
| "input_call (In_CALL_INITIATE i) = i"
| "input_call (In_AGENT_JOINED d) = jn_callId d"
| "input_call (In_AGENT_RECONNECTED d) = rc_callId d"
| "input_call (In_AGENT_RECONNECT_ANSWERED d) = jn_callId d"
| "input_call (In_RINGING_AGENT_RECONNECT i u s) = i"
| "input_call (In_AGENT_DISCONNECTED i u t r) = i"
| "input_call (In_ICE_CANDIDATE i) = i"
| "input_call (In_MONITOR_STARTED d) = mr_callId d"
| "input_call (In_MONITOR_ANSWERED d) = mr_callId d"
| "input_call (In_MONITOR_STOPPED i u s) = i"
| "input_call (In_MONITOR_MODE_CHANGED i md s) = i"
| "input_call (In_AGENT_PRIVATE_CHANGED i b s) = i"
| "input_call (In_CUSTOMER_ANSWER_RECEIVED i s) = i"
| "input_call (In_CALL_TERMINATED d s) = hu_callId d"
| "input_call (In_CALL_REJECTED d) = rj_callId d"
| "input_call (In_CALL_TRANSFERRED d s) = tq_callId d"
| "input_call (In_UNKNOWN i t) = i"

fun input_socket :: "call_input \<Rightarrow> string option" where
  "input_socket (In_AGENT_JOINED d) = jn_socketId d"
| "input_socket (In_AGENT_RECONNECTED d) = rc_socketId d"
| "input_socket (In_AGENT_RECONNECT_ANSWERED d) = jn_socketId d"
| "input_socket (In_RINGING_AGENT_RECONNECT i u s) = s"
| "input_socket (In_MONITOR_STARTED d) = mr_socketId d"
| "input_socket (In_MONITOR_ANSWERED d) = mr_socketId d"
| "input_socket (In_MONITOR_STOPPED i u s) = s"
| "input_socket (In_MONITOR_MODE_CHANGED i md s) = s"
| "input_socket (In_AGENT_PRIVATE_CHANGED i b s) = s"
| "input_socket (In_CALL_TERMINATED d s) = s"
| "input_socket (In_CALL_REJECTED d) = rj_socketId d"
| "input_socket (In_CALL_TRANSFERRED d s) = s"
| "input_socket _ = None"

text \<open>The answer is the offer an OFFER_AGENT request made; every other input answers nothing.\<close>

fun handle_input :: "call_input \<Rightarrow> string option task" where
  "handle_input (In_OFFER_AGENT i) =
     and_then (read (\<lambda>w. call_findById i (w_calls w))) (\<lambda>found.
     if found = None then raise (Thrown ''Cannot read properties of null'')
     else and_then (offer_agent_leg i) (\<lambda>offer. ret (Some offer)))"
| "handle_input (In_CALL_INITIATE i) = and_then (triggerCustomerConnection i) (\<lambda>_. ret None)"
| "handle_input (In_AGENT_JOINED d) = and_then (handleAgentJoined d) (\<lambda>_. ret None)"
| "handle_input (In_AGENT_RECONNECTED d) =
     and_then (clearReconnectTimer (rc_callId d)) (\<lambda>_. and_then (handleAgentReconnected d) (\<lambda>_. ret None))"
| "handle_input (In_AGENT_RECONNECT_ANSWERED d) = and_then (handleReconnectAnswered d) (\<lambda>_. ret None)"
| "handle_input (In_RINGING_AGENT_RECONNECT i u s) = and_then (handleRingingAgentReconnect i u s) (\<lambda>_. ret None)"
| "handle_input (In_AGENT_DISCONNECTED i u t r) = and_then (handleFrontendDisconnected i u t r) (\<lambda>_. ret None)"
| "handle_input (In_ICE_CANDIDATE i) = ret None"
| "handle_input (In_MONITOR_STARTED d) = and_then (handleMonitorStarted d) (\<lambda>_. ret None)"
| "handle_input (In_MONITOR_ANSWERED d) = and_then (handleMonitorAnswered d) (\<lambda>_. ret None)"
| "handle_input (In_MONITOR_STOPPED i u s) = and_then (handleMonitorStopped i u s) (\<lambda>_. ret None)"
| "handle_input (In_MONITOR_MODE_CHANGED i md s) = and_then (handleMonitorModeChanged i md s) (\<lambda>_. ret None)"
| "handle_input (In_AGENT_PRIVATE_CHANGED i b s) = and_then (handleAgentPrivateChanged i b s) (\<lambda>_. ret None)"
| "handle_input (In_CUSTOMER_ANSWER_RECEIVED i a) = and_then (handleCustomerAnswerReceived i a) (\<lambda>_. ret None)"
| "handle_input (In_CALL_TERMINATED d s) =
     and_then (clearReconnectTimer (hu_callId d)) (\<lambda>_.
     and_then (handleCallTerminated d) (\<lambda>_.
     and_then (releaseIfEnded (hu_callId d)) (\<lambda>_. ret None)))"
| "handle_input (In_CALL_REJECTED d) = and_then (handleCallRejected d) (\<lambda>_. ret None)"
| "handle_input (In_CALL_TRANSFERRED d s) = and_then (handleCallTransferred d) (\<lambda>_. ret None)"
| "handle_input (In_UNKNOWN i t) = ret None"

definition handleCallEvent :: "call_input \<Rightarrow> string option task" where
  "handleCallEvent input =
     catching (handle_input input) (\<lambda>error.
       and_then (emitCallError (input_call input) ''EVENT_HANDLER_FAILED'' (message_of error) (input_socket input)) (\<lambda>_.
       ret None))"

text \<open>The deadlines that fire on any worker.\<close>

datatype deadline_fire = Reconnect_due nat | Network_warn_due nat | Network_end_due nat

fun fire :: "deadline_fire \<Rightarrow> unit task" where
  "fire (Reconnect_due i) = logged_failure (reconnectExpired i)"
| "fire (Network_warn_due i) = logged_failure (network_warn i)"
| "fire (Network_end_due i) = logged_failure (network_end i)"

end
