(* ===== verification/ControlRuns.thy ===== *)
theory ControlRuns
  imports CallInputs
begin

text \<open>
  What every run of the handlers keeps: \<open>control_relation\<close> lists their effects on the tables, the
  lemmas lift a fact about each effect to every input of a call, every deadline and both steps of an
  outbound call; interpreted on the guarded statements, it says that no input revives a call.
\<close>

section \<open>What the handlers are made of\<close>

definition quiet :: "effect \<Rightarrow> bool" where
  "quiet e \<longleftrightarrow> (case e of Bus (TerminatedEv _) \<Rightarrow> False | _ \<Rightarrow> True)"

locale control_relation = routing_relation R for R :: "world \<Rightarrow> world \<Rightarrow> bool" +
  assumes end_made: "R w (snd (end_call r opt w))"
    and quiet_trace: "quiet e \<Longrightarrow> R w (w\<lparr>w_trace := w_trace w @ [e]\<rparr>)"
    and participants_free: "R w (w\<lparr>w_participants := ps\<rparr>)"
    and sockets_free: "R w (w\<lparr>w_leg_sockets := so\<rparr>)"
    and accepted: "R w (w\<lparr>w_calls := fst (assignCallToAgentIfEligible (now_s w) c a (w_calls w))\<rparr>)"
    and handover_claimed: "R w (w\<lparr>w_calls := fst (claimHandover (now_s w) c a (w_calls w))\<rparr>)"
    and answered: "R w (w\<lparr>w_calls := fst (transitionStatus (now_s w) c St_RINGING St_IN_PROGRESS (w_calls w))\<rparr>)"
    and activated: "R w (w\<lparr>w_calls := updateState (now_s w) c (Some ACTIVE) (w_calls w)\<rparr>)"
    and time_set: "updateTimestamp (now_s w) c f t (w_calls w) = Inr cs \<Longrightarrow> R w (w\<lparr>w_calls := cs\<rparr>)"
    and unassigned_taken: "R w (w\<lparr>w_calls := fst (assignCallToAgentIfUnassigned (now_s w) c a (w_calls w))\<rparr>)"
    and handed: "R w (w\<lparr>w_calls := fst (updateCallAgentIfCurrent (now_s w) c (Some a) (Some b) (w_calls w))\<rparr>)"
    and requeued: "R w (w\<lparr>w_calls := updateQueue (now_s w) c q (w_calls w)\<rparr>)"
    and handover_offered: "R w (w\<lparr>w_calls := markHandoverOffered (now_s w) c a (w_calls w)\<rparr>)"
    and held: "R w (w\<lparr>w_agents := fst (fst (holdForOwnCall a c (w_agents w, w_calls w)))\<rparr>)"
    and dialed: "updateProviderCallId (now_s w) c p (w_calls w) = Inr cs \<Longrightarrow> R w (w\<lparr>w_calls := cs\<rparr>)"
    and created: "call_create (fresh_call_id (w_calls w)) (now_s w) d (w_calls w) = Inr (cs, i) \<Longrightarrow> R w (w\<lparr>w_calls := cs\<rparr>)"
begin

lemma run_end: "runs_in R (end_call r opt)"
  by (simp add: runs_in_def end_made)

lemma run_quiet: "quiet e \<Longrightarrow> runs_in R (emit e)"
  unfolding emit_def by (rule run_change) (rule quiet_trace)

lemma run_writes:
  "runs_in R (on_calls (\<lambda>now. assignCallToAgentIfEligible now c a))"
  "runs_in R (on_calls (\<lambda>now. claimHandover now c a))"
  "runs_in R (on_calls (\<lambda>now. transitionStatus now c St_RINGING St_IN_PROGRESS))"
  "runs_in R (on_calls (\<lambda>now. assignCallToAgentIfUnassigned now c a))"
  "runs_in R (on_calls (\<lambda>now. updateCallAgentIfCurrent now c (Some a) (Some b)))"
  by (simp_all add: runs_in_def on_calls_def statement_def Let_def accepted handover_claimed answered unassigned_taken handed)

lemma hold_only_agents: "snd (fst (holdForOwnCall a c db)) = snd db" "snd (fst (claimAgentForCall a c db)) = snd db"
  by (simp_all add: holdForOwnCall_def claimAgentForCall_def Let_def)

lemma run_holds:
  "runs_in R (on_db (\<lambda>now. holdForOwnCall a c))"
  "runs_in R (on_db (\<lambda>now. claimAgentForCall a c))"
  by (simp_all add: runs_in_def on_db_def statement_def Let_def hold_only_agents held held_for_transfer)

lemma run_small:
  "runs_in R (emitCallError c code msg s)" "runs_in R (join_participant call k ag dev)"
  "runs_in R (set_agent_device c u dev)" "runs_in R (change (set_leg_socket c s))" "runs_in R (change (legs_closed c))"
  "runs_in R (set_state c (Some ACTIVE))"
  unfolding emitCallError_def join_participant_def set_agent_device_def set_state_def Let_def
  by (intro run_rules run_quiet run_change participants_free activated; simp add: set_leg_socket_def sockets_free
      legs_closed_def sdp_free stays quiet_def)+

lemma run_history: "runs_in R (change (\<lambda>w. w\<lparr>w_history := f w\<rparr>))"
  and run_participants: "runs_in R (change (\<lambda>w. w\<lparr>w_participants := g w\<rparr>))"
  and run_requeue: "runs_in R (change (\<lambda>w. w\<lparr>w_calls := updateQueue (now_s w) c q (w_calls w)\<rparr>))"
  and run_handover: "runs_in R (change (\<lambda>w. w\<lparr>w_calls := markHandoverOffered (now_s w) c a (w_calls w)\<rparr>))"
  by (rule run_change, rule history_free participants_free requeued handover_offered)+

lemma run_time: "runs_in R (set_time_now c f)"
  by (auto simp: runs_in_def set_time_now_def change_def stays time_set split: sum.split)

lemma run_throwing: "runs_in R (throwing r)"
  by (cases r) (simp_all add: throwing_def run_raise run_ret)

lemma run_bridge: "runs_in R (bridge c)" "runs_in R (announceToMonitor c)"
  unfolding bridge_def announceToMonitor_def by (intro run_rules run_quiet run_throwing; simp add: quiet_def)+

lemma run_offer_leg: "runs_in R (offer_agent_leg c)"
  unfolding offer_agent_leg_def by (rule run_on_legs)

lemmas handler_parts = run_others run_writes run_holds run_small run_history run_participants run_requeue run_handover
  run_time run_throwing run_bridge run_offer_leg run_on_legs run_quiet run_write_log run_broadcast run_streak
  run_end run_releaseAgent run_drainForTenant run_emitQueueUpdate run_emitAgentQueues run_claimMemberForTransfer

lemma run_joined: "runs_in R (handleAgentJoined d)"
proof -
  have "runs_in R (accept_failed d e)" for e
    unfolding accept_failed_def assignOldestUnassignedCall_def Let_def by (intro run_rules handler_parts; simp add: quiet_def)
  moreover have "runs_in R (accept_media d)"
    unfolding accept_media_def abortAcceptOnMediaFailure_def by (intro run_rules handler_parts; simp add: quiet_def)
  moreover have "runs_in R (accept_customer c)" for c
    unfolding accept_customer_def
    by (intro run_rules handler_parts; (simp add: quiet_def)?) (auto intro!: run_rules split: option.split call_status.split)
  moreover have "runs_in R (accept_commit c u)" for c u
    unfolding accept_commit_def by (intro run_rules handler_parts; simp add: quiet_def)
  moreover have "runs_in R (accept_announce d r q)" for r q
    unfolding accept_announce_def Let_def by (intro run_rules handler_parts; simp add: quiet_def)
  moreover have "runs_in R (accept_claim c u t s)" for c u t s
    unfolding accept_claim_def hold_winner_def by (intro run_rules handler_parts; simp add: quiet_def)
  ultimately show ?thesis
    unfolding handleAgentJoined_def accept_body_def accept_guards_def Let_def by (intro run_rules)
qed

lemma run_reconnects:
  "runs_in R (handleRingingAgentReconnect c u s)" "runs_in R (handleReconnectAnswered d)"
  "runs_in R (handleAgentReconnected r)"
  unfolding handleRingingAgentReconnect_def ringing_reconnect_body_def handleReconnectAnswered_def
    handleAgentReconnected_def reconnect_leg_def Let_def
  by (intro run_rules handler_parts; simp add: quiet_def)+

lemma run_rejected: "runs_in R (handleCallRejected d)"
  unfolding handleCallRejected_def reject_body_def decline_offer_def pass_on_def decline_call_def handled_def Let_def
  by (intro run_rules handler_parts run_passOffer; simp add: quiet_def)

lemma run_transferred: "runs_in R (handleCallTransferred d)"
  unfolding handleCallTransferred_def resolveTransferTarget_def move_call_def leave_old_agent_def announce_transfer_def Let_def
  by (intro run_rules handler_parts; simp add: quiet_def)

lemma run_hangups:
  "runs_in R (handleCallTerminated h)" "runs_in R (reconnectExpired c)" "runs_in R (handleFrontendDisconnected c u t rs)"
  "runs_in R (clearReconnectTimer c)" "runs_in R (network_warn c)" "runs_in R (network_end c)" "runs_in R (onMediaState c ms)"
  unfolding handleCallTerminated_def reconnectExpired_def handleFrontendDisconnected_def clearReconnectTimer_def
    network_warn_def network_end_def onMediaState_def cancel_network_loss_def
  by (intro run_rules handler_parts; (simp add: quiet_def)?; cases ms; simp; intro run_rules handler_parts; simp add: quiet_def)+

lemma run_monitors:
  "runs_in R (handleMonitorStarted m)" "runs_in R (handleMonitorAnswered m)" "runs_in R (handleMonitorModeChanged c md s)"
  "runs_in R (handleAgentPrivateChanged c act s)" "runs_in R (handleMonitorStopped c u s)"
  unfolding handleMonitorStarted_def monitor_start_body_def monitor_failed_def remove_supervisor_def
    handleMonitorAnswered_def handleMonitorModeChanged_def handleAgentPrivateChanged_def handleMonitorStopped_def Let_def
  by (intro run_rules handler_parts; simp add: quiet_def)+

lemma run_dialing: "runs_in R (triggerCustomerConnection c)" "runs_in R (handleCustomerAnswerReceived c a)"
proof -
  have "runs_in R (\<lambda>w. case updateProviderCallId (now_s w) c p (w_calls w) of
        Inl e \<Rightarrow> (Inl (Thrown ''Duplicate entry''), w)
      | Inr cs \<Rightarrow> (Inr (), w\<lparr>w_calls := cs\<rparr>))" for p
    by (auto simp: runs_in_def stays dialed split: sum.split)
  then have "runs_in R (dial_customer c)"
    unfolding dial_customer_def by (intro run_rules handler_parts; simp add: quiet_def)
  then show "runs_in R (triggerCustomerConnection c)"
    unfolding triggerCustomerConnection_def by (intro run_rules handler_parts; simp add: quiet_def)
  show "runs_in R (handleCustomerAnswerReceived c a)"
    unfolding handleCustomerAnswerReceived_def by (intro run_rules handler_parts; simp add: quiet_def)
qed

lemma run_outbound: "runs_in R (handleCallStart d)" "runs_in R (createOutboundIntent dp ad ob)"
proof -
  show "runs_in R (handleCallStart d)"
    unfolding handleCallStart_def Let_def by (intro run_rules handler_parts; simp add: quiet_def)
  have "runs_in R (\<lambda>w. case create_call n w of
          (Inl e, w') \<Rightarrow> (Inl (OutboundFailed (Thrown ''Duplicate entry'')), w')
        | (Inr i, w') \<Rightarrow> (Inr i, w'))" for n
    by (auto simp: runs_in_def create_call_def stays created split: sum.split prod.split)
  moreover have "runs_in R (publish_created n)" for n
    unfolding publish_created_def by (rule run_change) (simp add: quiet_trace quiet_def)
  ultimately show "runs_in R (createOutboundIntent dp ad ob)"
    unfolding createOutboundIntent_def Let_def by (intro run_rules)
qed

lemma run_input: "runs_in R (handle_input input)"
  by (cases input) (simp_all add: releaseIfEnded_def run_and_then run_ret run_read run_if run_raise run_only_when
      run_quiet quiet_def run_offer_leg run_joined run_reconnects run_rejected run_transferred run_hangups run_monitors run_dialing)

lemma run_event: "runs_in R (handleCallEvent input)"
  unfolding handleCallEvent_def by (intro run_rules run_input run_small)

lemma run_fire: "runs_in R (fire f)"
  by (cases f) (simp_all add: run_logged_failure run_hangups)

end

section \<open>A worker's history\<close>

datatype control_op =
    Service service_op
  | Input call_input
  | Due deadline_fire
  | MediaState nat media_state
  | StartCall call_start
  | Intent bool "adapter option" outbound_request

fun operate :: "control_op \<Rightarrow> world \<Rightarrow> world" where
  "operate (Service p) w = snd (serve p w)"
| "operate (Input i) w = snd (handleCallEvent i w)"
| "operate (Due f) w = snd (fire f w)"
| "operate (MediaState c ms) w = snd (onMediaState c ms w)"
| "operate (StartCall d) w = snd (handleCallStart d w)"
| "operate (Intent dp ad ob) w = snd (createOutboundIntent dp ad ob w)"

fun operate_all :: "control_op list \<Rightarrow> world \<Rightarrow> world" where
  "operate_all [] w = w"
| "operate_all (p # ps) w = operate_all ps (operate p w)"

lemma operate_runs:
  assumes "control_relation R" and "serving_relation R (\<lambda>_ _. True)"
  shows "R w (operate p w)"
proof -
  note routing = control_relation.axioms(1) [OF assms(1)]
  have "R w (serve_all [q] w)" for q
    using serve_all_runs [OF routing assms(2)] .
  moreover have "runs_in R m \<Longrightarrow> R w (snd (m w))" for m :: "unit task"
    by (simp add: runs_in_def)
  moreover have "R w (snd (handleCallEvent i w))" "R w (snd (handleCallStart d w))" "R w (snd (createOutboundIntent dp ad ob w))" for i d dp ad ob
    using control_relation.run_event [OF assms(1)] control_relation.run_outbound [OF assms(1)] by (simp_all add: runs_in_def)
  ultimately show ?thesis
    using control_relation.run_fire [OF assms(1)] control_relation.run_hangups(7) [OF assms(1)]
    by (cases p) (simp_all add: runs_in_def)
qed

lemma operate_all_runs:
  assumes "control_relation R" and "serving_relation R (\<lambda>_ _. True)"
  shows "R w (operate_all ps w)"
proof -
  note base = announcing_relation.axioms(1) [OF drain_relation.axioms(1) [OF routing_relation.axioms(1)
      [OF control_relation.axioms(1) [OF assms(1)]]]]
  show ?thesis
  proof (induction ps arbitrary: w)
    case Nil
    then show ?case by (simp add: effect_relation.stays [OF base])
  next
    case (Cons p ps)
    show ?case unfolding operate_all.simps
      by (rule effect_relation.chains [OF base operate_runs [OF assms] Cons.IH])
  qed
qed

section \<open>Nothing revives a call\<close>

lemma fresh_call_id_new: "fresh_call_id cs \<notin> c_id ` set cs"
proof -
  have "c \<in> set cs \<Longrightarrow> c_id c \<le> foldr max (map c_id cs) 0" for c
    by (induction cs) (auto simp: le_max_iff_disj)
  then show ?thesis by (fastforce simp: fresh_call_id_def)
qed

lemma guarded_create: "call_create (fresh_call_id cs) now d cs = Inr (cs', i) \<Longrightarrow> call_step cs cs'"
proof -
  assume a: "call_create (fresh_call_id cs) now d cs = Inr (cs', i)"
  then have "i = fresh_call_id cs" by (simp add: call_create_def split: if_splits)
  with a show ?thesis using cs_create [OF fresh_call_id_new, of cs now d cs'] by simp
qed

interpretation guarded_control: control_relation guarded_run
proof
  show "guarded_run w (w\<lparr>w_calls := cs\<rparr>)" if "updateTimestamp (now_s w) c f t (w_calls w) = Inr cs" for w c f t cs
    by (rule guarded_write) (rule cs_timestamp [OF that])
  show "guarded_run w (w\<lparr>w_calls := cs\<rparr>)" if "updateProviderCallId (now_s w) c p (w_calls w) = Inr cs" for w c p cs
    by (rule guarded_write) (rule cs_provider_id [OF that])
  show "guarded_run w (w\<lparr>w_calls := cs\<rparr>)"
    if "call_create (fresh_call_id (w_calls w)) (now_s w) d (w_calls w) = Inr (cs, i)" for w d cs i
    by (rule guarded_write) (rule guarded_create [OF that])
  show "guarded_run w (snd (end_call r opt w))" for w r opt
    using guarded_end.run_end by (simp add: runs_in_def)
  show "guarded_run w (w\<lparr>w_agents := ag\<rparr>)" for w ag by (simp add: guarded_run_def disciplined_def)
qed (rule guarded_write, (rule cs_accepted cs_handover_claimed cs_transition cs_state cs_assigned cs_agent_changed cs_queue
    cs_handover_offered; simp add: live_statuses_def) | simp add: guarded_run_def disciplined_def)+

text \<open>C3: Nothing revives a call. Whatever inputs a call's worker handles (accepts, declines, transfers,
  hang-ups, reconnects, dialing, supervisors), whatever deadlines fire and whatever routing, ends, queue
  timers and cleanups run between them, in any order, whatever throws or fails on the way and whatever
  guarded statements other workers run meanwhile, a call that has ended stays ended.\<close>

theorem nothing_revives_a_call:
  assumes "disciplined w" and "settled i (w_calls w)"
  shows "settled i (w_calls (operate_all ps w))"
proof -
  have "guarded_run w (operate_all ps w)"
    by (rule operate_all_runs) (unfold_locales)
  then show ?thesis using assms calls_run.inv_run by (simp add: guarded_run_def)
qed

definition example_join :: "nat \<Rightarrow> nat \<Rightarrow> joined" where
  "example_join callId userId = \<lparr> jn_callId = callId, jn_userId = userId, jn_tenantId = 1, jn_sdpAnswer = ''v=0'',
     jn_socketId = Some ''s'', jn_deviceId = None \<rparr>"

theorem nothing_revives_a_call_witness:
  "settled 4 (w_calls (operate_all [Input (In_AGENT_JOINED (example_join 4 2)), Service TimeoutsTick,
       Input (In_CALL_TERMINATED \<lparr> hu_callId = 4, hu_reason = None, hu_byConsumer = True \<rparr> None)]
     (empty_world\<lparr>w_calls := [(example_call 4)\<lparr>c_status := St_FAILED\<rparr>]\<rparr>)))"
  by (rule nothing_revives_a_call)
    (simp_all add: disciplined_def empty_world_def settled_def settled_row_def is_final_def)

section \<open>An end is announced once\<close>

lemma ended_accepts:
  "keeps_ended i w (w\<lparr>w_calls := fst (assignCallToAgentIfEligible (now_s w) c a (w_calls w))\<rparr>)"
  "keeps_ended i w (w\<lparr>w_calls := fst (claimHandover (now_s w) c a (w_calls w))\<rparr>)"
  "keeps_ended i w (w\<lparr>w_calls := fst (transitionStatus (now_s w) c St_RINGING St_IN_PROGRESS (w_calls w))\<rparr>)"
  "keeps_ended i w (w\<lparr>w_calls := updateState (now_s w) c st (w_calls w)\<rparr>)"
  "keeps_ended i w (w\<lparr>w_calls := fst (assignCallToAgentIfUnassigned (now_s w) c a (w_calls w))\<rparr>)"
  "keeps_ended i w (w\<lparr>w_calls := fst (updateCallAgentIfCurrent (now_s w) c o1 o2 (w_calls w))\<rparr>)"
  "keeps_ended i w (w\<lparr>w_calls := updateQueue (now_s w) c q (w_calls w)\<rparr>)"
  "keeps_ended i w (w\<lparr>w_calls := markHandoverOffered (now_s w) c a (w_calls w)\<rparr>)"
  "keeps_ended i w (w\<lparr>w_calls := fst (correctNoAnswerIfAnswered (now_s w) c (w_calls w))\<rparr>)"
  unfolding assignCallToAgentIfEligible_def claimHandover_def transitionStatus_def updateState_def
    assignCallToAgentIfUnassigned_def updateCallAgentIfCurrent_def updateQueue_def markHandoverOffered_def
    correctNoAnswerIfAnswered_def affected_fst
  by (rule keeps_ended_calls; auto simp: is_final_def)+

lemma ended_time:
  assumes "updateTimestamp (now_s w) c f t (w_calls w) = Inr cs"
  shows "keeps_ended i w (w\<lparr>w_calls := cs\<rparr>)"
proof -
  obtain g where g: "parse_timestamp_field f = Some g"
    using assms by (auto simp: updateTimestamp_def split: option.splits)
  let ?cs = "fst (sql_update (row_is c) (\<lambda>r. (set_timestamp g (nullish t (now_s w)) r)\<lparr>c_updated_at := now_s w\<rparr>) (w_calls w))"
  have first: "keeps_ended i w (w\<lparr>w_calls := ?cs\<rparr>)"
    by (rule keeps_ended_calls; cases g) (simp_all add: is_final_def)
  moreover have "keeps_ended i (w\<lparr>w_calls := ?cs\<rparr>) (w\<lparr>w_calls := fst (correctNoAnswerIfAnswered (now_s w) c ?cs)\<rparr>)"
    using ended_accepts(9) [of i "w\<lparr>w_calls := ?cs\<rparr>" c] by (simp add: now_s_def)
  moreover have "cs = ?cs \<or> cs = fst (correctNoAnswerIfAnswered (now_s w) c ?cs)"
    using assms g by (auto simp: updateTimestamp_def Let_def split: if_splits)
  ultimately show ?thesis using ended_chain by blast
qed

lemma ended_dialed:
  assumes "updateProviderCallId (now_s w) c p (w_calls w) = Inr cs"
  shows "keeps_ended i w (w\<lparr>w_calls := cs\<rparr>)"
proof -
  have "cs = fst (sql_update (row_is c) (\<lambda>r. r\<lparr>c_provider_call_id := Some p, c_updated_at := now_s w\<rparr>) (w_calls w))"
    using assms by (simp add: updateProviderCallId_def split: if_splits)
  then show ?thesis by (simp only:) (rule keeps_ended_calls; simp add: is_final_def)
qed

lemma ended_created:
  assumes "call_create (fresh_call_id (w_calls w)) (now_s w) d (w_calls w) = Inr (cs, j)"
  shows "keeps_ended i w (w\<lparr>w_calls := cs\<rparr>)"
proof -
  have cs: "cs = w_calls w @ [call_row (fresh_call_id (w_calls w)) (now_s w) d]"
    using assms by (auto simp: call_create_def split: if_splits)
  have "c_id (call_row k n d) = k" for k n by (simp add: call_row_def)
  then show ?thesis
    unfolding cs keeps_ended_def table_safe_def others_spare_def keyed_def ended_def present_def
    using fresh_call_id_new [of "w_calls w"] by auto
qed

interpretation once_control: control_relation "keeps_once i" for i
proof
  show "keeps_once i w (snd (end_call r opt w))" for w r opt by (rule once_end)
  show "keeps_once i w (w\<lparr>w_trace := w_trace w @ [e]\<rparr>)" if "quiet e" for w e
  proof (rule once_step)
    show "announcements i (w_trace (w\<lparr>w_trace := w_trace w @ [e]\<rparr>)) = announcements i (w_trace w)"
      using that by (auto simp: announcements_def quiet_def split: effect.splits bus_event.splits)
  qed (simp add: ended_tables)
qed (rule once_same_trace, rule ended_accepts ended_time ended_dialed ended_created ended_tables; simp)+



end
