(* ===== verification/LegFacts.thy ===== *)
theory LegFacts
  imports MediaLegs
begin

text \<open>
  What the legs' record keeps: in any interleaving of the repository's statements a call has one row
  per side (\<open>one_row_per_side\<close>); the methods of \<open>MediaLegs\<close> implement their map of legs
  (\<open>media_legs_refined\<close>); the offer a leg was made with is the one given out again until the leg is
  replaced (\<open>stored_offer_is_redelivered\<close>).
\<close>

section \<open>Reading back a statement\<close>

named_theorems leg_finds \<open>the row a statement leaves for a side of a call\<close>

lemma find_update_legs:
  assumes "\<And>r. l_call_id (f r) = l_call_id r" and "\<And>r. l_connection_type (f r) = l_connection_type r"
  shows "findByCallAndType c k (update_legs p f t)
       = map_option (\<lambda>r. if p r then f r else r) (findByCallAndType c k t)"
  unfolding findByCallAndType_def update_legs_def
  by (simp add: first_row_map_same leg_is_def assms)

lemma find_leg_is: "findByCallAndType c k t = Some r \<Longrightarrow> l_call_id r = c \<and> l_connection_type r = k"
  by (auto simp: findByCallAndType_def leg_is_def dest: first_row_Some)

lemma find_update_side [leg_finds]:
  assumes "\<And>r. l_call_id (f r) = l_call_id r" and "\<And>r. l_connection_type (f r) = l_connection_type r"
  shows "findByCallAndType c k (update_legs (leg_is c' k') f t)
       = (if c = c' \<and> k = k' then map_option f (findByCallAndType c k t) else findByCallAndType c k t)"
  using find_leg_is [of c k t]
  by (cases "findByCallAndType c k t") (auto simp: find_update_legs assms leg_is_def)

lemma find_update_call [leg_finds]:
  assumes "\<And>r. l_call_id (f r) = l_call_id r" and "\<And>r. l_connection_type (f r) = l_connection_type r"
  shows "findByCallAndType c k (update_legs (\<lambda>r. l_call_id r = c') f t)
       = (if c = c' then map_option f (findByCallAndType c k t) else findByCallAndType c k t)"
  using find_leg_is [of c k t]
  by (cases "findByCallAndType c k t") (auto simp: find_update_legs assms)

lemma first_row_filter_other: "(\<And>r. p r \<Longrightarrow> \<not> q r) \<Longrightarrow> first_row p (filter (\<lambda>r. \<not> q r) rs) = first_row p rs"
  by (induction rs) (auto simp: first_row_def)

lemma first_row_filter_same: "first_row p (filter (\<lambda>r. \<not> p r) rs) = None"
  by (simp add: first_row_None)

lemma first_row_append: "first_row p (rs @ [r]) = (case first_row p rs of None \<Rightarrow> if p r then Some r else None | Some x \<Rightarrow> Some x)"
  by (induction rs) (auto simp: first_row_def)

lemma find_cleanup [leg_finds]:
  "findByCallAndType c k (cleanupConnection c' k' t)
     = (if c = c' \<and> k = k' then None else findByCallAndType c k t)"
proof (cases "c = c' \<and> k = k'")
  case True
  then show ?thesis by (simp add: findByCallAndType_def cleanupConnection_def sql_delete_def first_row_filter_same)
next
  case False
  then have "first_row (leg_is c k) (filter (\<lambda>r. \<not> leg_is c' k' r) (t_legs t)) = first_row (leg_is c k) (t_legs t)"
    by (intro first_row_filter_other) (auto simp: leg_is_def)
  then show ?thesis using False by (auto simp: findByCallAndType_def cleanupConnection_def sql_delete_def)
qed

lemma find_create:
  "findByCallAndType c k (fst (create_leg now data t))
     = (if c = nl_call_id data \<and> k = nl_connection_type data \<and> findByCallAndType c k t = None
        then Some (inserted_leg now (t_next_id t) data) else findByCallAndType c k t)"
  by (auto simp: create_leg_def findByCallAndType_def first_row_append leg_is_def inserted_leg_def split: option.split)

lemma find_replaced [leg_finds]:
  "findByCallAndType c k (replaced_leg now data t)
     = (if c = nl_call_id data \<and> k = nl_connection_type data
        then Some (inserted_leg now (t_next_id t) data) else findByCallAndType c k t)"
  by (auto simp: replaced_leg_def find_create find_cleanup) (simp add: cleanupConnection_def)

section \<open>The legs are a map\<close>

lemma legs_of_fun: "legs_of t = (\<lambda>c k. map_option abs_leg (findByCallAndType c k t))"
  by (simp add: fun_eq_iff legs_of_def)

lemmas leg_updates = updateSDP_def updateAgentId_def updateDeviceId_def markReady_def terminateConnections_def
  sdp_fields_def leg_data_def recording_def

lemmas leg_methods = answerCustomer_def offerCustomer_def customerAnswered_def offerAgent_def agentAccepted_def
  answerAgent_def addSupervisor_def offerSupervisor_def supervisorAnswered_def removeSupervisor_def close_legs_def

lemma perform_leg_refines: "legs_of (perform_leg now a t) = spec_leg a (legs_of t)"
proof (cases "(a, undefined :: legs)" rule: spec_leg.cases)
qed (auto simp: fun_eq_iff legs_of_fun leg_methods leg_updates leg_finds set_leg_def offered_leg_def
       inserted_leg_def abs_leg_def option.map_comp comp_def intro!: map_option_cong)

definition performed :: "(int \<times> leg_action) list \<Rightarrow> leg_table \<Rightarrow> leg_table" where
  "performed as t = fold (\<lambda>(now, a). perform_leg now a) as t"

text \<open>C18: whatever the media server answers and whenever the methods of MediaLegs are called, the
  rows of \<open>call_connections\<close> read as the map of legs in which each call of a method had its one
  effect: an offer, an answer or a supervisor replaces that side's leg, an acceptance completes the
  leg there is, a failure changes nothing.\<close>

theorem media_legs_refined:
  "legs_of (performed as t) = fold (\<lambda>(now, a). spec_leg a) as (legs_of t)"
  by (induction as arbitrary: t) (auto simp: performed_def perform_leg_refines)

section \<open>One row per side\<close>

fun candidate_count :: "ice_column \<Rightarrow> nat option" where
  "candidate_count IceNull = Some 0"
| "candidate_count (IceArray cs) = Some (length cs)"
| "candidate_count _ = None"

definition counted :: "leg_row \<Rightarrow> bool" where
  "counted r \<longleftrightarrow> candidate_count (l_ice_candidates r) = Some (l_ice_candidates_gathered r)"

definition legs_ok :: "leg_table \<Rightarrow> bool" where
  "legs_ok t \<longleftrightarrow> distinct (map (\<lambda>r. (l_call_id r, l_connection_type r)) (t_legs t))
     \<and> distinct (map l_id (t_legs t)) \<and> list_all (\<lambda>r. l_id r < t_next_id t \<and> counted r) (t_legs t)"

text \<open>
  A statement of the repository, by any worker at any time: the INSERT, an UPDATE, a DELETE. The
  candidates written are those some worker read before with one more, whatever happened since.
\<close>

inductive leg_statement :: "leg_table \<Rightarrow> leg_table \<Rightarrow> bool" where
  stmt_create: "leg_statement t (fst (create_leg now data t))"
| stmt_sdp: "leg_statement t (updateSDP now c k loc rem s t)"
| stmt_state: "updateConnectionState now c k s i t = Inr t' \<Longrightarrow> leg_statement t t'"
| stmt_agent: "leg_statement t (updateAgentId now c k a t)"
| stmt_device: "leg_statement t (updateDeviceId now c k d t)"
| stmt_ready: "leg_statement t (markReady now c k t)"
| stmt_disconnected: "leg_statement t (markDisconnected now c k t)"
| stmt_candidates: "leg_statement t (write_candidates now c k cs t)"
| stmt_ice: "updateICEState now c k s t = Inr t' \<Longrightarrow> leg_statement t t'"
| stmt_gathering: "updateICEGatheringState now c k s t = Inr t' \<Longrightarrow> leg_statement t t'"
| stmt_end_call: "leg_statement t (terminateConnections now c t)"
| stmt_end_leg: "leg_statement t (terminateConnection now i k t)"
| stmt_drop_leg: "leg_statement t (cleanupConnection c k t)"
| stmt_drop_call: "leg_statement t (cleanup_legs c t)"

text \<open>The contract of an UPDATE on the table: the ids, the sides and the candidate counts stay right.\<close>

locale leg_write =
  fixes f :: "leg_row \<Rightarrow> leg_row"
  assumes id_kept: "l_id (f r) = l_id r"
    and call_kept: "l_call_id (f r) = l_call_id r"
    and side_kept: "l_connection_type (f r) = l_connection_type r"
    and count_kept: "counted r \<Longrightarrow> counted (f r)"
begin

lemma update_keys:
  "map ((\<lambda>r. (l_call_id r, l_connection_type r)) \<circ> (\<lambda>r. if p r then f r else r)) rs
     = map (\<lambda>r. (l_call_id r, l_connection_type r)) rs"
  "map (l_id \<circ> (\<lambda>r. if p r then f r else r)) rs = map l_id rs"
  by (induction rs) (simp_all add: id_kept call_kept side_kept)

lemma update_ok: "legs_ok t \<Longrightarrow> legs_ok (update_legs p f t)"
  unfolding legs_ok_def update_legs_def
  by (simp add: update_keys list_all_iff) (auto simp: id_kept count_kept)

end

interpretation sdp_write: leg_write "\<lambda>r. (sdp_fields loc rem s r)\<lparr>l_updated_at := now\<rparr>" for loc rem s now
  by unfold_locales (simp_all add: sdp_fields_def counted_def)

interpretation state_write: leg_write "\<lambda>r. r\<lparr>l_connection_state := v, l_updated_at := now\<rparr>" for v now
  by unfold_locales (simp_all add: counted_def)

interpretation ice_part: leg_write "\<lambda>r. r\<lparr>l_ice_connection_state := v\<rparr>" for v
  by unfold_locales (simp_all add: counted_def)

interpretation ice_write: leg_write "\<lambda>r. r\<lparr>l_ice_connection_state := v, l_updated_at := now\<rparr>" for v now
  by unfold_locales (simp_all add: counted_def)

interpretation gathering_write: leg_write "\<lambda>r. r\<lparr>l_ice_gathering_state := v, l_updated_at := now\<rparr>" for v now
  by unfold_locales (simp_all add: counted_def)

interpretation agent_write: leg_write "\<lambda>r. r\<lparr>l_agent_id := a, l_updated_at := now\<rparr>" for a now
  by unfold_locales (simp_all add: counted_def)

interpretation device_write: leg_write "\<lambda>r. r\<lparr>l_device_id := d, l_updated_at := now\<rparr>" for d now
  by unfold_locales (simp_all add: counted_def)

interpretation ready_write: leg_write
  "\<lambda>r. r\<lparr>l_connected_at := Some now, l_connection_state := Cs_CONNECTED, l_updated_at := now\<rparr>" for now
  by unfold_locales (simp_all add: counted_def)

interpretation gone_write: leg_write
  "\<lambda>r. r\<lparr>l_disconnected_at := coalesce (l_disconnected_at r) (Some now), l_updated_at := now\<rparr>" for now
  by unfold_locales (simp_all add: counted_def)

interpretation candidate_write: leg_write
  "\<lambda>r. r\<lparr>l_ice_candidates := IceArray cs, l_ice_candidates_gathered := length cs, l_updated_at := now\<rparr>" for cs now
  by unfold_locales (simp_all add: counted_def)

interpretation end_call_write: leg_write
  "\<lambda>r. r\<lparr>l_connection_state := Cs_CLOSED, l_ice_connection_state := Ic_CLOSED, l_ice_gathering_state := Ig_COMPLETE,
         l_disconnected_at := coalesce (l_disconnected_at r) (Some now), l_updated_at := now\<rparr>" for now
  by unfold_locales (simp_all add: counted_def)

interpretation end_leg_write: leg_write
  "\<lambda>r. r\<lparr>l_connection_state := Cs_CLOSED, l_ice_connection_state := Ic_CLOSED, l_ice_gathering_state := Ig_COMPLETE,
         l_updated_at := now\<rparr>" for now
  by unfold_locales (simp_all add: counted_def)

lemmas writes_ok = sdp_write.update_ok state_write.update_ok ice_part.update_ok ice_write.update_ok
  gathering_write.update_ok agent_write.update_ok device_write.update_ok ready_write.update_ok gone_write.update_ok
  candidate_write.update_ok end_call_write.update_ok end_leg_write.update_ok

lemma delete_ok: "legs_ok t \<Longrightarrow> legs_ok (t\<lparr>t_legs := fst (sql_delete p (t_legs t))\<rparr>)"
  by (simp add: legs_ok_def sql_delete_def distinct_map_filter list_all_iff)

lemma create_ok:
  assumes "legs_ok t"
  shows "legs_ok (fst (create_leg now data t))"
  using assms unfolding legs_ok_def create_leg_def
  by (force simp: list_all_iff inserted_leg_def counted_def first_row_None leg_is_def split: option.split)

lemma enum_ok:
  assumes "\<And>v. legs_ok (update_legs p (f v) t)" and "legs_ok t" and "write_enum p enum value f t = Inr t'"
  shows "legs_ok t'"
  using assms by (auto simp: write_enum_def split: option.splits if_splits)

lemma statement_ok: "leg_statement t t' \<Longrightarrow> legs_ok t \<Longrightarrow> legs_ok t'"
proof (induction rule: leg_statement.induct)
  case (stmt_state now c k s i t t')
  have state_ok: "legs_ok u'"
    if "legs_ok u" "write_enum q m x (\<lambda>v r. r\<lparr>l_connection_state := v, l_updated_at := now\<rparr>) u = Inr u'" for u u' q m x
    using that by (metis enum_ok state_write.update_ok)
  have ice_ok: "legs_ok u'"
    if "legs_ok u" "write_enum q m x (\<lambda>v. l_ice_connection_state_update (\<lambda>_. v)) u = Inr u'" for u u' q m x
    using that by (metis enum_ok ice_part.update_ok)
  from stmt_state show ?case
    by (auto simp: updateConnectionState_def dest: state_ok ice_ok split: option.splits list.splits sum.splits)
qed (auto simp: updateSDP_def updateAgentId_def updateDeviceId_def markReady_def markDisconnected_def
    write_candidates_def updateICEState_def updateICEGatheringState_def terminateConnections_def
    terminateConnection_def cleanupConnection_def cleanup_legs_def
    intro: create_ok writes_ok delete_ok enum_ok)

interpretation legs_system: transition_system "\<lambda>t. t = no_legs" leg_statement legs_ok
  by unfold_locales (simp add: no_legs_def legs_ok_def, rule statement_ok)

text \<open>However the statements of several workers interleave, \<open>call_connections\<close> never holds two
  rows for one side of a call, ids are not reused, and the count of candidates is the length of the
  list next to it.\<close>

theorem one_row_per_side: "reach (\<lambda>t. t = no_legs) leg_statement t \<Longrightarrow> legs_ok t"
  by (rule legs_system.inv_reach)

theorem one_row_per_side_witness:
  "legs_ok (fst (create_leg 5 (leg_data 1 Conn_AGENT) (fst (create_leg 4 (leg_data 1 Conn_AGENT) no_legs))))"
  by (rule one_row_per_side, rule reach_step, rule reach_step, rule reach_start, simp)
    (rule leg_statement.stmt_create)+

section \<open>The stored offer\<close>

fun replaces_agent_leg :: "nat \<Rightarrow> leg_action \<Rightarrow> bool" where
  "replaces_agent_leg c (OfferAgent c' m) = (c' = c)"
| "replaces_agent_leg c (AnswerAgent c' a s d m) = (c' = c)"
| "replaces_agent_leg c _ = False"

lemma stored_is_leg: "storedAgentOffer c t = Option.bind (legs_of t c Conn_AGENT) leg_local"
  by (cases "findByCallAndType c Conn_AGENT t") (auto simp: storedAgentOffer_def legs_of_def abs_leg_def)

lemma spec_keeps_offer:
  "\<not> replaces_agent_leg c a \<Longrightarrow> Option.bind (spec_leg a L c Conn_AGENT) leg_local = Option.bind (L c Conn_AGENT) leg_local"
  by (cases "(a, L)" rule: spec_leg.cases; cases "L c Conn_AGENT") (auto simp: set_leg_def)

lemma perform_leg_keeps_offer: "\<not> replaces_agent_leg c a \<Longrightarrow> storedAgentOffer c (perform_leg now a t) = storedAgentOffer c t"
  by (simp add: stored_is_leg perform_leg_refines spec_keeps_offer)

text \<open>C39: the offer given to the agents of a ringing call is the one a late or reconnecting agent is
  given again, whatever else happens to the call's legs, until a new offer or the agent's own offer
  replaces the leg.\<close>

theorem stored_offer_is_redelivered:
  assumes "list_all (\<lambda>na. \<not> replaces_agent_leg c (snd na)) as"
  shows "storedAgentOffer c (performed as (snd (offerAgent now c (Inr offer) t))) = Some offer"
proof -
  have "storedAgentOffer c (performed as u) = storedAgentOffer c u" for u
    using assms by (induction as arbitrary: u) (auto simp: performed_def perform_leg_keeps_offer split: prod.split)
  moreover have "storedAgentOffer c (snd (offerAgent now c (Inr offer) t)) = Some offer"
    by (simp add: storedAgentOffer_def offerAgent_def recording_def leg_finds leg_data_def inserted_leg_def)
  ultimately show ?thesis by simp
qed

theorem stored_offer_is_redelivered_witness:
  "storedAgentOffer 7 (performed [(6, AgentAccepted 7 2 ''a'' None (Inr ())), (9, CloseLegs 7 (Inr ()))]
      (snd (offerAgent 5 7 (Inr ''v=0'') no_legs))) = Some ''v=0''"
  by (rule stored_offer_is_redelivered) simp

end
