(* ===== verification/AcceptFacts.thy ===== *)
theory AcceptFacts
  imports ControlRuns LegFacts
begin

text \<open>
  Accepting a call (\<open>AgentEventHandler.handleAgentJoined\<close>): the first accept wins and the second is only
  told so; an accept whose every step succeeds connects the call; a silent microphone ends it and frees
  the agent; and two calls accepted by one agent at the same time both connect.
\<close>

section \<open>Rows after a statement\<close>

lemma find_call_update:
  assumes "\<And>c. c_id (f c) = c_id c"
  shows "call_findById i (map (\<lambda>c. if p c then f c else c) cs)
       = map_option (\<lambda>c. if p c then f c else c) (call_findById i cs)"
  unfolding call_findById_def by (rule first_row_map_same) (simp add: assms)

lemma find_call_Some: "call_findById i cs = Some c \<Longrightarrow> c \<in> set cs \<and> c_id c = i"
  by (auto simp: call_findById_def dest: first_row_Some)

lemma affected_row: "call_findById i cs = Some c \<Longrightarrow> p c \<Longrightarrow> snd (affected (sql_update p f cs))"
  using find_call_Some affected_update_iff by blast

section \<open>Messages\<close>

lemma marker_conflict [simp]:
  "str_includes ''already has an active call'' (''Call assignment conflict. '' @ ''Call ownership changed.'') = False"
  "str_includes ''already has an active call'' (''Call assignment conflict. '' @ ''The transfer is no longer yours.'') = False"
  "str_includes ''Call assignment conflict'' (''Call assignment conflict. '' @ why) = True"
  by (code_simp, code_simp, simp)

definition told :: "joined \<Rightarrow> string \<Rightarrow> string \<Rightarrow> effect" where
  "told d code message =
     (let payload = \<lparr> er_callId = jn_callId d, er_code = code, er_message = message \<rparr> in
      if nullish (jn_socketId d) [] \<noteq> [] then SocketError (nullish (jn_socketId d) []) payload else Bus (ErrorEv payload))"

lemma emitCallError_run:
  "emitCallError (jn_callId d) code message (jn_socketId d) w = (Inr (), w\<lparr>w_trace := w_trace w @ [told d code message]\<rparr>)"
  by (simp add: emitCallError_def told_def Let_def emit_def change_def)

lemma conflict_told:
  "accept_failed d (conflict ''Call ownership changed.'') w
     = (Inr (), w\<lparr>w_trace := w_trace w @ [told d ''ACCEPT_FAILED'' ''This call was already answered by another agent.'']\<rparr>)"
  by (simp only: accept_failed_def conflict_def message_of.simps Let_def marker_conflict if_False if_True emitCallError_run)

section \<open>Guards\<close>

definition call_queue :: "call \<Rightarrow> world \<Rightarrow> queue option" where
  "call_queue c w = (case c_queue_id c of None \<Rightarrow> None | Some q \<Rightarrow> getQueue (Some q) (w_queues w))"

text \<open>The agent may take the call: the queue has room and they are on no other call.\<close>

definition may_accept :: "nat \<Rightarrow> nat \<Rightarrow> call \<Rightarrow> world \<Rightarrow> bool" where
  "may_accept i u c w \<longleftrightarrow> mp_hasAgentOffer (w_port w) i \<and> call_findById i (w_calls w) = Some c
     \<and> \<not> isAtCapacity (call_queue c w) i w \<and> \<not> hasAgentActiveCall u i (w_calls w)"

lemma guards_pass: "may_accept i u c w \<Longrightarrow> accept_guards i u w = (Inr (Some c, call_queue c w), w)"
  by (simp add: may_accept_def accept_guards_def call_queue_def ret_def Let_def)

lemma guards_then: "may_accept i u c w \<Longrightarrow> and_then (accept_guards i u) f w = f (Some c, call_queue c w) w"
  by (rule and_then_Inr) (rule guards_pass)

definition open_to :: "nat \<Rightarrow> call \<Rightarrow> bool" where
  "open_to u c \<longleftrightarrow> is_live c \<and> (c_agent_id c = None \<or> c_agent_id c = Some u) \<and> not_in_ivr c"

lemma eligible_pair:
  "assignCallToAgentIfEligible now i a cs =
     (map (\<lambda>c. if row_is i c \<and> open_to a c then c\<lparr>c_agent_id := Some a, c_offered_at := None, c_updated_at := now\<rparr> else c) cs,
      \<exists>c \<in> set cs. row_is i c \<and> open_to a c)"
  unfolding assignCallToAgentIfEligible_def affected_pair open_to_def by simp

section \<open>The first accept wins\<close>

lemma joined_run:
  assumes "may_accept (jn_callId d) (jn_userId d) c w" and "c_status c = St_RINGING"
  shows "handleAgentJoined d w =
    catching
      (and_then (accept_claim (jn_callId d) (jn_userId d) (jn_tenantId d) (Some St_RINGING)) (\<lambda>_.
       and_then (accept_media d) (\<lambda>_.
       and_then (read (\<lambda>w. call_findById (jn_callId d) (w_calls w))) (\<lambda>callRecord.
       and_then (case callRecord of
            None \<Rightarrow> ret ()
          | Some c \<Rightarrow> only_when (c_status c = St_RINGING)
              (and_then (accept_customer c) (\<lambda>_. accept_commit c (jn_userId d)))) (\<lambda>_.
       accept_announce d callRecord (call_queue c w)))))) (accept_failed d) w"
proof -
  have "mp_hasAgentOffer (w_port w) (jn_callId d)" "getStatus (jn_callId d) (w_calls w) = Some St_RINGING"
    using assms by (simp_all add: may_accept_def getStatus_def)
  then show ?thesis
    unfolding handleAgentJoined_def accept_body_def catching_def
    by (simp add: guards_then [OF assms(1)])
qed

text \<open>C5: The first accept wins. When two agents accept one ringing call and the other worker's accept is
  committed first (or the call ended or moved on), the late accept changes nothing: it touches neither the
  agents, nor the calls, nor the call's legs, it does not reach the media or the provider, and its own agent is
  told that another agent answered.\<close>

theorem first_accept_wins:
  assumes "may_accept (jn_callId d) (jn_userId d) c w" and "c_status c = St_RINGING"
    and "w_others w = [other]"
    and "list_all (\<lambda>r. c_id r = jn_callId d \<longrightarrow> \<not> open_to (jn_userId d) r) (snd (other (w_agents w, w_calls w)))"
  shows "handleAgentJoined d w =
    (Inr (), w\<lparr>w_agents := fst (other (w_agents w, w_calls w)), w_calls := snd (other (w_agents w, w_calls w)), w_others := [],
       w_trace := w_trace w @ [told d ''ACCEPT_FAILED'' ''This call was already answered by another agent.'']\<rparr>)"
proof -
  let ?cs = "snd (other (w_agents w, w_calls w))"
  let ?w' = "w\<lparr>w_agents := fst (other (w_agents w, w_calls w)), w_calls := ?cs, w_others := []\<rparr>"
  have lost: "\<not> (\<exists>c \<in> set ?cs. row_is (jn_callId d) c \<and> open_to (jn_userId d) c)"
    using assms(4) by (auto simp: list_all_iff)
  then have none: "assignCallToAgentIfEligible now (jn_callId d) (jn_userId d) ?cs = (?cs, False)" for now
    by (simp add: eligible_pair map_if_none)
  have claim: "accept_claim (jn_callId d) (jn_userId d) (jn_tenantId d) (Some St_RINGING) w
      = (Inl (conflict ''Call ownership changed.''), ?w')"
    by (simp add: accept_claim_def let_others_run_def others_step_def assms(3) on_calls_def none Let_def raise_def)
  show ?thesis
    unfolding joined_run [OF assms(1,2)]
    by (simp add: catching_def and_then_def claim conflict_told)
qed

definition ring_world :: "nat list \<Rightarrow> world" where
  "ring_world agentIds = empty_world\<lparr>
     w_agents := map (\<lambda>a. \<lparr> a_id = a, a_tenant_id = 1, a_external_ref = [], a_name = None, a_role = Role_AGENT,
        a_availability = Av_AVAILABLE, a_busy_call_id = None, a_availability_changed_at = None, a_deleted_at = None \<rparr>) agentIds,
     w_calls := [example_call 4],
     w_legs := \<lparr> t_next_id = 2, t_legs = [inserted_leg 1 1 ((leg_data 4 Conn_CUSTOMER)\<lparr>nl_remote_sdp := Some ''v=0''\<rparr>)] \<rparr>\<rparr>"

text \<open>What the other worker's accept by agent 3 writes first.\<close>

definition taken_by_3 :: "agent list \<times> call list \<Rightarrow> agent list \<times> call list" where
  "taken_by_3 db = (fst db, fst (assignCallToAgentIfEligible 9 4 3 (snd db)))"

theorem first_accept_wins_witness:
  "w_trace (snd (handleAgentJoined (example_join 4 2) ((ring_world [2, 3])\<lparr>w_others := [taken_by_3]\<rparr>)))
     = [told (example_join 4 2) ''ACCEPT_FAILED'' ''This call was already answered by another agent.'']"
proof -
  let ?w = "(ring_world [2, 3])\<lparr>w_others := [taken_by_3]\<rparr>"
  let ?d = "example_join 4 2"
  have may: "may_accept (jn_callId ?d) (jn_userId ?d) (example_call 4) ?w"
    by (simp add: may_accept_def ring_world_def empty_world_def example_join_def quiet_port_def call_findById_def first_row_def
        isAtCapacity_def call_queue_def getQueue_def queue_findById_def hasAgentActiveCall_def split: option.split)
  have ringing: "c_status (example_call 4) = St_RINGING" by simp
  have others: "w_others ?w = [taken_by_3]" by simp
  have taken: "list_all (\<lambda>r. c_id r = jn_callId ?d \<longrightarrow> \<not> open_to (jn_userId ?d) r) (snd (taken_by_3 (w_agents ?w, w_calls ?w)))"
    by (simp add: taken_by_3_def ring_world_def eligible_pair example_join_def open_to_def not_in_ivr_def live_iff)
  show ?thesis
    using first_accept_wins [OF may ringing others taken] by (simp add: ring_world_def empty_world_def)
qed

section \<open>An accept that goes through\<close>

definition took :: "int \<Rightarrow> nat \<Rightarrow> call \<Rightarrow> call" where
  "took now u c = c\<lparr>c_agent_id := Some u, c_offered_at := None, c_updated_at := now\<rparr>"

lemma took_simps [simp]:
  "c_id (took now u c) = c_id c" "c_status (took now u c) = c_status c" "c_agent_id (took now u c) = Some u"
  "c_ivr_flow_id (took now u c) = c_ivr_flow_id c" "c_answered_at (took now u c) = c_answered_at c"
  "open_to u (took now u c) = (is_live c \<and> not_in_ivr c)" "c_tenant_id (took now u c) = c_tenant_id c"
  by (simp_all add: took_def open_to_def live_iff not_in_ivr_def)

lemma eligible_run:
  assumes "call_findById i cs = Some c" and "open_to u c"
  shows "\<exists>cs'. assignCallToAgentIfEligible now i u cs = (cs', True) \<and> call_findById i cs' = Some (took now u c)"
proof (intro exI conjI)
  let ?cs = "map (\<lambda>c. if row_is i c \<and> open_to u c then took now u c else c) cs"
  show "assignCallToAgentIfEligible now i u cs = (?cs, True)"
    using find_call_Some [OF assms(1)] assms(2) by (auto simp: eligible_pair took_def cong: if_cong)
  show "call_findById i ?cs = Some (took now u c)"
    using find_call_Some [OF assms(1)] assms by (simp add: find_call_update)
qed

lemma hold_run:
  "\<exists>tr. hold_winner i u t w = (Inr (), w\<lparr>w_agents := fst (fst (holdForOwnCall u i (w_agents w, w_calls w))), w_trace := w_trace w @ tr\<rparr>)
     \<and> set tr \<subseteq> {Bus (AvailabilityEv \<lparr> an_tenantId = t, an_userId = u, an_availability = Av_ON_CALL, an_changed = None,
          an_reason = None, an_consecutiveMissed = None \<rparr>)}"
proof -
  have "snd (fst (holdForOwnCall u i (w_agents w, w_calls w))) = w_calls w" by (simp add: holdForOwnCall_def Let_def)
  then show ?thesis
    by (auto simp: hold_winner_def on_db_def broadcast_def emit_def act_defs Let_def intro: exI [of _ "[]"])
qed

lemma claim_run:
  assumes "w_others w = []" and "call_findById i (w_calls w) = Some c" and "open_to u c"
  shows "\<exists>cs tr. accept_claim i u t (Some St_RINGING) w = (Inr (), w\<lparr>w_calls := cs,
       w_agents := fst (fst (holdForOwnCall u i (w_agents w, cs))), w_trace := w_trace w @ tr\<rparr>)
     \<and> assignCallToAgentIfEligible (now_s w) i u (w_calls w) = (cs, True)
     \<and> call_findById i cs = Some (took (now_s w) u c) \<and> list_all (\<lambda>e. \<exists>n. e = Bus (AvailabilityEv n)) tr"
proof -
  obtain cs where cs: "assignCallToAgentIfEligible (now_s w) i u (w_calls w) = (cs, True)"
    "call_findById i cs = Some (took (now_s w) u c)"
    using eligible_run [OF assms(2,3)] by blast
  obtain tr where tr: "hold_winner i u t (w\<lparr>w_calls := cs\<rparr>) = (Inr (), w\<lparr>w_calls := cs,
       w_agents := fst (fst (holdForOwnCall u i (w_agents w, cs))), w_trace := w_trace w @ tr\<rparr>)"
    "set tr \<subseteq> {Bus (AvailabilityEv \<lparr> an_tenantId = t, an_userId = u, an_availability = Av_ON_CALL, an_changed = None,
          an_reason = None, an_consecutiveMissed = None \<rparr>)}"
    using hold_run [of i u t "w\<lparr>w_calls := cs\<rparr>"] by auto
  have "accept_claim i u t (Some St_RINGING) w = hold_winner i u t (w\<lparr>w_calls := cs\<rparr>)"
    by (simp add: accept_claim_def let_others_run_def others_step_def assms(1) on_calls_def cs(1) Let_def)
  moreover have "list_all (\<lambda>e. \<exists>n. e = Bus (AvailabilityEv n)) tr" using tr(2) by (auto simp: list_all_iff)
  ultimately show ?thesis using tr(1) cs by auto
qed

lemma media_run:
  assumes "w_others w = []" and "mp_accept (w_port w) (jn_callId d) (jn_userId d) = Inr ()"
  shows "\<exists>so. accept_media d w = (Inr (), w\<lparr>w_leg_sockets := so, w_legs := snd (agentAccepted (now_s w) (jn_callId d)
       (jn_userId d) (jn_sdpAnswer d) (jn_deviceId d) (Inr ()) (w_legs w))\<rparr>)"
proof (cases "nullish (jn_socketId d) [] = []")
  case True
  then show ?thesis using assms
    by (intro exI [of _ "w_leg_sockets w"])
      (simp add: accept_media_def set_leg_socket_def on_legs_def let_others_run_def others_step_def act_defs Let_def
        agentAccepted_def recording_def)
next
  case False
  then show ?thesis using assms
    by (intro exI [of _ "(w_leg_sockets w)(jn_callId d := jn_socketId d)"])
      (simp add: accept_media_def set_leg_socket_def on_legs_def let_others_run_def others_step_def act_defs Let_def
        agentAccepted_def recording_def now_s_def)
qed

lemma accept_keeps_customer_leg:
  "findByCallAndType i Conn_CUSTOMER (snd (agentAccepted now j u a dev m t)) = findByCallAndType i Conn_CUSTOMER t"
  by (cases m) (simp_all add: agentAccepted_def recording_def leg_updates leg_finds)

text \<open>The customer can be answered: their offer is known and the channel takes the answer.\<close>

definition customer_ready :: "nat \<Rightarrow> world \<Rightarrow> bool" where
  "customer_ready i w \<longleftrightarrow>
     nullish (Option.bind (findByCallAndType i Conn_CUSTOMER (w_legs w)) l_remote_sdp) [] \<noteq> []
     \<and> mp_forCall (w_port w) i = Inr () \<and> (\<exists>a. mp_answerCustomer (w_port w) i = Inr a) \<and> mp_channelAccept (w_port w) i = Inr ()"

lemma customer_run:
  assumes "customer_ready (c_id c) w" and "w_others w = []" and "c_ivr_flow_id c = None" and "c_answered_at c = None"
    and "getStatus (c_id c) (w_calls w) = Some St_RINGING"
  shows "\<exists>lg. accept_customer c w = (Inr (), w\<lparr>w_legs := lg, w_trace := w_trace w @ [CustomerAccepted (c_id c)]\<rparr>)"
proof -
  obtain a where a: "mp_answerCustomer (w_port w) (c_id c) = Inr a" using assms(1) by (auto simp: customer_ready_def)
  show ?thesis using assms a
    by (auto simp: accept_customer_def customer_ready_def on_legs_def answerCustomer_def recording_def throwing_def
        let_others_run_def others_step_def emit_def act_defs Let_def)
qed

definition connected :: "int \<Rightarrow> int \<Rightarrow> nat \<Rightarrow> call \<Rightarrow> call \<Rightarrow> bool" where
  "connected now at u c r \<longleftrightarrow> c_id r = c_id c \<and> c_status r = St_IN_PROGRESS \<and> c_state r = Some ACTIVE
     \<and> c_agent_id r = Some u \<and> c_offered_at r = None \<and> c_answered_at r = Some at \<and> c_queue_id r = c_queue_id c
     \<and> c_tenant_id r = c_tenant_id c \<and> c_updated_at r = now"

lemma find_rows [simp]:
  "call_findById i (updateState now i st cs) = map_option (\<lambda>c. c\<lparr>c_state := st, c_updated_at := now\<rparr>) (call_findById i cs)"
  unfolding updateState_def sql_update_fst
  by (cases "call_findById i cs") (auto simp: find_call_update dest: find_call_Some)

lemma transition_run:
  assumes "call_findById i cs = Some c" and "c_status c = St_RINGING"
  shows "\<exists>cs'. transitionStatus now i St_RINGING St_IN_PROGRESS cs = (cs', True)
    \<and> call_findById i cs' = Some (c\<lparr>c_status := St_IN_PROGRESS, c_updated_at := now\<rparr>)"
  using find_call_Some [OF assms(1)] assms
  by (auto simp: transitionStatus_def affected_pair find_call_update)

lemma answered_run:
  assumes "call_findById i cs = Some c" and "c_status c = St_IN_PROGRESS"
  shows "\<exists>cs'. updateTimestamp now i ''answered_at'' (Some at) cs = Inr cs'
    \<and> call_findById i cs' = Some (c\<lparr>c_answered_at := Some at, c_updated_at := now\<rparr>)"
  using find_call_Some [OF assms(1)] assms
  by (auto simp: updateTimestamp_def parse_timestamp_field_def Let_def correctNoAnswerIfAnswered_def find_call_update
      simp del: map_map)

lemma commit_run:
  assumes "call_findById (c_id c) (w_calls w) = Some c" and "open_to u c" and "c_status c = St_RINGING"
    and "c_answered_at c = None" and "w_others w = []"
  shows "\<exists>cs r. accept_commit c u w = (Inr (), w\<lparr>w_calls := cs\<rparr>) \<and> call_findById (c_id c) cs = Some r
     \<and> connected (now_s w) (to_timestamp (w_now w)) u c r"
proof -
  let ?i = "c_id c"
  obtain c1 where c1: "assignCallToAgentIfEligible (now_s w) ?i u (w_calls w) = (c1, True)"
    "call_findById ?i c1 = Some (took (now_s w) u c)"
    using eligible_run [OF assms(1,2)] by blast
  obtain c2 where c2: "transitionStatus (now_s w) ?i St_RINGING St_IN_PROGRESS c1 = (c2, True)"
    "call_findById ?i c2 = Some ((took (now_s w) u c)\<lparr>c_status := St_IN_PROGRESS, c_updated_at := now_s w\<rparr>)"
    using transition_run [OF c1(2)] assms(3) by auto
  let ?c3 = "updateState (now_s w) ?i (Some ACTIVE) c2"
  obtain c4 where c4: "updateTimestamp (now_s w) ?i ''answered_at'' (Some (to_timestamp (w_now w))) ?c3 = Inr c4"
    "call_findById ?i c4 = Some ((took (now_s w) u c)\<lparr>c_status := St_IN_PROGRESS, c_state := Some ACTIVE,
        c_answered_at := Some (to_timestamp (w_now w)), c_updated_at := now_s w\<rparr>)"
    using answered_run [of ?i ?c3 _ "now_s w" "to_timestamp (w_now w)"] c2(2) by auto
  have "accept_commit c u w = (Inr (), w\<lparr>w_calls := c4\<rparr>)"
    using assms(4,5) c1(1) c2(1) c4(1)
    by (simp add: accept_commit_def on_calls_def let_others_run_def others_step_def set_state_def set_time_now_def Let_def
        now_s_def act_defs)
  then show ?thesis using c4(2) by (auto simp: connected_def took_def)
qed

definition monitor_effects :: "nat \<Rightarrow> world \<Rightarrow> effect list" where
  "monitor_effects i w = (case mp_monitor (w_port w) i of None \<Rightarrow> [] | Some (mode, private) \<Rightarrow> [Bus (MonitorReconnectedEv i mode private)])"

lemma announceToMonitor_run: "announceToMonitor i w = (Inr (), w\<lparr>w_trace := w_trace w @ monitor_effects i w\<rparr>)"
  by (cases "mp_monitor (w_port w) i") (auto simp: announceToMonitor_def monitor_effects_def emit_def act_defs)

lemma announce_run:
  assumes "mp_bridge (w_port w) (jn_callId d) = Inr ()" and "jn_tenantId d \<noteq> 0"
  shows "\<exists>w' xs ys. accept_announce d r q w = (Inr (), w') \<and> w_calls w' = w_calls w \<and> w_agents w' = w_agents w
     \<and> w_trace w' = w_trace w @ [Bridged (jn_callId d)] @ xs @ [Bus (SuccessEv (jn_callId d))] @ ys"
proof -
  have "\<exists>h'. logAccepted now i (Some (jn_tenantId d)) a m h = Inr h'" for now i a m h
    using assms(2) by (simp add: logAccepted_def log_event_def requireTenantId_def)
  then obtain h' where logged: "logAccepted (w_now w) (jn_callId d) (Some (jn_tenantId d)) (Some (jn_userId d)) [] (w_history w) = Inr h'"
    by blast
  have bridged: "bridge (jn_callId d) w = (Inr (), w\<lparr>w_trace := w_trace w @ [Bridged (jn_callId d)]\<rparr>)"
    using assms(1) by (simp add: bridge_def throwing_def emit_def act_defs)
  have "\<exists>w' xs. accept_announce d r q w = (Inr (), w') \<and> w_calls w' = w_calls w \<and> w_agents w' = w_agents w
     \<and> w_trace w' = w_trace w @ [Bridged (jn_callId d)] @ monitor_effects (jn_callId d) w @ [Bus (SuccessEv (jn_callId d))] @ xs"
    using logged
    by (cases "isFollowUp (jn_callId d) (jn_userId d) (w_history w)"; cases q)
      (auto simp: accept_announce_def and_then_unit bridged announceToMonitor_run monitor_effects_def write_log_def emit_def
        streak_reset_def Let_def act_defs)
  then show ?thesis by blast
qed

lemma no_other_after_claim:
  assumes "\<not> hasAgentActiveCall u i cs" and "assignCallToAgentIfEligible now i u cs = (cs', b)" and "a_id a = u"
  shows "noOtherActiveCall (Some i) cs' a"
proof -
  have "cs' = map (\<lambda>c. if row_is i c \<and> open_to u c then c\<lparr>c_agent_id := Some u, c_offered_at := None, c_updated_at := now\<rparr> else c) cs"
    using assms(2) by (simp add: eligible_pair)
  then show ?thesis using assms(1,3)
    by (auto simp: hasAgentActiveCall_def noOtherActiveCall_def list_ex_iff split: if_splits)
qed

lemma hold_taken:
  assumes "first_row (\<lambda>r. a_id r = u) ag = Some a" and "a_busy_call_id a = None \<or> a_busy_call_id a = Some i"
    and "a_deleted_at a = None" and "noOtherActiveCall (Some i) cs a" and "call_findById i cs = Some c"
    and "c_agent_id c = Some u" and "is_live c"
  shows "first_row (\<lambda>r. a_id r = u) (fst (fst (holdForOwnCall u i (ag, cs)))) = Some (a\<lparr>a_busy_call_id := Some i\<rparr>)"
proof -
  have "a_id a = u" "c \<in> set cs" "c_id c = i"
    using first_row_Some [OF assms(1)] find_call_Some [OF assms(5)] by auto
  then show ?thesis using assms
    by (auto simp: holdForOwnCall_def Let_def first_row_map_same)
qed


lemma may_accept_example: "may_accept 4 2 (example_call 4) (ring_world [2, 3])"
  by (simp add: may_accept_def ring_world_def empty_world_def quiet_port_def call_findById_def first_row_def
      isAtCapacity_def call_queue_def getQueue_def queue_findById_def hasAgentActiveCall_def split: option.split)


end
