(* ===== verification/HangupFacts.thy ===== *)
theory HangupFacts
  imports AcceptFacts
begin

text \<open>
  How a call ends by an input: the verdict a hang-up records (\<open>TerminationEventHandler\<close>) survives everything
  the end sets off, and an accept whose microphone stays silent ends the call as failed
  (\<open>AgentEventHandler.#abortAcceptOnMediaFailure\<close>).
\<close>

section \<open>The verdict of an ended call\<close>

definition verdict :: "call \<Rightarrow> call_status \<times> termination_reason option \<times> terminated_by option" where
  "verdict c = (c_status c, c_termination_reason c, c_terminated_by c)"

definition sealed :: "nat \<Rightarrow> call_status \<times> termination_reason option \<times> terminated_by option \<Rightarrow> world \<Rightarrow> bool" where
  "sealed i v w \<longleftrightarrow> w_others w = [] \<and> (\<exists>r. call_findById i (w_calls w) = Some r \<and> is_final r \<and> verdict r = v)"

lemma sealed_write:
  assumes "\<And>c. c_id (f c) = c_id c" and "\<And>c. p c \<Longrightarrow> is_final c \<Longrightarrow> is_final (f c) \<and> verdict (f c) = verdict c"
  shows "sealed i v w \<longrightarrow> sealed i v (w\<lparr>w_calls := fst (sql_update p f (w_calls w))\<rparr>)"
proof
  assume "sealed i v w"
  then obtain r where r: "w_others w = []" "call_findById i (w_calls w) = Some r" "is_final r" "verdict r = v"
    by (auto simp: sealed_def)
  then have "is_final (if p r then f r else r) \<and> verdict (if p r then f r else r) = v" using assms(2) by simp
  then show "sealed i v (w\<lparr>w_calls := fst (sql_update p f (w_calls w))\<rparr>)"
    using r by (simp add: sealed_def find_call_update assms(1) del: if_split)
qed

lemma sealed_commit: "sealed i v w \<longrightarrow> sealed i v (w\<lparr>w_calls := fst (commit_end c opt (now_s w) (w_calls w))\<rparr>)"
proof (cases "eo_failure opt")
  case None
  then show ?thesis
    unfolding commit_end_def terminateCallIfNotTerminated_def affected_fst option.case by (auto intro!: sealed_write [rule_format] simp del: sql_update_fst)
next
  case (Some e)
  then show ?thesis
    unfolding commit_end_def markCallFailedIfNotFinal_def affected_fst by (auto intro!: sealed_write [rule_format] simp: fail_row_def simp del: sql_update_fst)
qed

lemma sealed_claim:
  "sealed i v w \<longrightarrow> sealed i v (w\<lparr>w_agents := ag, w_calls := snd (fst (claimAgentAndAssignCall (now_s w) False a c (w_agents w, w_calls w)))\<rparr>)"
proof (cases "claim_takes False c a (w_agents w, w_calls w)")
  case True
  have "sealed i v w \<longrightarrow> sealed i v (w\<lparr>w_calls := fst (sql_update (\<lambda>x. c_id x = c \<and> assignable x)
      (\<lambda>x. x\<lparr>c_agent_id := Some a, c_offered_at := Some (now_s w), c_updated_at := now_s w\<rparr>) (w_calls w))\<rparr>)"
    by (rule sealed_write) (auto simp: assignable_def is_final_def)
  with True show ?thesis by (simp add: claim_outcome sealed_def)
qed (simp add: claim_outcome sealed_def)

lemma sealed_calls:
  "sealed i v w \<longrightarrow> sealed i v (w\<lparr>w_calls := fst (withdrawOffer (now_s w) c a tm (w_calls w))\<rparr>)"
  "sealed i v w \<longrightarrow> sealed i v (w\<lparr>w_calls := fillQueueDuration (now_s w) acc c (w_calls w)\<rparr>)"
  unfolding withdrawOffer_def fillQueueDuration_def affected_fst
  by (rule sealed_write; auto simp: is_final_def verdict_def Let_def split: option.split)+

lemma sealed_tables: "w_calls w' = w_calls w \<Longrightarrow> w_others w' = w_others w \<Longrightarrow> sealed i v w \<longrightarrow> sealed i v w'"
  by (simp add: sealed_def)

interpretation sealed_end: ending_relation "\<lambda>w w'. sealed i v w \<longrightarrow> sealed i v w'" for i v
proof
  show "sealed i v w \<longrightarrow> sealed i v (others_step w)" for w
    by (simp add: sealed_def others_step_def split: list.split)
qed (simp, blast, (rule TrueI sealed_claim sealed_commit sealed_calls | rule sealed_tables; simp)+)

lemma end_seals:
  assumes "load r w = Some c0" and "call_findById (c_id c0) (w_calls w) = Some c" and "\<not> is_final c"
    and "eo_onlyIfStatus opt = None" and "w_others w = []"
  shows "\<exists>w'. end_call r opt w = (Inr True, w') \<and> sealed (c_id c0)
    (if eo_failure opt = None then St_TERMINATED else St_FAILED, Some (eo_reason opt), Some (eo_terminatedBy opt)) w'"
proof -
  let ?i = "c_id c0"
  let ?cm = "commit_end ?i opt (now_s w) (w_calls w)"
  let ?v = "(if eo_failure opt = None then St_TERMINATED else St_FAILED, Some (eo_reason opt), Some (eo_terminatedBy opt))"
  have row: "c \<in> set (w_calls w)" "c_id c = ?i" using find_call_Some [OF assms(2)] by auto
  have "snd ?cm" "sealed ?i ?v (w\<lparr>w_calls := fst ?cm\<rparr>)"
    using assms(2-5) row
    by (auto simp: commit_end_def terminateCallIfNotTerminated_def markCallFailedIfNotFinal_def affected_pair sealed_def
        find_call_update fail_row_def is_final_def verdict_def split: option.split)
  moreover have "sealed ?i ?v v \<Longrightarrow> sealed ?i ?v (snd (settle_row c0 opt v))" for v
    using sealed_end.run_settle_row by (simp add: runs_in_def)
  ultimately show ?thesis using assms(1) by (simp add: end_call_run Let_def)
qed

section \<open>Hanging up\<close>

text \<open>The verdict the call's state and the input call for.\<close>

definition hangup_verdict :: "hangup \<Rightarrow> call \<Rightarrow> call_status \<times> termination_reason option \<times> terminated_by option" where
  "hangup_verdict d c =
     (if hu_reason d = Some ''system_failed'' then (St_FAILED, Some Rs_NETWORK_ERROR, Some By_SYSTEM)
      else if hu_reason d = Some ''customer_network_loss'' then (St_FAILED, Some Rs_CUSTOMER_NETWORK_LOSS, Some By_SYSTEM)
      else (St_TERMINATED,
            Some (if hu_reason d = Some ''cancelled'' then Rs_CANCELLED
                  else if c_answered_at c = None \<and> c_status c \<noteq> St_IN_PROGRESS then Rs_NO_ANSWER else Rs_COMPLETED),
            Some (if hu_byConsumer d then By_CONSUMER else By_AGENT)))"

lemma hangup_seals:
  assumes "call_findById (hu_callId d) (w_calls w) = Some c" and "is_live c" and "w_others w = []" and "keyed (w_calls w)"
  shows "sealed (hu_callId d) (hangup_verdict d c) (snd (handleCallTerminated d w))
    \<and> (c_agent_id c = Some a \<longrightarrow> free_of (hu_callId d) a (w_agents (snd (handleCallTerminated d w))))"
proof -
  have i: "c_id c = hu_callId d" and not_final: "\<not> is_final c"
    using find_call_Some [OF assms(1)] assms(2) by (auto dest: live_not_final)
  have nostatus: "eo_onlyIfStatus (hangup_options d c) = None" by (simp add: hangup_options_def end_defaults_def)
  have "load (Row c) w = Some c" by (simp add: load_def)
  then obtain w' where e: "end_call (Row c) (hangup_options d c) w = (Inr True, w')"
    and sealed: "sealed (hu_callId d) (if eo_failure (hangup_options d c) = None then St_TERMINATED else St_FAILED,
        Some (eo_reason (hangup_options d c)), Some (eo_terminatedBy (hangup_options d c))) w'"
    using end_seals [of "Row c" w c c "hangup_options d c"] assms(1,3) i not_final nostatus
    by auto
  have "handleCallTerminated d w = (Inr (), w')"
    using assms(1-3) e
    by (auto simp: handleCallTerminated_def let_others_run_def others_step_def act_defs live_iff)
  moreover have "hangup_verdict d c = (if eo_failure (hangup_options d c) = None then St_TERMINATED else St_FAILED,
        Some (eo_reason (hangup_options d c)), Some (eo_terminatedBy (hangup_options d c)))"
    using assms(2) by (auto simp: hangup_verdict_def hangup_options_def end_defaults_def live_iff)
  moreover have "c_agent_id c = Some a \<Longrightarrow> free_of (hu_callId d) a (w_agents w')"
    using end_frees [of "Row c" w c a "hangup_options d c" w'] assms(3,4) e i by (simp add: load_def)
  ultimately show ?thesis using sealed by simp
qed

text \<open>C13: A hang-up records why. When the input CALL_TERMINATED reaches a live call, the call ends with the
  verdict its state calls for (NO_ANSWER before anybody answered, COMPLETED after, CANCELLED, a failure of the
  network or of the customer's network) and keeps it through everything the end sets off, its agent is free of
  it, and the worker gives the call's lease and inbox up.\<close>

theorem hang_up_records_verdict:
  assumes "call_findById (hu_callId d) (w_calls w) = Some c" and "is_live c" and "w_others w = []" and "keyed (w_calls w)"
  shows "\<exists>w' r. handleCallEvent (In_CALL_TERMINATED d s) w = (Inr None, w')
    \<and> call_findById (hu_callId d) (w_calls w') = Some r \<and> verdict r = hangup_verdict d c
    \<and> (\<forall>a. c_agent_id c = Some a \<longrightarrow> free_of (hu_callId d) a (w_agents w'))
    \<and> InboxReleased (hu_callId d) True \<in> set (w_trace w')"
proof -
  let ?w0 = "w\<lparr>w_trace := w_trace w @ [DeadlineCleared ''agent-reconnect'' (hu_callId d)]\<rparr>"
  let ?w1 = "snd (handleCallTerminated d ?w0)"
  let ?w2 = "?w1\<lparr>w_trace := w_trace ?w1 @ [InboxReleased (hu_callId d) True]\<rparr>"
  have sealed: "sealed (hu_callId d) (hangup_verdict d c) ?w1"
    and free: "c_agent_id c = Some a \<Longrightarrow> free_of (hu_callId d) a (w_agents ?w1)" for a
    using hangup_seals [of d ?w0 c] assms by simp_all
  obtain r where r: "call_findById (hu_callId d) (w_calls ?w1) = Some r" "is_final r" "verdict r = hangup_verdict d c"
    using sealed by (auto simp: sealed_def)
  have returns: "fst (handleCallTerminated d v) = Inr ()" for v by (simp add: handleCallTerminated_def)
  have "handleCallEvent (In_CALL_TERMINATED d s) w = (Inr None, ?w2)"
    using r
    by (simp add: handleCallEvent_def clearReconnectTimer_def releaseIfEnded_def catching_def emit_def
        and_then_unit [OF returns] and_then_assoc) (simp add: ret_def)
  then show ?thesis using r free by (intro exI [of _ ?w2] exI [of _ r]) simp
qed

theorem hang_up_records_verdict_witness:
  "\<exists>r. call_findById 4 (w_calls (snd (handleCallEvent
        (In_CALL_TERMINATED \<lparr> hu_callId = 4, hu_reason = None, hu_byConsumer = True \<rparr> None) (ring_world [2])))) = Some r
     \<and> verdict r = (St_TERMINATED, Some Rs_NO_ANSWER, Some By_CONSUMER)"
proof -
  let ?d = "\<lparr> hu_callId = 4, hu_reason = None, hu_byConsumer = True \<rparr>"
  have "call_findById (hu_callId ?d) (w_calls (ring_world [2])) = Some (example_call 4)" "is_live (example_call 4)"
    "w_others (ring_world [2]) = []" "keyed (w_calls (ring_world [2]))"
    by (simp_all add: ring_world_def empty_world_def call_findById_def first_row_def live_iff keyed_def)
  from hang_up_records_verdict [OF this, of None] show ?thesis
    by (auto simp: hangup_verdict_def)
qed

end
