(* ===== verification/IvrEngine.thy ===== *)
theory IvrEngine
  imports Effects "HOL-Library.AList"
begin

text \<open>
  \<open>src/src/core/ivr/IvrEngine.js\<close>: the state machine of one call's IVR session. A method that only
  changes the engine is a function on its state; what the outside sees (the bus, the observers, the
  player, the recorded inputs) is appended to \<open>en_out\<close>. A prompt's promise and a timer stay in the
  state until the environment settles or fires them (\<open>engine_event\<close>). \<open>start\<close> can throw, so it
  and \<open>restart\<close> are actions.
\<close>

section \<open>Flows\<close>

text \<open>\<open>node.data\<close> of a transfer node; a missing field is \<open>None\<close>.\<close>

record transfer_data =
  td_targetType :: "string option"
  td_targetId :: "nat option"
  td_offlineAction :: "string option"
  td_offlineAudioFileId :: "nat option"
  td_busyAction :: "string option"
  td_busyAudioFileId :: "nat option"

definition no_transfer_data :: transfer_data where
  "no_transfer_data = \<lparr> td_targetType = None, td_targetId = None, td_offlineAction = None,
     td_offlineAudioFileId = None, td_busyAction = None, td_busyAudioFileId = None \<rparr>"

record ivr_node =
  n_id :: string
  n_type :: string
  n_label :: "string option"
  n_timeoutSeconds :: "nat option"
  n_noInputAction :: "string option"
  n_dtmfMap :: "(string \<times> string) list option"
  n_audioFileId :: "nat option"
  n_transfer :: transfer_data

text \<open>\<open>ed_handle\<close> is \<open>String(e.sourceHandle)\<close>.\<close>

record ivr_edge =
  ed_source :: string
  ed_handle :: string
  ed_target :: string

section \<open>The engine\<close>

datatype playback = MenuPrompt ivr_node | PlayPrompt ivr_node | ErrorPrompt

datatype timer = InputWait ivr_node nat | Grace ivr_node

record node_ref =
  nr_id :: string
  nr_type :: string
  nr_label :: "string option"

datatype engine_output =
    NodeEntered node_ref
  | DtmfReceived string node_ref
  | RouteSelected string string string node_ref "string option" "node_ref option"
  | InputRecorded string string
  | PromptStarted nat string
  | PromptStopped nat
  | Completed string transfer_data

record engine =
  en_callId :: nat
  en_nodes :: "(string \<times> ivr_node) list"
  en_edges :: "ivr_edge list"
  en_defaultTimeout :: nat
  en_errorAudio :: "string option"
  en_audio :: "string \<Rightarrow> string option"
  en_current :: "string option"
  en_menu :: "ivr_node option"
  en_player :: "nat option"
  en_timer :: "timer option"
  en_stopped :: bool
  en_replayCount :: nat
  en_handler :: bool
  en_listening :: bool
  en_pending :: "(nat \<times> playback) list"
  en_players :: nat
  en_out :: "engine_output list"

text \<open>\<open>Map.set\<close> for each node: a repeated id keeps its place and takes the last node.\<close>

definition indexNodes :: "ivr_node list \<Rightarrow> (string \<times> ivr_node) list" where
  "indexNodes nodes = fold (\<lambda>n m. AList.update (n_id n) n m) nodes []"

definition new_engine :: "nat \<Rightarrow> ivr_node list \<Rightarrow> ivr_edge list \<Rightarrow> nat option \<Rightarrow> string option \<Rightarrow>
    (string \<Rightarrow> string option) \<Rightarrow> engine" where
  "new_engine callId nodes edges defaultTimeout errorAudio audio =
     \<lparr> en_callId = callId, en_nodes = indexNodes nodes, en_edges = edges,
       en_defaultTimeout = (case defaultTimeout of None \<Rightarrow> 10 | Some s \<Rightarrow> s) * 1000,
       en_errorAudio = errorAudio, en_audio = audio, en_current = None, en_menu = None, en_player = None,
       en_timer = None, en_stopped = False, en_replayCount = 0, en_handler = True, en_listening = False,
       en_pending = [], en_players = 0, en_out = [] \<rparr>"

definition node_of :: "engine \<Rightarrow> string \<Rightarrow> ivr_node option" where
  "node_of e i = map_of (en_nodes e) i"

definition findNodeByType :: "string \<Rightarrow> engine \<Rightarrow> ivr_node option" where
  "findNodeByType t e = find (\<lambda>n. n_type n = t) (map snd (en_nodes e))"

definition ref_of :: "ivr_node \<Rightarrow> node_ref" where
  "ref_of n = \<lparr> nr_id = n_id n, nr_type = n_type n, nr_label = n_label n \<rparr>"

definition say :: "engine_output \<Rightarrow> engine \<Rightarrow> engine" where
  "say x e = e\<lparr>en_out := en_out e @ [x]\<rparr>"

definition clearPlayer :: "engine \<Rightarrow> engine" where
  "clearPlayer e = (case en_player e of None \<Rightarrow> e | Some p \<Rightarrow> say (PromptStopped p) (e\<lparr>en_player := None\<rparr>))"

definition clearTimer :: "engine \<Rightarrow> engine" where
  "clearTimer e = e\<lparr>en_timer := None\<rparr>"

definition removeDtmfListener :: "engine \<Rightarrow> engine" where
  "removeDtmfListener e = (if en_handler e then e\<lparr>en_listening := False, en_handler := False\<rparr> else e)"

definition complete :: "string \<Rightarrow> transfer_data \<Rightarrow> engine \<Rightarrow> engine" where
  "complete action transferData e =
     (if en_stopped e then e
      else say (Completed action transferData)
        (removeDtmfListener (clearTimer (clearPlayer (e\<lparr>en_stopped := True\<rparr>)))))"

definition stop_engine :: "engine \<Rightarrow> engine" where
  "stop_engine e =
     (if en_stopped e then e
      else removeDtmfListener (clearTimer (clearPlayer (e\<lparr>en_stopped := True\<rparr>))))"

text \<open>\<open>createPlayer()\<close> and \<open>play(path)\<close>; the error prompt's player is not kept.\<close>

definition play :: "playback \<Rightarrow> string \<Rightarrow> engine \<Rightarrow> engine" where
  "play what path e =
     (let p = en_players e in
      say (PromptStarted p path)
        (e\<lparr>en_players := p + 1, en_pending := en_pending e @ [(p, what)],
           en_player := (if what = ErrorPrompt then en_player e else Some p)\<rparr>))"

definition playErrorAndHangup :: "engine \<Rightarrow> engine" where
  "playErrorAndHangup e =
     (let e1 = removeDtmfListener (clearTimer (clearPlayer e)) in
      case en_errorAudio e1 of
        None \<Rightarrow> complete ''hung_up'' no_transfer_data e1
      | Some path \<Rightarrow> play ErrorPrompt path e1)"

definition enterMenu :: "ivr_node \<Rightarrow> engine \<Rightarrow> engine" where
  "enterMenu node e =
     (case en_audio e (n_id node) of
        None \<Rightarrow> playErrorAndHangup e
      | Some path \<Rightarrow> play (MenuPrompt node) path (e\<lparr>en_menu := Some node\<rparr>))"

definition enterPlay :: "ivr_node \<Rightarrow> engine \<Rightarrow> engine" where
  "enterPlay node e =
     (case en_audio e (n_id node) of
        None \<Rightarrow> playErrorAndHangup e
      | Some path \<Rightarrow> play (PlayPrompt node) path e)"

definition navigateTo :: "string \<Rightarrow> engine \<Rightarrow> engine" where
  "navigateTo nodeId e =
     (if en_stopped e then e
      else case node_of e nodeId of
        None \<Rightarrow> complete ''error'' no_transfer_data e
      | Some node \<Rightarrow>
          (let e1 = clearTimer (clearPlayer e);
               e2 = e1\<lparr>en_menu := None,
                       en_replayCount := (if en_current e1 = Some nodeId then en_replayCount e1 else 0),
                       en_current := Some nodeId\<rparr>;
               e3 = say (NodeEntered (ref_of node)) e2
           in if n_type node = ''ivr_menu'' then enterMenu node e3
              else if n_type node = ''ivr_play'' then enterPlay node e3
              else if n_type node = ''ivr_transfer'' then complete ''transferred'' (n_transfer node) e3
              else if n_type node = ''ivr_hangup'' then complete ''hung_up'' no_transfer_data e3
              else complete ''error'' no_transfer_data e3))"

text \<open>\<open>EventBus.on\<close> throws when the listener is \<open>null\<close>.\<close>

datatype engine_error = ListenerNotAFunction

definition listen :: "(engine, engine_error, unit) act" where
  "listen e = (if en_handler e then (Inr (), e\<lparr>en_listening := True\<rparr>) else (Inl ListenerNotAFunction, e))"

definition start :: "(engine, engine_error, unit) act" where
  "start e =
     (case findNodeByType ''ivr_start'' e of
        None \<Rightarrow> (Inr (), complete ''error'' no_transfer_data e)
      | Some startNode \<Rightarrow>
          (case find (\<lambda>d. ed_source d = n_id startNode) (en_edges e) of
             None \<Rightarrow> (Inr (), complete ''error'' no_transfer_data e)
           | Some firstEdge \<Rightarrow> and_then listen (\<lambda>_. change (navigateTo (ed_target firstEdge))) e))"

definition startAt :: "string \<Rightarrow> (engine, engine_error, unit) act" where
  "startAt nodeId e =
     (if node_of e nodeId = None then start e
      else and_then (change (\<lambda>e. e\<lparr>en_stopped := False\<rparr>)) (\<lambda>_. and_then listen (\<lambda>_. change (navigateTo nodeId))) e)"

definition restart :: "(engine, engine_error, unit) act" where
  "restart = and_then (change (\<lambda>e. e\<lparr>en_stopped := False, en_current := None, en_replayCount := 0\<rparr>)) (\<lambda>_. start)"

section \<open>Key presses and timers\<close>

text \<open>The node's own map, when it names a known node.\<close>

definition legacy_route :: "ivr_node \<Rightarrow> string \<Rightarrow> engine \<Rightarrow> (string \<times> string) option" where
  "legacy_route node digit e =
     (case Option.bind (n_dtmfMap node) (\<lambda>m. map_of m digit) of
        None \<Rightarrow> None
      | Some t \<Rightarrow> if t \<noteq> [] \<and> node_of e t \<noteq> None then Some (t, ''legacy_map'') else None)"

definition digit_route :: "ivr_node \<Rightarrow> string \<Rightarrow> engine \<Rightarrow> (string \<times> string) option" where
  "digit_route node digit e =
     (case find (\<lambda>d. ed_source d = n_id node \<and> ed_handle d = digit) (en_edges e) of
        Some d \<Rightarrow> if ed_target d \<noteq> [] then Some (ed_target d, ''edge'') else legacy_route node digit e
      | None \<Rightarrow> legacy_route node digit e)"

definition onDtmf :: "ivr_node \<Rightarrow> string \<Rightarrow> engine \<Rightarrow> engine" where
  "onDtmf node digit e =
     (if en_stopped e then e
      else let e1 = say (DtmfReceived digit (ref_of node)) e in
           case digit_route node digit e of
             None \<Rightarrow> say (RouteSelected digit ''none'' ''invalid'' (ref_of node) None None) e1
           | Some (target, how) \<Rightarrow>
               navigateTo target
                 (say (InputRecorded digit (n_id node))
                   (say (RouteSelected digit how ''matched'' (ref_of node) (Some target)
                          (map_option ref_of (node_of e target))) e1)))"

text \<open>The handler registered on the bus.\<close>

definition dtmfHandler :: "nat \<Rightarrow> string \<Rightarrow> engine \<Rightarrow> engine" where
  "dtmfHandler callId digit e =
     (if \<not> en_listening e \<or> callId \<noteq> en_callId e then e
      else case en_menu e of
        None \<Rightarrow> e
      | Some node \<Rightarrow> onDtmf node digit e)"

definition GRACE_MS :: nat where
  "GRACE_MS = 300"

definition noInputAction :: "ivr_node \<Rightarrow> string" where
  "noInputAction node = (case n_noInputAction node of None \<Rightarrow> ''replay'' | Some a \<Rightarrow> a)"

definition onMenuTimeout :: "ivr_node \<Rightarrow> engine \<Rightarrow> engine" where
  "onMenuTimeout node e = (if en_stopped e then e else e\<lparr>en_timer := Some (Grace node)\<rparr>)"

definition executeTimeout :: "ivr_node \<Rightarrow> engine \<Rightarrow> engine" where
  "executeTimeout node e =
     (if en_stopped e then e
      else if noInputAction node = ''replay'' then
        (let e1 = e\<lparr>en_replayCount := en_replayCount e + 1\<rparr> in
         if 3 < en_replayCount e1 then complete ''hung_up'' no_transfer_data e1
         else navigateTo (n_id node) e1)
      else
        (let e1 = e\<lparr>en_replayCount := 0\<rparr> in
         case findNodeByType ''ivr_hangup'' e1 of
           Some h \<Rightarrow> navigateTo (n_id h) e1
         | None \<Rightarrow> complete ''timeout'' no_transfer_data e1))"

definition timer_fires :: "engine \<Rightarrow> engine" where
  "timer_fires e =
     (case en_timer e of
        None \<Rightarrow> e
      | Some (InputWait node _) \<Rightarrow> onMenuTimeout node e
      | Some (Grace node) \<Rightarrow> executeTimeout node (e\<lparr>en_timer := None\<rparr>))"

definition menu_timeout_ms :: "ivr_node \<Rightarrow> engine \<Rightarrow> nat" where
  "menu_timeout_ms node e =
     (let ms = nullish (n_timeoutSeconds node) 0 * 1000 in if ms \<noteq> 0 then ms else en_defaultTimeout e)"

text \<open>A prompt's promise settles; it does so once, so it leaves the pending ones.\<close>

definition settled_prompt :: "nat \<Rightarrow> engine \<Rightarrow> engine" where
  "settled_prompt p e = e\<lparr>en_pending := filter (\<lambda>x. fst x \<noteq> p) (en_pending e)\<rparr>"

definition prompt_done :: "nat \<Rightarrow> engine \<Rightarrow> engine" where
  "prompt_done p e =
     (case map_of (en_pending e) p of
        None \<Rightarrow> e
      | Some what \<Rightarrow>
          (let e1 = settled_prompt p e in
           if en_stopped e1 then e1
           else case what of
             MenuPrompt node \<Rightarrow>
               if en_player e1 \<noteq> Some p then e1
               else e1\<lparr>en_player := None, en_timer := Some (InputWait node (menu_timeout_ms node e1))\<rparr>
           | PlayPrompt node \<Rightarrow>
               (case find (\<lambda>d. ed_source d = n_id node) (en_edges e1) of
                  Some d \<Rightarrow> navigateTo (ed_target d) e1
                | None \<Rightarrow> complete ''hung_up'' no_transfer_data e1)
           | ErrorPrompt \<Rightarrow> complete ''hung_up'' no_transfer_data e1))"

definition prompt_failed :: "nat \<Rightarrow> engine \<Rightarrow> engine" where
  "prompt_failed p e =
     (case map_of (en_pending e) p of
        None \<Rightarrow> e
      | Some what \<Rightarrow>
          (let e1 = settled_prompt p e in
           if en_stopped e1 then e1
           else if what = ErrorPrompt then complete ''hung_up'' no_transfer_data e1
           else playErrorAndHangup e1))"

section \<open>What may happen to a running engine\<close>

datatype engine_event =
    Digit nat string
  | PromptDone nat
  | PromptFailed nat
  | TimerFires
  | StopEngine

fun engine_step :: "engine_event \<Rightarrow> engine \<Rightarrow> engine" where
  "engine_step (Digit callId digit) e = dtmfHandler callId digit e"
| "engine_step (PromptDone p) e = prompt_done p e"
| "engine_step (PromptFailed p) e = prompt_failed p e"
| "engine_step TimerFires e = timer_fires e"
| "engine_step StopEngine e = stop_engine e"

definition engine_run :: "engine_event list \<Rightarrow> engine \<Rightarrow> engine" where
  "engine_run evs e = fold engine_step evs e"

lemma engine_run_simps [simp]:
  "engine_run [] e = e" "engine_run (ev # evs) e = engine_run evs (engine_step ev e)"
  "engine_run (xs @ ys) e = engine_run ys (engine_run xs e)"
  by (simp_all add: engine_run_def)

end
