(* ===== verification/IvrEngineFacts.thy ===== *)
theory IvrEngineFacts
  imports IvrEngine
begin

text \<open>
  Properties of the IVR engine: it is always in exactly one phase, completes at most once, a caller
  who stays silent reaches the end of the flow, where a key leads, and two failures of the code: a
  completed engine cannot run again, and a prompt that fails after it was left ends the flow.
\<close>

section \<open>Phases\<close>

datatype phase = Asking nat ivr_node | Playing nat ivr_node | Waiting timer | Apologising nat

fun timer_node :: "timer \<Rightarrow> ivr_node" where
  "timer_node (InputWait n _) = n"
| "timer_node (Grace n) = n"

definition at_node :: "ivr_node \<Rightarrow> engine \<Rightarrow> bool" where
  "at_node n e \<longleftrightarrow> en_current e = Some (n_id n) \<and> node_of e (n_id n) = Some n"

fun in_phase :: "phase \<Rightarrow> engine \<Rightarrow> bool" where
  "in_phase (Asking p n) e \<longleftrightarrow> en_player e = Some p \<and> en_timer e = None
     \<and> map_of (en_pending e) p = Some (MenuPrompt n) \<and> en_menu e = Some n \<and> at_node n e"
| "in_phase (Playing p n) e \<longleftrightarrow> en_player e = Some p \<and> en_timer e = None
     \<and> map_of (en_pending e) p = Some (PlayPrompt n) \<and> en_menu e = None \<and> at_node n e \<and> n_type n = ''ivr_play''"
| "in_phase (Waiting t) e \<longleftrightarrow> en_player e = None \<and> en_timer e = Some t
     \<and> en_menu e = Some (timer_node t) \<and> at_node (timer_node t) e"
| "in_phase (Apologising p) e \<longleftrightarrow> en_player e = None \<and> en_timer e = None
     \<and> map_of (en_pending e) p = Some ErrorPrompt"

fun is_completed :: "engine_output \<Rightarrow> bool" where
  "is_completed (Completed _ _) = True"
| "is_completed _ = False"

definition completions :: "engine \<Rightarrow> nat" where
  "completions e = length (filter is_completed (en_out e))"

definition keyed_nodes :: "engine \<Rightarrow> bool" where
  "keyed_nodes e \<longleftrightarrow> distinct (map fst (en_nodes e)) \<and> (\<forall>x \<in> set (en_nodes e). n_id (snd x) = fst x)"

definition fresh_players :: "engine \<Rightarrow> bool" where
  "fresh_players e \<longleftrightarrow> (\<forall>x \<in> set (en_pending e). fst x < en_players e) \<and> distinct (map fst (en_pending e))"

definition sound :: "engine \<Rightarrow> bool" where
  "sound e \<longleftrightarrow> keyed_nodes e \<and> fresh_players e \<and> en_replayCount e \<le> 4 \<and> completions e \<le> 1
     \<and> (en_listening e \<longrightarrow> en_handler e)"

definition ok :: "engine \<Rightarrow> bool" where
  "ok e \<longleftrightarrow> sound e \<and>
     (if en_stopped e then en_player e = None \<and> en_timer e = None \<and> \<not> en_handler e
      else completions e = 0 \<and> en_replayCount e \<le> 3 \<and> (\<exists>ph. in_phase ph e))"

text \<open>What is asked of an engine about to change node or to end.\<close>

definition ready :: "engine \<Rightarrow> bool" where
  "ready e \<longleftrightarrow> sound e \<and> \<not> en_stopped e \<and> completions e = 0 \<and> en_replayCount e \<le> 3"

section \<open>Fields after each helper\<close>

lemma clearPlayer_fields [simp]:
  "en_player (clearPlayer e) = None" "en_timer (clearPlayer e) = en_timer e" "en_menu (clearPlayer e) = en_menu e"
  "en_current (clearPlayer e) = en_current e" "en_stopped (clearPlayer e) = en_stopped e"
  "en_handler (clearPlayer e) = en_handler e" "en_listening (clearPlayer e) = en_listening e"
  "en_pending (clearPlayer e) = en_pending e" "en_players (clearPlayer e) = en_players e"
  "en_nodes (clearPlayer e) = en_nodes e" "en_edges (clearPlayer e) = en_edges e" "en_audio (clearPlayer e) = en_audio e"
  "en_errorAudio (clearPlayer e) = en_errorAudio e" "en_replayCount (clearPlayer e) = en_replayCount e"
  "en_callId (clearPlayer e) = en_callId e" "completions (clearPlayer e) = completions e"
  by (auto simp: clearPlayer_def say_def completions_def split: option.split)

lemma removeDtmfListener_fields [simp]:
  "en_player (removeDtmfListener e) = en_player e" "en_timer (removeDtmfListener e) = en_timer e"
  "en_menu (removeDtmfListener e) = en_menu e" "en_current (removeDtmfListener e) = en_current e"
  "en_stopped (removeDtmfListener e) = en_stopped e" "\<not> en_handler (removeDtmfListener e)"
  "en_pending (removeDtmfListener e) = en_pending e" "en_players (removeDtmfListener e) = en_players e"
  "en_nodes (removeDtmfListener e) = en_nodes e" "en_edges (removeDtmfListener e) = en_edges e"
  "en_audio (removeDtmfListener e) = en_audio e" "en_errorAudio (removeDtmfListener e) = en_errorAudio e"
  "en_replayCount (removeDtmfListener e) = en_replayCount e" "en_callId (removeDtmfListener e) = en_callId e"
  "completions (removeDtmfListener e) = completions e"
  "en_listening (removeDtmfListener e) = (en_listening e \<and> \<not> en_handler e)"
  by (auto simp: removeDtmfListener_def completions_def)

lemma clearTimer_fields [simp]:
  "en_player (clearTimer e) = en_player e" "en_timer (clearTimer e) = None" "en_menu (clearTimer e) = en_menu e"
  "en_current (clearTimer e) = en_current e" "en_stopped (clearTimer e) = en_stopped e"
  "en_handler (clearTimer e) = en_handler e" "en_listening (clearTimer e) = en_listening e"
  "en_pending (clearTimer e) = en_pending e" "en_players (clearTimer e) = en_players e"
  "en_nodes (clearTimer e) = en_nodes e" "en_edges (clearTimer e) = en_edges e" "en_audio (clearTimer e) = en_audio e"
  "en_errorAudio (clearTimer e) = en_errorAudio e" "en_replayCount (clearTimer e) = en_replayCount e"
  "en_callId (clearTimer e) = en_callId e" "completions (clearTimer e) = completions e"
  by (simp_all add: clearTimer_def completions_def)

lemma say_fields [simp]:
  "en_player (say x e) = en_player e" "en_timer (say x e) = en_timer e" "en_menu (say x e) = en_menu e"
  "en_current (say x e) = en_current e" "en_stopped (say x e) = en_stopped e"
  "en_handler (say x e) = en_handler e" "en_listening (say x e) = en_listening e"
  "en_pending (say x e) = en_pending e" "en_players (say x e) = en_players e"
  "en_nodes (say x e) = en_nodes e" "en_edges (say x e) = en_edges e" "en_audio (say x e) = en_audio e"
  "en_errorAudio (say x e) = en_errorAudio e" "en_replayCount (say x e) = en_replayCount e"
  "en_callId (say x e) = en_callId e" "completions (say x e) = completions e + (if is_completed x then 1 else 0)"
  by (simp_all add: say_def completions_def)

lemma node_of_nodes: "node_of e i = map_of (en_nodes e) i"
  by (simp add: node_of_def)

lemma sound_cong:
  assumes "en_nodes e' = en_nodes e" and "en_pending e' = en_pending e" and "en_players e' = en_players e"
    and "en_replayCount e' = en_replayCount e" and "completions e' = completions e"
    and "en_listening e' = en_listening e" and "en_handler e' = en_handler e"
  shows "sound e' = sound e"
  using assms by (simp add: sound_def keyed_nodes_def fresh_players_def)

lemma completions_update [simp]:
  "completions (e\<lparr>en_stopped := b\<rparr>) = completions e" "completions (e\<lparr>en_menu := m\<rparr>) = completions e"
  "completions (e\<lparr>en_current := c\<rparr>) = completions e" "completions (e\<lparr>en_replayCount := k\<rparr>) = completions e"
  "completions (e\<lparr>en_timer := t\<rparr>) = completions e" "completions (e\<lparr>en_player := q\<rparr>) = completions e"
  "completions (e\<lparr>en_pending := ps\<rparr>) = completions e" "completions (e\<lparr>en_players := ks\<rparr>) = completions e"
  "completions (e\<lparr>en_listening := b\<rparr>) = completions e"
  by (simp_all add: completions_def)

section \<open>Ending and playing keep the engine sound\<close>

lemma complete_ends:
  "sound e \<Longrightarrow> \<not> en_stopped e \<Longrightarrow> completions e = 0 \<Longrightarrow> ok (complete a d e) \<and> en_stopped (complete a d e)"
  by (auto simp: ok_def complete_def sound_def keyed_nodes_def fresh_players_def)

lemma complete_ok: "ready e \<Longrightarrow> ok (complete a d e) \<and> en_stopped (complete a d e)"
  using complete_ends by (simp add: ready_def)

lemma play_fields [simp]:
  "en_timer (play w path e) = en_timer e" "en_menu (play w path e) = en_menu e"
  "en_current (play w path e) = en_current e" "en_stopped (play w path e) = en_stopped e"
  "en_handler (play w path e) = en_handler e" "en_listening (play w path e) = en_listening e"
  "en_pending (play w path e) = en_pending e @ [(en_players e, w)]" "en_players (play w path e) = en_players e + 1"
  "en_player (play w path e) = (if w = ErrorPrompt then en_player e else Some (en_players e))"
  "en_nodes (play w path e) = en_nodes e" "en_edges (play w path e) = en_edges e" "en_audio (play w path e) = en_audio e"
  "en_errorAudio (play w path e) = en_errorAudio e" "en_replayCount (play w path e) = en_replayCount e"
  "en_callId (play w path e) = en_callId e" "completions (play w path e) = completions e"
  by (simp_all add: play_def Let_def)

lemma last_pending: "fresh_players e \<Longrightarrow> map_of (en_pending e @ [(en_players e, w)]) (en_players e) = Some w"
  unfolding fresh_players_def
  by (subst map_of_append) (auto simp: map_add_def map_of_eq_None_iff split: option.split dest: map_of_SomeD)

lemma play_sound: "sound e \<Longrightarrow> sound (play w path e)"
  by (auto simp: sound_def keyed_nodes_def fresh_players_def)

lemma ok_phaseI: "sound e \<Longrightarrow> \<not> en_stopped e \<Longrightarrow> completions e = 0 \<Longrightarrow> en_replayCount e \<le> 3 \<Longrightarrow> in_phase ph e \<Longrightarrow> ok e"
  by (auto simp: ok_def)

lemma error_ok: "ready e \<Longrightarrow> ok (playErrorAndHangup e) \<and> \<not> en_handler (playErrorAndHangup e)"
proof -
  assume r: "ready e"
  let ?e1 = "removeDtmfListener (clearTimer (clearPlayer e))"
  have r1: "ready ?e1" "\<not> en_listening ?e1"
    using r by (auto simp: ready_def sound_def keyed_nodes_def fresh_players_def)
  show ?thesis
  proof (cases "en_errorAudio ?e1")
    case None
    then show ?thesis using complete_ok [OF r1(1)] r1
      by (simp add: playErrorAndHangup_def Let_def complete_def)
  next
    case (Some path)
    have "sound (play ErrorPrompt path ?e1)" using r1 play_sound by (simp add: ready_def)
    moreover have ph: "in_phase (Apologising (en_players ?e1)) (play ErrorPrompt path ?e1)"
      using r1 last_pending [of ?e1 ErrorPrompt] by (simp add: ready_def sound_def)
    ultimately have "ok (play ErrorPrompt path ?e1)"
      using r1 by (intro ok_phaseI [OF _ _ _ _ ph]) (simp_all add: ready_def)
    then show ?thesis using Some r1 by (simp add: playErrorAndHangup_def)
  qed
qed

lemma ask_ok:
  assumes "ready e" and "at_node n e" and "en_timer e = None"
  shows "ok (enterMenu n e)"
proof (cases "en_audio e (n_id n)")
  case None
  then show ?thesis using error_ok [OF assms(1)] by (simp add: enterMenu_def)
next
  case (Some path)
  let ?e = "play (MenuPrompt n) path (e\<lparr>en_menu := Some n\<rparr>)"
  have "sound ?e" using assms(1) by (intro play_sound) (simp add: ready_def sound_def keyed_nodes_def fresh_players_def)
  moreover have ph: "in_phase (Asking (en_players e) n) ?e"
    using assms last_pending [of e "MenuPrompt n"] by (simp add: ready_def sound_def at_node_def node_of_def)
  ultimately have "ok ?e" using assms(1) by (intro ok_phaseI [OF _ _ _ _ ph]) (simp_all add: ready_def)
  then show ?thesis using Some by (simp add: enterMenu_def)
qed

lemma announce_ok:
  assumes "ready e" and "at_node n e" and "en_timer e = None"
    and "en_menu e = None" and "n_type n = ''ivr_play''"
  shows "ok (enterPlay n e)"
proof (cases "en_audio e (n_id n)")
  case None
  then show ?thesis using error_ok [OF assms(1)] by (simp add: enterPlay_def)
next
  case (Some path)
  let ?e = "play (PlayPrompt n) path e"
  have "sound ?e" using assms(1) by (intro play_sound) (simp add: ready_def)
  moreover have ph: "in_phase (Playing (en_players e) n) ?e"
    using assms last_pending [of e "PlayPrompt n"] by (simp add: ready_def sound_def at_node_def node_of_def)
  ultimately have "ok ?e" using assms(1) by (intro ok_phaseI [OF _ _ _ _ ph]) (simp_all add: ready_def)
  then show ?thesis using Some by (simp add: enterPlay_def)
qed

lemma node_id: "sound e \<Longrightarrow> node_of e i = Some n \<Longrightarrow> n_id n = i"
  by (auto simp: sound_def keyed_nodes_def node_of_def dest: map_of_SomeD)

definition entered :: "string \<Rightarrow> ivr_node \<Rightarrow> engine \<Rightarrow> engine" where
  "entered i n e = (let e1 = clearTimer (clearPlayer e) in
     say (NodeEntered (ref_of n)) (e1\<lparr>en_menu := None,
       en_replayCount := (if en_current e1 = Some i then en_replayCount e1 else 0), en_current := Some i\<rparr>))"

lemma navigate_cases:
  "navigateTo i e =
     (if en_stopped e then e
      else case node_of e i of
        None \<Rightarrow> complete ''error'' no_transfer_data e
      | Some n \<Rightarrow>
          if n_type n = ''ivr_menu'' then enterMenu n (entered i n e)
          else if n_type n = ''ivr_play'' then enterPlay n (entered i n e)
          else if n_type n = ''ivr_transfer'' then complete ''transferred'' (n_transfer n) (entered i n e)
          else if n_type n = ''ivr_hangup'' then complete ''hung_up'' no_transfer_data (entered i n e)
          else complete ''error'' no_transfer_data (entered i n e))"
  by (cases "node_of e i") (simp_all add: navigateTo_def entered_def Let_def)

lemma entered_fields [simp]:
  "en_player (entered i n e) = None" "en_timer (entered i n e) = None" "en_menu (entered i n e) = None"
  "en_current (entered i n e) = Some i" "en_stopped (entered i n e) = en_stopped e"
  "en_handler (entered i n e) = en_handler e" "en_listening (entered i n e) = en_listening e"
  "en_pending (entered i n e) = en_pending e" "en_players (entered i n e) = en_players e"
  "en_nodes (entered i n e) = en_nodes e" "en_edges (entered i n e) = en_edges e"
  "en_audio (entered i n e) = en_audio e" "en_errorAudio (entered i n e) = en_errorAudio e"
  "en_replayCount (entered i n e) = (if en_current e = Some i then en_replayCount e else 0)"
  "completions (entered i n e) = completions e"
  by (simp_all add: entered_def Let_def)

lemma navigate_ok:
  assumes "ready e"
  shows "ok (navigateTo i e)"
proof (cases "node_of e i")
  case None
  then show ?thesis using assms complete_ok [OF assms] by (simp add: navigateTo_def ready_def)
next
  case (Some n)
  have r: "ready (entered i n e)"
    using assms by (simp add: ready_def sound_def keyed_nodes_def fresh_players_def)
  have at: "at_node n (entered i n e)"
    using Some node_id [of e i n] assms by (simp add: at_node_def ready_def node_of_def)
  show ?thesis
    using Some assms ask_ok [OF r at] announce_ok [OF r at] complete_ok [OF r]
    by (simp add: navigate_cases ready_def)
qed

section \<open>Every event keeps it\<close>

lemma ok_sound: "ok e \<Longrightarrow> sound e"
  by (simp add: ok_def)

lemma ok_ready: "ok e \<Longrightarrow> \<not> en_stopped e \<Longrightarrow> ready e"
  by (simp add: ok_def ready_def)

lemma settled_fields [simp]:
  "en_player (settled_prompt p e) = en_player e" "en_timer (settled_prompt p e) = en_timer e"
  "en_menu (settled_prompt p e) = en_menu e" "en_current (settled_prompt p e) = en_current e"
  "en_stopped (settled_prompt p e) = en_stopped e" "en_handler (settled_prompt p e) = en_handler e"
  "en_listening (settled_prompt p e) = en_listening e" "en_players (settled_prompt p e) = en_players e"
  "en_nodes (settled_prompt p e) = en_nodes e" "en_edges (settled_prompt p e) = en_edges e"
  "en_audio (settled_prompt p e) = en_audio e" "en_errorAudio (settled_prompt p e) = en_errorAudio e"
  "en_replayCount (settled_prompt p e) = en_replayCount e" "completions (settled_prompt p e) = completions e"
  "en_out (settled_prompt p e) = en_out e"
  by (simp_all add: settled_prompt_def completions_def)

lemma settled_sound: "sound e \<Longrightarrow> sound (settled_prompt p e)"
  by (auto simp: sound_def keyed_nodes_def fresh_players_def settled_prompt_def distinct_map_filter)

lemma settled_pending: "q \<noteq> p \<Longrightarrow> map_of (en_pending (settled_prompt p e)) q = map_of (en_pending e) q"
proof -
  assume "q \<noteq> p"
  then have "map_of (filter (\<lambda>x. fst x \<noteq> p) ps) q = map_of ps q" for ps :: "(nat \<times> playback) list"
    by (induction ps) auto
  then show ?thesis by (simp add: settled_prompt_def)
qed

lemma settled_phase:
  assumes "in_phase ph e" and "map_of (en_pending e) p = Some what"
    and "en_player e \<noteq> Some p" and "what \<noteq> ErrorPrompt"
  shows "in_phase ph (settled_prompt p e)"
proof (cases ph)
  case (Apologising q)
  then have "q \<noteq> p" using assms by auto
  then show ?thesis using Apologising assms settled_pending [of q p e] by simp
qed (use assms settled_pending [of _ p e] in \<open>auto simp: at_node_def node_of_def\<close>)

lemma ok_at_rest:
  assumes "ok e" and "en_stopped e" and "sound e'" and "en_player e' = en_player e" and "en_timer e' = en_timer e"
    and "en_handler e' = en_handler e" and "en_stopped e'"
  shows "ok e'"
  using assms by (simp add: ok_def)

lemma settled_ready: "ready e \<Longrightarrow> ready (settled_prompt p e)"
  using settled_sound by (simp add: ready_def)

lemma done_ok:
  assumes "ok e"
  shows "ok (prompt_done p e)"
proof (cases "map_of (en_pending e) p")
  case None
  then show ?thesis using assms by (simp add: prompt_done_def)
next
  case (Some what)
  let ?e1 = "settled_prompt p e"
  show ?thesis
  proof (cases "en_stopped e")
    case True
    then have "ok ?e1" using ok_at_rest [OF assms True settled_sound] ok_sound [OF assms] by simp
    then show ?thesis using Some True by (simp add: prompt_done_def)
  next
    case False
    have r: "ready ?e1" using settled_ready ok_ready [OF assms False] .
    from assms False obtain ph where ph: "in_phase ph e" by (auto simp: ok_def)
    show ?thesis
    proof (cases what)
      case (MenuPrompt n)
      show ?thesis
      proof (cases "en_player e = Some p")
        case no: False
        have "ok ?e1"
          using r settled_phase [OF ph Some no] MenuPrompt by (intro ok_phaseI [of _ ph]) (simp_all add: ready_def)
        then show ?thesis using Some False MenuPrompt no by (simp add: prompt_done_def)
      next
        case True
        then have "ph = Asking p n" using ph Some MenuPrompt by (cases ph) auto
        then have wait: "in_phase (Waiting (InputWait n (menu_timeout_ms n ?e1)))
            (?e1\<lparr>en_player := None, en_timer := Some (InputWait n (menu_timeout_ms n ?e1))\<rparr>)"
          using ph by (simp add: at_node_def node_of_def)
        moreover have "sound (?e1\<lparr>en_player := None, en_timer := Some (InputWait n (menu_timeout_ms n ?e1))\<rparr>)"
          using r by (simp add: ready_def sound_def keyed_nodes_def fresh_players_def)
        ultimately have "ok (?e1\<lparr>en_player := None, en_timer := Some (InputWait n (menu_timeout_ms n ?e1))\<rparr>)"
          using r by (intro ok_phaseI [OF _ _ _ _ wait]) (simp_all add: ready_def)
        then show ?thesis using Some False MenuPrompt True by (simp add: prompt_done_def Let_def)
      qed
    next
      case (PlayPrompt n)
      then show ?thesis using Some False navigate_ok [OF r] complete_ok [OF r]
        by (simp add: prompt_done_def Let_def split: option.split)
    next
      case ErrorPrompt
      then show ?thesis using Some False complete_ok [OF r] by (simp add: prompt_done_def)
    qed
  qed
qed

lemma failed_ok:
  assumes "ok e"
  shows "ok (prompt_failed p e)"
proof (cases "map_of (en_pending e) p = None \<or> en_stopped e")
  case True
  then show ?thesis
    using assms ok_at_rest [OF assms _ settled_sound [OF ok_sound [OF assms]]]
    by (auto simp: prompt_failed_def split: option.split)
next
  case False
  then have "ready (settled_prompt p e)" using settled_ready ok_ready [OF assms] by blast
  then show ?thesis
    using False complete_ok error_ok by (auto simp: prompt_failed_def Let_def split: option.split)
qed

lemma ready_recount: "ready e \<Longrightarrow> k \<le> 3 \<Longrightarrow> ready (e\<lparr>en_replayCount := k\<rparr>)"
  by (simp add: ready_def sound_def keyed_nodes_def fresh_players_def)

lemma ready_timer: "ready e \<Longrightarrow> ready (e\<lparr>en_timer := t\<rparr>)"
  by (simp add: ready_def sound_def keyed_nodes_def fresh_players_def)

text \<open>Only the last of the replays reaches 4, and it ends the engine.\<close>

lemma execute_ok:
  assumes "ready e"
  shows "ok (executeTimeout n e)"
proof -
  have z: "ready (e\<lparr>en_replayCount := 0\<rparr>)" using ready_recount [OF assms] by simp
  consider (last) "noInputAction n = ''replay''" "en_replayCount e = 3"
    | (again) "noInputAction n = ''replay''" "en_replayCount e < 3" | (other) "noInputAction n \<noteq> ''replay''"
    using assms by (fastforce simp: ready_def sound_def)
  then show ?thesis
  proof cases
    case last
    have "sound (e\<lparr>en_replayCount := 4\<rparr>)"
      using assms by (simp add: ready_def sound_def keyed_nodes_def fresh_players_def)
    then have "ok (complete ''hung_up'' no_transfer_data (e\<lparr>en_replayCount := 4\<rparr>))"
      using complete_ends assms by (simp add: ready_def)
    then show ?thesis using last assms by (simp add: executeTimeout_def Let_def ready_def)
  next
    case again
    then have "ready (e\<lparr>en_replayCount := en_replayCount e + 1\<rparr>)" using ready_recount [OF assms] by simp
    then show ?thesis using again assms navigate_ok by (simp add: executeTimeout_def Let_def ready_def)
  next
    case other
    then show ?thesis using assms navigate_ok [OF z] complete_ok [OF z]
      by (simp add: executeTimeout_def Let_def ready_def split: option.split)
  qed
qed

lemma timer_ok:
  assumes "ok e"
  shows "ok (timer_fires e)"
proof (cases "en_timer e = None")
  case True
  then show ?thesis using assms by (simp add: timer_fires_def)
next
  case False
  then obtain t where t: "en_timer e = Some t" by blast
  have run: "\<not> en_stopped e" using assms t by (auto simp: ok_def)
  then obtain ph where "in_phase ph e" using assms by (auto simp: ok_def)
  then have ph: "in_phase (Waiting t) e" using t by (cases ph) auto
  have r: "ready e" using ok_ready [OF assms run] .
  show ?thesis
  proof (cases t)
    case (InputWait n ms)
    let ?e = "e\<lparr>en_timer := Some (Grace n)\<rparr>"
    have wait: "in_phase (Waiting (Grace n)) ?e" using ph InputWait by (simp add: at_node_def node_of_def)
    have "ok ?e" using ready_timer [OF r] by (intro ok_phaseI [OF _ _ _ _ wait]) (simp_all add: ready_def)
    then show ?thesis using t InputWait run by (simp add: timer_fires_def onMenuTimeout_def)
  next
    case (Grace n)
    then show ?thesis using t execute_ok [OF ready_timer [OF r]] by (simp add: timer_fires_def)
  qed
qed

lemma stop_ok: "ok e \<Longrightarrow> ok (stop_engine e)"
  by (auto simp: stop_engine_def ok_def sound_def keyed_nodes_def fresh_players_def)

lemma ready_say: "\<not> is_completed x \<Longrightarrow> ready (say x e) = ready e"
  by (simp add: ready_def sound_def keyed_nodes_def fresh_players_def)

lemma phase_say: "in_phase ph (say x e) = in_phase ph e"
  by (cases ph) (simp_all add: at_node_def node_of_def)

lemma ok_say: "\<not> is_completed x \<Longrightarrow> ok (say x e) = ok e"
  by (simp add: ok_def sound_def keyed_nodes_def fresh_players_def phase_say)

lemma node_say [simp]: "node_of (say x e) i = node_of e i"
  by (simp add: node_of_def)

lemma route_say: "digit_route n d (say x e) = digit_route n d e"
  by (simp add: digit_route_def legacy_route_def split: option.split)

lemma dtmf_ok:
  assumes "ok e"
  shows "ok (dtmfHandler callId digit e)"
proof (cases "\<not> en_listening e \<or> callId \<noteq> en_callId e \<or> en_menu e = None \<or> en_stopped e")
  case True
  then show ?thesis using assms by (auto simp: dtmfHandler_def onDtmf_def split: option.split)
next
  case False
  then obtain n where n: "en_menu e = Some n" by auto
  have r: "ready e" using ok_ready [OF assms] False by blast
  have "dtmfHandler callId digit e = onDtmf n digit e" using n False by (simp add: dtmfHandler_def)
  then show ?thesis
    using r False assms navigate_ok
    by (cases "digit_route n digit e") (auto simp: onDtmf_def Let_def ok_say ready_say route_say)
qed

lemma step_ok: "ok e \<Longrightarrow> ok (engine_step ev e)"
  by (cases ev) (simp_all add: dtmf_ok done_ok failed_ok timer_ok stop_ok)

lemma run_ok: "ok e \<Longrightarrow> ok (engine_run evs e)"
  by (induction evs arbitrary: e) (simp_all add: step_ok)

section \<open>From a new engine\<close>

lemma indexed_nodes: "keyed_nodes (new_engine c ns es t err au)"
proof -
  have "distinct (map fst m) \<and> (\<forall>x \<in> set m. n_id (snd x) = fst x) \<longrightarrow>
      distinct (map fst (fold (\<lambda>n m. AList.update (n_id n) n m) ns m))
      \<and> (\<forall>x \<in> set (fold (\<lambda>n m. AList.update (n_id n) n m) ns m). n_id (snd x) = fst x)" for m
  proof (induction ns arbitrary: m)
    case Nil
    then show ?case by simp
  next
    case (Cons n ns)
    have "set (AList.update (n_id n) n m) \<subseteq> insert (n_id n, n) (set m)"
      by (induction m) auto
    then have "(\<forall>x \<in> set m. n_id (snd x) = fst x) \<Longrightarrow> (\<forall>x \<in> set (AList.update (n_id n) n m). n_id (snd x) = fst x)"
      by fastforce
    then show ?case using Cons.IH [of "AList.update (n_id n) n m"] distinct_update [of m "n_id n" n] by simp
  qed
  from this [of "[]"] show ?thesis by (simp add: keyed_nodes_def new_engine_def indexNodes_def)
qed

lemma new_ready: "ready (new_engine c ns es t err au)"
  using indexed_nodes [of c ns es t err au]
  by (simp add: ready_def sound_def) (simp add: new_engine_def fresh_players_def completions_def)

lemma start_ok:
  assumes "ready e" and "start e = (Inr (), e')"
  shows "ok e'"
proof -
  have r: "ready (e\<lparr>en_listening := True\<rparr>)" if "en_handler e"
    using assms(1) that by (simp add: ready_def sound_def keyed_nodes_def fresh_players_def)
  show ?thesis
    using assms(2) complete_ok [OF assms(1)] navigate_ok [OF r]
    by (auto simp: start_def listen_def and_then_def change_def split: option.splits if_splits)
qed

lemma startAt_ok:
  assumes "ready e" and "startAt i e = (Inr (), e')"
  shows "ok e'"
proof -
  have same: "e\<lparr>en_stopped := False\<rparr> = e" using assms(1) by (simp add: ready_def)
  have r: "ready (e\<lparr>en_listening := True\<rparr>)" if "en_handler e"
    using assms(1) that by (simp add: ready_def sound_def keyed_nodes_def fresh_players_def)
  show ?thesis
    using assms start_ok [OF assms(1)] navigate_ok [OF r]
    by (auto simp: startAt_def same listen_def and_then_def change_def split: if_splits)
qed

definition one_place :: "engine \<Rightarrow> bool" where
  "one_place e \<longleftrightarrow> (en_player e = None \<or> en_timer e = None)
     \<and> (en_stopped e \<longrightarrow> en_player e = None \<and> en_timer e = None \<and> \<not> en_listening e)
     \<and> completions e \<le> 1 \<and> (completions e = 1 \<longrightarrow> en_stopped e) \<and> (\<not> en_stopped e \<longrightarrow> en_replayCount e \<le> 3)"

lemma ok_one_place: "ok e \<Longrightarrow> one_place e"
proof (cases "en_stopped e")
  case False
  assume k: "ok e"
  then obtain ph where "in_phase ph e" using False by (auto simp: ok_def)
  then have "en_player e = None \<or> en_timer e = None" by (cases ph) auto
  then show ?thesis using k False by (simp add: one_place_def ok_def)
qed (auto simp: one_place_def ok_def sound_def)


definition plain_node :: "string \<Rightarrow> string \<Rightarrow> ivr_node" where
  "plain_node i t = \<lparr> n_id = i, n_type = t, n_label = None, n_timeoutSeconds = None, n_noInputAction = None,
     n_dtmfMap = None, n_audioFileId = None, n_transfer = no_transfer_data \<rparr>"

definition example_nodes :: "ivr_node list" where
  "example_nodes = [plain_node ''s'' ''ivr_start'', plain_node ''p'' ''ivr_play'', plain_node ''m'' ''ivr_menu'',
     plain_node ''t'' ''ivr_transfer'']"

definition example_edges :: "ivr_edge list" where
  "example_edges = [\<lparr> ed_source = ''s'', ed_handle = ''null'', ed_target = ''p'' \<rparr>,
     \<lparr> ed_source = ''p'', ed_handle = ''null'', ed_target = ''m'' \<rparr>, \<lparr> ed_source = ''m'', ed_handle = ''1'', ed_target = ''t'' \<rparr>]"

definition example_ivr :: engine where
  "example_ivr = new_engine 4 example_nodes example_edges None None (\<lambda>i. Some (''file:'' @ i))"

lemma example_starts: "start example_ivr = (Inr (), snd (start example_ivr))"
  by (simp add: example_ivr_def start_def findNodeByType_def new_engine_def indexNodes_def example_nodes_def
      plain_node_def example_edges_def act_defs listen_def)


section \<open>A caller who stays silent\<close>

text \<open>The one thing that happens next when no key is pressed and no prompt fails.\<close>

definition next_event :: "engine \<Rightarrow> engine_event" where
  "next_event e =
     (case en_timer e of
        Some _ \<Rightarrow> TimerFires
      | None \<Rightarrow> (case en_player e of
          Some p \<Rightarrow> PromptDone p
        | None \<Rightarrow> (case find (\<lambda>x. snd x = ErrorPrompt) (en_pending e) of
            Some x \<Rightarrow> PromptDone (fst x)
          | None \<Rightarrow> StopEngine)))"

definition silence :: "engine \<Rightarrow> engine" where
  "silence e = engine_step (next_event e) e"

text \<open>How far the flow still is from its end, along its prompts.\<close>

definition leads_down :: "(string \<Rightarrow> nat) \<Rightarrow> engine \<Rightarrow> bool" where
  "leads_down rank e \<longleftrightarrow> (\<forall>x \<in> set (en_nodes e). n_type (snd x) = ''ivr_play'' \<longrightarrow>
     (case find (\<lambda>d. ed_source d = n_id (snd x)) (en_edges e) of
        None \<Rightarrow> True
      | Some d \<Rightarrow> rank (ed_target d) < rank (n_id (snd x))))"

definition distance :: "(string \<Rightarrow> nat) \<Rightarrow> engine \<Rightarrow> nat" where
  "distance rank e =
     (if en_stopped e then 0
      else if en_player e = None \<and> en_timer e = None then 1
      else 2 + 12 * (case en_current e of None \<Rightarrow> 0 | Some i \<Rightarrow> rank i) + 3 * (3 - en_replayCount e)
           + (case en_timer e of None \<Rightarrow> 2 | Some (InputWait _ _) \<Rightarrow> 1 | Some (Grace _) \<Rightarrow> 0))"

lemma distance_stopped: "en_stopped e \<Longrightarrow> distance rank e = 0"
  by (simp add: distance_def)

lemma distance_error: "distance rank (playErrorAndHangup e) \<le> 1"
  by (cases "en_errorAudio e") (auto simp: playErrorAndHangup_def Let_def distance_def complete_def)

lemma distance_play:
  "w \<noteq> ErrorPrompt \<Longrightarrow> en_timer e = None \<Longrightarrow> distance rank (play w path e)
     \<le> 4 + 12 * (case en_current e of None \<Rightarrow> 0 | Some i \<Rightarrow> rank i) + 3 * (3 - en_replayCount e)"
  by (simp add: distance_def)

lemma distance_navigate:
  "distance rank (navigateTo i e)
     \<le> 4 + 12 * rank i + 3 * (3 - (if en_current e = Some i then en_replayCount e else 0)) \<or> en_stopped e"
proof (cases "node_of e i")
  case None
  then show ?thesis by (simp add: navigateTo_def complete_def distance_def)
next
  case (Some n)
  have m: "distance rank (enterMenu n (entered i n e))
      \<le> 4 + 12 * rank i + 3 * (3 - (if en_current e = Some i then en_replayCount e else 0))"
  proof (cases "en_audio (entered i n e) (n_id n)")
    case None
    then show ?thesis using distance_error [of rank "entered i n e"] by (simp add: enterMenu_def)
  next
    case (Some path)
    then show ?thesis
      using distance_play [of "MenuPrompt n" "(entered i n e)\<lparr>en_menu := Some n\<rparr>" rank path] by (simp add: enterMenu_def)
  qed
  have q: "distance rank (enterPlay n (entered i n e))
      \<le> 4 + 12 * rank i + 3 * (3 - (if en_current e = Some i then en_replayCount e else 0))"
  proof (cases "en_audio (entered i n e) (n_id n)")
    case None
    then show ?thesis using distance_error [of rank "entered i n e"] by (simp add: enterPlay_def)
  next
    case (Some path)
    then show ?thesis
      using distance_play [of "PlayPrompt n" "entered i n e" rank path] by (simp add: enterPlay_def)
  qed
  have c: "\<not> en_stopped e \<Longrightarrow> distance rank (complete a d (entered i n e)) = 0" for a d
    by (simp add: complete_def distance_def)
  show ?thesis using Some m q c by (simp add: navigate_cases)
qed

lemma complete_fields [simp]:
  "en_nodes (complete a d e) = en_nodes e" "en_edges (complete a d e) = en_edges e"
  by (simp_all add: complete_def)

lemma error_fields [simp]:
  "en_nodes (playErrorAndHangup e) = en_nodes e" "en_edges (playErrorAndHangup e) = en_edges e"
  by (simp_all add: playErrorAndHangup_def Let_def split: option.split)

lemma navigate_fields [simp]:
  "en_nodes (navigateTo i e) = en_nodes e" "en_edges (navigateTo i e) = en_edges e"
  by (simp_all add: navigate_cases enterMenu_def enterPlay_def split: option.split)

lemma silence_graph: "en_nodes (silence e) = en_nodes e \<and> en_edges (silence e) = en_edges e"
  by (simp add: silence_def next_event_def timer_fires_def onMenuTimeout_def executeTimeout_def prompt_done_def
      stop_engine_def Let_def split: option.split timer.split playback.split)

lemma leads_down_silence: "leads_down rank (silence e) = leads_down rank e"
  using silence_graph [of e] by (simp add: leads_down_def)

lemma in_nodes: "node_of e i = Some n \<Longrightarrow> (i, n) \<in> set (en_nodes e)"
  by (simp add: node_of_def map_of_SomeD)

lemma found_in: "find P xs = Some x \<Longrightarrow> x \<in> set xs \<and> P x"
  by (induction xs) (auto split: if_splits)

lemma silence_nearer_timer:
  assumes "ok e" and "\<not> en_stopped e" and "in_phase (Waiting t) e"
  shows "distance rank (silence e) < distance rank e"
proof (cases t)
  case (InputWait n ms)
  then show ?thesis using assms
    by (simp add: silence_def next_event_def timer_fires_def onMenuTimeout_def distance_def)
next
  case (Grace n)
  have fires: "silence e = executeTimeout n (e\<lparr>en_timer := None\<rparr>)"
    using assms(3) Grace by (simp add: silence_def next_event_def timer_fires_def)
  have d: "distance rank e = 2 + 12 * rank (n_id n) + 3 * (3 - en_replayCount e)"
    using assms Grace by (simp add: distance_def at_node_def)
  have sound: "sound e" using assms(1) by (simp add: ok_def)
  show ?thesis
  proof (cases "noInputAction n = ''replay''")
    case True
    let ?e = "e\<lparr>en_timer := None, en_replayCount := en_replayCount e + 1\<rparr>"
    show ?thesis
    proof (cases "3 < en_replayCount e + 1")
      case True
      then show ?thesis using \<open>noInputAction n = _\<close> assms(2) d
        by (simp add: fires executeTimeout_def Let_def complete_def distance_stopped)
    next
      case False
      have "distance rank (navigateTo (n_id n) ?e) \<le> 4 + 12 * rank (n_id n) + 3 * (3 - (en_replayCount e + 1))"
        using distance_navigate [of rank "n_id n" ?e] assms Grace by (simp add: at_node_def)
      then show ?thesis using \<open>noInputAction n = _\<close> assms(2) d False
        by (simp add: fires executeTimeout_def Let_def)
    qed
  next
    case False
    let ?e = "e\<lparr>en_timer := None, en_replayCount := 0\<rparr>"
    have "en_stopped (silence e)"
    proof (cases "findNodeByType ''ivr_hangup'' ?e")
      case None
      then show ?thesis using False assms(2) by (simp add: fires executeTimeout_def Let_def complete_def)
    next
      case (Some h)
      then have "h \<in> snd ` set (en_nodes e)" "n_type h = ''ivr_hangup''"
        using found_in [of _ "map snd (en_nodes e)" h] by (auto simp: findNodeByType_def)
      then obtain i where "(i, h) \<in> set (en_nodes e)" by auto
      then have "node_of ?e (n_id h) = Some h"
        using sound by (auto simp: sound_def keyed_nodes_def node_of_def)
      then show ?thesis using False Some assms(2) \<open>n_type h = _\<close>
        by (simp add: fires executeTimeout_def Let_def navigate_cases complete_def)
    qed
    then show ?thesis using d by (simp add: distance_stopped)
  qed
qed

lemma silence_nearer:
  assumes "ok e" and "\<not> en_stopped e" and "leads_down rank e"
  shows "distance rank (silence e) < distance rank e"
proof -
  obtain ph where ph: "in_phase ph e" using assms(1,2) by (auto simp: ok_def)
  show ?thesis
  proof (cases ph)
    case (Asking p n)
    then show ?thesis using ph assms(2)
      by (simp add: silence_def next_event_def prompt_done_def Let_def distance_def at_node_def)
  next
    case (Playing p n)
    let ?e = "settled_prompt p e"
    have s: "silence e = (case find (\<lambda>d. ed_source d = n_id n) (en_edges e) of
        Some d \<Rightarrow> navigateTo (ed_target d) ?e | None \<Rightarrow> complete ''hung_up'' no_transfer_data ?e)"
      using ph Playing assms(2) by (simp add: silence_def next_event_def prompt_done_def Let_def)
    have d: "distance rank e \<ge> 4 + 12 * rank (n_id n)"
      using ph Playing assms(2) by (simp add: distance_def at_node_def)
    show ?thesis
    proof (cases "find (\<lambda>d. ed_source d = n_id n) (en_edges e)")
      case None
      then show ?thesis using s d assms(2) by (simp add: complete_def distance_stopped)
    next
      case (Some x)
      have "(n_id n, n) \<in> set (en_nodes e)" "n_type n = ''ivr_play''"
        using ph Playing by (auto simp: at_node_def intro: in_nodes)
      then have "rank (ed_target x) < rank (n_id n)"
        using assms(3) Some by (auto simp: leads_down_def)
      moreover have "distance rank (navigateTo (ed_target x) ?e) \<le> 4 + 12 * rank (ed_target x) + 9"
        using distance_navigate [of rank "ed_target x" ?e] assms(2) by (auto split: if_splits)
      ultimately show ?thesis using s Some d by simp
    qed
  next
    case (Waiting t)
    then show ?thesis using silence_nearer_timer assms ph by blast
  next
    case (Apologising p)
    then obtain x where x: "find (\<lambda>x. snd x = ErrorPrompt) (en_pending e) = Some x"
      using ph by (cases "find (\<lambda>x. snd x = ErrorPrompt) (en_pending e)") (auto simp: find_None_iff dest: map_of_SomeD)
    then have "x \<in> set (en_pending e)" "snd x = ErrorPrompt" by (auto simp: find_Some_iff in_set_conv_nth)
    moreover have "distinct (map fst (en_pending e))" using assms(1) by (simp add: ok_def sound_def fresh_players_def)
    ultimately have "map_of (en_pending e) (fst x) = Some ErrorPrompt" by (metis map_of_is_SomeI prod.collapse)
    then show ?thesis using ph Apologising x assms(2)
      by (simp add: silence_def next_event_def prompt_done_def Let_def complete_def distance_def)
  qed
qed

lemma silence_ok: "ok e \<Longrightarrow> ok (silence e)"
  by (simp add: silence_def step_ok)

lemma silence_ends: "ok e \<Longrightarrow> leads_down rank e \<Longrightarrow> \<exists>k \<le> distance rank e. en_stopped ((silence ^^ k) e)"
proof (induction "distance rank e" arbitrary: e rule: less_induct)
  case less
  show ?case
  proof (cases "en_stopped e")
    case True
    then show ?thesis by (intro exI [of _ 0]) simp
  next
    case False
    have nearer: "distance rank (silence e) < distance rank e"
      using silence_nearer less.prems False by blast
    then obtain k where k: "k \<le> distance rank (silence e)" "en_stopped ((silence ^^ k) (silence e))"
      using less.hyps [OF nearer] silence_ok less.prems leads_down_silence by blast
    then show ?thesis using nearer by (intro exI [of _ "Suc k"]) (simp add: funpow_Suc_right del: funpow.simps)
  qed
qed


definition example_rank :: "string \<Rightarrow> nat" where
  "example_rank i = (if i = ''s'' then 2 else if i = ''p'' then 1 else 0)"


section \<open>A menu nobody answers\<close>

lemma play_out: "en_out (play w path e) = en_out e @ [PromptStarted (en_players e) path]"
  by (simp add: play_def Let_def say_def)

lemma clear_out: "en_player e = None \<Longrightarrow> clearPlayer e = e"
  by (simp add: clearPlayer_def)

text \<open>One round of silence at a menu: the prompt ends, the wait and the grace pass.\<close>

lemma silent_round:
  assumes "ok e" and "in_phase (Asking p n) e" and "\<not> en_stopped e" and "n_type n = ''ivr_menu''"
    and "noInputAction n = ''replay''" and "en_audio e (n_id n) = Some path"
  defines "e' \<equiv> silence (silence (silence e))"
  shows "en_replayCount e < 3 \<Longrightarrow> \<not> en_stopped e' \<and> in_phase (Asking (en_players e) n) e' \<and> en_replayCount e' = en_replayCount e + 1
      \<and> en_players e' = en_players e + 1 \<and> en_audio e' = en_audio e
      \<and> en_out e' = en_out e @ [NodeEntered (ref_of n), PromptStarted (en_players e) path]"
    and "en_replayCount e = 3 \<Longrightarrow> en_stopped e' \<and> en_out e' = en_out e @ [Completed ''hung_up'' no_transfer_data]"
proof -
  let ?ms = "menu_timeout_ms n (settled_prompt p e)"
  let ?e1 = "(settled_prompt p e)\<lparr>en_player := None, en_timer := Some (InputWait n ?ms)\<rparr>"
  have s1: "silence e = ?e1"
    using assms(2,3) by (simp add: silence_def next_event_def prompt_done_def Let_def)
  have s2: "silence ?e1 = ?e1\<lparr>en_timer := Some (Grace n)\<rparr>"
    using assms(3) by (simp add: silence_def next_event_def timer_fires_def onMenuTimeout_def)
  let ?e3 = "(settled_prompt p e)\<lparr>en_player := None, en_timer := None\<rparr>"
  have s3: "e' = executeTimeout n ?e3"
    by (simp add: e'_def s1 s2) (simp add: silence_def next_event_def timer_fires_def)
  let ?e4 = "(settled_prompt p e)\<lparr>en_player := None, en_timer := None, en_replayCount := Suc (en_replayCount e)\<rparr>"
  {
    assume few: "en_replayCount e < 3"
    have at: "at_node n e" using assms(2) by simp
    then have go: "navigateTo (n_id n) ?e4 = play (MenuPrompt n) path ((entered (n_id n) n ?e4)\<lparr>en_menu := Some n\<rparr>)"
      using assms(3,4,6) by (simp add: navigate_cases at_node_def node_of_def enterMenu_def)
    have e': "e' = play (MenuPrompt n) path ((entered (n_id n) n ?e4)\<lparr>en_menu := Some n\<rparr>)"
      using few assms(3,5) unfolding s3 executeTimeout_def by (simp add: Let_def go)
    have "map_of (en_pending e') (en_players e) = Some (MenuPrompt n)"
      using last_pending [of "settled_prompt p e" "MenuPrompt n"] settled_sound ok_sound [OF assms(1)]
      unfolding e' by (simp add: sound_def)
    then show "\<not> en_stopped e' \<and> in_phase (Asking (en_players e) n) e' \<and> en_replayCount e' = en_replayCount e + 1
      \<and> en_players e' = en_players e + 1 \<and> en_audio e' = en_audio e
      \<and> en_out e' = en_out e @ [NodeEntered (ref_of n), PromptStarted (en_players e) path]"
      using at assms(3) unfolding e'
      by (simp add: at_node_def node_of_def play_out) (simp add: entered_def Let_def say_def clear_out clearTimer_def)
  next
    assume "en_replayCount e = 3"
    then show "en_stopped e' \<and> en_out e' = en_out e @ [Completed ''hung_up'' no_transfer_data]"
      using assms(3,5) unfolding s3 executeTimeout_def
      by (simp add: Let_def complete_def) (simp add: say_def clear_out clearTimer_def removeDtmfListener_def)
  }
qed

lemma menu_entered:
  assumes "findNodeByType ''ivr_start'' e = Some s" and "find (\<lambda>d. ed_source d = n_id s) (en_edges e) = Some d"
    and "node_of e (ed_target d) = Some n" and "n_type n = ''ivr_menu''" and "en_audio e (n_id n) = Some path"
    and "ready e" and "en_handler e" and "en_player e = None" and "en_current e = None"
  shows "start e = (Inr (), snd (start e)) \<and> en_out (snd (start e)) = en_out e @ [NodeEntered (ref_of n), PromptStarted (en_players e) path]
    \<and> in_phase (Asking (en_players e) n) (snd (start e)) \<and> en_replayCount (snd (start e)) = 0
    \<and> en_players (snd (start e)) = en_players e + 1 \<and> \<not> en_stopped (snd (start e)) \<and> en_audio (snd (start e)) = en_audio e"
proof -
  let ?e1 = "e\<lparr>en_listening := True\<rparr>"
  have nid: "n_id n = ed_target d" using node_id [of e "ed_target d" n] assms(3,6) by (simp add: ready_def)
  have s: "start e = (Inr (), play (MenuPrompt n) path ((entered (ed_target d) n ?e1)\<lparr>en_menu := Some n\<rparr>))"
    using assms nid
    by (simp add: start_def and_then_def listen_def change_def navigate_cases node_of_def enterMenu_def ready_def)
  have "map_of (en_pending e @ [(en_players e, MenuPrompt n)]) (en_players e) = Some (MenuPrompt n)"
    using assms(6) by (intro last_pending) (simp add: ready_def sound_def)
  then show ?thesis
    using assms nid unfolding s
    by (simp add: at_node_def node_of_def play_out ready_def)
      (simp add: entered_def Let_def say_def clear_out clearTimer_def)
qed

text \<open>
  C34: A menu nobody answers plays exactly four times, then the caller is hung up. When the flow starts
  with a menu that replays, in a session without input the engine enters it four times, plays its
  prompt each time and nothing else, and then completes with \<open>hung_up\<close>.
\<close>

theorem silent_menu_plays_four_times:
  assumes "findNodeByType ''ivr_start'' (new_engine c ns es t err au) = Some s"
    and "find (\<lambda>d. ed_source d = n_id s) es = Some d"
    and "node_of (new_engine c ns es t err au) (ed_target d) = Some n" and "n_type n = ''ivr_menu''"
    and "au (n_id n) = Some path" and "noInputAction n = ''replay''"
  shows "en_out ((silence ^^ 12) (snd (start (new_engine c ns es t err au))))
    = concat (map (\<lambda>k. [NodeEntered (ref_of n), PromptStarted k path]) [0 ..< 4]) @ [Completed ''hung_up'' no_transfer_data]"
proof -
  let ?e = "new_engine c ns es t err au"
  define e0 where "e0 = snd (start ?e)"
  define e1 where "e1 = silence (silence (silence e0))"
  define e2 where "e2 = silence (silence (silence e1))"
  define e3 where "e3 = silence (silence (silence e2))"
  define e4 where "e4 = silence (silence (silence e3))"
  have i: "en_edges ?e = es" "en_audio ?e = au" "en_handler ?e" "en_player ?e = None" "en_current ?e = None"
      "en_players ?e = 0" "en_out ?e = []"
    by (simp_all add: new_engine_def)
  have m: "start ?e = (Inr (), e0)" "en_out e0 = [NodeEntered (ref_of n), PromptStarted 0 path]" "in_phase (Asking 0 n) e0"
      "en_replayCount e0 = 0" "en_players e0 = 1" "\<not> en_stopped e0" "en_audio e0 = au"
    using menu_entered [of ?e s d n path] assms i new_ready [of c ns es t err au] by (simp_all add: e0_def)
  have k0: "ok e0" by (rule start_ok [OF new_ready m(1)])
  have k1: "ok e1" and k2: "ok e2" and k3: "ok e3" using k0 by (simp_all add: e1_def e2_def e3_def silence_ok)
  have "en_audio e0 (n_id n) = Some path" using m(7) assms(5) by simp
  from silent_round(1) [OF k0 m(3,6) assms(4,6) this] m
  have r1: "\<not> en_stopped e1" "in_phase (Asking 1 n) e1" "en_replayCount e1 = 1" "en_players e1 = 2" "en_audio e1 = au"
      "en_out e1 = en_out e0 @ [NodeEntered (ref_of n), PromptStarted 1 path]"
    by (simp_all add: e1_def)
  have "en_audio e1 (n_id n) = Some path" using r1(5) assms(5) by simp
  from silent_round(1) [OF k1 r1(2,1) assms(4,6) this] r1
  have r2: "\<not> en_stopped e2" "in_phase (Asking 2 n) e2" "en_replayCount e2 = 2" "en_players e2 = 3" "en_audio e2 = au"
      "en_out e2 = en_out e1 @ [NodeEntered (ref_of n), PromptStarted 2 path]"
    by (simp_all add: e2_def)
  have "en_audio e2 (n_id n) = Some path" using r2(5) assms(5) by simp
  from silent_round(1) [OF k2 r2(2,1) assms(4,6) this] r2
  have r3: "\<not> en_stopped e3" "in_phase (Asking 3 n) e3" "en_replayCount e3 = 3" "en_audio e3 = au"
      "en_out e3 = en_out e2 @ [NodeEntered (ref_of n), PromptStarted 3 path]"
    by (simp_all add: e3_def)
  have "en_audio e3 (n_id n) = Some path" using r3(4) assms(5) by simp
  from silent_round(2) [OF k3 r3(2,1) assms(4,6) this r3(3)]
  have r4: "en_out e4 = en_out e3 @ [Completed ''hung_up'' no_transfer_data]" by (simp add: e4_def)
  have "(silence ^^ 12) e0 = e4"
    by (simp add: e4_def e3_def e2_def e1_def eval_nat_numeral)
  then show ?thesis
    using r4 r3(5) r2(6) r1(6) m(2) unfolding e0_def [symmetric] by (simp add: upt_rec)
qed

text \<open>A flow that starts with a menu.\<close>

definition menu_nodes :: "ivr_node list" where
  "menu_nodes = [plain_node ''s'' ''ivr_start'', (plain_node ''m'' ''ivr_menu'')\<lparr>n_dtmfMap := Some [(''1'', ''s''), (''2'', ''t'')]\<rparr>,
     plain_node ''t'' ''ivr_transfer'']"

definition menu_edges :: "ivr_edge list" where
  "menu_edges = [\<lparr> ed_source = ''s'', ed_handle = ''null'', ed_target = ''m'' \<rparr>,
     \<lparr> ed_source = ''m'', ed_handle = ''1'', ed_target = ''t'' \<rparr>, \<lparr> ed_source = ''m'', ed_handle = ''9'', ed_target = ''m'' \<rparr>]"

theorem silent_menu_plays_four_times_witness:
  "en_out ((silence ^^ 12) (snd (start (new_engine 4 menu_nodes menu_edges None None (\<lambda>i. Some i)))))
    = concat (map (\<lambda>k. [NodeEntered (ref_of (menu_nodes ! 1)), PromptStarted k ''m'']) [0 ..< 4]) @ [Completed ''hung_up'' no_transfer_data]"
  by (rule silent_menu_plays_four_times [where s = "menu_nodes ! 0" and d = "menu_edges ! 0"])
    (simp_all add: menu_nodes_def menu_edges_def plain_node_def findNodeByType_def new_engine_def indexNodes_def
      node_of_def noInputAction_def)

section \<open>Where a key leads\<close>

lemma entered_out:
  "en_out (entered i n e) = en_out e @ (case en_player e of None \<Rightarrow> [] | Some p \<Rightarrow> [PromptStopped p]) @ [NodeEntered (ref_of n)]"
  by (simp add: entered_def Let_def say_def clearTimer_def clearPlayer_def split: option.split)

lemma ending_grows: "\<exists>xs. en_out (complete a b x) = en_out x @ xs" "\<exists>xs. en_out (playErrorAndHangup x) = en_out x @ xs"
  by (auto simp: playErrorAndHangup_def complete_def Let_def play_out say_def clearPlayer_def clearTimer_def removeDtmfListener_def
      split: option.split)

lemma entering_grows: "\<exists>xs. en_out (enterMenu m x) = en_out x @ xs" "\<exists>xs. en_out (enterPlay m x) = en_out x @ xs"
  using ending_grows(2) by (auto simp: enterMenu_def enterPlay_def play_out split: option.split)

lemma navigate_grows:
  "node_of e i = Some m \<Longrightarrow> \<not> en_stopped e \<Longrightarrow> \<exists>xs. en_out (navigateTo i e) = en_out (entered i m e) @ xs"
  by (auto simp: navigate_cases ending_grows entering_grows)

lemma same_node [simp]:
  "en_current (complete a b x) = en_current x" "en_current (playErrorAndHangup x) = en_current x"
  "en_current (enterMenu m x) = en_current x" "en_current (enterPlay m x) = en_current x"
  by (simp_all add: playErrorAndHangup_def complete_def enterMenu_def enterPlay_def Let_def split: option.split)

text \<open>
  Where a key leads. While a menu asks or waits, a key with an edge goes along the edge, whatever the
  node's own legacy map says: the input is recorded, a prompt still playing is cut, the timer is
  cancelled, and the node at the end of the edge is entered; a key with neither an edge nor a mapped
  node changes nothing at all but is reported as invalid.
\<close>

theorem key_follows_edge:
  assumes "in_phase (Asking p n) e \<or> in_phase (Waiting t) e \<and> n = timer_node t" and "en_listening e" and "\<not> en_stopped e"
  shows "(find (\<lambda>d. ed_source d = n_id n \<and> ed_handle d = k) (en_edges e) = Some d \<and> node_of e (ed_target d) = Some m \<and> ed_target d \<noteq> []
      \<longrightarrow> en_current (dtmfHandler (en_callId e) k e) = Some (ed_target d)
        \<and> (\<exists>xs. en_out (dtmfHandler (en_callId e) k e) = en_out e @
            [DtmfReceived k (ref_of n), RouteSelected k ''edge'' ''matched'' (ref_of n) (Some (ed_target d)) (Some (ref_of m)),
             InputRecorded k (n_id n)] @ (case en_player e of None \<Rightarrow> [] | Some q \<Rightarrow> [PromptStopped q]) @ NodeEntered (ref_of m) # xs))
    \<and> (digit_route n k e = None \<longrightarrow> dtmfHandler (en_callId e) k e = e\<lparr>en_out := en_out e @
            [DtmfReceived k (ref_of n), RouteSelected k ''none'' ''invalid'' (ref_of n) None None]\<rparr>)"
proof -
  have n: "en_menu e = Some n" using assms(1) by auto
  have none: "digit_route n k e = None \<Longrightarrow> dtmfHandler (en_callId e) k e = e\<lparr>en_out := en_out e @
            [DtmfReceived k (ref_of n), RouteSelected k ''none'' ''invalid'' (ref_of n) None None]\<rparr>"
    using n assms(2,3) by (simp add: dtmfHandler_def onDtmf_def Let_def route_say) (simp add: say_def)
  have edge: "find (\<lambda>d. ed_source d = n_id n \<and> ed_handle d = k) (en_edges e) = Some d \<and> node_of e (ed_target d) = Some m \<and> ed_target d \<noteq> []
      \<Longrightarrow> en_current (dtmfHandler (en_callId e) k e) = Some (ed_target d)
        \<and> (\<exists>xs. en_out (dtmfHandler (en_callId e) k e) = en_out e @
            [DtmfReceived k (ref_of n), RouteSelected k ''edge'' ''matched'' (ref_of n) (Some (ed_target d)) (Some (ref_of m)),
             InputRecorded k (n_id n)] @ (case en_player e of None \<Rightarrow> [] | Some q \<Rightarrow> [PromptStopped q]) @ NodeEntered (ref_of m) # xs)"
  proof -
  assume "find (\<lambda>d. ed_source d = n_id n \<and> ed_handle d = k) (en_edges e) = Some d \<and> node_of e (ed_target d) = Some m \<and> ed_target d \<noteq> []"
  then have d: "find (\<lambda>d. ed_source d = n_id n \<and> ed_handle d = k) (en_edges e) = Some d" "node_of e (ed_target d) = Some m" "ed_target d \<noteq> []"
    by simp_all
  let ?e1 = "say (InputRecorded k (n_id n)) (say (RouteSelected k ''edge'' ''matched'' (ref_of n) (Some (ed_target d)) (Some (ref_of m)))
      (say (DtmfReceived k (ref_of n)) e))"
  have go: "dtmfHandler (en_callId e) k e = navigateTo (ed_target d) ?e1"
    using n assms(2,3) d by (simp add: dtmfHandler_def onDtmf_def Let_def route_say) (simp add: digit_route_def)
  obtain xs where "en_out (navigateTo (ed_target d) ?e1) = en_out (entered (ed_target d) m ?e1) @ xs"
    using navigate_grows [of ?e1 "ed_target d" m] d(2) assms(3) by auto
  moreover have "en_current (navigateTo (ed_target d) ?e1) = Some (ed_target d)"
    using d(2) assms(3) by (simp add: navigate_cases same_node)
  ultimately show "en_current (dtmfHandler (en_callId e) k e) = Some (ed_target d)
        \<and> (\<exists>xs. en_out (dtmfHandler (en_callId e) k e) = en_out e @
            [DtmfReceived k (ref_of n), RouteSelected k ''edge'' ''matched'' (ref_of n) (Some (ed_target d)) (Some (ref_of m)),
             InputRecorded k (n_id n)] @ (case en_player e of None \<Rightarrow> [] | Some q \<Rightarrow> [PromptStopped q]) @ NodeEntered (ref_of m) # xs)"
    unfolding go by (simp add: entered_out) (simp add: say_def)
  qed
  show ?thesis using none edge by blast
qed

definition asking_menu :: engine where
  "asking_menu = snd (start (new_engine 4 menu_nodes menu_edges None None (\<lambda>i. Some i)))"

lemma asking_started: "start (new_engine 4 menu_nodes menu_edges None None (\<lambda>i. Some i)) = (Inr (), asking_menu)"
  by (simp add: asking_menu_def menu_nodes_def menu_edges_def plain_node_def start_def findNodeByType_def new_engine_def
      indexNodes_def act_defs listen_def)

theorem key_follows_edge_witness:
  "en_current (dtmfHandler 4 ''1'' asking_menu) = Some ''t'' \<and> length (en_out (dtmfHandler 4 ''5'' asking_menu)) = 4"
proof -
  have a: "asking_menu = (new_engine 4 menu_nodes menu_edges None None (\<lambda>i. Some i))
      \<lparr>en_listening := True, en_current := Some ''m'', en_menu := Some (menu_nodes ! 1), en_player := Some 0, en_players := 1,
       en_pending := [(0, MenuPrompt (menu_nodes ! 1))], en_out := [NodeEntered (ref_of (menu_nodes ! 1)), PromptStarted 0 ''m'']\<rparr>"
    by (simp add: asking_menu_def menu_nodes_def menu_edges_def plain_node_def start_def findNodeByType_def new_engine_def
        indexNodes_def act_defs listen_def navigateTo_def node_of_def enterMenu_def play_def say_def clearPlayer_def clearTimer_def Let_def)
  have p: "in_phase (Asking 0 (menu_nodes ! 1)) asking_menu" "en_listening asking_menu" "\<not> en_stopped asking_menu"
    by (simp_all add: a at_node_def node_of_def) (simp_all add: new_engine_def menu_nodes_def plain_node_def indexNodes_def)
  have one: "find (\<lambda>d. ed_source d = n_id (menu_nodes ! 1) \<and> ed_handle d = ''1'') (en_edges asking_menu) = Some (menu_edges ! 1)
      \<and> node_of asking_menu (ed_target (menu_edges ! 1)) = Some (menu_nodes ! 2) \<and> ed_target (menu_edges ! 1) \<noteq> []"
    by (simp add: a) (simp add: node_of_def new_engine_def menu_nodes_def menu_edges_def plain_node_def indexNodes_def)
  have five: "digit_route (menu_nodes ! 1) ''5'' asking_menu = None"
    by (simp add: a digit_route_def) (simp add: legacy_route_def new_engine_def menu_nodes_def menu_edges_def plain_node_def)
  note key = key_follows_edge [OF disjI1 [OF p(1)] p(2,3)]
  have id: "en_callId asking_menu = 4" "en_out asking_menu = [NodeEntered (ref_of (menu_nodes ! 1)), PromptStarted 0 ''m'']"
    by (simp_all add: a) (simp add: new_engine_def)
  have "en_current (dtmfHandler 4 ''1'' asking_menu) = Some (ed_target (menu_edges ! 1))"
    using mp [OF conjunct1 [OF key] one] by (simp add: id)
  moreover have "dtmfHandler 4 ''5'' asking_menu = asking_menu\<lparr>en_out := en_out asking_menu @
      [DtmfReceived ''5'' (ref_of (menu_nodes ! 1)), RouteSelected ''5'' ''none'' ''invalid'' (ref_of (menu_nodes ! 1)) None None]\<rparr>"
    using mp [OF conjunct2 [OF key] five] by (simp add: id)
  ultimately show ?thesis by (simp add: id menu_edges_def)
qed

section \<open>Two ways a session goes silent\<close>

lemma step_graph: "en_nodes (engine_step ev e) = en_nodes e \<and> en_edges (engine_step ev e) = en_edges e"
  by (cases ev)
    (simp_all add: dtmfHandler_def onDtmf_def timer_fires_def onMenuTimeout_def executeTimeout_def prompt_done_def prompt_failed_def
      stop_engine_def Let_def split: option.split timer.split playback.split)

lemma run_graph: "en_nodes (engine_run evs e) = en_nodes e \<and> en_edges (engine_run evs e) = en_edges e"
  by (induction evs arbitrary: e) (simp_all add: step_graph)

lemma start_graph: "en_nodes (snd (start e)) = en_nodes e \<and> en_edges (snd (start e)) = en_edges e"
  by (auto simp: start_def and_then_def listen_def change_def split: option.split)

definition inert :: "engine \<Rightarrow> bool" where
  "inert e \<longleftrightarrow> \<not> en_listening e \<and> en_player e = None \<and> en_timer e = None \<and> en_pending e = []"

lemma inert_step: "inert e \<Longrightarrow> inert (engine_step ev e) \<and> en_out (engine_step ev e) = en_out e"
  by (cases ev)
    (simp_all add: inert_def dtmfHandler_def prompt_done_def prompt_failed_def timer_fires_def stop_engine_def clear_out
      clearTimer_def removeDtmfListener_def)

lemma inert_run: "inert e \<Longrightarrow> inert (engine_run evs e) \<and> en_out (engine_run evs e) = en_out e"
  by (induction evs arbitrary: e) (simp_all add: inert_step)

text \<open>
  C35: A completed session cannot be replayed. When the flow completed (a transfer to an unavailable
  target whose node says replay) and its prompts have ended, \<open>restart\<close> throws, because completing
  dropped the key listener that \<open>start\<close> registers again; what it leaves is a session that is not
  stopped, plays nothing, and answers nothing that happens to it afterwards, so the caller hears silence.
\<close>

theorem replay_after_completion_throws:
  assumes "start (new_engine c ns es t err au) = (Inr (), e)" and "completions (engine_run evs e) = 1"
    and "en_pending (engine_run evs e) = []"
    and "findNodeByType ''ivr_start'' e = Some s" and "find (\<lambda>d. ed_source d = n_id s) (en_edges e) = Some d"
  shows "\<exists>e'. restart (engine_run evs e) = (Inl ListenerNotAFunction, e') \<and> \<not> en_stopped e'
    \<and> en_out (engine_run later e') = en_out (engine_run evs e)"
proof -
  let ?e = "engine_run evs e"
  let ?e' = "?e\<lparr>en_stopped := False, en_current := None, en_replayCount := 0\<rparr>"
  have "ok ?e" using start_ok [OF new_ready assms(1)] by (rule run_ok)
  then have fin: "en_stopped ?e" "\<not> en_handler ?e" "en_player ?e = None" "en_timer ?e = None" "\<not> en_listening ?e"
    using assms(2) by (auto simp: ok_def sound_def split: if_splits)
  have "restart ?e = (Inl ListenerNotAFunction, ?e')"
    using assms(4,5) fin(2) run_graph [of evs e]
    by (simp add: restart_def start_def findNodeByType_def listen_def and_then_def change_def)
  moreover have "inert ?e'" using fin assms(3) by (simp add: inert_def)
  then have "en_out (engine_run later ?e') = en_out ?e'" using inert_run by blast
  ultimately show ?thesis by simp
qed

theorem replay_after_completion_throws_witness:
  "\<exists>e'. restart (engine_run [Digit 4 ''1'', PromptDone 0] asking_menu) = (Inl ListenerNotAFunction, e') \<and> \<not> en_stopped e'
    \<and> en_out (engine_run [Digit 4 ''1'', TimerFires, PromptDone 1] e') = en_out (engine_run [Digit 4 ''1'', PromptDone 0] asking_menu)"
proof (rule replay_after_completion_throws [where c = 4 and ns = menu_nodes and es = menu_edges and t = None and err = None
      and au = "\<lambda>i. Some i" and s = "menu_nodes ! 0" and d = "menu_edges ! 0"])
  show "start (new_engine 4 menu_nodes menu_edges None None (\<lambda>i. Some i)) = (Inr (), asking_menu)"
    by (rule asking_started)
qed (simp_all add: asking_menu_def menu_nodes_def menu_edges_def plain_node_def start_def findNodeByType_def new_engine_def
        indexNodes_def act_defs listen_def navigateTo_def node_of_def enterMenu_def play_def say_def clearPlayer_def clearTimer_def
        Let_def dtmfHandler_def onDtmf_def digit_route_def complete_def removeDtmfListener_def completions_def
        prompt_done_def settled_prompt_def)

text \<open>
  A prompt that fails late ends the flow. When the caller has left a menu by a key and the prompt
  they left fails afterwards, the menu they have reached is cut: unlike the end of a prompt, its
  failure is not checked against the prompt being played, so the error prompt plays or the caller is
  hung up at once, and no key is listened to any more.
\<close>

theorem late_failure_cuts_next_menu:
  assumes "in_phase (Asking q n) e" and "\<not> en_stopped e" and "p \<noteq> q" and "map_of (en_pending e) p = Some (MenuPrompt m)" and "sound e"
  shows "\<not> en_listening (prompt_failed p e) \<and> en_menu (prompt_failed p e) = Some n
    \<and> en_out (prompt_failed p e) = en_out e @ [PromptStopped q] @
        (case en_errorAudio e of None \<Rightarrow> [Completed ''hung_up'' no_transfer_data] | Some path \<Rightarrow> [PromptStarted (en_players e) path])"
proof -
  have l: "en_listening e \<longrightarrow> en_handler e" using assms(5) by (simp add: sound_def)
  have "prompt_failed p e = playErrorAndHangup (settled_prompt p e)"
    using assms(2,4) by (simp add: prompt_failed_def)
  then show ?thesis
    using assms(1,2) l
    by (cases "en_errorAudio e")
      (simp_all add: playErrorAndHangup_def Let_def complete_def play_out, simp_all add: say_def clearPlayer_def clearTimer_def removeDtmfListener_def)
qed

theorem late_failure_cuts_next_menu_witness:
  "en_menu (prompt_failed 0 (dtmfHandler 4 ''9'' asking_menu)) = Some (menu_nodes ! 1)
    \<and> \<not> en_listening (prompt_failed 0 (dtmfHandler 4 ''9'' asking_menu))"
proof -
  let ?e = "dtmfHandler 4 ''9'' asking_menu"
  have "ok ?e" by (rule dtmf_ok) (rule start_ok [OF new_ready asking_started])
  then have s: "sound ?e" by (simp add: ok_def)
  have e: "in_phase (Asking 1 (menu_nodes ! 1)) ?e" "\<not> en_stopped ?e" "map_of (en_pending ?e) 0 = Some (MenuPrompt (menu_nodes ! 1))"
    by (simp_all add: asking_menu_def menu_nodes_def menu_edges_def plain_node_def start_def findNodeByType_def new_engine_def
        indexNodes_def act_defs listen_def navigateTo_def node_of_def enterMenu_def play_def say_def clearPlayer_def clearTimer_def
        Let_def dtmfHandler_def onDtmf_def digit_route_def at_node_def)
  show ?thesis using late_failure_cuts_next_menu [OF e(1,2) _ e(3) s] by simp
qed

end
