(* ===== verification/Rooms.thy ===== *)
theory Rooms
  imports Effects "HOL-Library.AList"
begin

text \<open>
  The media rooms (\<open>src/src/media/rooms/RoomMedia.js\<close>): each call is a conference on the media server whose
  participants are legs, and who hears whom is a set of commands to that conference. The media servers
  (FreeSWITCH and rtpengine, behind their client libraries) are outside the repository: the \<open>n\<close>-th call out to
  them gets the \<open>n\<close>-th reply of \<open>rr_env\<close>, which may be a failure, and what was asked of them is recorded in
  order. A command that failed may still have been carried out (\<open>rp_done\<close>). Every operation on a call runs
  alone (\<open>_serial\<close>), so an operation is one action on the room.
\<close>

section \<open>Legs and rooms\<close>

text \<open>rtpengine's key of a leg: \<open>callio.<boot id>.<call id>.<kind><number>\<close>.\<close>

type_synonym rtp_key = "string \<times> nat \<times> string \<times> nat"

record leg =
  lg_kind :: string
  lg_uuid :: string
  lg_dialog :: string
  lg_rtpKey :: rtp_key
  lg_transport :: string
  lg_member :: "nat option"
  lg_answered :: bool
  lg_listening :: bool
  lg_lastDigit :: "(char \<times> int) option"
  lg_agentId :: "nat option"
  lg_adopted :: bool

record recording_file =
  rf_id :: nat
  rf_file :: string
  rf_uuid :: string
  rf_tenantId :: nat
  rf_startedAt :: int

text \<open>A \<open>Map\<close> is its list of entries, in the order they were inserted.\<close>

record room =
  rm_callId :: nat
  rm_name :: "string \<times> nat"
  rm_customer :: "leg option"
  rm_pendingAgent :: "leg option"
  rm_agents :: "(nat \<times> leg) list"
  rm_supervisors :: "(nat \<times> leg) list"
  rm_pendingSupervisors :: "(nat \<times> leg) list"
  rm_mode :: string
  rm_agentPrivate :: bool
  rm_bridged :: bool
  rm_toneOn :: bool
  rm_holdOn :: bool
  rm_recording :: "recording_file option"
  rm_monitored :: "rtp_key option"
  rm_legSeq :: nat

definition new_room :: "string \<Rightarrow> nat \<Rightarrow> room" where
  "new_room boot callId = \<lparr> rm_callId = callId, rm_name = (boot, callId), rm_customer = None, rm_pendingAgent = None,
     rm_agents = [], rm_supervisors = [], rm_pendingSupervisors = [], rm_mode = ''listen'', rm_agentPrivate = False,
     rm_bridged = False, rm_toneOn = False, rm_holdOn = False, rm_recording = None, rm_monitored = None, rm_legSeq = 0 \<rparr>"

section \<open>Calls out\<close>

datatype room_cmd =
    RtpRemoteOffer rtp_key string
  | RtpEndpointAnswer rtp_key string string
  | RtpEndpointOffer rtp_key string string
  | RtpRemoteAnswer rtp_key string
  | RtpQueried rtp_key
  | RtpDeleted rtp_key
  | EndpointMade string "string option" bool
  | EndpointModified string string
  | EndpointGone string
  | DtmfStarted string
  | SocketPinned string
  | Joined nat bool
  | Muted nat
  | Unmuted nat
  | Related nat nat bool
  | Played string nat
  | StoppedAll nat
  | Prompted string string
  | PlayBroken string
  | RecordingStarted string
  | RecordingStopped recording_file
  | QueueAudioStopped
  | DigitHeard char

record reply =
  rp_fail :: "string option"
  rp_done :: bool
  rp_text :: string
  rp_uuid :: string
  rp_dialog :: string
  rp_member :: nat
  rp_packets :: nat
  rp_recording :: "recording_file option"

record room_run =
  rr_boot :: string
  rr_room :: room
  rr_step :: nat
  rr_env :: "nat \<Rightarrow> reply"
  rr_cmds :: "room_cmd list"

type_synonym 'a room_task = "(room_run, string, 'a) act"

definition took :: "room_cmd list \<Rightarrow> room_run \<Rightarrow> room_run" where
  "took cs s = s\<lparr>rr_step := Suc (rr_step s), rr_cmds := rr_cmds s @ cs\<rparr>"

definition ask :: "(reply \<Rightarrow> room_cmd list) \<Rightarrow> reply room_task" where
  "ask cs s = (let r = rr_env s (rr_step s) in
     case rp_fail r of
       None \<Rightarrow> (Inr r, took (cs r) s)
     | Some e \<Rightarrow> (Inl e, took (if rp_done r then cs r else []) s))"

text \<open>\<open>.catch(() => {})\<close>.\<close>

definition quietly :: "(reply \<Rightarrow> room_cmd list) \<Rightarrow> unit room_task" where
  "quietly cs = logged_failure (and_then (ask cs) (\<lambda>_. ret ()))"

text \<open>A conference command: the server may refuse it (\<open>-ERR\<close>), which is only logged.\<close>

definition conf :: "room_cmd \<Rightarrow> unit room_task" where
  "conf c s = (let r = rr_env s (rr_step s) in
     (case rp_fail r of None \<Rightarrow> Inr () | Some e \<Rightarrow> Inl e, took (if rp_done r then [c] else []) s))"

definition room_note :: "room_cmd \<Rightarrow> unit room_task" where
  "room_note c = change (\<lambda>s. s\<lparr>rr_cmds := rr_cmds s @ [c]\<rparr>)"

definition on_room :: "(room \<Rightarrow> room) \<Rightarrow> unit room_task" where
  "on_room f = change (\<lambda>s. s\<lparr>rr_room := f (rr_room s)\<rparr>)"

definition room_of :: "(room \<Rightarrow> 'a) \<Rightarrow> 'a room_task" where
  "room_of f = read (\<lambda>s. f (rr_room s))"

section \<open>Making and ending legs\<close>

definition next_key :: "string \<Rightarrow> rtp_key room_task" where
  "next_key kind = statement (\<lambda>s. let n = Suc (rm_legSeq (rr_room s)) in
     (s\<lparr>rr_room := (rr_room s)\<lparr>rm_legSeq := n\<rparr>\<rparr>, (rr_boot s, rm_callId (rr_room s), kind, n)))"

definition fresh_leg :: "string \<Rightarrow> reply \<Rightarrow> rtp_key \<Rightarrow> string \<Rightarrow> bool \<Rightarrow> leg" where
  "fresh_leg kind ep key transport answered = \<lparr> lg_kind = kind, lg_uuid = rp_uuid ep, lg_dialog = rp_dialog ep, lg_rtpKey = key,
     lg_transport = transport, lg_member = None, lg_answered = answered, lg_listening = False, lg_lastDigit = None,
     lg_agentId = None, lg_adopted = False \<rparr>"

text \<open>The external side offered.\<close>

definition leg_from_offer :: "string \<Rightarrow> string \<Rightarrow> string \<Rightarrow> (leg \<times> string) room_task" where
  "leg_from_offer kind sdp transport =
     and_then (next_key kind) (\<lambda>key.
     catching
       (and_then (ask (\<lambda>_. [RtpRemoteOffer key sdp])) (\<lambda>fsOffer.
        and_then (ask (\<lambda>r. [EndpointMade (rp_uuid r) (Some (rp_text fsOffer)) False])) (\<lambda>ep.
        and_then (ask (\<lambda>_. [RtpEndpointAnswer key (rp_text ep) transport])) (\<lambda>answer.
        ret (fresh_leg kind ep key transport True, rp_text answer)))))
       (\<lambda>err. and_then (quietly (\<lambda>_. [RtpDeleted key])) (\<lambda>_. raise err)))"

text \<open>We offer; a plain-RTP leg is offered G.711 only.\<close>

definition leg_offer :: "string \<Rightarrow> string \<Rightarrow> (leg \<times> string) room_task" where
  "leg_offer kind transport =
     and_then (next_key kind) (\<lambda>key.
     catching
       (and_then (ask (\<lambda>r. [EndpointMade (rp_uuid r) None (transport = ''rtp'')])) (\<lambda>ep.
        and_then (ask (\<lambda>_. [RtpEndpointOffer key (rp_text ep) transport])) (\<lambda>offer.
        ret (fresh_leg kind ep key transport False, rp_text offer))))
       (\<lambda>err. and_then (quietly (\<lambda>_. [RtpDeleted key])) (\<lambda>_. raise err)))"

definition apply_answer :: "leg \<Rightarrow> string \<Rightarrow> leg room_task" where
  "apply_answer l sdp =
     and_then (ask (\<lambda>_. [RtpRemoteAnswer (lg_rtpKey l) sdp])) (\<lambda>fsAnswer.
     and_then (ask (\<lambda>_. [EndpointModified (lg_uuid l) (rp_text fsAnswer)])) (\<lambda>_.
     ret (l\<lparr>lg_answered := True\<rparr>)))"

fun destroy_leg :: "leg option \<Rightarrow> unit room_task" where
  "destroy_leg None = ret ()"
| "destroy_leg (Some l) =
     and_then (quietly (\<lambda>_. [EndpointGone (lg_uuid l)])) (\<lambda>_. quietly (\<lambda>_. [RtpDeleted (lg_rtpKey l)]))"

text \<open>
  Into the conference, once. An adopted leg's \<open>join\<close> (\<open>RemoteEndpoint\<close>) takes no flags.
\<close>

definition join_leg :: "leg \<Rightarrow> bool \<Rightarrow> leg room_task" where
  "join_leg l mute =
     (if lg_member l \<noteq> None then ret l
      else
        and_then (ask (\<lambda>r. [Joined (rp_member r) (mute \<and> \<not> lg_adopted l)])) (\<lambda>r.
        and_then (quietly (\<lambda>_. [SocketPinned (lg_uuid l)])) (\<lambda>_.
        ret (l\<lparr>lg_member := Some (rp_member r)\<rparr>))))"

definition join_customer :: "unit room_task" where
  "join_customer =
     and_then (room_of rm_customer) (\<lambda>c.
     case c of
       None \<Rightarrow> ret ()
     | Some l \<Rightarrow> and_then (join_leg l False) (\<lambda>l'. on_room (\<lambda>r. r\<lparr>rm_customer := Some l'\<rparr>)))"

definition join_agent :: "nat \<times> leg \<Rightarrow> unit room_task" where
  "join_agent a = and_then (join_leg (snd a) False) (\<lambda>l. on_room (\<lambda>r. r\<lparr>rm_agents := AList.update (fst a) l (rm_agents r)\<rparr>))"

definition arm_customer :: "leg \<Rightarrow> unit room_task" where
  "arm_customer l =
     and_then (on_room (\<lambda>r. r\<lparr>rm_customer := Some (l\<lparr>lg_listening := False, lg_lastDigit := None\<rparr>)\<rparr>)) (\<lambda>_.
     quietly (\<lambda>_. [DtmfStarted (lg_uuid l)]))"

definition watch_customer :: "unit room_task" where
  "watch_customer = on_room (\<lambda>r. if rm_monitored r \<noteq> None then r else r\<lparr>rm_monitored := map_option lg_rtpKey (rm_customer r)\<rparr>)"

section \<open>Who hears whom\<close>

definition customer_member :: "room \<Rightarrow> nat option" where
  "customer_member r = Option.bind (rm_customer r) lg_member"

definition supervisor_rule :: "string \<Rightarrow> nat option \<Rightarrow> leg \<Rightarrow> unit room_task" where
  "supervisor_rule mode cust l =
     (case lg_member l of
        None \<Rightarrow> ret ()
      | Some m \<Rightarrow>
          and_then (conf (if mode = ''listen'' then Muted m else Unmuted m)) (\<lambda>_.
          case cust of None \<Rightarrow> ret () | Some c \<Rightarrow> conf (Related m c (mode = ''whisper''))))"

definition agent_rule :: "bool \<Rightarrow> nat \<Rightarrow> leg \<Rightarrow> unit room_task" where
  "agent_rule private c l = (case lg_member l of None \<Rightarrow> ret () | Some m \<Rightarrow> conf (Related m c private))"

definition rules :: "unit room_task" where
  "rules =
     and_then (room_of id) (\<lambda>r.
     and_then (for_each (\<lambda>e. supervisor_rule (rm_mode r) (customer_member r) (snd e)) (rm_supervisors r)) (\<lambda>_.
     case customer_member r of
       None \<Rightarrow> ret ()
     | Some c \<Rightarrow> for_each (\<lambda>e. agent_rule (rm_agentPrivate r) c (snd e)) (rm_agents r)))"

definition RECONNECT_TONE :: string where
  "RECONNECT_TONE = ''tone_stream://%(200,0,600);%(200,0,750);%(200,0,900);%(1200,0,0)''"

definition tone :: "bool \<Rightarrow> unit room_task" where
  "tone on =
     and_then (room_of id) (\<lambda>r.
     case customer_member r of
       None \<Rightarrow> ret ()
     | Some c \<Rightarrow>
         if rm_toneOn r = on then ret ()
         else and_then (on_room (\<lambda>r. r\<lparr>rm_toneOn := on\<rparr>)) (\<lambda>_.
           conf (if on then Played RECONNECT_TONE c else StoppedAll c)))"

definition hold :: "bool \<Rightarrow> string \<Rightarrow> unit room_task" where
  "hold on url =
     and_then (room_of id) (\<lambda>r.
     case customer_member r of
       None \<Rightarrow> ret ()
     | Some c \<Rightarrow>
         if rm_holdOn r = on then ret ()
         else and_then (on_room (\<lambda>r. r\<lparr>rm_holdOn := on\<rparr>)) (\<lambda>_.
           conf (if on then Played url c else StoppedAll c)))"

fun break_audio :: "leg option \<Rightarrow> unit room_task" where
  "break_audio None = ret ()"
| "break_audio (Some l) = quietly (\<lambda>_. [PlayBroken (lg_uuid l)])"

section \<open>The customer's leg\<close>

text \<open>The channel's \<open>sdpProfile\<close>: how the customer is carried and the provider's SDP rewrites.\<close>

record sdp_profile =
  pf_transport :: "string option"
  pf_remoteOffer :: "string \<Rightarrow> string"
  pf_localOffer :: "string \<Rightarrow> string"
  pf_remoteAnswer :: "string \<Rightarrow> string"

definition transport_of :: "sdp_profile \<Rightarrow> string" where
  "transport_of p = (case pf_transport p of None \<Rightarrow> ''webrtc'' | Some t \<Rightarrow> t)"

definition room_answerCustomer :: "string \<Rightarrow> sdp_profile \<Rightarrow> string room_task" where
  "room_answerCustomer sdpOffer profile =
     and_then (room_of rm_customer) (\<lambda>old.
     and_then (destroy_leg old) (\<lambda>_.
     and_then (leg_from_offer ''customer'' (pf_remoteOffer profile sdpOffer) (transport_of profile)) (\<lambda>(l, answer).
     and_then (arm_customer l) (\<lambda>_.
     and_then watch_customer (\<lambda>_.
     ret answer)))))"

definition room_offerCustomer :: "sdp_profile \<Rightarrow> string room_task" where
  "room_offerCustomer profile =
     and_then (room_of rm_customer) (\<lambda>old.
     and_then (destroy_leg old) (\<lambda>_.
     and_then (leg_offer ''customer'' (transport_of profile)) (\<lambda>(l, offer).
     and_then (arm_customer l) (\<lambda>_.
     ret (pf_localOffer profile offer)))))"

definition room_customerAnswered :: "string \<Rightarrow> sdp_profile \<Rightarrow> unit room_task" where
  "room_customerAnswered sdpAnswer profile =
     and_then (room_of rm_customer) (\<lambda>c.
     case c of
       None \<Rightarrow> raise ''No customer leg offered on this worker''
     | Some l \<Rightarrow>
         and_then (apply_answer l (pf_remoteAnswer profile sdpAnswer)) (\<lambda>l'.
         and_then (on_room (\<lambda>r. r\<lparr>rm_customer := Some l'\<rparr>)) (\<lambda>_.
         watch_customer)))"

definition DIGIT_DEBOUNCE_MS :: int where
  "DIGIT_DEBOUNCE_MS = 600"

text \<open>A long key press is reported more than once.\<close>

definition dtmf_heard :: "char \<Rightarrow> int \<Rightarrow> unit room_task" where
  "dtmf_heard digit now =
     and_then (room_of rm_customer) (\<lambda>c.
     case c of
       None \<Rightarrow> ret ()
     | Some l \<Rightarrow>
         if \<not> lg_listening l then ret ()
         else if (case lg_lastDigit l of None \<Rightarrow> False | Some (d, at) \<Rightarrow> d = digit \<and> now - at < DIGIT_DEBOUNCE_MS) then ret ()
         else
           and_then (on_room (\<lambda>r. r\<lparr>rm_customer := Some (l\<lparr>lg_lastDigit := Some (digit, now)\<rparr>)\<rparr>)) (\<lambda>_.
           room_note (DigitHeard digit)))"

definition listenForDigits :: "bool \<Rightarrow> unit room_task" where
  "listenForDigits on = on_room (\<lambda>r. r\<lparr>rm_customer := map_option (\<lambda>l. l\<lparr>lg_listening := on\<rparr>) (rm_customer r)\<rparr>)"

section \<open>Agents' legs\<close>

definition room_offerAgent :: "string room_task" where
  "room_offerAgent =
     and_then (room_of rm_pendingAgent) (\<lambda>old.
     and_then (destroy_leg old) (\<lambda>_.
     and_then (on_room (\<lambda>r. r\<lparr>rm_pendingAgent := None\<rparr>)) (\<lambda>_.
     and_then (leg_offer ''agent'' ''webrtc'') (\<lambda>(l, offer).
     and_then (on_room (\<lambda>r. r\<lparr>rm_pendingAgent := Some l\<rparr>)) (\<lambda>_.
     ret offer)))))"

definition AGENT_AUDIO_TIMEOUT_MS :: nat where
  "AGENT_AUDIO_TIMEOUT_MS = 5000"

text \<open>
  The agent's packets are awaited, a query every 100 ms until one is past the deadline: \<open>left\<close> more after
  this one. A query that fails counts as no packets.
\<close>

definition packets_of :: "rtp_key \<Rightarrow> nat room_task" where
  "packets_of key = catching (and_then (ask (\<lambda>_. [RtpQueried key])) (\<lambda>r. ret (rp_packets r))) (\<lambda>_. ret 0)"

fun await_audio :: "nat \<Rightarrow> rtp_key \<Rightarrow> unit room_task" where
  "await_audio left key =
     and_then (packets_of key) (\<lambda>packets.
     if 0 < packets then ret ()
     else case left of
       0 \<Rightarrow> raise ''Microphone audio did not reach the server within 5s''
     | Suc n \<Rightarrow> await_audio n key)"

definition audio_polls :: nat where
  "audio_polls = Suc (AGENT_AUDIO_TIMEOUT_MS div 100)"

definition room_agentAccepted :: "nat \<Rightarrow> string \<Rightarrow> unit room_task" where
  "room_agentAccepted agentId sdpAnswer =
     and_then (room_of rm_pendingAgent) (\<lambda>pending.
     case pending of
       None \<Rightarrow> raise ''No agent leg offered on this worker''
     | Some l \<Rightarrow>
         and_then (on_room (\<lambda>r. r\<lparr>rm_pendingAgent := None\<rparr>)) (\<lambda>_.
         and_then
           (catching
             (and_then (apply_answer l sdpAnswer) (\<lambda>l'. and_then (await_audio audio_polls (lg_rtpKey l')) (\<lambda>_. ret l')))
             (\<lambda>err. and_then (destroy_leg (Some l)) (\<lambda>_. raise err))) (\<lambda>l'.
         and_then (room_of (\<lambda>r. map_of (rm_agents r) agentId)) (\<lambda>previous.
         and_then (destroy_leg previous) (\<lambda>_.
         on_room (\<lambda>r. r\<lparr>rm_agents := AList.update agentId (l'\<lparr>lg_agentId := Some agentId\<rparr>) (rm_agents r)\<rparr>))))))"

definition room_answerAgent :: "nat \<Rightarrow> string \<Rightarrow> string room_task" where
  "room_answerAgent agentId sdpOffer =
     and_then (room_of (\<lambda>r. map_of (rm_agents r) agentId)) (\<lambda>previous.
     and_then (on_room (\<lambda>r. r\<lparr>rm_agents := AList.delete agentId (rm_agents r)\<rparr>)) (\<lambda>_.
     and_then (destroy_leg previous) (\<lambda>_.
     and_then (leg_from_offer ''agent'' sdpOffer ''webrtc'') (\<lambda>(l, answer).
     and_then (on_room (\<lambda>r. r\<lparr>rm_agents := AList.update agentId (l\<lparr>lg_agentId := Some agentId\<rparr>) (rm_agents r)\<rparr>)) (\<lambda>_.
     ret answer)))))"

definition drop_leg_of :: "nat \<Rightarrow> unit room_task" where
  "drop_leg_of agentId =
     and_then (room_of (\<lambda>r. map_of (rm_agents r) agentId)) (\<lambda>l.
     and_then (on_room (\<lambda>r. r\<lparr>rm_agents := AList.delete agentId (rm_agents r)\<rparr>)) (\<lambda>_.
     destroy_leg l))"

definition room_dropAgent :: "nat option \<Rightarrow> unit room_task" where
  "room_dropAgent agentId =
     and_then (room_of (\<lambda>r. case agentId of None \<Rightarrow> map fst (rm_agents r) | Some a \<Rightarrow> [a])) (\<lambda>ids.
     and_then (for_each drop_leg_of ids) (\<lambda>_.
     and_then (room_of (\<lambda>r. rm_agents r = [])) (\<lambda>none.
     if \<not> none then ret ()
     else and_then (on_room (\<lambda>r. r\<lparr>rm_agentPrivate := False\<rparr>)) (\<lambda>_. tone True))))"

section \<open>The room\<close>

text \<open>\<open>RoomRecorder.start\<close>: the recording made, or none; it throws nothing.\<close>

definition start_recording :: "string \<Rightarrow> recording_file option room_task" where
  "start_recording uuid = catching (and_then (ask (\<lambda>_. [RecordingStarted uuid])) (\<lambda>r. ret (rp_recording r))) (\<lambda>_. ret None)"

definition room_bridge :: "bool room_task" where
  "room_bridge =
     and_then (room_of id) (\<lambda>r.
     case rm_customer r of
       None \<Rightarrow> ret False
     | Some c \<Rightarrow>
         if \<not> lg_answered c \<or> rm_agents r = [] then ret False
         else
           and_then (if lg_member c = None then and_then (break_audio (Some c)) (\<lambda>_. join_customer) else ret ()) (\<lambda>_.
           and_then (hold False []) (\<lambda>_.
           and_then (for_each join_agent (rm_agents r)) (\<lambda>_.
           and_then (tone False) (\<lambda>_.
           and_then rules (\<lambda>_.
           and_then (on_room (\<lambda>r. r\<lparr>rm_bridged := True\<rparr>)) (\<lambda>_.
           if rm_bridged r then ret True
           else
             and_then (room_note QueueAudioStopped) (\<lambda>_.
             and_then (start_recording (lg_uuid c)) (\<lambda>rec.
             and_then (on_room (\<lambda>r. r\<lparr>rm_recording := rec\<rparr>)) (\<lambda>_.
             ret True))))))))))"

end
