(* ===== verification/SdpLines.thy ===== *)
theory SdpLines
  imports Prelude
begin

text \<open>
  \<open>src/src/media/rooms/sdpLines.js\<close>: a media server endpoint carries one audio stream, so the further m-lines
  of a supervisor's offer are taken out before it and answered as rejected. Parsing and writing SDP is the
  library \<open>sdp-transform\<close>, a parameter here; of a parsed m-line the fields the code reads are named and the
  others are kept in \<open>ml_rest\<close>.
\<close>

record media_line =
  ml_type :: string
  ml_port :: nat
  ml_protocol :: string
  ml_payloads :: string
  ml_rtp :: "string list"
  ml_mid :: "string option"
  ml_direction :: "string option"
  ml_rest :: "string list"

record sdp_doc =
  sd_media :: "media_line list"
  sd_groups :: "(string \<times> string) list option"
  sd_rest :: "string list"

record sdp_codec =
  sc_parse :: "string \<Rightarrow> sdp_doc"
  sc_write :: "sdp_doc \<Rightarrow> string"

record extra_line =
  xl_type :: string
  xl_protocol :: string
  xl_payload :: string
  xl_rtp :: "string list"
  xl_mid :: "string option"

definition first_word :: "string \<Rightarrow> string" where
  "first_word s = takeWhile (\<lambda>c. c \<noteq> CHR '' '') s"

definition extra_of :: "media_line \<Rightarrow> extra_line" where
  "extra_of m = \<lparr> xl_type = ml_type m, xl_protocol = ml_protocol m, xl_payload = first_word (ml_payloads m),
     xl_rtp = take 1 (ml_rtp m), xl_mid = ml_mid m \<rparr>"

definition mid_text :: "media_line \<Rightarrow> string" where
  "mid_text m = (case ml_mid m of None \<Rightarrow> ''undefined'' | Some i \<Rightarrow> i)"

definition keep_first :: "sdp_doc \<Rightarrow> media_line \<Rightarrow> sdp_doc" where
  "keep_first d m = d\<lparr>sd_media := [m],
     sd_groups := map_option (map (\<lambda>(t, mids). (t, if t = ''BUNDLE'' then mid_text m else mids))) (sd_groups d)\<rparr>"

definition primaryAudioOnly :: "sdp_codec \<Rightarrow> string \<Rightarrow> string + string \<times> extra_line list" where
  "primaryAudioOnly codec sdp =
     (let d = sc_parse codec sdp in
      case find (\<lambda>m. ml_type m = ''audio'') (sd_media d) of
        None \<Rightarrow> Inr (sdp, [])
      | Some m \<Rightarrow>
          if length (sd_media d) \<le> 1 then Inr (sdp, [])
          else if ml_type (hd (sd_media d)) \<noteq> ''audio'' then Inl ''The first m-line of the offer must be audio''
          else Inr (sc_write codec (keep_first d m), map extra_of (tl (sd_media d))))"

definition rejected_line :: "extra_line \<Rightarrow> media_line" where
  "rejected_line e = \<lparr> ml_type = xl_type e, ml_port = 0, ml_protocol = xl_protocol e, ml_payloads = xl_payload e,
     ml_rtp = xl_rtp e, ml_mid = xl_mid e, ml_direction = Some ''inactive'', ml_rest = [] \<rparr>"

definition withRejectedLines :: "sdp_codec \<Rightarrow> string \<Rightarrow> extra_line list \<Rightarrow> string" where
  "withRejectedLines codec answer extra =
     (if extra = [] then answer
      else let d = sc_parse codec answer in sc_write codec (d\<lparr>sd_media := sd_media d @ map rejected_line extra\<rparr>))"

text \<open>
  The answer's m-lines match the offer's: the media server is offered one line, answers it, and the client
  reads as many lines as it offered, of the same types, the further ones rejected.
\<close>

lemma answer_lines_match:
  assumes parses: "\<And>d. sc_parse codec (sc_write codec d) = d"
    and taken: "primaryAudioOnly codec offer = Inr (sdp, extra)"
    and answered: "map ml_type (sd_media (sc_parse codec answer)) = map ml_type (sd_media (sc_parse codec sdp))"
  shows "map ml_type (sd_media (sc_parse codec (withRejectedLines codec answer extra)))
       = map ml_type (sd_media (sc_parse codec offer))"
proof (cases "extra = []")
  case True
  then show ?thesis
    using assms by (auto simp: primaryAudioOnly_def withRejectedLines_def Let_def split: option.splits if_splits)
      (metis One_nat_def Suc_le_mono Zero_not_Suc le0 le_zero_eq length_tl list.size(3) diff_is_0_eq)+
next
  case False
  then obtain m ms where d: "sd_media (sc_parse codec offer) = m # ms" "ml_type m = ''audio''"
    and sdp: "sdp = sc_write codec (keep_first (sc_parse codec offer) m)" and extra: "extra = map extra_of ms"
    using taken by (cases "sd_media (sc_parse codec offer)")
      (auto simp: primaryAudioOnly_def Let_def split: option.splits if_splits)
  have "map ml_type (sd_media (sc_parse codec answer)) = [ml_type m]"
    using answered by (simp add: sdp parses keep_first_def)
  then show ?thesis
    using False d by (simp add: withRejectedLines_def Let_def parses extra comp_def rejected_line_def extra_of_def)
qed

end
