(* ===== verification/RoomOps.thy ===== *)
theory RoomOps
  imports Rooms SdpLines
begin

text \<open>
  Supervisors, hold music and the life of a room (\<open>src/src/media/rooms/RoomMedia.js\<close>), its stored state
  (\<open>RoomSnapshot.js\<close>) and the rooms of one worker. An operation runs alone on its call's room; one that was
  waiting while the room closed is not modelled.
\<close>

section \<open>Supervisors\<close>

text \<open>The leg joins muted, replacing the one the supervisor had; alone, they start by listening.\<close>

definition seat_supervisor :: "nat \<Rightarrow> leg \<Rightarrow> unit room_task" where
  "seat_supervisor supervisorId l =
     and_then (on_room (\<lambda>r. if rm_supervisors r = [] then r\<lparr>rm_mode := ''listen''\<rparr> else r)) (\<lambda>_.
     and_then (join_leg l True) (\<lambda>l'.
     and_then (on_room (\<lambda>r. r\<lparr>rm_supervisors := AList.update supervisorId l' (rm_supervisors r)\<rparr>)) (\<lambda>_.
     rules)))"

definition drop_supervisor_leg :: "nat \<Rightarrow> unit room_task" where
  "drop_supervisor_leg supervisorId =
     and_then (room_of (\<lambda>r. map_of (rm_supervisors r) supervisorId)) (\<lambda>l.
     and_then (on_room (\<lambda>r. r\<lparr>rm_supervisors := AList.delete supervisorId (rm_supervisors r)\<rparr>)) (\<lambda>_.
     destroy_leg l))"

definition room_addSupervisor :: "sdp_codec \<Rightarrow> nat \<Rightarrow> string \<Rightarrow> string room_task" where
  "room_addSupervisor codec supervisorId sdpOffer =
     (case primaryAudioOnly codec sdpOffer of
        Inl e \<Rightarrow> raise e
      | Inr (sdp, extra) \<Rightarrow>
          and_then (drop_supervisor_leg supervisorId) (\<lambda>_.
          and_then (leg_from_offer ''supervisor'' sdp ''webrtc'') (\<lambda>(l, answer).
          and_then (seat_supervisor supervisorId l) (\<lambda>_.
          ret (withRejectedLines codec answer extra)))))"

definition room_offerSupervisor :: "nat \<Rightarrow> string room_task" where
  "room_offerSupervisor supervisorId =
     and_then (room_of (\<lambda>r. map_of (rm_pendingSupervisors r) supervisorId)) (\<lambda>old.
     and_then (destroy_leg old) (\<lambda>_.
     and_then (leg_offer ''supervisor'' ''webrtc'') (\<lambda>(l, offer).
     and_then (on_room (\<lambda>r. r\<lparr>rm_pendingSupervisors := AList.update supervisorId l (rm_pendingSupervisors r)\<rparr>)) (\<lambda>_.
     ret offer))))"

definition room_supervisorAnswered :: "nat \<Rightarrow> string \<Rightarrow> unit room_task" where
  "room_supervisorAnswered supervisorId sdpAnswer =
     and_then (room_of (\<lambda>r. map_of (rm_pendingSupervisors r) supervisorId)) (\<lambda>pending.
     case pending of
       None \<Rightarrow> raise ''No supervisor leg offered on this worker''
     | Some l \<Rightarrow>
         and_then (on_room (\<lambda>r. r\<lparr>rm_pendingSupervisors := AList.delete supervisorId (rm_pendingSupervisors r)\<rparr>)) (\<lambda>_.
         and_then (apply_answer l sdpAnswer) (\<lambda>l'.
         and_then (drop_supervisor_leg supervisorId) (\<lambda>_.
         seat_supervisor supervisorId l'))))"

definition room_setSupervisorMode :: "string \<Rightarrow> bool room_task" where
  "room_setSupervisorMode mode =
     and_then (room_of rm_agentPrivate) (\<lambda>private.
     let endedPrivate = (private \<and> mode \<noteq> ''whisper'') in
     and_then (on_room (\<lambda>r. r\<lparr>rm_mode := mode, rm_agentPrivate := rm_agentPrivate r \<and> \<not> endedPrivate\<rparr>)) (\<lambda>_.
     and_then rules (\<lambda>_.
     ret endedPrivate)))"

definition room_setAgentPrivate :: "bool \<Rightarrow> bool room_task" where
  "room_setAgentPrivate active =
     and_then (on_room (\<lambda>r. r\<lparr>rm_agentPrivate := active \<and> rm_mode r = ''whisper'' \<and> rm_supervisors r \<noteq> []\<rparr>)) (\<lambda>_.
     and_then rules (\<lambda>_.
     room_of rm_agentPrivate))"

definition room_removeSupervisor :: "nat option \<Rightarrow> bool room_task" where
  "room_removeSupervisor supervisorId =
     and_then (room_of (\<lambda>r. case supervisorId of None \<Rightarrow> map fst (rm_supervisors r) | Some s \<Rightarrow> [s])) (\<lambda>ids.
     and_then (for_each drop_supervisor_leg ids) (\<lambda>_.
     and_then (room_of rm_agentPrivate) (\<lambda>wasPrivate.
     and_then (on_room (\<lambda>r. if rm_supervisors r = [] then r\<lparr>rm_agentPrivate := False, rm_mode := ''listen''\<rparr> else r)) (\<lambda>_.
     and_then rules (\<lambda>_.
     room_of (\<lambda>r. wasPrivate \<and> \<not> rm_agentPrivate r))))))"

section \<open>Customer audio\<close>

text \<open>A prompt to the customer alone; it returns when it has been played.\<close>

definition play_prompt :: "string option \<Rightarrow> unit room_task" where
  "play_prompt url =
     and_then (room_of rm_customer) (\<lambda>c.
     case c of
       None \<Rightarrow> raise ''No customer leg to play to''
     | Some l \<Rightarrow>
         (case url of
            None \<Rightarrow> raise ''No audio to play''
          | Some u \<Rightarrow> and_then (ask (\<lambda>_. [Prompted (lg_uuid l) u])) (\<lambda>_. ret ())))"

definition stop_prompt :: "unit room_task" where
  "stop_prompt = and_then (room_of rm_customer) break_audio"

definition room_startHold :: "string option \<Rightarrow> unit room_task" where
  "room_startHold url =
     and_then (room_of id) (\<lambda>r.
     if rm_customer r = None \<or> rm_agents r \<noteq> [] then ret ()
     else
       and_then (break_audio (rm_customer r)) (\<lambda>_.
       and_then join_customer (\<lambda>_.
       hold True (case url of None \<Rightarrow> RECONNECT_TONE | Some u \<Rightarrow> u))))"

definition room_stopHold :: "unit room_task" where
  "room_stopHold = hold False []"

section \<open>The stored state\<close>

record leg_snapshot =
  sl_kind :: string
  sl_uuid :: string
  sl_dialog :: string
  sl_rtpKey :: rtp_key
  sl_transport :: string
  sl_member :: "nat option"
  sl_answered :: bool
  sl_agentId :: "nat option"
  sl_listening :: bool

record room_snapshot =
  ss_name :: "string \<times> nat"
  ss_legSeq :: nat
  ss_mode :: string
  ss_agentPrivate :: bool
  ss_bridged :: bool
  ss_toneOn :: bool
  ss_holdOn :: bool
  ss_customer :: "leg_snapshot option"
  ss_pendingAgent :: "leg_snapshot option"
  ss_agents :: "leg_snapshot list"
  ss_supervisors :: "(nat \<times> leg_snapshot) list"
  ss_recording :: "recording_file option"

definition snapshot_leg :: "leg \<Rightarrow> leg_snapshot" where
  "snapshot_leg l = \<lparr> sl_kind = lg_kind l, sl_uuid = lg_uuid l, sl_dialog = lg_dialog l, sl_rtpKey = lg_rtpKey l,
     sl_transport = lg_transport l, sl_member = lg_member l, sl_answered = lg_answered l, sl_agentId = lg_agentId l,
     sl_listening = lg_listening l \<rparr>"

definition snapshotOf :: "room \<Rightarrow> room_snapshot" where
  "snapshotOf r = \<lparr> ss_name = rm_name r, ss_legSeq = rm_legSeq r, ss_mode = rm_mode r, ss_agentPrivate = rm_agentPrivate r,
     ss_bridged = rm_bridged r, ss_toneOn = rm_toneOn r, ss_holdOn = rm_holdOn r,
     ss_customer = map_option snapshot_leg (rm_customer r), ss_pendingAgent = map_option snapshot_leg (rm_pendingAgent r),
     ss_agents = map (\<lambda>e. snapshot_leg (snd e)) (rm_agents r),
     ss_supervisors = map (\<lambda>e. (fst e, snapshot_leg (snd e))) (rm_supervisors r), ss_recording = rm_recording r \<rparr>"

definition hasLegs :: "room \<Rightarrow> bool" where
  "hasLegs r \<longleftrightarrow> rm_customer r \<noteq> None \<or> rm_pendingAgent r \<noteq> None \<or> rm_agents r \<noteq> [] \<or> rm_supervisors r \<noteq> []"

text \<open>A leg driven from another worker; one without a channel uuid is left out.\<close>

definition adopted_leg :: "leg_snapshot \<Rightarrow> leg option" where
  "adopted_leg s =
     (if sl_uuid s = [] then None
      else Some \<lparr> lg_kind = sl_kind s, lg_uuid = sl_uuid s, lg_dialog = sl_dialog s, lg_rtpKey = sl_rtpKey s,
        lg_transport = sl_transport s, lg_member = sl_member s, lg_answered = sl_answered s,
        lg_listening = sl_listening s, lg_lastDigit = None, lg_agentId = sl_agentId s, lg_adopted = True \<rparr>)"

fun adopt_agents :: "leg_snapshot list \<Rightarrow> (nat \<times> leg) list \<Rightarrow> (nat \<times> leg) list" where
  "adopt_agents [] agents = agents"
| "adopt_agents (a # rest) agents =
     adopt_agents rest (case adopted_leg a of
        None \<Rightarrow> agents
      | Some l \<Rightarrow> (case sl_agentId a of None \<Rightarrow> agents | Some i \<Rightarrow> AList.update i l agents))"

fun adopt_supervisors :: "(nat \<times> leg_snapshot) list \<Rightarrow> (nat \<times> leg) list \<Rightarrow> (nat \<times> leg) list" where
  "adopt_supervisors [] supervisors = supervisors"
| "adopt_supervisors ((i, s) # rest) supervisors =
     adopt_supervisors rest (case adopted_leg s of None \<Rightarrow> supervisors | Some l \<Rightarrow> AList.update i l supervisors)"

definition adopted_room :: "room_snapshot \<Rightarrow> room \<Rightarrow> room" where
  "adopted_room snap r =
     (let r1 = r\<lparr>rm_name := ss_name snap, rm_legSeq := ss_legSeq snap, rm_mode := ss_mode snap,
        rm_agentPrivate := ss_agentPrivate snap, rm_bridged := ss_bridged snap, rm_toneOn := ss_toneOn snap,
        rm_holdOn := ss_holdOn snap,
        rm_customer := (case Option.bind (ss_customer snap) adopted_leg of None \<Rightarrow> rm_customer r | Some l \<Rightarrow> Some l),
        rm_pendingAgent := Option.bind (ss_pendingAgent snap) adopted_leg,
        rm_agents := adopt_agents (ss_agents snap) (rm_agents r),
        rm_supervisors := adopt_supervisors (ss_supervisors snap) (rm_supervisors r),
        rm_recording := (case ss_recording snap of None \<Rightarrow> rm_recording r | Some f \<Rightarrow> Some f)\<rparr>
      in r1\<lparr>rm_monitored := (if rm_monitored r1 \<noteq> None then rm_monitored r1 else map_option lg_rtpKey (rm_customer r1))\<rparr>)"

section \<open>The rooms of a worker\<close>

record media_worker =
  mw_boot :: string
  mw_rooms :: "nat \<Rightarrow> room option"
  mw_step :: nat
  mw_env :: "nat \<Rightarrow> reply"
  mw_cmds :: "nat \<Rightarrow> room_cmd list"
  mw_saved :: "nat \<Rightarrow> room_snapshot option"

definition idle_worker :: "string \<Rightarrow> (nat \<Rightarrow> reply) \<Rightarrow> media_worker" where
  "idle_worker boot env = \<lparr> mw_boot = boot, mw_rooms = (\<lambda>_. None), mw_step = 0, mw_env = env, mw_cmds = (\<lambda>_. []),
     mw_saved = (\<lambda>_. None) \<rparr>"

definition the_room :: "nat \<Rightarrow> media_worker \<Rightarrow> room" where
  "the_room callId w = (case mw_rooms w callId of None \<Rightarrow> new_room (mw_boot w) callId | Some r \<Rightarrow> r)"

definition run_of :: "nat \<Rightarrow> media_worker \<Rightarrow> room_run" where
  "run_of callId w = \<lparr> rr_boot = mw_boot w, rr_room = the_room callId w, rr_step = mw_step w, rr_env = mw_env w,
     rr_cmds = mw_cmds w callId \<rparr>"

definition saveRoom :: "nat \<Rightarrow> room \<Rightarrow> media_worker \<Rightarrow> media_worker" where
  "saveRoom callId r w = (if hasLegs r then w\<lparr>mw_saved := (mw_saved w)(callId := Some (snapshotOf r))\<rparr> else w)"

definition serial :: "nat \<Rightarrow> 'a room_task \<Rightarrow> media_worker \<Rightarrow> (string + 'a) \<times> media_worker" where
  "serial callId m w =
     (let p = m (run_of callId w); s = snd p in
      (fst p, saveRoom callId (rr_room s) (w\<lparr>mw_rooms := (mw_rooms w)(callId := Some (rr_room s)), mw_step := rr_step s,
         mw_cmds := (mw_cmds w)(callId := rr_cmds s)\<rparr>)))"

definition all_legs :: "room \<Rightarrow> leg list" where
  "all_legs r = (case rm_customer r of None \<Rightarrow> [] | Some l \<Rightarrow> [l]) @ (case rm_pendingAgent r of None \<Rightarrow> [] | Some l \<Rightarrow> [l]) @ map snd (rm_agents r)
     @ map snd (rm_supervisors r) @ map snd (rm_pendingSupervisors r)"

definition close_legs_of :: "unit room_task" where
  "close_legs_of =
     and_then (room_of id) (\<lambda>r.
     and_then (case rm_recording r of None \<Rightarrow> ret () | Some f \<Rightarrow> quietly (\<lambda>_. [RecordingStopped f])) (\<lambda>_.
     for_each (\<lambda>l. destroy_leg (Some l)) (all_legs r)))"

definition room_close :: "nat \<Rightarrow> media_worker \<Rightarrow> media_worker" where
  "room_close callId w =
     (case mw_rooms w callId of
        None \<Rightarrow> w
      | Some r \<Rightarrow>
          let s = snd (close_legs_of (run_of callId w)) in
          w\<lparr>mw_rooms := (mw_rooms w)(callId := None), mw_step := rr_step s, mw_cmds := (mw_cmds w)(callId := rr_cmds s),
            mw_saved := (mw_saved w)(callId := None)\<rparr>)"

text \<open>What happens beside the queue of operations (a digit heard, a prompt): nothing is saved.\<close>

definition aside :: "nat \<Rightarrow> 'a room_task \<Rightarrow> media_worker \<Rightarrow> media_worker" where
  "aside callId m w =
     (case mw_rooms w callId of
        None \<Rightarrow> w
      | Some r \<Rightarrow>
          let s = snd (m (run_of callId w)) in
          w\<lparr>mw_rooms := (mw_rooms w)(callId := Some (rr_room s)), mw_step := rr_step s,
            mw_cmds := (mw_cmds w)(callId := rr_cmds s)\<rparr>)"

text \<open>Operations given a call id only leave a call without a room alone.\<close>

definition if_held :: "nat \<Rightarrow> 'a \<Rightarrow> 'a room_task \<Rightarrow> media_worker \<Rightarrow> (string + 'a) \<times> media_worker" where
  "if_held callId x m w = (if mw_rooms w callId = None then (Inr x, w) else serial callId m w)"

definition must_hold :: "nat \<Rightarrow> 'a room_task \<Rightarrow> media_worker \<Rightarrow> (string + 'a) \<times> media_worker" where
  "must_hold callId m w =
     (if mw_rooms w callId = None then (Inl ''This call has no media here'', w) else serial callId m w)"

definition room_hasAgentOffer :: "nat \<Rightarrow> media_worker \<Rightarrow> bool" where
  "room_hasAgentOffer callId w = (case mw_rooms w callId of None \<Rightarrow> False | Some r \<Rightarrow> rm_pendingAgent r \<noteq> None)"

definition room_hasSupervisor :: "nat \<Rightarrow> media_worker \<Rightarrow> bool" where
  "room_hasSupervisor callId w = (case mw_rooms w callId of None \<Rightarrow> False | Some r \<Rightarrow> rm_supervisors r \<noteq> [])"

definition room_monitorState :: "nat \<Rightarrow> media_worker \<Rightarrow> (string \<times> bool) option" where
  "room_monitorState callId w =
     (case mw_rooms w callId of
        None \<Rightarrow> None
      | Some r \<Rightarrow> if rm_supervisors r = [] then None else Some (rm_mode r, rm_agentPrivate r))"

definition room_owns :: "nat \<Rightarrow> media_worker \<Rightarrow> bool" where
  "room_owns callId w \<longleftrightarrow> mw_rooms w callId \<noteq> None"

text \<open>Taking a call over; \<open>False\<close> when nothing is stored.\<close>

definition room_adopt :: "nat \<Rightarrow> media_worker \<Rightarrow> bool \<times> media_worker" where
  "room_adopt callId w =
     (let r = the_room callId w in
      if rm_customer r \<noteq> None \<or> rm_agents r \<noteq> [] \<or> rm_supervisors r \<noteq> [] then
        (True, saveRoom callId r (w\<lparr>mw_rooms := (mw_rooms w)(callId := Some r)\<rparr>))
      else
        case mw_saved w callId of
          None \<Rightarrow> (False, w\<lparr>mw_rooms := (mw_rooms w)(callId := None)\<rparr>)
        | Some snap \<Rightarrow>
            let r' = adopted_room snap r in
            (True, saveRoom callId r' (w\<lparr>mw_rooms := (mw_rooms w)(callId := Some r')\<rparr>)))"

text \<open>Shutdown: every call is let go of, its media and its stored state left as they are.\<close>

definition room_handOver :: "media_worker \<Rightarrow> media_worker" where
  "room_handOver w = w\<lparr>mw_rooms := (\<lambda>_. None)\<rparr>"

section \<open>Histories\<close>

datatype room_op =
    AnswerCustomer_op string sdp_profile
  | OfferCustomer_op sdp_profile
  | CustomerAnswered_op string sdp_profile
  | Dtmf_op char int
  | Listen_op bool
  | OfferAgent_op
  | AgentAccepted_op nat string
  | AnswerAgent_op nat string
  | DropAgent_op "nat option"
  | Bridge_op
  | AddSupervisor_op sdp_codec nat string
  | OfferSupervisor_op nat
  | SupervisorAnswered_op nat string
  | SetMode_op string
  | SetPrivate_op bool
  | RemoveSupervisor_op "nat option"
  | Play_op "string option"
  | StopPrompt_op
  | StartHold_op "string option"
  | StopHold_op
  | Close_op

fun perform_room :: "nat \<times> room_op \<Rightarrow> media_worker \<Rightarrow> media_worker" where
  "perform_room (i, AnswerCustomer_op sdp p) w = snd (serial i (room_answerCustomer sdp p) w)"
| "perform_room (i, OfferCustomer_op p) w = snd (serial i (room_offerCustomer p) w)"
| "perform_room (i, CustomerAnswered_op sdp p) w = snd (serial i (room_customerAnswered sdp p) w)"
| "perform_room (i, Dtmf_op d t) w = aside i (dtmf_heard d t) w"
| "perform_room (i, Listen_op on) w = aside i (listenForDigits on) w"
| "perform_room (i, OfferAgent_op) w = snd (serial i room_offerAgent w)"
| "perform_room (i, AgentAccepted_op a sdp) w = snd (serial i (room_agentAccepted a sdp) w)"
| "perform_room (i, AnswerAgent_op a sdp) w = snd (serial i (room_answerAgent a sdp) w)"
| "perform_room (i, DropAgent_op a) w = snd (if_held i () (room_dropAgent a) w)"
| "perform_room (i, Bridge_op) w = snd (serial i room_bridge w)"
| "perform_room (i, AddSupervisor_op c s sdp) w = snd (serial i (room_addSupervisor c s sdp) w)"
| "perform_room (i, OfferSupervisor_op s) w = snd (serial i (room_offerSupervisor s) w)"
| "perform_room (i, SupervisorAnswered_op s sdp) w = snd (serial i (room_supervisorAnswered s sdp) w)"
| "perform_room (i, SetMode_op m) w = snd (must_hold i (room_setSupervisorMode m) w)"
| "perform_room (i, SetPrivate_op b) w = snd (must_hold i (room_setAgentPrivate b) w)"
| "perform_room (i, RemoveSupervisor_op s) w = snd (if_held i False (room_removeSupervisor s) w)"
| "perform_room (i, Play_op u) w = aside i (play_prompt u) w"
| "perform_room (i, StopPrompt_op) w = aside i stop_prompt w"
| "perform_room (i, StartHold_op u) w = snd (serial i (room_startHold u) w)"
| "perform_room (i, StopHold_op) w = snd (if_held i () room_stopHold w)"
| "perform_room (i, Close_op) w = room_close i w"

definition perform_rooms :: "(nat \<times> room_op) list \<Rightarrow> media_worker \<Rightarrow> media_worker" where
  "perform_rooms ops w = fold perform_room ops w"

end
