(* ===== verification/RoomFacts.thy ===== *)
theory RoomFacts
  imports RoomOps
begin

text \<open>
  Who hears whom in a room. A conference obeys its commands: a member is muted by the last command about
  them (joining included), and one member does not hear another while the last relation given for the two is
  \<open>nospeak\<close>. When the media server does what it is asked, every operation leaves the room's rules in force;
  only hold music puts the customer in without them.
\<close>

section \<open>What the conference does\<close>

fun mute_step :: "nat \<Rightarrow> room_cmd \<Rightarrow> bool \<Rightarrow> bool" where
  "mute_step m (Joined k b) was = (if k = m then b else was)"
| "mute_step m (Muted k) was = (k = m \<or> was)"
| "mute_step m (Unmuted k) was = (k \<noteq> m \<and> was)"
| "mute_step m _ was = was"

definition is_muted :: "room_cmd list \<Rightarrow> nat \<Rightarrow> bool" where
  "is_muted cs m = fold (mute_step m) cs False"

fun bar_step :: "nat \<Rightarrow> nat \<Rightarrow> room_cmd \<Rightarrow> bool \<Rightarrow> bool" where
  "bar_step a c (Joined k _) was = (k \<noteq> a \<and> k \<noteq> c \<and> was)"
| "bar_step a c (Related x y b) was = (if x = a \<and> y = c then b else was)"
| "bar_step a c _ was = was"

definition barred :: "room_cmd list \<Rightarrow> nat \<Rightarrow> nat \<Rightarrow> bool" where
  "barred cs a c = fold (bar_step a c) cs False"

text \<open>What member \<open>a\<close> says reaches member \<open>c\<close>.\<close>

definition heard :: "room_cmd list \<Rightarrow> nat \<Rightarrow> nat \<Rightarrow> bool" where
  "heard cs a c \<longleftrightarrow> \<not> is_muted cs a \<and> \<not> barred cs a c"

fun neutral :: "room_cmd \<Rightarrow> bool" where
  "neutral (Joined _ _) = False"
| "neutral (Muted _) = False"
| "neutral (Unmuted _) = False"
| "neutral (Related _ _ _) = False"
| "neutral _ = True"

lemma neutral_step: "neutral x \<Longrightarrow> mute_step m x b = b" "neutral x \<Longrightarrow> bar_step a c x b = b"
  by (cases x; simp)+

lemma neutral_fold:
  "list_all neutral cs \<Longrightarrow> fold (mute_step m) cs b = b" "list_all neutral cs \<Longrightarrow> fold (bar_step a c) cs b = b"
  by (induction cs arbitrary: b) (auto simp: neutral_step)

lemma neutral_cmds:
  assumes "list_all neutral cs"
  shows "is_muted (xs @ cs) m = is_muted xs m" "barred (xs @ cs) a c = barred xs a c"
  using assms by (simp_all add: is_muted_def barred_def neutral_fold)

text \<open>The server does what it is asked and gives every join a member number of its own.\<close>

definition healthy :: "(nat \<Rightarrow> reply) \<Rightarrow> bool" where
  "healthy env \<longleftrightarrow> (\<forall>n. rp_fail (env n) = None \<and> rp_done (env n)) \<and> inj (\<lambda>n. rp_member (env n))"

lemma healthy_calls:
  assumes "healthy (rr_env s)"
  shows "ask cs s = (Inr (rr_env s (rr_step s)), took (cs (rr_env s (rr_step s))) s)"
    "conf c s = (Inr (), took [c] s)"
    "quietly cs s = (Inr (), took (cs (rr_env s (rr_step s))) s)"
  using assms by (simp_all add: healthy_def ask_def conf_def quietly_def logged_failure_def catching_def and_then_def ret_def Let_def)

definition used :: "(nat \<Rightarrow> reply) \<Rightarrow> nat \<Rightarrow> nat \<Rightarrow> bool" where
  "used env n m \<longleftrightarrow> (\<exists>k<n. rp_member (env k) = m)"

lemma used_mono: "used env n m \<Longrightarrow> n \<le> n' \<Longrightarrow> used env n' m"
  unfolding used_def by (blast intro: less_le_trans)

lemma used_add: "used env n m \<Longrightarrow> used env (n + k) m"
  by (erule used_mono) simp

lemma fresh_member: "healthy env \<Longrightarrow> used env n m \<Longrightarrow> rp_member (env n) \<noteq> m"
  by (auto simp: healthy_def used_def dest: injD)

section \<open>The rules in force\<close>

definition sup_sits :: "room \<Rightarrow> nat \<Rightarrow> bool" where
  "sup_sits r m \<longleftrightarrow> (\<exists>e \<in> set (rm_supervisors r). lg_member (snd e) = Some m)"

definition agent_sits :: "room \<Rightarrow> nat \<Rightarrow> bool" where
  "agent_sits r m \<longleftrightarrow> (\<exists>e \<in> set (rm_agents r). lg_member (snd e) = Some m)"

definition unseated :: "room \<Rightarrow> bool" where
  "unseated r \<longleftrightarrow> (\<forall>l. rm_pendingAgent r = Some l \<longrightarrow> lg_member l = None)
     \<and> (\<forall>e \<in> set (rm_pendingSupervisors r). lg_member (snd e) = None)"

definition base :: "room_run \<Rightarrow> bool" where
  "base s \<longleftrightarrow> healthy (rr_env s) \<and> unseated (rr_room s)
     \<and> (\<forall>m. sup_sits (rr_room s) m \<longrightarrow> used (rr_env s) (rr_step s) m \<and> \<not> agent_sits (rr_room s) m)
     \<and> (\<forall>m. agent_sits (rr_room s) m \<longrightarrow> used (rr_env s) (rr_step s) m \<and> \<not> is_muted (rr_cmds s) m)
     \<and> (\<forall>m. customer_member (rr_room s) = Some m \<longrightarrow> used (rr_env s) (rr_step s) m)"

text \<open>
  \<open>full\<close>: everybody is heard as the room's mode says. Otherwise only: a listening supervisor is muted.
\<close>

definition sup_told :: "bool \<Rightarrow> string \<Rightarrow> nat option \<Rightarrow> room_cmd list \<Rightarrow> nat \<Rightarrow> bool" where
  "sup_told full mode cust cs m \<longleftrightarrow> (mode = ''listen'' \<longrightarrow> is_muted cs m)
     \<and> (full \<longrightarrow> (is_muted cs m \<longleftrightarrow> mode = ''listen'') \<and> (\<forall>c. cust = Some c \<longrightarrow> (barred cs m c \<longleftrightarrow> mode = ''whisper'')))"

definition agent_told :: "bool \<Rightarrow> nat option \<Rightarrow> room_cmd list \<Rightarrow> nat \<Rightarrow> bool" where
  "agent_told private cust cs m \<longleftrightarrow> (\<forall>c. cust = Some c \<longrightarrow> (barred cs m c \<longleftrightarrow> private))"

definition table :: "bool \<Rightarrow> room \<Rightarrow> room_cmd list \<Rightarrow> bool" where
  "table full r cs \<longleftrightarrow>
     (\<forall>m. sup_sits r m \<longrightarrow> sup_told full (rm_mode r) (customer_member r) cs m)
     \<and> (full \<longrightarrow> (\<forall>m. agent_sits r m \<longrightarrow> agent_told (rm_agentPrivate r) (customer_member r) cs m))"

text \<open>What an operation keeps: the base alone (in the middle of it), or with the table.\<close>

definition kept :: "bool option \<Rightarrow> room_run \<Rightarrow> bool" where
  "kept k s \<longleftrightarrow> base s \<and> (\<forall>full. k = Some full \<longrightarrow> table full (rr_room s) (rr_cmds s))"

lemma took_fields [simp]:
  "rr_room (took cs s) = rr_room s" "rr_env (took cs s) = rr_env s" "rr_step (took cs s) = Suc (rr_step s)"
  "rr_cmds (took cs s) = rr_cmds s @ cs" "rr_boot (took cs s) = rr_boot s"
  by (simp_all add: took_def)

lemma used_Suc: "used env n m \<Longrightarrow> used env (Suc n) m"
  by (erule used_mono) simp

lemma base_took: "base s \<Longrightarrow> list_all neutral cs \<Longrightarrow> base (took cs s)"
  unfolding base_def by (simp add: neutral_cmds used_Suc)

lemma table_neutral: "list_all neutral cs \<Longrightarrow> table full r (xs @ cs) = table full r xs"
  by (simp add: table_def sup_told_def agent_told_def neutral_cmds)

lemma kept_took: "kept k s \<Longrightarrow> list_all neutral cs \<Longrightarrow> kept k (took cs s)"
  unfolding kept_def by (simp add: base_took table_neutral)

lemma kept_healthy: "kept k s \<Longrightarrow> healthy (rr_env s)"
  by (simp add: kept_def base_def)

text \<open>A change of the room that seats nobody new.\<close>

definition shrinks :: "room \<Rightarrow> room \<Rightarrow> bool" where
  "shrinks r r' \<longleftrightarrow> (\<forall>m. sup_sits r' m \<longrightarrow> sup_sits r m) \<and> (\<forall>m. agent_sits r' m \<longrightarrow> agent_sits r m)
     \<and> (\<forall>m. customer_member r' = Some m \<longrightarrow> customer_member r = Some m) \<and> (unseated r \<longrightarrow> unseated r')
     \<and> rm_mode r' = rm_mode r \<and> (rm_agentPrivate r' = rm_agentPrivate r \<or> rm_agents r' = [])"

lemma no_agents_sit: "rm_agents r = [] \<Longrightarrow> \<not> agent_sits r m"
  by (simp add: agent_sits_def)

lemma base_shrinks: "base s \<Longrightarrow> shrinks (rr_room s) r' \<Longrightarrow> base (s\<lparr>rr_room := r'\<rparr>)"
  unfolding base_def shrinks_def by simp blast

lemma told_less:
  assumes "cust' = None \<or> cust' = cust"
  shows "sup_told full mode cust cs m \<Longrightarrow> sup_told full mode cust' cs m"
    "agent_told private cust cs m \<Longrightarrow> agent_told private cust' cs m"
  using assms by (auto simp: sup_told_def agent_told_def)

lemma table_shrinks:
  assumes "table full r cs" and sh: "shrinks r r'"
  shows "table full r' cs"
proof -
  have cust: "customer_member r' = None \<or> customer_member r' = customer_member r"
    using sh by (cases "customer_member r'") (auto simp: shrinks_def)
  have mode: "rm_mode r' = rm_mode r" and sup: "sup_sits r' m \<Longrightarrow> sup_sits r m" and agent: "agent_sits r' m \<Longrightarrow> agent_sits r m"
    and hush: "agent_sits r' m \<Longrightarrow> rm_agentPrivate r' = rm_agentPrivate r" for m
    using sh no_agents_sit [of r' m] by (auto simp: shrinks_def)
  show ?thesis
    unfolding table_def
  proof (intro conjI impI allI)
    fix m assume "sup_sits r' m"
    then show "sup_told full (rm_mode r') (customer_member r') cs m"
      using assms(1) sup mode told_less(1) [OF cust] by (simp add: table_def)
  next
    fix m assume "full" and "agent_sits r' m"
    then show "agent_told (rm_agentPrivate r') (customer_member r') cs m"
      using assms(1) agent hush told_less(2) [OF cust] by (simp add: table_def)
  qed
qed

lemma kept_shrinks: "kept k s \<Longrightarrow> shrinks (rr_room s) r' \<Longrightarrow> kept k (s\<lparr>rr_room := r'\<rparr>)"
  unfolding kept_def by (auto intro: base_shrinks table_shrinks)

lemma ask_kept: "(\<And>r. list_all neutral (cs r)) \<Longrightarrow> ensures (kept k) (ask cs) (\<lambda>_. kept k) X"
  by (auto simp: ensures_def healthy_calls [OF kept_healthy] kept_took)

lemma conf_kept: "neutral c \<Longrightarrow> ensures (kept k) (conf c) (\<lambda>_. kept k) X"
  by (auto simp: ensures_def healthy_calls [OF kept_healthy] kept_took)

lemma quietly_kept: "(\<And>r. list_all neutral (cs r)) \<Longrightarrow> ensures (kept k) (quietly cs) (\<lambda>_. kept k) X"
  by (auto simp: ensures_def healthy_calls [OF kept_healthy] kept_took)

lemma kept_unseated: "kept k s \<Longrightarrow> unseated (rr_room s)"
  by (simp add: kept_def base_def)

lemma on_room_kept: "(\<And>r. unseated r \<Longrightarrow> shrinks r (f r)) \<Longrightarrow> ensures (kept k) (on_room f) (\<lambda>_. kept k) X"
  unfolding on_room_def by (rule ensures_change) (blast intro: kept_shrinks kept_unseated)

section \<open>Operations that seat nobody\<close>

definition unseated_leg :: "bool option \<Rightarrow> leg \<times> string \<Rightarrow> room_run \<Rightarrow> bool" where
  "unseated_leg k x s \<longleftrightarrow> kept k s \<and> lg_member (fst x) = None"

lemma ensures_False: "ensures (\<lambda>_. False) m Q X"
  by (simp add: ensures_def)

lemma next_key_kept: "ensures (kept k) (next_key kind) (\<lambda>_. kept k) X"
proof -
  have "shrinks r (r\<lparr>rm_legSeq := n\<rparr>)" for r n
    by (simp add: shrinks_def sup_sits_def agent_sits_def customer_member_def unseated_def)
  then show ?thesis
    unfolding next_key_def by (intro ensures_statement) (simp add: Let_def kept_shrinks)
qed

lemma leg_from_offer_kept: "ensures (kept k) (leg_from_offer kind sdp transport) (unseated_leg k) X"
  unfolding leg_from_offer_def
  by (intro ensures_and_then [OF next_key_kept] ensures_catching [where Y = "\<lambda>_. False"] ensures_and_then [OF ask_kept]
      ensures_ret ensures_False) (simp_all add: unseated_leg_def fresh_leg_def)

lemma leg_offer_kept: "ensures (kept k) (leg_offer kind transport) (unseated_leg k) X"
  unfolding leg_offer_def
  by (intro ensures_and_then [OF next_key_kept] ensures_catching [where Y = "\<lambda>_. False"] ensures_and_then [OF ask_kept]
      ensures_ret ensures_False) (simp_all add: unseated_leg_def fresh_leg_def)

lemma apply_answer_kept:
  "ensures (kept k) (apply_answer l sdp) (\<lambda>l' s. kept k s \<and> lg_member l' = lg_member l \<and> lg_rtpKey l' = lg_rtpKey l) X"
  unfolding apply_answer_def by (intro ensures_and_then [OF ask_kept] ensures_ret) simp_all

lemma destroy_leg_kept: "ensures (kept k) (destroy_leg l) (\<lambda>_. kept k) X"
proof (cases l)
  case None
  then show ?thesis by (simp add: ensures_ret)
next
  case (Some x)
  have "ensures (kept k) (destroy_leg (Some x)) (\<lambda>_. kept k) X"
    unfolding destroy_leg.simps by (intro ensures_and_then [OF quietly_kept] quietly_kept) simp_all
  then show ?thesis by (simp only: Some)
qed

lemma break_audio_kept: "ensures (kept k) (break_audio l) (\<lambda>_. kept k) X"
  by (cases l) (simp_all add: ensures_ret quietly_kept)

lemma packets_kept: "ensures (kept k) (packets_of key) (\<lambda>_. kept k) X"
  unfolding packets_of_def
  by (intro ensures_catching [where Y = "\<lambda>_. False"] ensures_and_then [OF ask_kept] ensures_ret ensures_False) simp_all

lemma await_audio_kept: "ensures (kept k) (await_audio n key) (\<lambda>_. kept k) (kept k)"
proof (induction n)
  case 0
  show ?case
    by (subst await_audio.simps, intro ensures_and_then [OF packets_kept] ensures_if ensures_ret)
      (simp_all add: ensures_raise)
next
  case (Suc n)
  then show ?case
    by (subst await_audio.simps, intro ensures_and_then [OF packets_kept] ensures_if ensures_ret) simp_all
qed

lemma room_of_kept: "ensures (kept k) (room_of f) (\<lambda>_. kept k) X"
  unfolding room_of_def by (intro ensures_read)

lemma room_note_kept: "neutral c \<Longrightarrow> ensures (kept k) (room_note c) (\<lambda>_. kept k) X"
  unfolding room_note_def
proof (intro ensures_change)
  fix s assume "kept k s" and "neutral c"
  then show "kept k (s\<lparr>rr_cmds := rr_cmds s @ [c]\<rparr>)"
    unfolding kept_def base_def by (simp add: table_neutral neutral_cmds)
qed

text \<open>Changes of the room: legs that leave, and legs without a member.\<close>

lemma set_update: "e \<in> set (AList.update k v al) \<Longrightarrow> e = (k, v) \<or> e \<in> set al"
  by (induction al) (auto split: if_splits)

lemma set_delete: "e \<in> set (AList.delete k al) \<Longrightarrow> e \<in> set al"
  by (auto simp: AList.delete_eq)

named_theorems room_changes \<open>changes that seat nobody\<close>

lemma shrinks_parts [room_changes]:
  "shrinks r (r\<lparr>rm_toneOn := b\<rparr>)" "shrinks r (r\<lparr>rm_holdOn := b\<rparr>)" "shrinks r (r\<lparr>rm_bridged := b\<rparr>)"
  "shrinks r (r\<lparr>rm_recording := f\<rparr>)" "shrinks r (r\<lparr>rm_monitored := w\<rparr>)" "shrinks r r"
  "shrinks r (r\<lparr>rm_pendingAgent := None\<rparr>)"
  by (simp_all add: shrinks_def sup_sits_def agent_sits_def customer_member_def unseated_def)

lemma shrinks_unseated [room_changes]:
  "lg_member l = None \<Longrightarrow> shrinks r (r\<lparr>rm_customer := Some l\<rparr>)"
  "lg_member l = None \<Longrightarrow> shrinks r (r\<lparr>rm_pendingAgent := Some l\<rparr>)"
  "lg_member l = None \<Longrightarrow> shrinks r (r\<lparr>rm_agents := AList.update a l (rm_agents r)\<rparr>)"
  "lg_member l = None \<Longrightarrow> shrinks r (r\<lparr>rm_pendingSupervisors := AList.update i l (rm_pendingSupervisors r)\<rparr>)"
  by (auto simp: shrinks_def sup_sits_def agent_sits_def customer_member_def unseated_def dest!: set_update)

lemma shrinks_leaving [room_changes]:
  "shrinks r (r\<lparr>rm_agents := AList.delete a (rm_agents r)\<rparr>)"
  "shrinks r (r\<lparr>rm_supervisors := AList.delete i (rm_supervisors r)\<rparr>)"
  "shrinks r (r\<lparr>rm_pendingSupervisors := AList.delete i (rm_pendingSupervisors r)\<rparr>)"
  by (auto simp: shrinks_def sup_sits_def agent_sits_def customer_member_def unseated_def dest!: set_delete)

lemma shrinks_same_customer [room_changes]:
  "lg_member l = customer_member r \<Longrightarrow> shrinks r (r\<lparr>rm_customer := Some l\<rparr>)"
  by (auto simp: shrinks_def sup_sits_def agent_sits_def customer_member_def unseated_def)

lemma change_kept: "(\<And>r. shrinks r (f r)) \<Longrightarrow> ensures (kept k) (on_room f) (\<lambda>_. kept k) X"
  by (rule on_room_kept)

text \<open>With the room known.\<close>

definition known :: "bool option \<Rightarrow> room \<Rightarrow> room_run \<Rightarrow> bool" where
  "known k r s \<longleftrightarrow> kept k s \<and> rr_room s = r"

lemma room_known:
  assumes "\<And>r. ensures (known k r) (f (g r)) Q X"
  shows "ensures (kept k) (and_then (room_of g) f) Q X"
proof (rule ensures_pre)
  fix s assume "kept k s"
  then show "ensures (\<lambda>t. t = s) (and_then (room_of g) f) Q X"
    using assms [of "rr_room s"] by (simp add: ensures_def known_def room_of_def)
qed

lemma known_kept: "ensures (kept k) m Q X \<Longrightarrow> ensures (known k r) m Q X"
  by (erule ensures_weaken) (simp_all add: known_def)

lemma ask_known: "(\<And>r. list_all neutral (cs r)) \<Longrightarrow> ensures (known k r) (ask cs) (\<lambda>_. known k r) X"
  by (auto simp: ensures_def known_def healthy_calls [OF kept_healthy] kept_took)

lemma quietly_known: "(\<And>r. list_all neutral (cs r)) \<Longrightarrow> ensures (known k r) (quietly cs) (\<lambda>_. known k r) X"
  by (auto simp: ensures_def known_def healthy_calls [OF kept_healthy] kept_took)

lemma apply_answer_known:
  "ensures (known k r) (apply_answer l sdp) (\<lambda>l' s. known k r s \<and> lg_member l' = lg_member l) X"
  unfolding apply_answer_def by (intro ensures_and_then [OF ask_known] ensures_ret) simp_all

lemma break_audio_known: "ensures (known k r) (break_audio l) (\<lambda>_. known k r) X"
  by (cases l) (simp_all add: ensures_ret quietly_known)

lemma on_room_known: "shrinks r (f r) \<Longrightarrow> ensures (known k r) (on_room f) (\<lambda>_. kept k) X"
  unfolding on_room_def by (rule ensures_change) (auto simp: known_def kept_shrinks)

lemma store_unseated:
  assumes "lg_member l = None \<Longrightarrow> (\<And>r. shrinks r (f r))"
  shows "ensures (unseated_leg k (l, sdp)) (on_room f) (\<lambda>_. kept k) X"
  unfolding on_room_def by (rule ensures_change) (auto simp: unseated_leg_def intro: kept_shrinks assms)

section \<open>Operations that seat nobody keep the rules\<close>

lemma watch_customer_kept: "ensures (kept k) watch_customer (\<lambda>_. kept k) X"
  unfolding watch_customer_def by (rule change_kept) (auto simp: room_changes)

lemma arm_customer_kept: "ensures (unseated_leg k (l, sdp)) (arm_customer l) (\<lambda>_. kept k) X"
  unfolding arm_customer_def
  by (intro ensures_and_then [OF store_unseated] quietly_kept) (simp_all add: room_changes)

lemma tone_kept: "ensures (kept k) (tone on) (\<lambda>_. kept k) X"
  unfolding tone_def
  by (intro room_known ensures_option ensures_if known_kept ensures_ret ensures_and_then [OF change_kept] conf_kept)
    (simp_all add: room_changes)

lemma hold_kept: "ensures (kept k) (hold on url) (\<lambda>_. kept k) X"
  unfolding hold_def
  by (intro room_known ensures_option ensures_if known_kept ensures_ret ensures_and_then [OF change_kept] conf_kept)
    (simp_all add: room_changes)

lemma answerCustomer_kept: "ensures (kept k) (room_answerCustomer sdp p) (\<lambda>_. kept k) X"
  unfolding room_answerCustomer_def
  by (intro ensures_and_then [OF room_of_kept] ensures_and_then [OF destroy_leg_kept] ensures_and_then [OF leg_from_offer_kept]
      ensures_prod ensures_and_then [OF watch_customer_kept] ensures_ret)
    (auto intro!: ensures_and_then [OF arm_customer_kept] ensures_and_then [OF watch_customer_kept] ensures_ret)

lemma offerCustomer_kept: "ensures (kept k) (room_offerCustomer p) (\<lambda>_. kept k) X"
  unfolding room_offerCustomer_def
  by (intro ensures_and_then [OF room_of_kept] ensures_and_then [OF destroy_leg_kept] ensures_and_then [OF leg_offer_kept]
      ensures_prod) (auto intro!: ensures_and_then [OF arm_customer_kept] ensures_ret)

lemma customerAnswered_kept: "ensures (kept k) (room_customerAnswered sdp p) (\<lambda>_. kept k) (kept k)"
  unfolding room_customerAnswered_def
proof (intro room_known ensures_option)
  show "ensures (known k r) (raise e) (\<lambda>_. kept k) (kept k)" for r and e :: string
    by (rule ensures_raise) (simp add: known_def)
  fix r :: room and l assume l: "rm_customer r = Some l"
  have store: "ensures (\<lambda>s. known k r s \<and> lg_member l' = lg_member l) (on_room (\<lambda>r. r\<lparr>rm_customer := Some l'\<rparr>)) (\<lambda>_. kept k) (kept k)" for l'
    unfolding on_room_def using l
    by (intro ensures_change) (auto simp: known_def customer_member_def intro!: kept_shrinks shrinks_same_customer)
  show "ensures (known k r) (and_then (apply_answer l (pf_remoteAnswer p sdp)) (\<lambda>l'.
     and_then (on_room (\<lambda>r. r\<lparr>rm_customer := Some l'\<rparr>)) (\<lambda>_. watch_customer))) (\<lambda>_. kept k) (kept k)"
    by (intro ensures_and_then [OF apply_answer_known] ensures_and_then [OF store] watch_customer_kept)
qed

lemma dtmf_kept: "ensures (kept k) (dtmf_heard d t) (\<lambda>_. kept k) X"
  unfolding dtmf_heard_def
  by (intro room_known ensures_option ensures_if known_kept ensures_ret ensures_and_then [OF on_room_known] room_note_kept)
    (simp_all add: room_changes customer_member_def)

lemma listen_kept: "ensures (kept k) (listenForDigits on) (\<lambda>_. kept k) X"
  unfolding listenForDigits_def
proof (rule on_room_kept)
  fix r :: room
  show "shrinks r (r\<lparr>rm_customer := map_option (\<lambda>l. l\<lparr>lg_listening := on\<rparr>) (rm_customer r)\<rparr>)"
    by (cases "rm_customer r") (simp_all add: shrinks_def sup_sits_def agent_sits_def customer_member_def unseated_def)
qed

lemma offerAgent_kept: "ensures (kept k) room_offerAgent (\<lambda>_. kept k) X"
  unfolding room_offerAgent_def
  by (intro ensures_and_then [OF room_of_kept] ensures_and_then [OF destroy_leg_kept] ensures_and_then [OF change_kept]
      ensures_and_then [OF leg_offer_kept] ensures_prod)
    (auto simp: room_changes intro!: ensures_and_then [OF store_unseated] ensures_ret)

lemma answerAgent_kept: "ensures (kept k) (room_answerAgent a sdp) (\<lambda>_. kept k) X"
  unfolding room_answerAgent_def
  by (intro ensures_and_then [OF room_of_kept] ensures_and_then [OF change_kept] ensures_and_then [OF destroy_leg_kept]
      ensures_and_then [OF leg_from_offer_kept] ensures_prod)
    (auto simp: room_changes intro!: ensures_and_then [OF store_unseated] ensures_ret)

lemma agentAccepted_kept: "ensures (kept k) (room_agentAccepted a sdp) (\<lambda>_. kept k) (kept k)"
  unfolding room_agentAccepted_def
proof (intro room_known ensures_option)
  show "ensures (known k r) (raise e) (\<lambda>_. kept k) (kept k)" for r and e :: string
    by (rule ensures_raise) (simp add: known_def)
  fix r :: room and l assume "rm_pendingAgent r = Some l"
  then have none: "ensures (known k r) (on_room (\<lambda>r. r\<lparr>rm_pendingAgent := None\<rparr>)) (\<lambda>_ s. kept k s \<and> lg_member l = None) (kept k)"
    unfolding on_room_def
    by (intro ensures_change) (auto simp: known_def room_changes kept_shrinks dest: kept_unseated simp: unseated_def)
  let ?attempt = "catching (and_then (apply_answer l sdp) (\<lambda>l'. and_then (await_audio audio_polls (lg_rtpKey l')) (\<lambda>_. ret l')))
      (\<lambda>err. and_then (destroy_leg (Some l)) (\<lambda>_. raise err))"
  have took: "ensures (\<lambda>s. kept k s \<and> lg_member l = None) ?attempt (\<lambda>l' s. kept k s \<and> lg_member l' = None) (kept k)"
  proof (cases "lg_member l")
    case None
    have "ensures (kept k) ?attempt (\<lambda>l' s. kept k s \<and> lg_member l' = None) (kept k)"
    proof (rule ensures_catching [where Y = "kept k"])
      have aw: "ensures (\<lambda>s. kept k s \<and> lg_member l' = lg_member l \<and> lg_rtpKey l' = lg_rtpKey l)
          (and_then (await_audio n (lg_rtpKey l')) (\<lambda>_. ret l')) (\<lambda>l' s. kept k s \<and> lg_member l' = None) (kept k)" for l' n
      proof (cases "lg_member l' = lg_member l")
        case True
        with None have "ensures (kept k) (and_then (await_audio n (lg_rtpKey l')) (\<lambda>_. ret l')) (\<lambda>l' s. kept k s \<and> lg_member l' = None) (kept k)"
          by (intro ensures_and_then [OF await_audio_kept] ensures_ret) simp
        then show ?thesis by (rule ensures_weaken) simp_all
      qed (simp add: ensures_def)
      show "ensures (kept k) (and_then (apply_answer l sdp) (\<lambda>l'. and_then (await_audio audio_polls (lg_rtpKey l')) (\<lambda>_. ret l')))
          (\<lambda>l' s. kept k s \<and> lg_member l' = None) (kept k)"
        by (rule ensures_and_then [OF apply_answer_kept aw])
      show "ensures (kept k) (and_then (destroy_leg (Some l)) (\<lambda>_. raise e)) (\<lambda>l' s. kept k s \<and> lg_member l' = None) (kept k)" for e
        by (intro ensures_and_then [OF destroy_leg_kept] ensures_raise)
    qed
    then show ?thesis by (rule ensures_weaken) simp_all
  qed (simp add: ensures_def)
  have seat: "ensures (\<lambda>s. kept k s \<and> lg_member l' = None)
      (and_then (room_of (\<lambda>r. map_of (rm_agents r) a)) (\<lambda>previous. and_then (destroy_leg previous) (\<lambda>_.
        on_room (\<lambda>r. r\<lparr>rm_agents := AList.update a (l'\<lparr>lg_agentId := Some a\<rparr>) (rm_agents r)\<rparr>)))) (\<lambda>_. kept k) (kept k)" for l'
  proof (cases "lg_member l'")
    case None
    then have "ensures (kept k) (and_then (room_of (\<lambda>r. map_of (rm_agents r) a)) (\<lambda>previous. and_then (destroy_leg previous) (\<lambda>_.
        on_room (\<lambda>r. r\<lparr>rm_agents := AList.update a (l'\<lparr>lg_agentId := Some a\<rparr>) (rm_agents r)\<rparr>)))) (\<lambda>_. kept k) (kept k)"
      by (intro ensures_and_then [OF room_of_kept] ensures_and_then [OF destroy_leg_kept] change_kept) (simp add: room_changes)
    then show ?thesis by (rule ensures_weaken) simp_all
  qed (simp add: ensures_def)
  show "ensures (known k r) (and_then (on_room (\<lambda>r. r\<lparr>rm_pendingAgent := None\<rparr>)) (\<lambda>_. and_then ?attempt (\<lambda>l'.
      and_then (room_of (\<lambda>r. map_of (rm_agents r) a)) (\<lambda>previous. and_then (destroy_leg previous) (\<lambda>_.
        on_room (\<lambda>r. r\<lparr>rm_agents := AList.update a (l'\<lparr>lg_agentId := Some a\<rparr>) (rm_agents r)\<rparr>)))))) (\<lambda>_. kept k) (kept k)"
    by (intro ensures_and_then [OF none] ensures_and_then [OF took] seat)
qed

lemma drop_leg_kept: "ensures (kept k) (drop_leg_of a) (\<lambda>_. kept k) X"
  unfolding drop_leg_of_def
  by (intro ensures_and_then [OF room_of_kept] ensures_and_then [OF change_kept] destroy_leg_kept) (simp_all add: room_changes)

lemma drop_supervisor_kept: "ensures (kept k) (drop_supervisor_leg i) (\<lambda>_. kept k) X"
  unfolding drop_supervisor_leg_def
  by (intro ensures_and_then [OF room_of_kept] ensures_and_then [OF change_kept] destroy_leg_kept) (simp_all add: room_changes)

lemma dropAgent_kept: "ensures (kept k) (room_dropAgent a) (\<lambda>_. kept k) X"
  unfolding room_dropAgent_def
proof (rule ensures_and_then [OF room_of_kept], rule ensures_and_then [OF ensures_for_each [OF drop_leg_kept]])
  show "ensures (kept k) (and_then (room_of (\<lambda>r. rm_agents r = [])) (\<lambda>none. if \<not> none then ret ()
      else and_then (on_room (\<lambda>r. r\<lparr>rm_agentPrivate := False\<rparr>)) (\<lambda>_. tone True))) (\<lambda>_. kept k) X"
  proof (intro room_known ensures_if)
    fix r :: room assume "\<not> \<not> rm_agents r = []"
    then have "shrinks r (r\<lparr>rm_agentPrivate := False\<rparr>)"
      by (simp add: shrinks_def sup_sits_def agent_sits_def customer_member_def unseated_def)
    then show "ensures (known k r) (and_then (on_room (\<lambda>r. r\<lparr>rm_agentPrivate := False\<rparr>)) (\<lambda>_. tone True)) (\<lambda>_. kept k) X"
      by (intro ensures_and_then [OF on_room_known] tone_kept)
  qed (intro known_kept ensures_ret)
qed

lemma offerSupervisor_kept: "ensures (kept k) (room_offerSupervisor i) (\<lambda>_. kept k) X"
  unfolding room_offerSupervisor_def
  by (intro ensures_and_then [OF room_of_kept] ensures_and_then [OF destroy_leg_kept] ensures_and_then [OF leg_offer_kept] ensures_prod)
    (auto simp: room_changes intro!: ensures_and_then [OF store_unseated] ensures_ret)

lemma prompts_kept:
  "ensures (kept k) (play_prompt u) (\<lambda>_. kept k) (kept k)" "ensures (kept k) stop_prompt (\<lambda>_. kept k) X"
  "ensures (kept k) room_stopHold (\<lambda>_. kept k) X"
  unfolding play_prompt_def stop_prompt_def room_stopHold_def
  by (intro ensures_and_then [OF room_of_kept] ensures_option ensures_raise ensures_and_then [OF ask_kept] ensures_ret
      break_audio_kept hold_kept; simp)+

section \<open>The rules put in force\<close>

definition did :: "room_cmd list \<Rightarrow> room_run \<Rightarrow> room_run" where
  "did cs s = s\<lparr>rr_step := rr_step s + length cs, rr_cmds := rr_cmds s @ cs\<rparr>"

lemma did_simps [simp]:
  "rr_room (did cs s) = rr_room s" "rr_env (did cs s) = rr_env s" "rr_step (did cs s) = rr_step s + length cs"
  "rr_cmds (did cs s) = rr_cmds s @ cs" "did ds (did cs s) = did (cs @ ds) s" "did [] s = s"
  by (simp_all add: did_def)

lemma conf_did: "healthy (rr_env s) \<Longrightarrow> conf c s = (Inr (), did [c] s)"
  by (simp add: healthy_calls did_def took_def)

definition sup_cmds :: "string \<Rightarrow> nat option \<Rightarrow> leg \<Rightarrow> room_cmd list" where
  "sup_cmds mode cust l =
     (case lg_member l of
        None \<Rightarrow> []
      | Some m \<Rightarrow> (if mode = ''listen'' then Muted m else Unmuted m)
          # (case cust of None \<Rightarrow> [] | Some c \<Rightarrow> [Related m c (mode = ''whisper'')]))"

definition agent_cmds :: "bool \<Rightarrow> nat \<Rightarrow> leg \<Rightarrow> room_cmd list" where
  "agent_cmds hush c l = (case lg_member l of None \<Rightarrow> [] | Some m \<Rightarrow> [Related m c hush])"

definition rule_cmds :: "room \<Rightarrow> room_cmd list" where
  "rule_cmds r = concat (map (\<lambda>e. sup_cmds (rm_mode r) (customer_member r) (snd e)) (rm_supervisors r))
     @ (case customer_member r of None \<Rightarrow> [] | Some c \<Rightarrow> concat (map (\<lambda>e. agent_cmds (rm_agentPrivate r) c (snd e)) (rm_agents r)))"

lemma supervisor_rule_did: "healthy (rr_env s) \<Longrightarrow> supervisor_rule mode cust l s = (Inr (), did (sup_cmds mode cust l) s)"
  by (auto simp: supervisor_rule_def sup_cmds_def ret_def and_then_def conf_did split: option.split)

lemma agent_rule_did: "healthy (rr_env s) \<Longrightarrow> agent_rule hush c l s = (Inr (), did (agent_cmds hush c l) s)"
  by (auto simp: agent_rule_def agent_cmds_def ret_def conf_did split: option.split)

lemma for_each_did:
  assumes "\<And>x s. healthy (rr_env s) \<Longrightarrow> f x s = (Inr (), did (cs x) s)" and "healthy (rr_env s)"
  shows "for_each f xs s = (Inr (), did (concat (map cs xs)) s)"
  using assms(2) by (induction xs arbitrary: s) (simp_all add: ret_def and_then_def assms(1))

lemma rules_did: "healthy (rr_env s) \<Longrightarrow> rules s = (Inr (), did (rule_cmds (rr_room s)) s)"
proof -
  assume h: "healthy (rr_env s)"
  let ?r = "rr_room s"
  have sup: "for_each (\<lambda>e. supervisor_rule (rm_mode ?r) (customer_member ?r) (snd e)) (rm_supervisors ?r) s
      = (Inr (), did (concat (map (\<lambda>e. sup_cmds (rm_mode ?r) (customer_member ?r) (snd e)) (rm_supervisors ?r))) s)"
    by (rule for_each_did) (simp_all add: supervisor_rule_did h)
  have agents: "for_each (\<lambda>e. agent_rule hush c (snd e)) es t = (Inr (), did (concat (map (\<lambda>e. agent_cmds hush c (snd e)) es)) t)"
    if "healthy (rr_env t)" for hush c t and es :: "(nat \<times> leg) list"
    by (rule for_each_did) (simp_all add: agent_rule_did that)
  show ?thesis
    by (simp add: rules_def room_of_def and_then_def [of "for_each f xs" for f xs] sup rule_cmds_def agents h ret_def split: option.split)
qed

text \<open>Commands that agree about somebody settle it.\<close>

lemma fold_settles:
  assumes "\<And>c b. c \<in> set cs \<Longrightarrow> f c b = b \<or> f c b = v" and "\<exists>c \<in> set cs. \<forall>b. f c b = v"
  shows "fold f cs b = v"
proof -
  have stay: "fold f xs v = v" if "set xs \<subseteq> set cs" for xs
    using that
  proof (induction xs)
    case (Cons x xs)
    then have "f x v = v" using assms(1) [of x v] by auto
    with Cons show ?case by simp
  qed simp
  obtain c where "c \<in> set cs" and c: "f c b = v" for b using assms(2) by auto
  then obtain us vs where cs: "cs = us @ c # vs" by (meson split_list)
  moreover from this have "fold f vs v = v" by (intro stay) auto
  ultimately show ?thesis using c by simp
qed

lemma fold_unmoved: "(\<And>c b. c \<in> set cs \<Longrightarrow> f c b = b) \<Longrightarrow> fold f cs b = b"
  by (induction cs arbitrary: b) auto

lemma rule_cmdsD:
  assumes "c \<in> set (rule_cmds r)"
  shows "(\<exists>m. sup_sits r m \<and> (c = (if rm_mode r = ''listen'' then Muted m else Unmuted m)
      \<or> (\<exists>k. customer_member r = Some k \<and> c = Related m k (rm_mode r = ''whisper''))))
    \<or> (\<exists>m k. agent_sits r m \<and> customer_member r = Some k \<and> c = Related m k (rm_agentPrivate r))"
proof -
  consider e where "e \<in> set (rm_supervisors r)" "c \<in> set (sup_cmds (rm_mode r) (customer_member r) (snd e))"
    | e k where "e \<in> set (rm_agents r)" "customer_member r = Some k" "c \<in> set (agent_cmds (rm_agentPrivate r) k (snd e))"
    using assms by (cases "customer_member r") (auto simp: rule_cmds_def)
  then show ?thesis
  proof cases
    case 1
    then obtain m where "lg_member (snd e) = Some m" by (cases "lg_member (snd e)") (auto simp: sup_cmds_def)
    moreover from this 1(1) have "sup_sits r m" by (auto simp: sup_sits_def)
    ultimately show ?thesis using 1(2) by (auto simp: sup_cmds_def split: option.splits)
  next
    case 2
    then obtain m where "lg_member (snd e) = Some m" by (cases "lg_member (snd e)") (auto simp: agent_cmds_def)
    moreover from this 2(1) have "agent_sits r m" by (auto simp: agent_sits_def)
    ultimately show ?thesis using 2(2,3) by (auto simp: agent_cmds_def)
  qed
qed

lemma rule_cmds_mute: "sup_sits r m \<Longrightarrow> (if rm_mode r = ''listen'' then Muted m else Unmuted m) \<in> set (rule_cmds r)"
  by (force simp: rule_cmds_def sup_cmds_def sup_sits_def)

lemma rule_cmds_bar:
  "sup_sits r m \<Longrightarrow> customer_member r = Some k \<Longrightarrow> Related m k (rm_mode r = ''whisper'') \<in> set (rule_cmds r)"
  by (force simp: rule_cmds_def sup_cmds_def sup_sits_def)

lemma rule_cmds_hush:
  "agent_sits r m \<Longrightarrow> customer_member r = Some k \<Longrightarrow> Related m k (rm_agentPrivate r) \<in> set (rule_cmds r)"
  by (force simp: rule_cmds_def agent_cmds_def agent_sits_def)

lemmas rule_cmdsI = rule_cmds_mute rule_cmds_bar rule_cmds_hush

lemma rules_mute_supervisors: "sup_sits r m \<Longrightarrow> is_muted (cs @ rule_cmds r) m \<longleftrightarrow> rm_mode r = ''listen''"
  unfolding is_muted_def fold_append comp_def
  by (rule fold_settles) (auto dest!: rule_cmdsD intro!: bexI [OF _ rule_cmdsI(1)] split: if_splits)

lemma rules_spare_agents:
  assumes "\<not> sup_sits r m"
  shows "is_muted (cs @ rule_cmds r) m = is_muted cs m"
  unfolding is_muted_def fold_append comp_def
  by (rule fold_unmoved) (use assms in \<open>auto dest!: rule_cmdsD split: if_splits\<close>)

lemma rules_bar_supervisors:
  assumes "sup_sits r m" and "\<not> agent_sits r m" and "customer_member r = Some k"
  shows "barred (cs @ rule_cmds r) m k \<longleftrightarrow> rm_mode r = ''whisper''"
  unfolding barred_def fold_append comp_def
  by (rule fold_settles) (use assms in \<open>auto dest!: rule_cmdsD intro!: bexI [OF _ rule_cmdsI(2)] split: if_splits\<close>)

lemma rules_bar_agents:
  assumes "agent_sits r m" and "\<not> sup_sits r m" and "customer_member r = Some k"
  shows "barred (cs @ rule_cmds r) m k \<longleftrightarrow> rm_agentPrivate r"
  unfolding barred_def fold_append comp_def
  by (rule fold_settles) (use assms in \<open>auto dest!: rule_cmdsD intro!: bexI [OF _ rule_cmdsI(3)] split: if_splits\<close>)

lemma table_less: "table True r cs \<Longrightarrow> table full r cs"
  by (auto simp: table_def sup_told_def)

lemma kept_full: "kept (Some True) s \<Longrightarrow> kept k s"
  unfolding kept_def by (auto intro: table_less)

lemma kept_base: "kept k s \<Longrightarrow> kept None s"
  by (simp add: kept_def)

lemma rules_kept: "ensures (kept None) rules (\<lambda>_. kept (Some True)) X"
proof -
  have "kept (Some True) (did (rule_cmds (rr_room s)) s)" if "base s" for s
  proof -
    let ?r = "rr_room s"
    have apart: "sup_sits ?r m \<Longrightarrow> \<not> agent_sits ?r m" for m using that by (simp add: base_def)
    then have apart': "agent_sits ?r m \<Longrightarrow> \<not> sup_sits ?r m" for m by blast
    have spare: "agent_sits ?r m \<Longrightarrow> is_muted (cs @ rule_cmds ?r) m = is_muted cs m" for m cs
      using apart [of m] rules_spare_agents [of ?r m] by blast
    have "base (did (rule_cmds ?r) s)"
      using that spare unfolding base_def by (auto intro: used_add)
    moreover have "table True ?r (rr_cmds s @ rule_cmds ?r)"
      using apart apart' by (auto simp: table_def sup_told_def agent_told_def rules_mute_supervisors rules_bar_supervisors rules_bar_agents)
    ultimately show ?thesis by (simp add: kept_def)
  qed
  then show ?thesis by (auto simp: ensures_def kept_def [of None] base_def rules_did)
qed

section \<open>Joining\<close>

definition joined :: "leg \<Rightarrow> bool \<Rightarrow> room_run \<Rightarrow> room_run" where
  "joined l b s = took [SocketPinned (lg_uuid l)] (took [Joined (rp_member (rr_env s (rr_step s))) b] s)"

definition newcomer :: "room_run \<Rightarrow> nat" where
  "newcomer s = rp_member (rr_env s (rr_step s))"

lemma join_leg_new:
  "healthy (rr_env s) \<Longrightarrow> lg_member l = None \<Longrightarrow>
     join_leg l mute s = (Inr (l\<lparr>lg_member := Some (newcomer s)\<rparr>), joined l (mute \<and> \<not> lg_adopted l) s)"
  by (simp add: join_leg_def and_then_def healthy_calls joined_def newcomer_def ret_def)

lemma joined_simps [simp]:
  "rr_room (joined l b s) = rr_room s" "rr_env (joined l b s) = rr_env s" "rr_step (joined l b s) = Suc (Suc (rr_step s))"
  by (simp_all add: joined_def)

lemma joined_muted: "is_muted (rr_cmds (joined l b s)) m = (if m = newcomer s then b else is_muted (rr_cmds s) m)"
  by (simp add: joined_def is_muted_def newcomer_def)

lemma newcomer_used: "used (rr_env s) (Suc (Suc (rr_step s))) (newcomer s)"
  unfolding used_def newcomer_def by (rule exI [of _ "rr_step s"]) simp

lemma newcomer_fresh: "base s \<Longrightarrow> used (rr_env s) (rr_step s) m \<Longrightarrow> m \<noteq> newcomer s"
  using fresh_member by (auto simp: newcomer_def base_def)

lemma newcomer_sits_nowhere:
  assumes "base s"
  shows "\<not> sup_sits (rr_room s) (newcomer s)" "\<not> agent_sits (rr_room s) (newcomer s)"
  using assms newcomer_fresh [OF assms] by (auto simp: base_def)

lemma base_joined: "base s \<Longrightarrow> base (joined l b s)"
  using newcomer_sits_nowhere [of s] unfolding base_def by (auto simp: joined_muted used_Suc)

lemma table_joined: "base s \<Longrightarrow> table False (rr_room s) (rr_cmds s) \<Longrightarrow> table False (rr_room s) (rr_cmds (joined l b s))"
  using newcomer_sits_nowhere [of s] by (auto simp: table_def sup_told_def joined_muted)

text \<open>The customer.\<close>

lemma base_customer:
  assumes "base s" and "\<And>m. lg_member l = Some m \<Longrightarrow> used (rr_env s) (rr_step s) m"
  shows "base (s\<lparr>rr_room := (rr_room s)\<lparr>rm_customer := Some l\<rparr>\<rparr>)"
  using assms by (simp add: base_def sup_sits_def agent_sits_def unseated_def customer_member_def)

lemma table_customer: "table False r cs \<Longrightarrow> table False (r\<lparr>rm_customer := c\<rparr>) cs"
  by (simp add: table_def sup_told_def sup_sits_def)

lemma join_customer_kept:
  assumes "k = None \<or> k = Some False"
  shows "ensures (kept k) join_customer (\<lambda>_. kept k) X"
  unfolding join_customer_def
proof (intro room_known ensures_option)
  show "ensures (known k r) (ret ()) (\<lambda>_. kept k) X" for r
    by (intro known_kept ensures_ret)
  fix r :: room and l assume l: "rm_customer r = Some l"
  show "ensures (known k r) (and_then (join_leg l False) (\<lambda>l'. on_room (\<lambda>r. r\<lparr>rm_customer := Some l'\<rparr>))) (\<lambda>_. kept k) X"
    unfolding ensures_def
  proof (intro allI impI)
    fix s assume "known k r s"
    then have s: "kept k s" "rr_room s = r" by (auto simp: known_def)
    then have b: "base s" by (simp add: kept_def)
    show "case and_then (join_leg l False) (\<lambda>l'. on_room (\<lambda>r. r\<lparr>rm_customer := Some l'\<rparr>)) s of (Inl e, s') \<Rightarrow> X s' | (Inr x, s') \<Rightarrow> kept k s'"
    proof (cases "lg_member l")
      case None
      have "base ((joined l False s)\<lparr>rr_room := r\<lparr>rm_customer := Some (l\<lparr>lg_member := Some (newcomer s)\<rparr>)\<rparr>\<rparr>)"
        using base_customer [OF base_joined [OF b], of "l\<lparr>lg_member := Some (newcomer s)\<rparr>" l False] s(2) newcomer_used [of s] by simp
      then have "kept k ((joined l False s)\<lparr>rr_room := r\<lparr>rm_customer := Some (l\<lparr>lg_member := Some (newcomer s)\<rparr>)\<rparr>\<rparr>)"
        using assms s b by (auto simp: kept_def intro!: table_customer table_joined)
      then show ?thesis
        using None b s(2) by (simp add: and_then_def join_leg_new base_def on_room_def change_def)
    next
      case (Some m)
      have "shrinks r (r\<lparr>rm_customer := Some l\<rparr>)" by (rule shrinks_same_customer) (simp add: customer_member_def l)
      then show ?thesis
        using s Some kept_shrinks [OF s(1)] by (simp add: join_leg_def and_then_def ret_def on_room_def change_def)
    qed
  qed
qed

text \<open>The agents.\<close>

definition may_sit :: "leg \<Rightarrow> room_run \<Rightarrow> bool" where
  "may_sit l s \<longleftrightarrow> (\<forall>m. lg_member l = Some m \<longrightarrow>
     used (rr_env s) (rr_step s) m \<and> \<not> is_muted (rr_cmds s) m \<and> \<not> sup_sits (rr_room s) m)"

lemma base_agent:
  assumes "base s" and "may_sit l s"
  shows "base (s\<lparr>rr_room := (rr_room s)\<lparr>rm_agents := AList.update a l (rm_agents (rr_room s))\<rparr>\<rparr>)"
proof -
  let ?r = "rr_room s" and ?r' = "(rr_room s)\<lparr>rm_agents := AList.update a l (rm_agents (rr_room s))\<rparr>"
  have "agent_sits ?r' m \<Longrightarrow> lg_member l = Some m \<or> agent_sits ?r m" for m
    by (auto simp: agent_sits_def dest!: set_update)
  moreover have "sup_sits ?r' = sup_sits ?r" "unseated ?r' = unseated ?r" "customer_member ?r' = customer_member ?r"
    by (simp_all add: fun_eq_iff sup_sits_def unseated_def customer_member_def)
  ultimately show ?thesis using assms unfolding base_def may_sit_def by simp blast
qed

lemma may_sit_joined: "base s \<Longrightarrow> may_sit l s \<Longrightarrow> may_sit l (joined l' b s)"
  using newcomer_fresh by (auto simp: may_sit_def joined_muted used_Suc)

lemma may_sit_stored: "may_sit l s \<Longrightarrow> may_sit l (s\<lparr>rr_room := (rr_room s)\<lparr>rm_agents := x\<rparr>\<rparr>)"
  by (simp add: may_sit_def sup_sits_def)

lemma join_agents_base:
  assumes "set es \<subseteq> set fs"
  shows "ensures (\<lambda>s. base s \<and> (\<forall>e \<in> set fs. may_sit (snd e) s)) (for_each join_agent es)
    (\<lambda>_ s. base s \<and> (\<forall>e \<in> set fs. may_sit (snd e) s)) X"
proof (rule ensures_for_each)
  fix e assume "e \<in> set es"
  then have e: "e \<in> set fs" using assms by auto
  show "ensures (\<lambda>s. base s \<and> (\<forall>e \<in> set fs. may_sit (snd e) s)) (join_agent e)
    (\<lambda>_ s. base s \<and> (\<forall>e \<in> set fs. may_sit (snd e) s)) X"
    unfolding ensures_def
  proof (intro allI impI)
    fix s assume s: "base s \<and> (\<forall>e \<in> set fs. may_sit (snd e) s)"
    then have b: "base s" and h: "healthy (rr_env s)" and l: "may_sit (snd e) s" using e by (auto simp: base_def)
    show "case join_agent e s of (Inl x, s') \<Rightarrow> X s' | (Inr x, s') \<Rightarrow> base s' \<and> (\<forall>e \<in> set fs. may_sit (snd e) s')"
    proof (cases "lg_member (snd e)")
      case None
      let ?l = "(snd e)\<lparr>lg_member := Some (newcomer s)\<rparr>" and ?s = "joined (snd e) False s"
      have "may_sit ?l ?s"
        using newcomer_used newcomer_sits_nowhere [OF b] by (simp add: may_sit_def joined_muted)
      then have "base (?s\<lparr>rr_room := (rr_room s)\<lparr>rm_agents := AList.update (fst e) ?l (rm_agents (rr_room s))\<rparr>\<rparr>)"
        using base_agent [OF base_joined [OF b], of ?l "snd e" False] by simp
      moreover have "may_sit (snd f) (?s\<lparr>rr_room := (rr_room s)\<lparr>rm_agents := x\<rparr>\<rparr>)" if "f \<in> set fs" for f x
        using may_sit_stored [OF may_sit_joined [OF b]] s that by fastforce
      ultimately show ?thesis
        using None by (simp add: join_agent_def and_then_def join_leg_new [OF h] on_room_def change_def)
    next
      case (Some m)
      then show ?thesis
        using base_agent [OF b l] s may_sit_stored
        by (auto simp: join_agent_def join_leg_def and_then_def ret_def on_room_def change_def)
    qed
  qed
qed

section \<open>Operations that seat somebody put the rules in force\<close>

lemma base_is_kept: "kept None = base"
  by (simp add: fun_eq_iff kept_def)

lemma agents_may_sit: "base s \<Longrightarrow> e \<in> set (rm_agents (rr_room s)) \<Longrightarrow> may_sit (snd e) s"
  unfolding base_def may_sit_def by (auto simp: agent_sits_def)

lemma neutral_may_sit: "may_sit l s \<Longrightarrow> list_all neutral cs \<Longrightarrow> may_sit l (took cs s)"
  by (simp add: may_sit_def neutral_cmds used_Suc)

lemma seat_supervisor_kept:
  assumes "lg_member l = None"
  shows "ensures (kept None) (seat_supervisor i l) (\<lambda>_. kept (Some True)) X"
proof -
  have mode: "ensures (kept None) (on_room (\<lambda>r. if rm_supervisors r = [] then r\<lparr>rm_mode := ''listen''\<rparr> else r)) (\<lambda>_. kept None) X"
    unfolding on_room_def
    by (rule ensures_change) (auto simp: base_is_kept base_def sup_sits_def agent_sits_def unseated_def customer_member_def)
  have seat: "ensures (kept None) (and_then (join_leg l True) (\<lambda>l'.
      on_room (\<lambda>r. r\<lparr>rm_supervisors := AList.update i l' (rm_supervisors r)\<rparr>))) (\<lambda>_. kept None) X"
    unfolding ensures_def
  proof (intro allI impI)
    fix s assume "kept None s"
    then have b: "base s" and h: "healthy (rr_env s)" by (simp_all add: base_is_kept base_def)
    let ?l = "l\<lparr>lg_member := Some (newcomer s)\<rparr>" and ?s = "joined l (\<not> lg_adopted l) s"
    let ?r' = "(rr_room s)\<lparr>rm_supervisors := AList.update i ?l (rm_supervisors (rr_room s))\<rparr>"
    have "sup_sits ?r' m \<Longrightarrow> m = newcomer s \<or> sup_sits (rr_room s) m" for m
      by (auto simp: sup_sits_def dest!: set_update)
    moreover have "agent_sits ?r' = agent_sits (rr_room s)" "unseated ?r' = unseated (rr_room s)"
      "customer_member ?r' = customer_member (rr_room s)"
      by (simp_all add: fun_eq_iff agent_sits_def unseated_def customer_member_def)
    ultimately have "base (?s\<lparr>rr_room := ?r'\<rparr>)"
      using base_joined [OF b, of l "\<not> lg_adopted l"] newcomer_sits_nowhere [OF b] newcomer_used [of s]
      unfolding base_def by simp blast
    then show "case and_then (join_leg l True) (\<lambda>l'. on_room (\<lambda>r. r\<lparr>rm_supervisors := AList.update i l' (rm_supervisors r)\<rparr>)) s of
        (Inl e, s') \<Rightarrow> X s' | (Inr x, s') \<Rightarrow> kept None s'"
      by (simp add: and_then_def join_leg_new [OF h assms] on_room_def change_def base_is_kept)
  qed
  have "seat_supervisor i l = and_then (on_room (\<lambda>r. if rm_supervisors r = [] then r\<lparr>rm_mode := ''listen''\<rparr> else r)) (\<lambda>_.
      and_then (and_then (join_leg l True) (\<lambda>l'. on_room (\<lambda>r. r\<lparr>rm_supervisors := AList.update i l' (rm_supervisors r)\<rparr>))) (\<lambda>_. rules))"
    by (simp add: seat_supervisor_def and_then_assoc)
  then show ?thesis
    by (auto intro!: ensures_and_then [OF mode] ensures_and_then [OF seat] rules_kept)
qed

lemma addSupervisor_kept: "ensures (kept k) (room_addSupervisor codec i sdp) (\<lambda>_. kept k) (kept k)"
proof (cases "primaryAudioOnly codec sdp")
  case (Inl e)
  then show ?thesis by (simp add: room_addSupervisor_def ensures_raise)
next
  case (Inr p)
  have seat: "ensures (unseated_leg k (l, a)) (and_then (seat_supervisor i l) (\<lambda>_. ret x)) (\<lambda>_. kept k) (kept k)" for l a x
  proof (cases "lg_member l")
    case None
    have "ensures (kept None) (and_then (seat_supervisor i l) (\<lambda>_. ret x)) (\<lambda>_. kept (Some True)) (kept k)"
      by (intro ensures_and_then [OF seat_supervisor_kept [OF None]] ensures_ret)
    then show ?thesis
      by (rule ensures_weaken) (auto simp: unseated_leg_def intro: kept_full kept_base)
  qed (simp add: ensures_def unseated_leg_def)
  obtain q ex where p: "p = (q, ex)" by (cases p)
  show ?thesis
    unfolding room_addSupervisor_def Inr p sum.case prod.case
    by (intro ensures_and_then [OF drop_supervisor_kept] ensures_and_then [OF leg_from_offer_kept] ensures_prod)
      (auto intro: seat)
qed

lemma supervisorAnswered_kept: "ensures (kept k) (room_supervisorAnswered i sdp) (\<lambda>_. kept k) (kept k)"
  unfolding room_supervisorAnswered_def
proof (intro room_known ensures_option)
  show "ensures (known k r) (raise e) (\<lambda>_. kept k) (kept k)" for r and e :: string
    by (rule ensures_raise) (simp add: known_def)
  fix r :: room and l assume pending: "map_of (rm_pendingSupervisors r) i = Some l"
  show "ensures (known k r) (and_then (on_room (\<lambda>r. r\<lparr>rm_pendingSupervisors := AList.delete i (rm_pendingSupervisors r)\<rparr>)) (\<lambda>_.
      and_then (apply_answer l sdp) (\<lambda>l'. and_then (drop_supervisor_leg i) (\<lambda>_. seat_supervisor i l')))) (\<lambda>_. kept k) (kept k)"
  proof (cases "unseated r")
    case True
    then have none: "lg_member l = None"
      using map_of_SomeD [OF pending] by (auto simp: unseated_def)
    have seat: "ensures (\<lambda>s. kept k s \<and> lg_member l' = lg_member l \<and> lg_rtpKey l' = lg_rtpKey l)
        (and_then (drop_supervisor_leg i) (\<lambda>_. seat_supervisor i l')) (\<lambda>_. kept k) (kept k)" for l'
    proof (cases "lg_member l' = None")
      case True
      have "ensures (kept None) (and_then (drop_supervisor_leg i) (\<lambda>_. seat_supervisor i l')) (\<lambda>_. kept (Some True)) (kept k)"
        by (intro ensures_and_then [OF drop_supervisor_kept] seat_supervisor_kept True)
      then show ?thesis by (rule ensures_weaken) (auto intro: kept_full kept_base)
    qed (auto simp: ensures_def none)
    show ?thesis
      by (intro ensures_and_then [OF on_room_known] ensures_and_then [OF apply_answer_kept] seat) (simp add: room_changes)
  qed (auto simp: ensures_def known_def dest: kept_unseated)
qed

lemma rules_after_change:
  assumes "\<And>r. rm_supervisors (f r) = rm_supervisors r \<and> rm_agents (f r) = rm_agents r \<and> rm_customer (f r) = rm_customer r
     \<and> rm_pendingAgent (f r) = rm_pendingAgent r \<and> rm_pendingSupervisors (f r) = rm_pendingSupervisors r"
  shows "ensures (kept k) (and_then (on_room f) (\<lambda>_. rules)) (\<lambda>_. kept (Some True)) X"
proof -
  have "ensures (kept None) (on_room f) (\<lambda>_. kept None) X"
    unfolding on_room_def
    by (rule ensures_change) (simp add: base_is_kept base_def sup_sits_def agent_sits_def unseated_def customer_member_def assms)
  then have "ensures (kept None) (and_then (on_room f) (\<lambda>_. rules)) (\<lambda>_. kept (Some True)) X"
    by (rule ensures_and_then) (rule rules_kept)
  then show ?thesis by (rule ensures_weaken) (auto intro: kept_base)
qed

lemma modes_kept:
  "ensures (kept k) (room_setSupervisorMode mode) (\<lambda>_. kept k) X"
  "ensures (kept k) (room_setAgentPrivate active) (\<lambda>_. kept k) X"
proof -
  have changed: "ensures (kept k) (and_then (on_room f) (\<lambda>_. and_then rules (\<lambda>_. m))) (\<lambda>_. kept k) X"
    if "\<And>r. rm_supervisors (f r) = rm_supervisors r \<and> rm_agents (f r) = rm_agents r \<and> rm_customer (f r) = rm_customer r
     \<and> rm_pendingAgent (f r) = rm_pendingAgent r \<and> rm_pendingSupervisors (f r) = rm_pendingSupervisors r"
      and "ensures (kept (Some True)) m (\<lambda>_. kept (Some True)) X" for f and m :: "bool room_task"
  proof -
    have "ensures (kept k) (and_then (and_then (on_room f) (\<lambda>_. rules)) (\<lambda>_. m)) (\<lambda>_. kept (Some True)) X"
      by (rule ensures_and_then [OF rules_after_change [OF that(1)] that(2)])
    then show ?thesis by (simp add: and_then_assoc) (erule ensures_weaken, auto intro: kept_full)
  qed
  show "ensures (kept k) (room_setSupervisorMode mode) (\<lambda>_. kept k) X"
    unfolding room_setSupervisorMode_def Let_def
    by (rule ensures_and_then [OF room_of_kept], rule changed) (simp_all add: ensures_ret)
  show "ensures (kept k) (room_setAgentPrivate active) (\<lambda>_. kept k) X"
    unfolding room_setAgentPrivate_def
    by (rule changed) (simp_all add: room_of_kept)
qed

lemma removeSupervisor_kept: "ensures (kept k) (room_removeSupervisor i) (\<lambda>_. kept k) X"
proof -
  let ?f = "\<lambda>r :: room. if rm_supervisors r = [] then r\<lparr>rm_agentPrivate := False, rm_mode := ''listen''\<rparr> else r"
  have "ensures (kept k) (and_then (and_then (on_room ?f) (\<lambda>_. rules)) (\<lambda>_. room_of g)) (\<lambda>_. kept (Some True)) X"
    for g :: "room \<Rightarrow> bool"
    by (rule ensures_and_then [OF rules_after_change room_of_kept]) simp
  from ensures_weaken [OF this, of "kept k" "\<lambda>_. kept k" X]
  have "ensures (kept k) (and_then (on_room ?f) (\<lambda>_. and_then rules (\<lambda>_. room_of g))) (\<lambda>_. kept k) X" for g :: "room \<Rightarrow> bool"
    by (simp add: and_then_assoc kept_full)
  then show ?thesis
    unfolding room_removeSupervisor_def
    by (intro ensures_and_then [OF room_of_kept] ensures_and_then [OF ensures_for_each [OF drop_supervisor_kept]])
qed

text \<open>Joining the customer leaves the agents as they are.\<close>

definition agents_of :: "room_run \<Rightarrow> (nat \<times> leg) list" where
  "agents_of s = rm_agents (rr_room s)"

interpretation agents_stay: effect_relation "\<lambda>s t. agents_of t = agents_of s"
  by unfold_locales simp_all

lemma agents_stay_calls:
  "runs_in (\<lambda>s t. agents_of t = agents_of s) (ask cs)" "runs_in (\<lambda>s t. agents_of t = agents_of s) (conf c)"
  by (auto simp: runs_in_def ask_def conf_def agents_of_def Let_def split: option.split)

lemma agents_stay_quietly: "runs_in (\<lambda>s t. agents_of t = agents_of s) (quietly cs)"
  unfolding quietly_def by (intro agents_stay.run_rules agents_stay_calls)

lemma agents_stay_room:
  "runs_in (\<lambda>s t. agents_of t = agents_of s) (room_of g)"
  "(\<And>r. rm_agents (f r) = rm_agents r) \<Longrightarrow> runs_in (\<lambda>s t. agents_of t = agents_of s) (on_room f)"
  unfolding room_of_def on_room_def
  by (intro agents_stay.run_read agents_stay.run_change; simp add: agents_of_def)+

lemma agents_stay_join_customer: "runs_in (\<lambda>s t. agents_of t = agents_of s) join_customer"
  unfolding join_customer_def join_leg_def
  by (intro agents_stay.run_rules agents_stay_calls agents_stay_quietly agents_stay_room) simp_all

lemma agents_stay_break: "runs_in (\<lambda>s t. agents_of t = agents_of s) (break_audio l)"
  by (cases l) (simp_all add: agents_stay.run_ret agents_stay_quietly)

lemma agents_stay_hold: "runs_in (\<lambda>s t. agents_of t = agents_of s) (hold on url)"
  unfolding hold_def by (intro agents_stay.run_rules agents_stay_calls agents_stay_room) simp_all

lemma bridge_kept: "ensures (kept k) room_bridge (\<lambda>_. kept k) X"
  unfolding room_bridge_def
proof (intro room_known ensures_option ensures_if)
  show "ensures (known k r) (ret x) (\<lambda>_. kept k) X" for r and x :: bool
    by (intro known_kept ensures_ret)
  show "ensures (known k r) (ret x) (\<lambda>_. kept k) X" for r and x :: bool
    by (intro known_kept ensures_ret)
  fix r :: room and c
  let ?with = "\<lambda>s. kept None s \<and> agents_of s = rm_agents r"
  have in_room: "ensures ?with (if lg_member c = None then and_then (break_audio (Some c)) (\<lambda>_. join_customer) else ret ()) (\<lambda>_. ?with) X"
    by (intro ensures_if ensures_and_then [OF ensures_frame [OF break_audio_kept agents_stay_break]]
        ensures_frame [OF join_customer_kept agents_stay_join_customer] ensures_ret) simp_all
  have held: "ensures ?with (hold False []) (\<lambda>_. ?with) X"
    by (rule ensures_frame [OF hold_kept agents_stay_hold])
  have agents: "ensures ?with (for_each join_agent (rm_agents r)) (\<lambda>_. kept None) X"
    by (rule ensures_weaken [OF join_agents_base [OF subset_refl]])
      (auto simp: base_is_kept agents_of_def dest: agents_may_sit)
  have rec: "ensures (kept (Some True)) (start_recording u) (\<lambda>_. kept (Some True)) X" for u
    unfolding start_recording_def
    by (intro ensures_catching [where Y = "\<lambda>_. False"] ensures_and_then [OF ask_kept] ensures_ret ensures_False) simp_all
  have last: "ensures (kept (Some True)) (and_then (on_room (\<lambda>r. r\<lparr>rm_bridged := True\<rparr>)) (\<lambda>_.
      if b then ret True
      else and_then (room_note QueueAudioStopped) (\<lambda>_. and_then (start_recording u) (\<lambda>rec.
        and_then (on_room (\<lambda>r. r\<lparr>rm_recording := rec\<rparr>)) (\<lambda>_. ret True))))) (\<lambda>_. kept (Some True)) X" for b u
    by (rule ensures_and_then [OF change_kept], simp add: room_changes)
      (intro ensures_if ensures_ret ensures_and_then [OF room_note_kept] ensures_and_then [OF rec] ensures_and_then [OF change_kept];
       simp add: room_changes)
  let ?rest = "and_then (if lg_member c = None then and_then (break_audio (Some c)) (\<lambda>_. join_customer) else ret ()) (\<lambda>_.
           and_then (hold False []) (\<lambda>_. and_then (for_each join_agent (rm_agents r)) (\<lambda>_. and_then (tone False) (\<lambda>_. and_then rules (\<lambda>_.
           and_then (on_room (\<lambda>r. r\<lparr>rm_bridged := True\<rparr>)) (\<lambda>_.
           if rm_bridged (id r) then ret True
           else and_then (room_note QueueAudioStopped) (\<lambda>_. and_then (start_recording (lg_uuid c)) (\<lambda>rec.
             and_then (on_room (\<lambda>r. r\<lparr>rm_recording := rec\<rparr>)) (\<lambda>_. ret True)))))))))"
  have "ensures ?with ?rest (\<lambda>_. kept (Some True)) X"
    by (rule ensures_and_then [OF in_room], rule ensures_and_then [OF held], rule ensures_and_then [OF agents],
        rule ensures_and_then [OF tone_kept], rule ensures_and_then [OF rules_kept]) (rule last)
  then show "ensures (known k r) (and_then (if lg_member c = None then and_then (break_audio (Some c)) (\<lambda>_. join_customer) else ret ()) (\<lambda>_.
           and_then (hold False []) (\<lambda>_. and_then (for_each join_agent (rm_agents (id r))) (\<lambda>_. and_then (tone False) (\<lambda>_. and_then rules (\<lambda>_.
           and_then (on_room (\<lambda>r. r\<lparr>rm_bridged := True\<rparr>)) (\<lambda>_.
           if rm_bridged (id r) then ret True
           else and_then (room_note QueueAudioStopped) (\<lambda>_. and_then (start_recording (lg_uuid c)) (\<lambda>rec.
             and_then (on_room (\<lambda>r. r\<lparr>rm_recording := rec\<rparr>)) (\<lambda>_. ret True))))))))))
    (\<lambda>_. kept k) X"
    unfolding id_apply by (rule ensures_weaken) (auto simp: known_def agents_of_def intro: kept_base kept_full)
qed

lemma startHold_kept: "ensures (kept (Some False)) (room_startHold url) (\<lambda>_. kept (Some False)) X"
  unfolding room_startHold_def
  by (intro room_known ensures_if ensures_ret known_kept ensures_and_then [OF break_audio_kept] ensures_and_then [OF join_customer_kept] hold_kept)
    simp_all

end
