(* ===== verification/RoomSafety.thy ===== *)
theory RoomSafety
  imports RoomFacts
begin

text \<open>
  A worker's rooms over any history of operations: calls do not disturb each other, and in every room the
  rules of \<open>RoomFacts\<close> hold after each operation.
\<close>

section \<open>Every operation only adds calls out\<close>

definition grows :: "room_run \<Rightarrow> room_run \<Rightarrow> bool" where
  "grows s t \<longleftrightarrow> rr_env t = rr_env s \<and> rr_boot t = rr_boot s \<and> rr_step s \<le> rr_step t"

interpretation growth: effect_relation grows
  by unfold_locales (auto simp: grows_def)

named_theorems grow \<open>actions that only add calls out\<close>

lemma calls_grow [grow]: "runs_in grows (ask cs)" "runs_in grows (conf c)" "runs_in grows (room_note c)"
    "runs_in grows (on_room f)" "runs_in grows (room_of g)" "runs_in grows (next_key kind)"
  by (auto simp: runs_in_def grows_def ask_def conf_def room_note_def on_room_def room_of_def next_key_def act_defs
      Let_def split: option.split)

lemma quietly_grows [grow]: "runs_in grows (quietly cs)"
  unfolding quietly_def by (intro growth.run_rules grow)

lemma legs_grow [grow]:
  "runs_in grows (leg_from_offer kind sdp transport)" "runs_in grows (leg_offer kind transport)"
  "runs_in grows (apply_answer l sdp)" "runs_in grows (join_leg l mute)"
  unfolding leg_from_offer_def leg_offer_def apply_answer_def join_leg_def by (intro growth.run_rules grow)+

lemma destroy_grows [grow]: "runs_in grows (destroy_leg ol)" "runs_in grows (break_audio ol)"
  by (cases ol; simp; intro growth.run_rules grow)+

lemma joins_grow [grow]:
  "runs_in grows join_customer" "runs_in grows (join_agent e)" "runs_in grows (arm_customer l)" "runs_in grows watch_customer"
  unfolding join_customer_def join_agent_def arm_customer_def watch_customer_def by (intro growth.run_rules grow)+

lemma rules_grow [grow]: "runs_in grows rules" "runs_in grows (tone on)" "runs_in grows (hold on url)"
  unfolding rules_def supervisor_rule_def agent_rule_def tone_def hold_def by (intro growth.run_rules grow)+

lemma customer_grows [grow]:
  "runs_in grows (room_answerCustomer sdp p)" "runs_in grows (room_offerCustomer p)" "runs_in grows (room_customerAnswered sdp p)"
  "runs_in grows (dtmf_heard d now)" "runs_in grows (listenForDigits on)"
  unfolding room_answerCustomer_def room_offerCustomer_def room_customerAnswered_def dtmf_heard_def listenForDigits_def
  by (intro growth.run_rules grow)+

lemma audio_grows [grow]: "runs_in grows (packets_of key)" "runs_in grows (await_audio n key)"
proof -
  show packets: "runs_in grows (packets_of key)" for key
    unfolding packets_of_def by (intro growth.run_rules grow)
  show "runs_in grows (await_audio n key)"
  proof (induction n)
    case 0
    then show ?case by (subst await_audio.simps) (simp only: nat.case, intro growth.run_rules packets)
  next
    case (Suc n)
    then show ?case by (subst await_audio.simps) (simp only: nat.case, intro growth.run_rules packets)
  qed
qed

lemma agents_grow [grow]:
  "runs_in grows room_offerAgent" "runs_in grows (room_agentAccepted a sdp)" "runs_in grows (room_answerAgent a sdp)"
  "runs_in grows (drop_leg_of a)" "runs_in grows (start_recording u)"
  unfolding room_offerAgent_def room_agentAccepted_def room_answerAgent_def drop_leg_of_def start_recording_def
  by (intro growth.run_rules grow)+

lemma room_grows [grow]: "runs_in grows (room_dropAgent oa)" "runs_in grows room_bridge"
  unfolding room_dropAgent_def room_bridge_def by (intro growth.run_rules grow)+

lemma supervisors_grow [grow]:
  "runs_in grows (seat_supervisor i l)" "runs_in grows (drop_supervisor_leg i)" "runs_in grows (room_offerSupervisor i)"
  "runs_in grows (room_setSupervisorMode mode)" "runs_in grows (room_setAgentPrivate active)" "runs_in grows (room_removeSupervisor oi)"
  unfolding seat_supervisor_def drop_supervisor_leg_def room_offerSupervisor_def room_setSupervisorMode_def Let_def
    room_setAgentPrivate_def room_removeSupervisor_def by (intro growth.run_rules grow)+

lemma supervisor_joins_grow [grow]:
  "runs_in grows (room_addSupervisor codec i sdp)" "runs_in grows (room_supervisorAnswered i sdp)"
  unfolding room_addSupervisor_def room_supervisorAnswered_def by (intro growth.run_rules grow)+

lemma prompts_grow [grow]:
  "runs_in grows (play_prompt url)" "runs_in grows stop_prompt" "runs_in grows (room_startHold url)" "runs_in grows room_stopHold"
  "runs_in grows close_legs_of"
  unfolding play_prompt_def stop_prompt_def room_startHold_def room_stopHold_def close_legs_of_def
  by (intro growth.run_rules grow)+

section \<open>The rules in every room\<close>

definition in_order :: "bool \<Rightarrow> media_worker \<Rightarrow> bool" where
  "in_order full w \<longleftrightarrow> healthy (mw_env w) \<and> (\<forall>i r. mw_rooms w i = Some r \<longrightarrow> kept (Some full) (run_of i w))"

lemma run_of_simps [simp]:
  "rr_room (run_of i w) = the_room i w" "rr_env (run_of i w) = mw_env w" "rr_step (run_of i w) = mw_step w"
  "rr_cmds (run_of i w) = mw_cmds w i" "rr_boot (run_of i w) = mw_boot w"
  by (simp_all add: run_of_def)

lemma kept_table: "kept (Some full) s \<Longrightarrow> base s \<and> table full (rr_room s) (rr_cmds s)"
  by (simp add: kept_def)

lemma new_room_kept: "healthy (mw_env w) \<Longrightarrow> mw_rooms w i = None \<Longrightarrow> kept k (run_of i w)"
  by (simp add: kept_def base_def table_def the_room_def new_room_def sup_sits_def agent_sits_def unseated_def customer_member_def)

lemma in_order_kept: "in_order full w \<Longrightarrow> kept (Some full) (run_of i w)"
  by (cases "mw_rooms w i") (auto simp: in_order_def new_room_kept)

text \<open>Calls out for another call leave a room's rules as they are.\<close>

lemma kept_elsewhere:
  assumes "kept k s" and "rr_env t = rr_env s" and "rr_room t = rr_room s" and "rr_cmds t = rr_cmds s" and "rr_step s \<le> rr_step t"
  shows "kept k t"
  using assms by (auto simp: kept_def base_def dest: used_mono)

definition put_room :: "nat \<Rightarrow> room_run \<Rightarrow> media_worker \<Rightarrow> media_worker" where
  "put_room i s w = w\<lparr>mw_rooms := (mw_rooms w)(i := Some (rr_room s)), mw_step := rr_step s, mw_cmds := (mw_cmds w)(i := rr_cmds s)\<rparr>"

lemma put_in_order:
  assumes "in_order full w" and "grows (run_of i w) s" and "kept (Some full) s"
  shows "in_order full (put_room i s w)"
  unfolding in_order_def
proof (intro conjI allI impI)
  show "healthy (mw_env (put_room i s w))" using assms(1) by (simp add: put_room_def in_order_def)
  fix j r assume there: "mw_rooms (put_room i s w) j = Some r"
  show "kept (Some full) (run_of j (put_room i s w))"
  proof (cases "j = i")
    case True
    then show ?thesis
      using assms(2) by (intro kept_elsewhere [OF assms(3)]) (simp_all add: put_room_def the_room_def grows_def)
  next
    case False
    then have "kept (Some full) (run_of j w)" using assms(1) there by (simp add: in_order_def put_room_def)
    then show ?thesis
      using False there assms(2) by (elim kept_elsewhere) (simp_all add: put_room_def the_room_def grows_def)
  qed
qed

lemma in_order_saved: "in_order full (w\<lparr>mw_saved := x\<rparr>) = in_order full w"
  by (simp add: in_order_def run_of_def the_room_def)

lemma saveRoom_in_order: "in_order full (saveRoom i r w) = in_order full w"
  by (simp add: saveRoom_def in_order_saved)

text \<open>A task that keeps the rules and only adds calls out, run on a room, leaves every room in order.\<close>

definition minds :: "bool \<Rightarrow> 'a room_task \<Rightarrow> bool" where
  "minds full m \<longleftrightarrow> ensures (kept (Some full)) m (\<lambda>_. kept (Some full)) (kept (Some full)) \<and> runs_in grows m"

lemma mindsI: "ensures (kept (Some full)) m (\<lambda>_. kept (Some full)) (kept (Some full)) \<Longrightarrow> runs_in grows m \<Longrightarrow> minds full m"
  by (simp add: minds_def)

lemma ran_in_order:
  assumes "minds full m" and "in_order full w"
  shows "in_order full (put_room i (snd (m (run_of i w))) w)"
proof (rule put_in_order [OF assms(2)])
  show "grows (run_of i w) (snd (m (run_of i w)))" using assms(1) by (simp add: minds_def runs_in_def)
  show "kept (Some full) (snd (m (run_of i w)))"
    using assms(1) in_order_kept [OF assms(2)] unfolding minds_def by (blast intro: ensures_state)
qed

lemma serial_in_order: "minds full m \<Longrightarrow> in_order full w \<Longrightarrow> in_order full (snd (serial i m w))"
  using ran_in_order [of full m w i] by (simp add: serial_def Let_def saveRoom_in_order put_room_def)

lemma aside_in_order: "minds full m \<Longrightarrow> in_order full w \<Longrightarrow> in_order full (aside i m w)"
  using ran_in_order [of full m w i] by (simp add: aside_def Let_def put_room_def split: option.split)

lemma if_held_in_order: "minds full m \<Longrightarrow> in_order full w \<Longrightarrow> in_order full (snd (if_held i x m w))"
  by (simp add: if_held_def serial_in_order)

lemma must_hold_in_order: "minds full m \<Longrightarrow> in_order full w \<Longrightarrow> in_order full (snd (must_hold i m w))"
  by (simp add: must_hold_def serial_in_order)

lemmas ran = serial_in_order aside_in_order if_held_in_order must_hold_in_order

lemma close_legs_kept: "ensures (kept k) close_legs_of (\<lambda>_. kept k) X"
  unfolding close_legs_of_def
  by (intro ensures_and_then [OF room_of_kept] ensures_and_then [of _ _ "\<lambda>_. kept k"] ensures_option ensures_ret quietly_kept
      ensures_for_each destroy_leg_kept) simp_all

lemma forget_in_order: "in_order full w \<Longrightarrow> in_order full (w\<lparr>mw_rooms := (mw_rooms w)(i := None), mw_saved := x\<rparr>)"
  by (auto simp: in_order_def run_of_def the_room_def)

lemma close_in_order:
  assumes "in_order full w"
  shows "in_order full (room_close i w)"
proof (cases "mw_rooms w i")
  case (Some r)
  have "in_order full (put_room i (snd (close_legs_of (run_of i w))) w)"
    by (intro ran_in_order mindsI close_legs_kept grow assms)
  from forget_in_order [OF this, where i = i] show ?thesis
    using Some by (cases w) (simp add: room_close_def Let_def put_room_def)
qed (simp add: room_close_def assms)

text \<open>Hold music is the one operation that seats somebody without the rules.\<close>

fun holds :: "room_op \<Rightarrow> bool" where
  "holds (StartHold_op _) = True"
| "holds _ = False"

lemma perform_in_order:
  assumes "in_order full w" and "full \<Longrightarrow> \<not> holds op"
  shows "in_order full (perform_room (i, op) w)"
proof (cases op)
  case (StartHold_op u)
  with assms(2) have "full = False" by auto
  with assms(1) StartHold_op show ?thesis
    by (auto intro!: serial_in_order mindsI grow ensures_weaken [OF startHold_kept])
qed (simp_all, (intro ran mindsI assms close_in_order answerCustomer_kept offerCustomer_kept customerAnswered_kept dtmf_kept listen_kept
    offerAgent_kept answerAgent_kept agentAccepted_kept dropAgent_kept bridge_kept addSupervisor_kept offerSupervisor_kept
    supervisorAnswered_kept modes_kept removeSupervisor_kept prompts_kept grow)+)

lemma history_in_order:
  assumes "in_order full w" and "full \<Longrightarrow> list_all (\<lambda>e. \<not> holds (snd e)) ops"
  shows "in_order full (perform_rooms ops w)"
  using assms
proof (induction ops arbitrary: w)
  case (Cons e ops)
  then have "in_order full (perform_room e w)" by (cases e) (auto intro: perform_in_order)
  with Cons show ?case by (simp add: perform_rooms_def)
qed (simp add: perform_rooms_def)

lemma idle_in_order: "healthy env \<Longrightarrow> in_order full (idle_worker boot env)"
  by (simp add: in_order_def idle_worker_def)

section \<open>Who hears whom\<close>

text \<open>C7: Whatever was done on whichever calls, and as long as the media server carries out what it is asked:
  the customer never hears a supervisor who is in listen mode; and unless hold music was started, the customer
  hears the supervisors exactly in the mode that is neither listen nor whisper (barge), and the agents exactly
  while they are not answering the supervisor privately.\<close>

theorem who_hears_whom:
  assumes healthy: "healthy env" and w: "w = perform_rooms ops (idle_worker boot env)"
    and room: "mw_rooms w i = Some r" and cust: "customer_member r = Some c"
  shows "(\<forall>m. sup_sits r m \<longrightarrow> rm_mode r = ''listen'' \<longrightarrow> \<not> heard (mw_cmds w i) m c)
    \<and> (list_all (\<lambda>e. \<not> holds (snd e)) ops \<longrightarrow>
        (\<forall>m. sup_sits r m \<longrightarrow> (heard (mw_cmds w i) m c \<longleftrightarrow> rm_mode r \<notin> {''listen'', ''whisper''}))
        \<and> (\<forall>m. agent_sits r m \<longrightarrow> (heard (mw_cmds w i) m c \<longleftrightarrow> \<not> rm_agentPrivate r)))"
proof (intro conjI impI)
  have kept: "kept (Some full) (run_of i w)" if "full \<Longrightarrow> list_all (\<lambda>e. \<not> holds (snd e)) ops" for full
    unfolding w by (intro in_order_kept history_in_order idle_in_order healthy that)
  have r: "the_room i w = r" using room by (simp add: the_room_def)
  show "\<forall>m. sup_sits r m \<longrightarrow> rm_mode r = ''listen'' \<longrightarrow> \<not> heard (mw_cmds w i) m c"
    using kept [of False, OF FalseE] by (auto simp: kept_def table_def sup_told_def r heard_def)
  assume calm: "list_all (\<lambda>e. \<not> holds (snd e)) ops"
  then have full: "table True r (mw_cmds w i)" and base: "base (run_of i w)" using kept_table [OF kept [of True, OF calm]] r by simp_all
  show "\<forall>m. sup_sits r m \<longrightarrow> (heard (mw_cmds w i) m c \<longleftrightarrow> rm_mode r \<notin> {''listen'', ''whisper''})"
    using full cust by (auto simp: table_def sup_told_def heard_def)
  show "\<forall>m. agent_sits r m \<longrightarrow> (heard (mw_cmds w i) m c \<longleftrightarrow> \<not> rm_agentPrivate r)"
    using full cust base by (simp add: table_def agent_told_def heard_def base_def r)
qed

definition calm_server :: "nat \<Rightarrow> reply" where
  "calm_server n = \<lparr> rp_fail = None, rp_done = True, rp_text = ''sdp'', rp_uuid = ''u'', rp_dialog = ''d'', rp_member = n,
     rp_packets = 1, rp_recording = None \<rparr>"

lemma calm_is_healthy: "healthy calm_server"
  by (simp add: healthy_def calm_server_def inj_def)

definition plain_profile :: sdp_profile where
  "plain_profile = \<lparr> pf_transport = None, pf_remoteOffer = id, pf_localOffer = id, pf_remoteAnswer = id \<rparr>"

definition plain_codec :: sdp_codec where
  "plain_codec = \<lparr> sc_parse = (\<lambda>s. \<lparr> sd_media = [], sd_groups = None, sd_rest = [s] \<rparr>), sc_write = (\<lambda>d. concat (sd_rest d)) \<rparr>"

definition coached_call :: "(nat \<times> room_op) list" where
  "coached_call = [(3, AnswerCustomer_op ''offer'' plain_profile), (3, OfferAgent_op), (3, AgentAccepted_op 7 ''answer''),
     (3, Bridge_op), (3, AddSupervisor_op plain_codec 9 ''offer''), (3, SetMode_op ''whisper'')]"

lemma coached_room:
  "map_option (\<lambda>r. (customer_member r, map (\<lambda>e. lg_member (snd e)) (rm_agents r), map (\<lambda>e. lg_member (snd e)) (rm_supervisors r),
     rm_mode r, rm_agentPrivate r)) (mw_rooms (perform_rooms coached_call (idle_worker ''boot'' calm_server)) 3) = Some (Some 10, [Some 12], [Some 19], ''whisper'', False)"
  by code_simp

theorem who_hears_whom_witness:
  "\<not> heard (mw_cmds (perform_rooms coached_call (idle_worker ''boot'' calm_server)) 3) 19 10
    \<and> heard (mw_cmds (perform_rooms coached_call (idle_worker ''boot'' calm_server)) 3) 12 10"
proof -
  let ?w = "perform_rooms coached_call (idle_worker ''boot'' calm_server)"
  obtain r where r: "mw_rooms ?w 3 = Some r" and cust: "customer_member r = Some 10"
    and agents: "map (\<lambda>e. lg_member (snd e)) (rm_agents r) = [Some 12]"
    and sups: "map (\<lambda>e. lg_member (snd e)) (rm_supervisors r) = [Some 19]" and mode: "rm_mode r = ''whisper''" "\<not> rm_agentPrivate r"
    using coached_room by (cases "mw_rooms ?w 3") auto
  have "agent_sits r 12" "sup_sits r 19"
    using agents sups by (auto simp: agent_sits_def sup_sits_def map_eq_Cons_conv)
  moreover have "list_all (\<lambda>e. \<not> holds (snd e)) coached_call" by (simp add: coached_call_def)
  ultimately show ?thesis using who_hears_whom [OF calm_is_healthy refl r cust] mode by auto
qed


definition coached_menu :: media_worker where
  "coached_menu = perform_rooms [(3, AnswerCustomer_op ''offer'' plain_profile), (3, AddSupervisor_op plain_codec 9 ''offer''),
     (3, SetMode_op ''whisper'')] (idle_worker ''boot'' calm_server)"

lemma coached_menu_room:
  "map_option (\<lambda>r. (map_option lg_member (rm_customer r), rm_agents r, map (\<lambda>e. lg_member (snd e)) (rm_supervisors r),
     rm_mode r, rm_holdOn r)) (mw_rooms coached_menu 3) = Some (Some None, [], [Some 7], ''whisper'', False)"
  by code_simp


section \<open>Taking a call over\<close>

definition taken_over :: "leg \<Rightarrow> leg" where
  "taken_over l = l\<lparr>lg_lastDigit := None, lg_adopted := True\<rparr>"

definition taken_over_room :: "room \<Rightarrow> room" where
  "taken_over_room r = r\<lparr>rm_customer := map_option taken_over (rm_customer r), rm_pendingAgent := map_option taken_over (rm_pendingAgent r),
     rm_agents := map (\<lambda>e. (fst e, taken_over (snd e))) (rm_agents r),
     rm_supervisors := map (\<lambda>e. (fst e, taken_over (snd e))) (rm_supervisors r), rm_pendingSupervisors := [],
     rm_monitored := map_option lg_rtpKey (rm_customer r)\<rparr>"

text \<open>Every leg has its channel's uuid and every agent is filed under their id.\<close>

definition tidy :: "room \<Rightarrow> bool" where
  "tidy r \<longleftrightarrow> list_all (\<lambda>l. lg_uuid l \<noteq> []) (all_legs r) \<and> list_all (\<lambda>e. lg_agentId (snd e) = Some (fst e)) (rm_agents r)
     \<and> distinct (map fst (rm_agents r)) \<and> distinct (map fst (rm_supervisors r))"

lemma adopted_snapshot: "lg_uuid l \<noteq> [] \<Longrightarrow> adopted_leg (snapshot_leg l) = Some (taken_over l)"
  by (simp add: adopted_leg_def snapshot_leg_def taken_over_def)

lemma update_new: "k \<notin> fst ` set al \<Longrightarrow> AList.update k v al = al @ [(k, v)]"
  by (induction al) auto

lemma adopt_agents_all:
  assumes "list_all (\<lambda>e. lg_uuid (snd e) \<noteq> [] \<and> lg_agentId (snd e) = Some (fst e)) es" and "distinct (map fst (got @ es))"
  shows "adopt_agents (map (\<lambda>e. snapshot_leg (snd e)) es) got = got @ map (\<lambda>e. (fst e, taken_over (snd e))) es"
  using assms
proof (induction es arbitrary: got)
  case (Cons e es)
  have "sl_agentId (snapshot_leg (snd e)) = Some (fst e)" using Cons.prems(1) by (simp add: snapshot_leg_def)
  then have "adopt_agents (map (\<lambda>e. snapshot_leg (snd e)) (e # es)) got
      = adopt_agents (map (\<lambda>e. snapshot_leg (snd e)) es) (got @ [(fst e, taken_over (snd e))])"
    using Cons.prems by (simp add: adopted_snapshot update_new)
  also have "\<dots> = got @ map (\<lambda>e. (fst e, taken_over (snd e))) (e # es)"
    using Cons.IH [of "got @ [(fst e, taken_over (snd e))]"] Cons.prems by simp
  finally show ?case .
qed simp

lemma adopt_supervisors_all:
  assumes "list_all (\<lambda>e. lg_uuid (snd e) \<noteq> []) es" and "distinct (map fst (got @ es))"
  shows "adopt_supervisors (map (\<lambda>e. (fst e, snapshot_leg (snd e))) es) got = got @ map (\<lambda>e. (fst e, taken_over (snd e))) es"
  using assms
proof (induction es arbitrary: got)
  case (Cons e es)
  then have "adopt_supervisors (map (\<lambda>e. (fst e, snapshot_leg (snd e))) (e # es)) got
      = adopt_supervisors (map (\<lambda>e. (fst e, snapshot_leg (snd e))) es) (got @ [(fst e, taken_over (snd e))])"
    by (simp add: adopted_snapshot update_new)
  with Cons show ?case by simp
qed simp

lemma adopted_snapshot_room:
  assumes "tidy r" and "rm_callId r = i"
  shows "adopted_room (snapshotOf r) (new_room boot i) = taken_over_room r"
proof -
  have "list_all (\<lambda>l. lg_uuid l \<noteq> []) (map snd (rm_agents r) @ map snd (rm_supervisors r))"
    using assms(1) by (simp add: tidy_def all_legs_def)
  then have uuids: "list_all (\<lambda>e. lg_uuid (snd e) \<noteq> []) (rm_agents r)" "list_all (\<lambda>e. lg_uuid (snd e) \<noteq> []) (rm_supervisors r)"
    by (simp_all add: list_all_iff)
  have agents: "adopt_agents (map (\<lambda>e. snapshot_leg (snd e)) (rm_agents r)) [] = map (\<lambda>e. (fst e, taken_over (snd e))) (rm_agents r)"
    using adopt_agents_all [of "rm_agents r" "[]"] uuids(1) assms(1) by (simp add: tidy_def list_all_iff)
  have sups: "adopt_supervisors (map (\<lambda>e. (fst e, snapshot_leg (snd e))) (rm_supervisors r)) []
      = map (\<lambda>e. (fst e, taken_over (snd e))) (rm_supervisors r)"
    using adopt_supervisors_all [of "rm_supervisors r" "[]"] uuids(2) assms(1) by (simp add: tidy_def)
  have one: "Option.bind (map_option snapshot_leg ol) adopted_leg = map_option taken_over ol"
    if "\<And>l. ol = Some l \<Longrightarrow> lg_uuid l \<noteq> []" for ol
    using that by (cases ol) (simp_all add: adopted_snapshot)
  have cust: "Option.bind (map_option snapshot_leg (rm_customer r)) adopted_leg = map_option taken_over (rm_customer r)"
    "Option.bind (map_option snapshot_leg (rm_pendingAgent r)) adopted_leg = map_option taken_over (rm_pendingAgent r)"
    using assms(1) by (auto intro!: one simp: tidy_def all_legs_def)
  have key: "lg_rtpKey (taken_over l) = lg_rtpKey l" for l by (simp add: taken_over_def)
  show ?thesis
    using assms(2) agents sups cust
    by (cases r) (simp add: adopted_room_def snapshotOf_def new_room_def taken_over_room_def Let_def key option.map_comp comp_def
        split: option.splits)
qed

text \<open>C19: A worker that shuts down loses no call: another (or the same, restarted) rebuilds each room from what was
  saved, every leg as it was - its place in the conference, its media leg, who it is for - with the mode, the
  agent's private reply, the music and the recording; only the digits half heard and a supervisor's leg that was
  offered and not answered are gone.\<close>

theorem handed_over_room_is_rebuilt:
  assumes "mw_rooms w i = Some r" and "mw_saved w i = Some (snapshotOf r)" and "tidy r" and "rm_callId r = i"
  shows "fst (room_adopt i (room_handOver w)) \<and> mw_rooms (snd (room_adopt i (room_handOver w))) i = Some (taken_over_room r)"
proof -
  have "rm_customer (new_room b j) = None" "rm_agents (new_room b j) = []" "rm_supervisors (new_room b j) = []" for b j
    by (simp_all add: new_room_def)
  then show ?thesis
    using assms adopted_snapshot_room [OF assms(3,4), of "mw_boot w"]
    by (simp add: room_adopt_def room_handOver_def the_room_def Let_def saveRoom_def)
qed

theorem handed_over_room_is_rebuilt_witness:
  "fst (room_adopt 3 (room_handOver (perform_rooms coached_call (idle_worker ''boot'' calm_server))))"
proof -
  let ?w = "perform_rooms coached_call (idle_worker ''boot'' calm_server)"
  have facts: "map_option (\<lambda>r. mw_saved ?w 3 = Some (snapshotOf r) \<and> tidy r \<and> rm_callId r = 3) (mw_rooms ?w 3) = Some True"
    by code_simp
  then obtain r where "mw_rooms ?w 3 = Some r" "mw_saved ?w 3 = Some (snapshotOf r)" "tidy r" "rm_callId r = 3"
    by (cases "mw_rooms ?w 3") auto
  then show ?thesis using handed_over_room_is_rebuilt by blast
qed

end
