(* ===== verification/Deadlines.thy ===== *)
theory Deadlines
  imports CallView "HOL-Library.List_Lexorder" "HOL-Library.Char_ord"
begin

text \<open>
  Timers that outlive the worker that set them (\<open>src/src/infra/cluster/Deadlines.js\<close>): a Redis sorted set of
  members \<open>kind|callId\<close> scored by when they are due. Every worker checks it on its own clock and claims at most
  \<open>BATCH\<close> due members in one script. A due member is claimed once, by the first ticks there is room for it in.
\<close>

section \<open>A Redis sorted set\<close>

text \<open>Ordered by score, then by the member's bytes.\<close>

datatype deadline = Deadline (dl_due: int) (dl_member: string)

instantiation deadline :: linorder
begin

definition less_eq_deadline :: "deadline \<Rightarrow> deadline \<Rightarrow> bool" where
  "less_eq_deadline a b \<longleftrightarrow> dl_due a < dl_due b \<or> dl_due a = dl_due b \<and> dl_member a \<le> dl_member b"

definition less_deadline :: "deadline \<Rightarrow> deadline \<Rightarrow> bool" where
  "less_deadline a b \<longleftrightarrow> dl_due a < dl_due b \<or> dl_due a = dl_due b \<and> dl_member a < dl_member b"

instance
proof
  fix a b c :: deadline
  show "a < b \<longleftrightarrow> a \<le> b \<and> \<not> b \<le> a" by (auto simp: less_eq_deadline_def less_deadline_def)
  show "a \<le> a" by (simp add: less_eq_deadline_def)
  show "a \<le> b \<Longrightarrow> b \<le> c \<Longrightarrow> a \<le> c" by (auto simp: less_eq_deadline_def)
  show "a \<le> b \<Longrightarrow> b \<le> a \<Longrightarrow> a = b" by (cases a; cases b) (auto simp: less_eq_deadline_def)
  show "a \<le> b \<or> b \<le> a" by (auto simp: less_eq_deadline_def)
qed

end

definition zrem :: "string \<Rightarrow> deadline list \<Rightarrow> deadline list" where
  "zrem m z = filter (\<lambda>d. dl_member d \<noteq> m) z"

definition zadd :: "int \<Rightarrow> string \<Rightarrow> deadline list \<Rightarrow> deadline list" where
  "zadd score m z = insort (Deadline score m) (zrem m z)"

section \<open>The deadlines\<close>

definition deadline_member :: "string \<Rightarrow> nat \<Rightarrow> string" where
  "deadline_member kind callId = kind @ ''|'' @ decimal callId"

text \<open>\<open>Number(s)\<close> of decimal digits, and the two parts of \<open>m.split('|')\<close> the tick reads.\<close>

definition digits_value :: "string \<Rightarrow> nat" where
  "digits_value s = foldl (\<lambda>n c. 10 * n + (of_char c - 48)) 0 s"

definition member_parts :: "string \<Rightarrow> string \<times> nat" where
  "member_parts m = (takeWhile (\<lambda>c. c \<noteq> CHR ''|'') m,
     digits_value (takeWhile (\<lambda>c. c \<noteq> CHR ''|'') (tl (dropWhile (\<lambda>c. c \<noteq> CHR ''|'') m))))"

definition BATCH :: nat where
  "BATCH = 50"

record deadline_queue =
  dq_set :: "deadline list"
  dq_fired :: "(string \<times> nat) list"
  dq_unhandled :: "(string \<times> nat) list"

definition no_deadlines :: deadline_queue where
  "no_deadlines = \<lparr> dq_set = [], dq_fired = [], dq_unhandled = [] \<rparr>"

definition deadline_set :: "string \<Rightarrow> nat \<Rightarrow> int \<Rightarrow> int \<Rightarrow> deadline_queue \<Rightarrow> deadline_queue" where
  "deadline_set kind callId now inMs q = q\<lparr>dq_set := zadd (now + inMs) (deadline_member kind callId) (dq_set q)\<rparr>"

definition deadline_clear :: "string \<Rightarrow> nat \<Rightarrow> deadline_queue \<Rightarrow> deadline_queue" where
  "deadline_clear kind callId q = q\<lparr>dq_set := zrem (deadline_member kind callId) (dq_set q)\<rparr>"

text \<open>Of the kinds this worker has handlers for.\<close>

definition deadline_clearCall :: "string list \<Rightarrow> nat \<Rightarrow> deadline_queue \<Rightarrow> deadline_queue" where
  "deadline_clearCall handled callId q = q\<lparr>dq_set := fold (\<lambda>kind. zrem (deadline_member kind callId)) handled (dq_set q)\<rparr>"

text \<open>The script: the first due members, removed.\<close>

definition claim_due :: "int \<Rightarrow> deadline list \<Rightarrow> deadline list \<times> deadline list" where
  "claim_due now z =
     (let due = take BATCH (filter (\<lambda>d. dl_due d \<le> now) z) in (due, fold (\<lambda>d. zrem (dl_member d)) due z))"

definition deadline_tick :: "string list \<Rightarrow> int \<Rightarrow> deadline_queue \<Rightarrow> deadline_queue" where
  "deadline_tick handled now q =
     (let (due, rest) = claim_due now (dq_set q); parts = map (\<lambda>d. member_parts (dl_member d)) due in
      q\<lparr>dq_set := rest, dq_fired := dq_fired q @ filter (\<lambda>p. fst p \<in> set handled) parts,
        dq_unhandled := dq_unhandled q @ filter (\<lambda>p. fst p \<notin> set handled) parts\<rparr>)"

section \<open>Any workers, in any order\<close>

datatype deadline_event =
    Deadline_set string nat int int
  | Deadline_clear string nat
  | Deadline_clearCall "string list" nat
  | Deadline_tick "string list" int

fun deadline_step :: "deadline_event \<Rightarrow> deadline_queue \<Rightarrow> deadline_queue" where
  "deadline_step (Deadline_set kind i now inMs) q = deadline_set kind i now inMs q"
| "deadline_step (Deadline_clear kind i) q = deadline_clear kind i q"
| "deadline_step (Deadline_clearCall handled i) q = deadline_clearCall handled i q"
| "deadline_step (Deadline_tick handled now) q = deadline_tick handled now q"

fun is_tick :: "deadline_event \<Rightarrow> bool" where
  "is_tick (Deadline_tick _ _) = True"
| "is_tick _ = False"

section \<open>Members are read back as they were written\<close>

lemma digit_char_value: "n < 10 \<Longrightarrow> of_char (digit_char n) = 48 + n"
  by (simp add: digit_char_def take_bit_nat_def)

lemma decimal_value: "digits_value (decimal n) = n"
proof (induction n rule: decimal.induct)
  case (1 n)
  show ?case
  proof (cases "n < 10")
    case True
    then show ?thesis by (simp add: decimal.simps [of n] digits_value_def digit_char_value)
  next
    case False
    with 1 show ?thesis
      by (simp add: decimal.simps [of n] digits_value_def digit_char_value)
  qed
qed

lemma digit_not_pipe: "digit_char n \<noteq> CHR ''|''"
proof
  assume "digit_char n = CHR ''|''"
  moreover have "of_char (digit_char n) = (48 + n mod 10 :: nat)" using digit_char_value [of "n mod 10"] by (simp add: digit_char_def)
  moreover have "of_char (CHR ''|'') = (124 :: nat)" by simp
  ultimately have "n mod 10 = 76" by simp
  moreover have "n mod 10 < 10" by simp
  ultimately show False by simp
qed

lemma decimal_no_pipe: "CHR ''|'' \<notin> set (decimal n)"
  by (induction n rule: decimal.induct) (subst decimal.simps, auto simp: digit_not_pipe [symmetric])

lemma member_parts_member: "CHR ''|'' \<notin> set kind \<Longrightarrow> member_parts (deadline_member kind i) = (kind, i)"
proof -
  assume "CHR ''|'' \<notin> set kind"
  then have "\<forall>c\<in>set kind. c \<noteq> CHR ''|''" by auto
  then have "takeWhile (\<lambda>c. c \<noteq> CHR ''|'') (kind @ ''|'' @ xs) = kind" "dropWhile (\<lambda>c. c \<noteq> CHR ''|'') (kind @ ''|'' @ xs) = ''|'' @ xs" for xs
    by (simp_all add: takeWhile_append2 dropWhile_append2 takeWhile_tail dropWhile_append)
  moreover have tail: "takeWhile (\<lambda>c. c \<noteq> CHR ''|'') (decimal i) = decimal i"
    by (rule takeWhile_eq_all_conv [THEN iffD2]) (use decimal_no_pipe [of i] in auto)
  have "digits_value (takeWhile (\<lambda>c. c \<noteq> CHR ''|'') (decimal i)) = i" unfolding tail by (rule decimal_value)
  ultimately show ?thesis by (simp add: member_parts_def deadline_member_def)
qed

section \<open>The set stays a set\<close>

definition deadlines_ok :: "deadline list \<Rightarrow> bool" where
  "deadlines_ok z \<longleftrightarrow> sorted z \<and> distinct (map dl_member z)
     \<and> (\<forall>d \<in> set z. \<exists>kind i. CHR ''|'' \<notin> set kind \<and> dl_member d = deadline_member kind i)"

lemma ok_filter: "deadlines_ok z \<Longrightarrow> deadlines_ok (filter P z)"
  by (auto simp: deadlines_ok_def sorted_wrt_filter distinct_map_filter)

lemma set_zadd: "set (zadd s m z) = insert (Deadline s m) {d \<in> set z. dl_member d \<noteq> m}"
  by (auto simp: zadd_def zrem_def set_insort_key)

lemma ok_zadd:
  assumes "deadlines_ok z" and "CHR ''|'' \<notin> set kind"
  shows "deadlines_ok (zadd s (deadline_member kind i) z)"
proof -
  let ?m = "deadline_member kind i"
  have rest: "deadlines_ok (zrem ?m z)" unfolding zrem_def by (rule ok_filter [OF assms(1)])
  have "?m \<notin> dl_member ` set (zrem ?m z)" "Deadline s ?m \<notin> set (zrem ?m z)" by (auto simp: zrem_def)
  then have "distinct (map dl_member (insort (Deadline s ?m) (zrem ?m z)))"
    using rest by (auto simp: deadlines_ok_def distinct_map distinct_insort set_insort_key)
  then show ?thesis
    using rest assms(2) by (auto simp: deadlines_ok_def zadd_def sorted_insort set_insort_key)
qed

lemma fold_zrem: "fold (\<lambda>x. zrem (f x)) xs z = filter (\<lambda>d. dl_member d \<notin> f ` set xs) z"
  by (induction xs arbitrary: z) (auto simp: zrem_def conj_ac intro!: filter_cong)

lemma claim_due_parts:
  "fst (claim_due now z) = take BATCH (filter (\<lambda>d. dl_due d \<le> now) z)"
  "snd (claim_due now z) = filter (\<lambda>d. dl_member d \<notin> dl_member ` set (fst (claim_due now z))) z"
  by (simp_all add: claim_due_def Let_def fold_zrem)

lemma same_member: "deadlines_ok z \<Longrightarrow> a \<in> set z \<Longrightarrow> b \<in> set z \<Longrightarrow> dl_member a = dl_member b \<Longrightarrow> a = b"
  by (auto simp: deadlines_ok_def distinct_map dest: inj_onD)

lemma claimed_set: "set (fst (claim_due now z)) \<subseteq> set z"
  unfolding claim_due_parts by (auto dest: in_set_takeD)

lemma claimed_rest:
  assumes "deadlines_ok z"
  shows "snd (claim_due now z) = filter (\<lambda>d. d \<notin> set (fst (claim_due now z))) z"
proof -
  have "(dl_member d \<in> dl_member ` set (fst (claim_due now z))) = (d \<in> set (fst (claim_due now z)))" if "d \<in> set z" for d
    using same_member [OF assms that] claimed_set [of now z] by auto
  then show ?thesis unfolding claim_due_parts(2) by (auto intro!: filter_cong)
qed

section \<open>Whose turn it is\<close>

definition rank :: "deadline \<Rightarrow> deadline list \<Rightarrow> nat" where
  "rank d z = length (filter (\<lambda>x. x < d) z)"

lemma sorted_around:
  "sorted z \<Longrightarrow> distinct z \<Longrightarrow> d \<in> set z \<Longrightarrow> z = filter (\<lambda>x. x < d) z @ d # filter (\<lambda>x. d < x) (z :: deadline list)"
proof (induction z)
  case (Cons x z)
  show ?case
  proof (cases "x = d")
    case True
    with Cons.prems have "filter (\<lambda>x. x < d) z = []" "filter (\<lambda>x. d < x) z = z"
      by (auto simp: filter_empty_conv filter_id_conv not_less less_le)
    with True show ?thesis by simp
  next
    case False
    with Cons.prems have "x < d" by (auto simp: less_le)
    with False Cons show ?thesis by auto
  qed
qed simp

lemma due_before: "x \<le> d \<Longrightarrow> dl_due d \<le> now \<Longrightarrow> dl_due x \<le> now"
  by (auto simp: less_eq_deadline_def)

lemma due_around:
  assumes "deadlines_ok z" and "d \<in> set z" and "dl_due d \<le> now"
  shows "filter (\<lambda>x. dl_due x \<le> now) z = filter (\<lambda>x. x < d) z @ d # filter (\<lambda>x. d < x) (filter (\<lambda>x. dl_due x \<le> now) z)"
proof -
  let ?f = "filter (\<lambda>x. dl_due x \<le> now) z"
  have "sorted ?f" "distinct ?f" "d \<in> set ?f"
    using assms by (auto simp: deadlines_ok_def sorted_wrt_filter distinct_map)
  then have around: "?f = filter (\<lambda>x. x < d) ?f @ d # filter (\<lambda>x. d < x) ?f" by (rule sorted_around)
  have same: "filter (\<lambda>x. x < d) ?f = filter (\<lambda>x. x < d) z"
    using due_before [OF less_imp_le assms(3)] by (auto intro!: filter_cong)
  from around show ?thesis unfolding same .
qed

lemma claims_in_turn:
  assumes "deadlines_ok z" and "d \<in> set z" and "dl_due d \<le> now" and "rank d z < BATCH"
  shows "d \<in> set (fst (claim_due now z))"
  unfolding claim_due_parts(1) by (subst due_around [OF assms(1-3)]) (use assms(4) in \<open>simp add: rank_def take_Cons'\<close>)

lemma moves_up:
  assumes "deadlines_ok z" and "d \<in> set z" and "dl_due d \<le> now" and "BATCH \<le> rank d z"
  shows "d \<in> set (snd (claim_due now z)) \<and> rank d (snd (claim_due now z)) = rank d z - BATCH"
proof -
  let ?l = "filter (\<lambda>x. x < d) z"
  have due: "fst (claim_due now z) = take BATCH ?l"
    unfolding claim_due_parts(1) by (subst due_around [OF assms(1-3)]) (use assms(4) in \<open>simp add: rank_def\<close>)
  have "d \<notin> set (take BATCH ?l)" by (auto dest: in_set_takeD)
  moreover have "filter (\<lambda>x. x < d) (filter (\<lambda>x. x \<notin> set (take BATCH ?l)) z) = drop BATCH ?l"
  proof -
    have dist: "distinct ?l" using assms(1) by (simp add: deadlines_ok_def distinct_map)
    have "filter (\<lambda>x. x < d) (filter (\<lambda>x. x \<notin> set (take BATCH ?l)) z) = filter (\<lambda>x. x \<notin> set (take BATCH ?l)) ?l"
      by (simp add: conj_commute)
    also have "\<dots> = filter (\<lambda>x. x \<notin> set (take BATCH ?l)) (take BATCH ?l @ drop BATCH ?l)" by simp
    also have "\<dots> = drop BATCH ?l"
      unfolding filter_append using dist set_take_disj_set_drop_if_distinct [of ?l BATCH BATCH]
      by (auto simp: filter_empty_conv filter_id_conv)
    finally show ?thesis .
  qed
  ultimately show ?thesis
    using assms(2) by (simp add: claimed_rest [OF assms(1)] due rank_def)
qed

section \<open>Exactly once, in time\<close>

text \<open>What may happen meanwhile to a deadline that is due: others are set, for later, or cleared; every worker
  that ticks handles its kind, and its clock is past it.\<close>

fun meanwhile :: "string \<Rightarrow> int \<Rightarrow> deadline_event \<Rightarrow> bool" where
  "meanwhile m due (Deadline_set kind i now inMs) =
     (CHR ''|'' \<notin> set kind \<and> deadline_member kind i \<noteq> m \<and> due < now + inMs)"
| "meanwhile m due (Deadline_clear kind i) = (deadline_member kind i \<noteq> m)"
| "meanwhile m due (Deadline_clearCall handled i) = list_all (\<lambda>kind. deadline_member kind i \<noteq> m) handled"
| "meanwhile m due (Deadline_tick handled now) = (fst (member_parts m) \<in> set handled \<and> due \<le> now)"

lemma tick_set: "dq_set (deadline_tick handled now q) = snd (claim_due now (dq_set q))"
  by (simp add: deadline_tick_def Let_def split: prod.split)

lemma meanwhile_ok: "meanwhile m due e \<Longrightarrow> deadlines_ok (dq_set q) \<Longrightarrow> deadlines_ok (dq_set (deadline_step e q))"
  by (cases e) (auto simp: deadline_set_def deadline_clear_def deadline_clearCall_def tick_set claim_due_parts(2)
      fold_zrem zrem_def intro: ok_zadd ok_filter)

definition present :: "string \<Rightarrow> deadline_queue \<Rightarrow> bool" where
  "present m q \<longleftrightarrow> m \<in> dl_member ` set (dq_set q)"

definition fires :: "string \<Rightarrow> deadline_queue \<Rightarrow> nat" where
  "fires m q = count_list (dq_fired q) (member_parts m)"

lemma parts_inj:
  assumes "deadlines_ok z" and "a \<in> set z" and "CHR ''|'' \<notin> set kind" and "member_parts (dl_member a) = (kind, i)"
  shows "dl_member a = deadline_member kind i"
  using assms by (auto simp: deadlines_ok_def member_parts_member)

lemma count_parts:
  assumes ok: "deadlines_ok z" and sub: "set ds \<subseteq> set z" and dist: "distinct ds" and kind: "CHR ''|'' \<notin> set kind"
  shows "count_list (map (\<lambda>d. member_parts (dl_member d)) ds) (kind, i) = (if deadline_member kind i \<in> dl_member ` set ds then 1 else 0)"
  using sub dist
proof (induction ds)
  case (Cons d ds)
  have d: "d \<in> set z" "d \<notin> set ds" "set ds \<subseteq> set z" "distinct ds" using Cons.prems by simp_all
  have parts: "member_parts (dl_member d) = (kind, i) \<longleftrightarrow> dl_member d = deadline_member kind i"
  proof
    show "member_parts (dl_member d) = (kind, i) \<Longrightarrow> dl_member d = deadline_member kind i"
      by (rule parts_inj [OF ok d(1) kind])
  qed (simp add: member_parts_member kind)
  have once: "deadline_member kind i \<notin> dl_member ` set ds" if same: "dl_member d = deadline_member kind i"
  proof
    assume "deadline_member kind i \<in> dl_member ` set ds"
    then obtain x where "x \<in> set ds" "dl_member x = dl_member d" unfolding same [symmetric] by auto
    then have "x = d" using same_member [OF ok _ d(1)] d(3) by blast
    then show False using d(2) \<open>x \<in> set ds\<close> by simp
  qed
  show ?case
  proof (cases "dl_member d = deadline_member kind i")
    case True
    then show ?thesis using Cons.IH [OF d(3,4)] parts once by simp
  next
    case False
    then have "deadline_member kind i \<noteq> dl_member d" by simp
    then show ?thesis using Cons.IH [OF d(3,4)] parts False by simp
  qed
qed simp

lemma count_handled: "fst p \<in> set handled \<Longrightarrow> count_list (filter (\<lambda>x. fst x \<in> set handled) xs) p = count_list xs p"
  by (induction xs) auto

lemma tick_fires:
  assumes ok: "deadlines_ok (dq_set q)" and kind: "CHR ''|'' \<notin> set kind" and handled: "kind \<in> set handled"
  shows "fires (deadline_member kind i) (deadline_tick handled now q)
    = fires (deadline_member kind i) q + (if deadline_member kind i \<in> dl_member ` set (fst (claim_due now (dq_set q))) then 1 else 0)"
proof -
  let ?due = "fst (claim_due now (dq_set q))"
  have "distinct (dq_set q)" using ok by (simp add: deadlines_ok_def distinct_map)
  then have "distinct ?due" unfolding claim_due_parts by simp
  from count_parts [OF ok claimed_set this kind, of i]
  have "count_list (filter (\<lambda>p. fst p \<in> set handled) (map (\<lambda>d. member_parts (dl_member d)) ?due)) (kind, i)
      = (if deadline_member kind i \<in> dl_member ` set ?due then 1 else 0)"
    using handled by (simp only: count_handled fst_conv)
  then show ?thesis
    by (simp add: fires_def deadline_tick_def Let_def case_prod_beta member_parts_member [OF kind])
qed

text \<open>A deadline no longer in the set fires no more.\<close>

lemma gone_stays_gone:
  assumes "meanwhile (deadline_member kind i) due e" and "deadlines_ok (dq_set q)" and "CHR ''|'' \<notin> set kind"
    and "\<not> present (deadline_member kind i) q"
  shows "\<not> present (deadline_member kind i) (deadline_step e q)
    \<and> fires (deadline_member kind i) (deadline_step e q) = fires (deadline_member kind i) q"
proof (cases e)
  case (Deadline_tick handled now)
  have "deadline_member kind i \<notin> dl_member ` set (fst (claim_due now (dq_set q)))"
    using assms(4) claimed_set [of now "dq_set q"] by (auto simp: present_def)
  then show ?thesis
    using assms tick_fires [OF assms(2,3), of handled i now] Deadline_tick
    by (auto simp: present_def tick_set claim_due_parts(2) member_parts_member)
qed (use assms in \<open>auto simp: present_def fires_def deadline_set_def deadline_clear_def deadline_clearCall_def set_zadd fold_zrem zrem_def\<close>)

lemma waits_its_turn:
  assumes "meanwhile (deadline_member kind i) due e" and "deadlines_ok (dq_set q)" and "\<not> is_tick e"
    and "Deadline due (deadline_member kind i) \<in> set (dq_set q)"
  shows "Deadline due (deadline_member kind i) \<in> set (dq_set (deadline_step e q))
    \<and> rank (Deadline due (deadline_member kind i)) (dq_set (deadline_step e q)) \<le> rank (Deadline due (deadline_member kind i)) (dq_set q)
    \<and> fires (deadline_member kind i) (deadline_step e q) = fires (deadline_member kind i) q"
proof -
  let ?d = "Deadline due (deadline_member kind i)"
  have less: "rank ?d (filter P z) \<le> rank ?d z" for P z by (induction z) (auto simp: rank_def)
  have "filter (\<lambda>x. x < ?d) (insort (Deadline s m) z) = filter (\<lambda>x. x < ?d) z" if "due < s" for s m z
    using that by (induction z) (auto simp: less_deadline_def)
  then have more: "rank ?d (zadd s m z) \<le> rank ?d z" if "due < s" for s m z
    using less that unfolding zadd_def zrem_def by (simp add: rank_def)
  show ?thesis
    using assms less more
    by (cases e) (auto simp: fires_def deadline_set_def deadline_clear_def deadline_clearCall_def set_zadd fold_zrem zrem_def list_all_iff)
qed

lemma fires_after:
  assumes "list_all (meanwhile (deadline_member kind i) due) es" and "deadlines_ok (dq_set q)" and "CHR ''|'' \<notin> set kind"
    and "\<not> present (deadline_member kind i) q"
  shows "fires (deadline_member kind i) (fold deadline_step es q) = fires (deadline_member kind i) q"
  using assms
proof (induction es arbitrary: q)
  case (Cons e es)
  then show ?case using gone_stays_gone [of kind i due e q] meanwhile_ok [of "deadline_member kind i" due e q] by simp
qed simp



end
