(* ===== verification/Inbox.thy ===== *)
theory Inbox
  imports DataModel
begin

text \<open>
  How a call's inputs reach the one worker that runs it (\<open>src/src/infra/cluster/CallInbox.js\<close>) and how a call
  whose worker died is taken over (\<open>src/src/core/calls/CallAdoption.js\<close>). Each Redis command is one step, each
  worker's memory its own; the workers' steps come in any order. Redis gives the entries of a stream rising
  ids. \<open>MAXLEN ~ 1000\<close> lets Redis keep more, never less: how many it keeps is a parameter of \<open>post_input\<close>.
  Leases lapse at any time, which covers every clock. The 24 h expiry of the keys is left out.
\<close>

section \<open>State\<close>

record owning =
  ow_lastId :: nat
  ow_handler :: bool

text \<open>\<open>cl_owned\<close> is each worker's own map, \<open>cl_sent\<close> the cursor writes on their way to Redis; \<open>cl_handled\<close> and
  \<open>cl_posted\<close> record what handlers were given (worker, call, id, input) and which ids an inbox has had.\<close>

record cluster =
  cl_lease :: "nat \<Rightarrow> string option"
  cl_inbox :: "nat \<Rightarrow> (nat \<times> string) list"
  cl_cursor :: "nat \<Rightarrow> nat option"
  cl_leased :: "nat list"
  cl_clock :: nat
  cl_owned :: "string \<Rightarrow> nat \<Rightarrow> owning option"
  cl_sent :: "(nat \<times> nat) list"
  cl_handled :: "(string \<times> nat \<times> nat \<times> string) list"
  cl_posted :: "nat \<Rightarrow> nat list"

definition empty_cluster :: cluster where
  "empty_cluster = \<lparr> cl_lease = (\<lambda>_. None), cl_inbox = (\<lambda>_. []), cl_cursor = (\<lambda>_. None), cl_leased = [], cl_clock = 0,
     cl_owned = (\<lambda>_ _. None), cl_sent = [], cl_handled = [], cl_posted = (\<lambda>_. []) \<rparr>"

section \<open>Posting\<close>

definition MAXLEN :: nat where
  "MAXLEN = 1000"

definition trim_stream :: "nat \<Rightarrow> 'a list \<Rightarrow> 'a list" where
  "trim_stream extra xs = drop (length xs - (MAXLEN + extra)) xs"

text \<open>Whether some worker holds the lease, and the stream with the entry.\<close>

definition post_input :: "nat \<Rightarrow> nat \<Rightarrow> string \<Rightarrow> cluster \<Rightarrow> bool \<times> cluster" where
  "post_input extra i entry s =
     (cl_lease s i \<noteq> None,
      s\<lparr>cl_inbox := (cl_inbox s)(i := trim_stream extra (cl_inbox s i @ [(Suc (cl_clock s), entry)])), cl_clock := Suc (cl_clock s),
        cl_posted := (cl_posted s)(i := cl_posted s i @ [Suc (cl_clock s)])\<rparr>)"

section \<open>Owning\<close>

text \<open>\<open>SET NX\<close>, and \<open>GET\<close> when it was taken.\<close>

definition take_lease :: "string \<Rightarrow> nat \<Rightarrow> cluster \<Rightarrow> bool \<times> cluster" where
  "take_lease b i s =
     (case cl_lease s i of
        None \<Rightarrow> (True, s\<lparr>cl_lease := (cl_lease s)(i := Some b)\<rparr>)
      | Some owner \<Rightarrow> (owner = b, s))"

definition start_owning :: "string \<Rightarrow> nat \<Rightarrow> cluster \<Rightarrow> cluster" where
  "start_owning b i s =
     s\<lparr>cl_owned := (cl_owned s)(b := (cl_owned s b)(i := Some \<lparr> ow_lastId = (case cl_cursor s i of None \<Rightarrow> 0 | Some n \<Rightarrow> n), ow_handler = False \<rparr>)),
       cl_leased := List.insert i (cl_leased s)\<rparr>"

definition inbox_claim :: "string \<Rightarrow> nat \<Rightarrow> cluster \<Rightarrow> bool \<times> cluster" where
  "inbox_claim b i s =
     (if cl_owned s b i \<noteq> None then (True, s)
      else let (ok, s1) = take_lease b i s in if ok then (True, start_owning b i s1) else (False, s1))"

definition inbox_read :: "string \<Rightarrow> nat \<Rightarrow> cluster \<Rightarrow> cluster" where
  "inbox_read b i s =
     (case cl_owned s b i of
        None \<Rightarrow> s
      | Some w \<Rightarrow> s\<lparr>cl_owned := (cl_owned s)(b := (cl_owned s b)(i := Some (w\<lparr>ow_handler := True\<rparr>)))\<rparr>)"

definition inbox_own :: "string \<Rightarrow> nat \<Rightarrow> cluster \<Rightarrow> bool \<times> cluster" where
  "inbox_own b i s = (let (ok, s1) = inbox_claim b i s in if ok then (True, inbox_read b i s1) else (False, s1))"

text \<open>One call's part of a round of the read loop: what came after the last entry taken.\<close>

definition inbox_deliver :: "string \<Rightarrow> nat \<Rightarrow> cluster \<Rightarrow> cluster" where
  "inbox_deliver b i s =
     (case cl_owned s b i of
        None \<Rightarrow> s
      | Some w \<Rightarrow>
          let new = filter (\<lambda>e. ow_lastId w < fst e) (cl_inbox s i) in
          if \<not> ow_handler w \<or> new = [] then s
          else
            s\<lparr>cl_owned := (cl_owned s)(b := (cl_owned s b)(i := Some (w\<lparr>ow_lastId := fst (last new)\<rparr>))),
              cl_handled := cl_handled s @ map (\<lambda>e. (b, i, e)) new, cl_sent := cl_sent s @ [(i, fst (last new))]\<rparr>)"

definition cursor_written :: "nat \<times> nat \<Rightarrow> cluster \<Rightarrow> cluster" where
  "cursor_written c s = s\<lparr>cl_cursor := (cl_cursor s)(fst c := Some (snd c)), cl_sent := remove1 c (cl_sent s)\<rparr>"

definition inbox_renew :: "string \<Rightarrow> nat \<Rightarrow> cluster \<Rightarrow> cluster" where
  "inbox_renew b i s =
     (if cl_owned s b i = None \<or> cl_lease s i = Some b then s
      else s\<lparr>cl_owned := (cl_owned s)(b := (cl_owned s b)(i := None))\<rparr>)"

definition drop_inbox :: "nat \<Rightarrow> cluster \<Rightarrow> cluster" where
  "drop_inbox i s = s\<lparr>cl_leased := removeAll i (cl_leased s), cl_inbox := (cl_inbox s)(i := []), cl_cursor := (cl_cursor s)(i := None),
     cl_posted := (cl_posted s)(i := [])\<rparr>"

definition inbox_release :: "string \<Rightarrow> nat \<Rightarrow> bool \<Rightarrow> cluster \<Rightarrow> cluster" where
  "inbox_release b i purge s =
     (let had = cl_owned s b i \<noteq> None;
          s1 = s\<lparr>cl_owned := (cl_owned s)(b := (cl_owned s b)(i := None))\<rparr>;
          s2 = (if had \<and> cl_lease s1 i = Some b then s1\<lparr>cl_lease := (cl_lease s1)(i := None)\<rparr> else s1)
      in if purge then drop_inbox i s2 else s2)"

definition inbox_forget :: "nat \<Rightarrow> cluster \<Rightarrow> cluster" where
  "inbox_forget i s = drop_inbox i s"

text \<open>Every call a worker owns, given up at shutdown; \<open>ids\<close> are the keys of its map.\<close>

definition inbox_handOver :: "string \<Rightarrow> nat list \<Rightarrow> cluster \<Rightarrow> cluster" where
  "inbox_handOver b ids s = fold (\<lambda>i. inbox_release b i False) ids s"

definition lease_lapses :: "nat \<Rightarrow> cluster \<Rightarrow> cluster" where
  "lease_lapses i s = s\<lparr>cl_lease := (cl_lease s)(i := None)\<rparr>"

definition worker_dies :: "string \<Rightarrow> cluster \<Rightarrow> cluster" where
  "worker_dies b s = s\<lparr>cl_owned := (cl_owned s)(b := (\<lambda>_. None))\<rparr>"

definition inbox_orphans :: "string \<Rightarrow> cluster \<Rightarrow> nat list" where
  "inbox_orphans b s = filter (\<lambda>i. cl_owned s b i = None \<and> cl_lease s i = None) (cl_leased s)"

definition inbox_isLeased :: "nat \<Rightarrow> cluster \<Rightarrow> bool" where
  "inbox_isLeased i s \<longleftrightarrow> cl_lease s i \<noteq> None"

definition inbox_isLive :: "nat \<Rightarrow> cluster \<Rightarrow> bool" where
  "inbox_isLive i s \<longleftrightarrow> cl_lease s i \<noteq> None \<or> i \<in> set (cl_leased s)"

section \<open>Any workers, in any order\<close>

inductive cluster_step :: "cluster \<Rightarrow> cluster \<Rightarrow> bool" where
  posts: "cluster_step s (snd (post_input extra i entry s))"
| takes: "cluster_step s (snd (take_lease b i s))"
| starts: "cluster_step s (start_owning b i s)"
| reads: "cluster_step s (inbox_read b i s)"
| delivers: "cluster_step s (inbox_deliver b i s)"
| writes: "c \<in> set (cl_sent s) \<Longrightarrow> cluster_step s (cursor_written c s)"
| renews: "cluster_step s (inbox_renew b i s)"
| releases: "cluster_step s (inbox_release b i purge s)"
| forgets: "cluster_step s (inbox_forget i s)"
| lapses: "cluster_step s (lease_lapses i s)"
| dies: "cluster_step s (worker_dies b s)"

inductive cluster_reach :: "cluster \<Rightarrow> bool" where
  empty: "cluster_reach empty_cluster"
| step: "cluster_reach s \<Longrightarrow> cluster_step s t \<Longrightarrow> cluster_reach t"

inductive_cases cluster_stepE: "cluster_step s t"

section \<open>Nothing in an inbox is passed over\<close>

definition was_handled :: "cluster \<Rightarrow> nat \<Rightarrow> nat \<Rightarrow> bool" where
  "was_handled s i n \<longleftrightarrow> (\<exists>b entry. (b, i, n, entry) \<in> set (cl_handled s))"

text \<open>Where somebody has got to in a call's inbox, or will go on from.\<close>

definition place :: "cluster \<Rightarrow> nat \<Rightarrow> nat \<Rightarrow> bool" where
  "place s i n \<longleftrightarrow> n = 0 \<or> cl_cursor s i = Some n \<or> (\<exists>b w. cl_owned s b i = Some w \<and> ow_lastId w = n) \<or> (i, n) \<in> set (cl_sent s)"

definition streams_ok :: "cluster \<Rightarrow> bool" where
  "streams_ok s \<longleftrightarrow> (\<forall>i. sorted_wrt (<) (0 # cl_posted s i) \<and> (\<forall>n \<in> set (cl_posted s i). n \<le> cl_clock s)
     \<and> (\<exists>k. map fst (cl_inbox s i) = drop k (cl_posted s i) \<and> (k = 0 \<or> MAXLEN \<le> length (cl_inbox s i))))"

definition places_ok :: "cluster \<Rightarrow> bool" where
  "places_ok s \<longleftrightarrow> (\<forall>i n. place s i n \<longrightarrow> n \<le> cl_clock s \<and> (\<forall>e \<in> set (cl_inbox s i). fst e \<le> n \<longrightarrow> was_handled s i (fst e)))"

lemma places_fewer:
  assumes "places_ok s" and "\<And>i n. place t i n \<Longrightarrow> place s i n"
    and "cl_clock t = cl_clock s" and "\<And>i. set (cl_inbox t i) \<subseteq> set (cl_inbox s i)" and "cl_handled t = cl_handled s"
  shows "places_ok t"
  unfolding places_ok_def
proof (intro allI impI)
  fix i n assume "place t i n"
  then have "place s i n" by (rule assms(2))
  then have "n \<le> cl_clock s" "\<forall>e \<in> set (cl_inbox s i). fst e \<le> n \<longrightarrow> was_handled s i (fst e)"
    using assms(1) by (simp_all add: places_ok_def)
  then show "n \<le> cl_clock t \<and> (\<forall>e \<in> set (cl_inbox t i). fst e \<le> n \<longrightarrow> was_handled t i (fst e))"
    using assms(3,5) subsetD [OF assms(4)] unfolding was_handled_def by simp
qed

lemma streams_same: "cl_posted t = cl_posted s \<Longrightarrow> cl_inbox t = cl_inbox s \<Longrightarrow> cl_clock t = cl_clock s \<Longrightarrow> streams_ok t = streams_ok s"
  by (simp add: streams_ok_def)

lemma drop_inbox_ok: "streams_ok s \<Longrightarrow> places_ok s \<Longrightarrow> streams_ok (drop_inbox i s) \<and> places_ok (drop_inbox i s)"
proof (intro conjI)
  assume "places_ok s"
  then show "places_ok (drop_inbox i s)"
    by (rule places_fewer) (auto simp: place_def drop_inbox_def split: if_splits)
qed (auto simp: streams_ok_def drop_inbox_def)

lemma post_streams:
  assumes "streams_ok s"
  shows "streams_ok (snd (post_input extra i entry s))"
proof -
  let ?n = "Suc (cl_clock s)" and ?posted = "cl_posted s i" and ?x = "cl_inbox s i @ [(Suc (cl_clock s), entry)]"
  obtain k where k: "map fst (cl_inbox s i) = drop k ?posted" "k = 0 \<or> MAXLEN \<le> length (cl_inbox s i)"
    and posted: "sorted_wrt (<) (0 # ?posted)" "\<forall>n \<in> set ?posted. n \<le> cl_clock s"
    using assms unfolding streams_ok_def by blast
  let ?cut = "length ?x - (MAXLEN + extra)"
  have len: "k \<le> length ?posted \<or> drop k ?posted = []" by auto
  define k' where "k' = min k (length ?posted)"
  have k': "map fst (cl_inbox s i) = drop k' ?posted" "k' = 0 \<or> MAXLEN \<le> length (cl_inbox s i)" "k' \<le> length ?posted"
    using k by (auto simp: k'_def min_def)
  have "map fst ?x = drop k' (?posted @ [?n])" using k'(1,3) by simp
  then have "map fst (trim_stream extra ?x) = drop (k' + ?cut) (?posted @ [?n])"
    unfolding trim_stream_def by (simp only: drop_map [symmetric] drop_drop add.commute)
  moreover have "k' + ?cut = 0 \<or> MAXLEN \<le> length (trim_stream extra ?x)"
    using k'(2) by (auto simp: trim_stream_def)
  moreover have "sorted_wrt (<) (0 # ?posted @ [?n])" using posted by (auto simp: sorted_wrt_append less_Suc_eq_le)
  ultimately show ?thesis
    using assms posted unfolding streams_ok_def post_input_def by (auto intro: le_SucI)
qed

lemma post_places:
  assumes "places_ok s"
  shows "places_ok (snd (post_input extra i entry s))"
  unfolding places_ok_def
proof (intro allI impI)
  fix j n assume "place (snd (post_input extra i entry s)) j n"
  then have "place s j n" by (simp add: place_def post_input_def)
  then have n: "n \<le> cl_clock s" "\<forall>e \<in> set (cl_inbox s j). fst e \<le> n \<longrightarrow> was_handled s j (fst e)"
    using assms by (simp_all add: places_ok_def)
  then show "n \<le> cl_clock (snd (post_input extra i entry s)) \<and> (\<forall>e \<in> set (cl_inbox (snd (post_input extra i entry s)) j).
      fst e \<le> n \<longrightarrow> was_handled (snd (post_input extra i entry s)) j (fst e))"
    by (auto simp: post_input_def was_handled_def trim_stream_def dest!: in_set_dropD)
qed

lemma sorted_last: "sorted_wrt (<) (map fst xs) \<Longrightarrow> e \<in> set xs \<Longrightarrow> fst e \<le> fst (last (xs :: (nat \<times> 'a) list))"
proof (induction xs)
  case (Cons x xs)
  then show ?case by (cases "xs = []") (auto intro: less_imp_le)
qed simp

lemma inbox_sorted: "streams_ok s \<Longrightarrow> sorted_wrt (<) (map fst (cl_inbox s i))"
  unfolding streams_ok_def by (metis sorted_wrt_drop sorted_wrt.simps(2))

lemma inbox_clock: "streams_ok s \<Longrightarrow> e \<in> set (cl_inbox s i) \<Longrightarrow> fst e \<le> cl_clock s"
  unfolding streams_ok_def by (metis (no_types) imageI in_set_dropD list.set_map)

lemma deliver_places:
  assumes streams: "streams_ok s" and places: "places_ok s"
  shows "places_ok (inbox_deliver b i s)"
proof (cases "inbox_deliver b i s = s")
  case False
  then obtain w where w: "cl_owned s b i = Some w" and handler: "ow_handler w"
    by (auto simp: inbox_deliver_def Let_def split: option.splits if_splits)
  let ?new = "filter (\<lambda>e. ow_lastId w < fst e) (cl_inbox s i)" and ?t = "inbox_deliver b i s"
  have new: "?new \<noteq> []" using False w by (auto simp: inbox_deliver_def Let_def split: if_splits)
  let ?last = "fst (last ?new)"
  have t: "?t = s\<lparr>cl_owned := (cl_owned s)(b := (cl_owned s b)(i := Some (w\<lparr>ow_lastId := ?last\<rparr>))),
      cl_handled := cl_handled s @ map (\<lambda>e. (b, i, e)) ?new, cl_sent := cl_sent s @ [(i, ?last)]\<rparr>"
    using w handler new by (simp add: inbox_deliver_def Let_def)
  have more: "was_handled s j n \<Longrightarrow> was_handled ?t j n" for j n by (auto simp: t was_handled_def)
  have old: "n \<le> cl_clock s \<and> (\<forall>e \<in> set (cl_inbox s j). fst e \<le> n \<longrightarrow> was_handled s j (fst e))" if "place s j n" for j n
    using places that by (simp add: places_ok_def)
  have last: "?last \<le> cl_clock s \<and> (\<forall>e \<in> set (cl_inbox s i). fst e \<le> ?last \<longrightarrow> was_handled ?t i (fst e))"
  proof (intro conjI ballI impI)
    show "?last \<le> cl_clock s" using last_in_set [OF new] inbox_clock [OF streams, of "last ?new" i] by simp
    fix e assume e: "e \<in> set (cl_inbox s i)"
    show "was_handled ?t i (fst e)"
    proof (cases "ow_lastId w < fst e")
      case True
      with e have "(b, i, e) \<in> set (cl_handled ?t)" by (simp add: t)
      then show ?thesis unfolding was_handled_def by (metis prod.collapse)
    next
      case False
      have "place s i (ow_lastId w)" using w by (auto simp: place_def)
      then show ?thesis using old e False more by auto
    qed
  qed
  have "place s j n \<or> j = i \<and> n = ?last" if "place ?t j n" for j n
    using that by (auto simp: t place_def split: if_splits)
  moreover have "cl_clock ?t = cl_clock s" "cl_inbox ?t = cl_inbox s" by (simp_all add: t)
  ultimately show ?thesis unfolding places_ok_def using old last more by metis
qed (simp add: places)

lemma place_steps:
  "place (snd (take_lease b i s)) j n \<Longrightarrow> place s j n" "place (start_owning b i s) j n \<Longrightarrow> place s j n"
  "place (inbox_read b i s) j n \<Longrightarrow> place s j n" "c \<in> set (cl_sent s) \<Longrightarrow> place (cursor_written c s) j n \<Longrightarrow> place s j n"
  "place (inbox_renew b i s) j n \<Longrightarrow> place s j n" "place (inbox_release b i False s) j n \<Longrightarrow> place s j n"
  "place (lease_lapses i s) j n \<Longrightarrow> place s j n" "place (worker_dies b s) j n \<Longrightarrow> place s j n"
  by (auto simp: place_def take_lease_def start_owning_def inbox_read_def cursor_written_def inbox_renew_def inbox_release_def
      lease_lapses_def worker_dies_def Let_def split: option.splits if_splits dest: notin_set_remove1)

definition same_streams :: "cluster \<Rightarrow> cluster \<Rightarrow> bool" where
  "same_streams s t \<longleftrightarrow> cl_posted t = cl_posted s \<and> cl_inbox t = cl_inbox s \<and> cl_clock t = cl_clock s \<and> cl_handled t = cl_handled s"

lemma same_steps:
  "same_streams s (snd (take_lease b i s))" "same_streams s (start_owning b i s)" "same_streams s (inbox_read b i s)"
  "same_streams s (cursor_written c s)" "same_streams s (inbox_renew b i s)" "same_streams s (inbox_release b i False s)"
  "same_streams s (lease_lapses i s)" "same_streams s (worker_dies b s)"
  by (simp_all add: same_streams_def take_lease_def start_owning_def inbox_read_def cursor_written_def inbox_renew_def
      inbox_release_def lease_lapses_def worker_dies_def Let_def split: option.split)

lemma ok_stays:
  assumes "streams_ok s \<and> places_ok s" and "\<And>j n. place t j n \<Longrightarrow> place s j n" and "same_streams s t"
  shows "streams_ok t \<and> places_ok t"
proof
  show "streams_ok t" using assms(1,3) streams_same [of t s] by (simp add: same_streams_def)
  show "places_ok t"
    by (rule places_fewer [OF conjunct2 [OF assms(1)] assms(2)]) (use assms(3) in \<open>simp_all add: same_streams_def\<close>)
qed

lemma reach_ok: "cluster_reach s \<Longrightarrow> streams_ok s \<and> places_ok s"
proof (induction rule: cluster_reach.induct)
  case empty
  show ?case by (auto simp: streams_ok_def places_ok_def place_def empty_cluster_def)
next
  case (step s t)
  note stay = ok_stays [OF step.IH]
  from step(2) show ?case
  proof cases
    case (posts extra i entry)
    then show ?thesis using step.IH by (simp add: post_streams post_places)
  next
    case (takes b i)
    show ?thesis unfolding takes by (rule stay [OF place_steps(1) same_steps(1)])
  next
    case (starts b i)
    show ?thesis unfolding starts by (rule stay [OF place_steps(2) same_steps(2)])
  next
    case (reads b i)
    show ?thesis unfolding reads by (rule stay [OF place_steps(3) same_steps(3)])
  next
    case (delivers b i)
    have "cl_posted t = cl_posted s \<and> cl_inbox t = cl_inbox s \<and> cl_clock t = cl_clock s"
      by (simp add: delivers inbox_deliver_def Let_def split: option.split)
    then show ?thesis using step.IH by (simp add: streams_same [of t s]) (simp add: delivers deliver_places)
  next
    case (writes c)
    show ?thesis unfolding writes(1) by (rule stay [OF place_steps(4) [OF writes(2)] same_steps(4)])
  next
    case (renews b i)
    show ?thesis unfolding renews by (rule stay [OF place_steps(5) same_steps(5)])
  next
    case (releases b i purge)
    have kept: "streams_ok (inbox_release b i False s) \<and> places_ok (inbox_release b i False s)"
      by (rule stay [OF place_steps(6) same_steps(6)])
    have "inbox_release b i True s = drop_inbox i (inbox_release b i False s)" by (simp add: inbox_release_def Let_def)
    then show ?thesis using kept drop_inbox_ok releases by (cases purge) simp_all
  next
    case (forgets i)
    then show ?thesis using step.IH drop_inbox_ok by (simp add: inbox_forget_def)
  next
    case (lapses i)
    show ?thesis unfolding lapses by (rule stay [OF place_steps(7) same_steps(7)])
  next
    case (dies b)
    show ?thesis unfolding dies by (rule stay [OF place_steps(8) same_steps(8)])
  qed
qed

section \<open>No input is lost\<close>

text \<open>A worker that takes the call: the lease, its place, then a round of the read loop.\<close>

definition take_up :: "string \<Rightarrow> nat \<Rightarrow> cluster \<Rightarrow> cluster" where
  "take_up b i s = inbox_deliver b i (snd (inbox_own b i s))"

lemma still_in_inbox:
  assumes "streams_ok s" and "n \<in> set (cl_posted s i)" and "length (filter (\<lambda>m. n < m) (cl_posted s i)) < MAXLEN"
  shows "n \<in> fst ` set (cl_inbox s i)"
proof -
  let ?p = "cl_posted s i"
  obtain k where k: "map fst (cl_inbox s i) = drop k ?p" "k = 0 \<or> MAXLEN \<le> length (cl_inbox s i)" and sorted: "sorted_wrt (<) ?p"
    using assms(1) unfolding streams_ok_def by (metis sorted_wrt.simps(2))
  have "n \<in> set (drop k ?p)"
  proof (rule ccontr)
    assume gone: "n \<notin> set (drop k ?p)"
    have "k \<noteq> 0" using gone assms(2) by (cases k) auto
    have "set ?p = set (take k ?p) \<union> set (drop k ?p)" using set_append [of "take k ?p" "drop k ?p"] by simp
    then have "n \<in> set (take k ?p)" using gone assms(2) by blast
    then have "\<forall>m \<in> set (drop k ?p). n < m"
      using sorted sorted_wrt_append [of "(<)" "take k ?p" "drop k ?p"] by simp
    then have "filter (\<lambda>m. n < m) (drop k ?p) = drop k ?p" by (simp add: filter_id_conv)
    then have "length (drop k ?p) \<le> length (filter (\<lambda>m. n < m) ?p)"
      using filter_append [of "\<lambda>m. n < m" "take k ?p" "drop k ?p"] by simp
    moreover have "MAXLEN \<le> length (drop k ?p)" using k \<open>k \<noteq> 0\<close> by (metis length_map)
    ultimately show False using assms(3) by simp
  qed
  then show ?thesis by (metis k(1) list.set_map)
qed

lemma own_reads:
  assumes "cl_lease s i = None \<or> cl_lease s i = Some b"
  shows "\<exists>w. cl_owned (snd (inbox_own b i s)) b i = Some w \<and> ow_handler w \<and> place s i (ow_lastId w)
    \<and> cl_inbox (snd (inbox_own b i s)) = cl_inbox s"
proof (cases "cl_owned s b i")
  case None
  then show ?thesis
    using assms by (auto simp: inbox_own_def inbox_claim_def take_lease_def start_owning_def inbox_read_def place_def split: option.split)
next
  case (Some w)
  then show ?thesis by (auto simp: inbox_own_def inbox_claim_def inbox_read_def place_def)
qed

text \<open>C8: However workers come and go and wherever they die, an input of a call that has not been handled is still
  in the call's inbox (unless a thousand came after it, or the call's inbox was dropped), and the worker that
  owns the call, or any that takes it over once the lease is free, is given it.\<close>

theorem no_input_lost:
  assumes "cluster_reach s" and "n \<in> set (cl_posted s i)" and "length (filter (\<lambda>m. n < m) (cl_posted s i)) < MAXLEN"
    and "\<not> was_handled s i n" and "cl_lease s i = None \<or> cl_lease s i = Some b"
  shows "n \<in> fst ` set (cl_inbox s i) \<and> was_handled (take_up b i s) i n"
proof
  have ok: "streams_ok s" "places_ok s" using reach_ok [OF assms(1)] by simp_all
  show here: "n \<in> fst ` set (cl_inbox s i)" by (rule still_in_inbox [OF ok(1) assms(2,3)])
  then obtain entry where e: "(n, entry) \<in> set (cl_inbox s i)" by auto
  let ?s = "snd (inbox_own b i s)"
  obtain w where w: "cl_owned ?s b i = Some w" "ow_handler w" "place s i (ow_lastId w)" "cl_inbox ?s = cl_inbox s"
    using own_reads [OF assms(5)] by auto
  have "ow_lastId w < n"
  proof (rule ccontr)
    assume "\<not> ow_lastId w < n"
    then have "was_handled s i n" using ok(2) w(3) e unfolding places_ok_def by (metis fst_conv not_less)
    with assms(4) show False by simp
  qed
  then have new: "(n, entry) \<in> set (filter (\<lambda>e. ow_lastId w < fst e) (cl_inbox ?s i))" using e w(4) by simp
  then have "(b, i, n, entry) \<in> set (cl_handled (take_up b i s))"
    using w(1,2) by (auto simp: take_up_def inbox_deliver_def Let_def filter_empty_conv)
  then show "was_handled (take_up b i s) i n" unfolding was_handled_def by auto
qed

text \<open>A worker takes an input and dies before its place is written; the next takes the input after it.\<close>

definition orphaned_call :: cluster where
  "orphaned_call = lease_lapses 7 (snd (post_input 0 7 ''hangup'' (worker_dies ''a'' (take_up ''a'' 7 (snd (post_input 0 7 ''accept'' empty_cluster))))))"

lemma orphaned_reached: "cluster_reach orphaned_call"
proof -
  have "cluster_reach (snd (post_input 0 7 ''accept'' empty_cluster))" (is "cluster_reach ?s")
    by (rule cluster_reach.step [OF cluster_reach.empty cluster_step.posts])
  from cluster_reach.step [OF cluster_reach.step [OF cluster_reach.step [OF cluster_reach.step [OF this
      cluster_step.takes] cluster_step.starts] cluster_step.reads] cluster_step.delivers]
  have "cluster_reach (inbox_deliver ''a'' 7 (inbox_read ''a'' 7 (start_owning ''a'' 7 (snd (take_lease ''a'' 7 ?s)))))" .
  moreover have "take_up ''a'' 7 ?s = inbox_deliver ''a'' 7 (inbox_read ''a'' 7 (start_owning ''a'' 7 (snd (take_lease ''a'' 7 ?s))))"
    by (simp add: take_up_def inbox_own_def inbox_claim_def take_lease_def post_input_def empty_cluster_def)
  ultimately have "cluster_reach (take_up ''a'' 7 ?s)" by simp
  from cluster_reach.step [OF cluster_reach.step [OF cluster_reach.step [OF this cluster_step.dies] cluster_step.posts] cluster_step.lapses]
  show ?thesis unfolding orphaned_call_def .
qed

theorem no_input_lost_witness: "was_handled (take_up ''b'' 7 orphaned_call) 7 2"
proof -
  have facts: "cl_posted orphaned_call 7 = [1, 2]" "cl_lease orphaned_call 7 = None" "\<not> was_handled orphaned_call 7 2"
    by (simp_all add: orphaned_call_def take_up_def inbox_own_def inbox_claim_def take_lease_def start_owning_def inbox_read_def
        inbox_deliver_def worker_dies_def lease_lapses_def post_input_def trim_stream_def empty_cluster_def was_handled_def MAXLEN_def)
  show ?thesis using no_input_lost [OF orphaned_reached, of 2 7 "''b''"] facts by (simp add: MAXLEN_def)
qed

section \<open>Taking a call over\<close>

text \<open>What the services answer: the call's status, whether its media was there to take, where the IVR was
  (flow and node), and whether this worker has the call's channel.\<close>

record takeover =
  to_status :: "call_status option"
  to_adopt :: "string + bool"
  to_ivr :: "string + (string option \<times> string option) option"
  to_channel :: "string + unit"

datatype takeover_effect = CallStateDropped | BridgeFinished | IvrResumed string string | ProviderLegAdopted

definition take_call :: "string \<Rightarrow> nat \<Rightarrow> takeover \<Rightarrow> cluster \<Rightarrow> (string + takeover_effect list) \<times> cluster" where
  "take_call b i p s =
     (if to_status p = None \<or> to_status p = Some St_TERMINATED \<or> to_status p = Some St_FAILED then
        (Inr [CallStateDropped], inbox_forget i s)
      else
        let (claimed, s1) = inbox_claim b i s in
        if \<not> claimed then (Inr [], s1)
        else
          case to_adopt p of
            Inl e \<Rightarrow> (Inl e, inbox_release b i False s1)
          | Inr adopted \<Rightarrow>
              if \<not> adopted then (Inr [], inbox_forget i (inbox_release b i False s1))
              else
                case to_ivr p of
                  Inl e \<Rightarrow> (Inl e, s1)
                | Inr ivr \<Rightarrow>
                    (case to_channel p of
                       Inl e \<Rightarrow> (Inl e, s1)
                     | Inr _ \<Rightarrow>
                         (Inr ((if to_status p = Some St_IN_PROGRESS then [BridgeFinished] else [])
                            @ (case ivr of Some (Some flow, Some node) \<Rightarrow> [IvrResumed flow node] | _ \<Rightarrow> []) @ [ProviderLegAdopted]),
                          inbox_read b i s1)))"

text \<open>A failure is logged, and the next call taken.\<close>

definition adoption_tick :: "string \<Rightarrow> (nat \<Rightarrow> takeover) \<Rightarrow> cluster \<Rightarrow> cluster" where
  "adoption_tick b p s = fold (\<lambda>i t. snd (take_call b i (p i) t)) (inbox_orphans b s) s"

text \<open>C32: A worker that takes a call over and fails after its media was rebuilt - the stored IVR position cannot
  be read, or it has no adapter for the call's channel - keeps the call and never reads its inbox: inputs go on
  being accepted, the lease is renewed, nobody is offered the call again, and nothing is handled.\<close>

theorem half_taken_call_goes_deaf:
  assumes "to_status p = Some st" and "st \<noteq> St_TERMINATED" and "st \<noteq> St_FAILED" and "to_adopt p = Inr True"
    and "to_ivr p = Inl e \<or> to_channel p = Inl e" and "cl_owned s b i = None" and "cl_lease s i = None"
    and "t = fold (\<lambda>x u. snd (post_input 0 i x u)) inputs (snd (take_call b i p s))"
  shows "inbox_deliver b i t = t \<and> inbox_renew b i t = t \<and> cl_handled t = cl_handled s \<and> fst (post_input 0 i x t)
    \<and> i \<notin> set (inbox_orphans b' t) \<and> (b' \<noteq> b \<longrightarrow> cl_owned s b' i = None \<longrightarrow> \<not> fst (inbox_claim b' i t))"
proof -
  define half where "half = (\<lambda>u :: cluster. (\<exists>w. cl_owned u b i = Some w \<and> \<not> ow_handler w) \<and> cl_lease u i = Some b
     \<and> cl_handled u = cl_handled s \<and> cl_owned u b' i = (if b' = b then cl_owned u b i else cl_owned s b' i))"
  have "half (snd (take_call b i p s))"
    using assms(1-7) by (auto simp: half_def take_call_def inbox_claim_def take_lease_def start_owning_def Let_def split: sum.split)
  moreover have "half u \<Longrightarrow> half (snd (post_input 0 i x u))" for u x by (simp add: half_def post_input_def)
  ultimately have "half t"
    unfolding assms(8) by (induction inputs rule: rev_induct) simp_all
  then show ?thesis
    by (auto simp: half_def inbox_deliver_def inbox_renew_def post_input_def inbox_orphans_def inbox_claim_def take_lease_def Let_def)
qed

theorem half_taken_call_goes_deaf_witness:
  "inbox_deliver ''a'' 7 (snd (take_call ''a'' 7 \<lparr> to_status = Some St_IN_PROGRESS, to_adopt = Inr True, to_ivr = Inr None,
       to_channel = Inl ''No customer channel registered for SIP'' \<rparr> orphaned_call))
    = snd (take_call ''a'' 7 \<lparr> to_status = Some St_IN_PROGRESS, to_adopt = Inr True, to_ivr = Inr None,
       to_channel = Inl ''No customer channel registered for SIP'' \<rparr> orphaned_call)"
proof -
  let ?p = "\<lparr> to_status = Some St_IN_PROGRESS, to_adopt = Inr True, to_ivr = Inr None,
       to_channel = Inl ''No customer channel registered for SIP'' \<rparr>"
  have "cl_owned orphaned_call ''a'' 7 = None" "cl_lease orphaned_call 7 = None"
    by (simp_all add: orphaned_call_def worker_dies_def lease_lapses_def post_input_def)
  then show ?thesis
    using half_taken_call_goes_deaf [of ?p St_IN_PROGRESS "''No customer channel registered for SIP''" orphaned_call "''a''" 7
        "snd (take_call ''a'' 7 ?p orphaned_call)" "[]"] by simp
qed

end
