(* ===== verification/Ingress.thy ===== *)
theory Ingress
  imports HangupFacts
begin

text \<open>
  Where the customer channels report what their provider says of a call
  (\<open>src/src/core/channels/ChannelIngress.js\<close>), with the claim on a provider's call id
  (\<open>src/src/infra/cluster/CallOwnershipService.js\<close>, \<open>RedisCleanupService.js\<close>). Two Redis keys join the state:
  who claimed a provider call id, and the tombstones of calls whose end came before their offer. A provider's
  times are in milliseconds. Other workers may change the tables and the tombstones where \<open>meanwhile\<close> stands;
  the expiry of the two keys (180 s, 120 s) is such a change. What a tombstone holds is what the code stored.
\<close>

section \<open>State\<close>

type_synonym provider_key = "channel_type \<times> string"

record tombstone =
  tb_failed :: bool
  tb_endedAt :: "int option"
  tb_errors :: "json list option"
  tb_callback :: "json option"

type_synonym tombstones = "provider_key \<Rightarrow> tombstone option"

text \<open>A claim: the worker, and whether it still expires.\<close>

record ingress =
  ig_world :: world
  ig_tombs :: tombstones
  ig_claims :: "provider_key \<Rightarrow> (string \<times> bool) option"
  ig_worker :: string
  ig_others :: "(world \<times> tombstones \<Rightarrow> world \<times> tombstones) list"

type_synonym 'a ingress_task = "(ingress, failure, 'a) act"

definition within :: "'a task \<Rightarrow> 'a ingress_task" where
  "within m s = (let p = m (ig_world s) in (fst p, s\<lparr>ig_world := snd p\<rparr>))"

definition meanwhile_step :: "ingress \<Rightarrow> ingress" where
  "meanwhile_step s =
     (case ig_others s of
        [] \<Rightarrow> s
      | f # fs \<Rightarrow> s\<lparr>ig_world := fst (f (ig_world s, ig_tombs s)), ig_tombs := snd (f (ig_world s, ig_tombs s)), ig_others := fs\<rparr>)"

definition meanwhile :: "unit ingress_task" where
  "meanwhile = change meanwhile_step"

definition see :: "(world \<Rightarrow> 'a) \<Rightarrow> 'a ingress_task" where
  "see f = read (\<lambda>s. f (ig_world s))"

definition get_tombstone :: "provider_key \<Rightarrow> tombstone option ingress_task" where
  "get_tombstone k = read (\<lambda>s. ig_tombs s k)"

definition del_tombstone :: "provider_key \<Rightarrow> unit ingress_task" where
  "del_tombstone k = change (\<lambda>s. s\<lparr>ig_tombs := (ig_tombs s)(k := None)\<rparr>)"

text \<open>\<open>SET NX\<close>.\<close>

definition put_tombstone :: "provider_key \<Rightarrow> tombstone \<Rightarrow> unit ingress_task" where
  "put_tombstone k t = change (\<lambda>s. if ig_tombs s k = None then s\<lparr>ig_tombs := (ig_tombs s)(k := Some t)\<rparr> else s)"

section \<open>One worker per provider call\<close>

definition claimCall :: "provider_key \<Rightarrow> bool ingress_task" where
  "claimCall k = statement (\<lambda>s.
     if ig_claims s k = None then (s\<lparr>ig_claims := (ig_claims s)(k := Some (ig_worker s, True))\<rparr>, True) else (s, False))"

definition setCallOwnershipPermanent :: "provider_key \<Rightarrow> bool ingress_task" where
  "setCallOwnershipPermanent k = statement (\<lambda>s.
     case ig_claims s k of
       None \<Rightarrow> (s, False)
     | Some (owner, expires) \<Rightarrow>
         if owner \<noteq> ig_worker s then (s, False)
         else (s\<lparr>ig_claims := (ig_claims s)(k := Some (owner, False))\<rparr>, expires))"

definition cleanupCall :: "provider_key \<Rightarrow> unit ingress_task" where
  "cleanupCall k = change (\<lambda>s. s\<lparr>ig_claims := (ig_claims s)(k := None)\<rparr>)"

definition find_provider_call :: "provider_key \<Rightarrow> world \<Rightarrow> call option" where
  "find_provider_call k w = findByProviderCallId (snd k) (fst k) (w_calls w)"

definition after_claim :: "provider_key \<Rightarrow> unit ingress_task" where
  "after_claim k =
     and_then (see (find_provider_call k)) (\<lambda>latest.
     if (case latest of None \<Rightarrow> True | Some c \<Rightarrow> is_final c) then cleanupCall k
     else and_then (setCallOwnershipPermanent k) (\<lambda>_. ret ()))"

text \<open>The \<open>finally\<close> block runs after a throw too, which goes on.\<close>

definition withOwnership :: "provider_key \<Rightarrow> unit ingress_task \<Rightarrow> unit ingress_task" where
  "withOwnership k fn =
     and_then (claimCall k) (\<lambda>claimed.
     if \<not> claimed then ret ()
     else and_then (catching fn (\<lambda>e. and_then (after_claim k) (\<lambda>_. raise e))) (\<lambda>_. after_claim k))"

section \<open>An offer\<close>

record offer =
  of_providerCallId :: string
  of_address :: "string option"
  of_addressType :: "address_type option"
  of_name :: "string option"
  of_sdpOffer :: string
  of_offeredAt :: "int option"
  of_providerMetadata :: "json option"

record lookup =
  lk_reject :: bool
  lk_customerName :: "string option"
  lk_externalRef :: "string option"
  lk_consumerMetadata :: "json option"

text \<open>What the consumer's lookup, the tables of flows and push tokens and the configuration answer.\<close>

record offer_answers =
  oa_lookup :: lookup
  oa_flows :: "flow_candidate list"
  oa_flowName :: "nat \<Rightarrow> string option"
  oa_pushable :: "nat \<Rightarrow> bool"
  oa_directPath :: bool
  oa_recording :: bool

definition provider_key_of :: "line \<Rightarrow> string \<Rightarrow> provider_key" where
  "provider_key_of ln p = (ln_type ln, p)"

definition ringing_time :: "offer \<Rightarrow> world \<Rightarrow> int" where
  "ringing_time d w = nullish (of_offeredAt d) (w_now w)"

definition base_metadata :: "offer \<Rightarrow> (string \<times> json) list" where
  "base_metadata d = (case of_providerMetadata d of None \<Rightarrow> [] | Some m \<Rightarrow> [(''provider'', m)])"

definition base_row :: "line \<Rightarrow> offer \<Rightarrow> int \<Rightarrow> new_call" where
  "base_row ln d ringingAt = \<lparr> n_tenant_id = ln_tenant_id ln, n_channel_id = Some (ln_id ln), n_channel = ln_type ln,
     n_channel_address = ln_address ln, n_provider_call_id = Some (of_providerCallId d), n_queue_id = ln_inbound_queue_id ln,
     n_agent_id = None, n_ivr_flow_id = None, n_state = None, n_media_topology = None, n_customer_address = of_address d,
     n_customer_address_type = of_addressType d, n_customer_name = of_name d, n_external_ref = None,
     n_consumer_metadata = None, n_direction = INBOUND, n_type = None, n_status = Some St_RINGING,
     n_ringing_at = Some (to_timestamp ringingAt), n_queued_at = None, n_offered_at = None,
     n_metadata = Some (JObj (base_metadata d)) \<rparr>"

definition insert_call :: "new_call \<Rightarrow> nat task" where
  "insert_call d w =
     (case create_call d w of
        (Inl _, w') \<Rightarrow> (Inl (Thrown ''Duplicate entry''), w')
      | (Inr i, w') \<Rightarrow> (Inr i, w'))"

definition publish :: "nat \<Rightarrow> string \<Rightarrow> unit task" where
  "publish callId what = emit (Published callId what)"

text \<open>No media flowed: 0 s of ringing and of talk.\<close>

definition instant_end :: "int \<Rightarrow> webhook_end" where
  "instant_end endedAt = \<lparr> w_ended_at = Some endedAt, w_answered_at = None, w_call_duration = Some 0, w_ringing_duration = Some 0 \<rparr>"

definition finalize_webhook :: "nat \<Rightarrow> termination_reason \<Rightarrow> terminated_by \<Rightarrow> webhook_end \<Rightarrow> bool task" where
  "finalize_webhook i reason by e = on_calls (\<lambda>now. finalizeFromWebhook now i (Some St_TERMINATED) (Some reason) (Some by) e)"

definition finalize_failed :: "nat \<Rightarrow> terminated_by \<Rightarrow> webhook_end \<Rightarrow> bool task" where
  "finalize_failed i by e = on_calls (\<lambda>now. finalizeCallAsFailed now i (Some by) e)"

definition write_failure_details :: "nat \<Rightarrow> (string \<times> json) list \<Rightarrow> unit task" where
  "write_failure_details i details = change (\<lambda>w. w\<lparr>w_calls := updateFailureDetails (now_s w) i (JObj details) (w_calls w)\<rparr>)"

definition early_end :: "termination_reason \<Rightarrow> terminated_by \<Rightarrow> metadata \<Rightarrow> end_options" where
  "early_end reason by extra = (end_defaults reason by)\<lparr>eo_source := Some ''provider_end_before_offer'', eo_log := extra\<rparr>"

subsection \<open>The end came first\<close>

definition missed_metadata :: "offer \<Rightarrow> bool \<Rightarrow> (string \<times> json) list" where
  "missed_metadata d isFailed =
     base_metadata d @ [(''customer_cancelled_immediately'', JBool (\<not> isFailed)), (''out_of_order_terminate'', JBool True)]"

definition missed_ends :: "nat \<Rightarrow> tombstone \<Rightarrow> int \<Rightarrow> unit task" where
  "missed_ends i t endedAt =
     (if tb_failed t then
        and_then (finalize_failed i By_PROVIDER (instant_end endedAt)) (\<lambda>_.
        only_when (tb_errors t \<noteq> None \<or> tb_callback t \<noteq> None)
          (write_failure_details i
            ((case tb_errors t of None \<Rightarrow> [] | Some e \<Rightarrow> [(''errors'', JArr e)])
             @ (case tb_callback t of None \<Rightarrow> [] | Some d \<Rightarrow> [(''provider_callback_data'', d)]))))
      else and_then (finalize_webhook i Rs_CANCELLED By_CUSTOMER (instant_end endedAt)) (\<lambda>_. ret ()))"

definition handleMissedBeforeOffer :: "line \<Rightarrow> offer \<Rightarrow> int \<Rightarrow> tombstone \<Rightarrow> unit ingress_task" where
  "handleMissedBeforeOffer ln d ringingAt t =
     (let endedAt = (case tb_endedAt t of None \<Rightarrow> to_timestamp ringingAt | Some e \<Rightarrow> to_timestamp e) in
      and_then (within (insert_call ((base_row ln d ringingAt)\<lparr>n_metadata := Some (JObj (missed_metadata d (tb_failed t)))\<rparr>))) (\<lambda>i.
      and_then (within (publish i ''call.created'')) (\<lambda>_.
      and_then (within (missed_ends i t endedAt)) (\<lambda>_.
      and_then (del_tombstone (provider_key_of ln (of_providerCallId d))) (\<lambda>_.
      and_then (within (logged_failure (write_log (\<lambda>now. logQueued now i (Some (ln_tenant_id ln))
        [(''providerCallId'', JStr (of_providerCallId d)), (''out_of_order_terminate'', JBool True)])))) (\<lambda>_.
      within (settle (ById i)
        (early_end (if tb_failed t then Rs_PROVIDER_ERROR else Rs_CANCELLED) (if tb_failed t then By_PROVIDER else By_CUSTOMER)
          [(''out_of_order_terminate'', JBool True)]))))))))"

subsection \<open>A second call of the same customer\<close>

definition record_duplicate :: "line \<Rightarrow> offer \<Rightarrow> int \<Rightarrow> nat \<Rightarrow> unit task" where
  "record_duplicate ln d ringingAt activeCallId =
     and_then (catching (and_then (insert_call (base_row ln d ringingAt)) (\<lambda>i. ret (Some i))) (\<lambda>_. ret None)) (\<lambda>dup.
     case dup of
       None \<Rightarrow> ret ()
     | Some i \<Rightarrow>
         and_then (finalize_webhook i Rs_CANCELLED By_SYSTEM (instant_end (to_timestamp ringingAt))) (\<lambda>_.
         logged_failure (write_log (\<lambda>now. logTerminated now i (Some (ln_tenant_id ln)) None (Some INBOUND)
           [(''reason'', JStr ''CANCELLED''), (''terminated_by'', JStr ''SYSTEM''), (''direction'', JStr ''INBOUND''),
            (''duplicate_of'', JNum (int activeCallId))]))))"

subsection \<open>Where it goes\<close>

definition route_of :: "line \<Rightarrow> offer_answers \<Rightarrow> world \<Rightarrow> route" where
  "route_of ln oa w =
     (if lk_reject (oa_lookup oa) then RouteNone else inbound_route ln (oa_flows oa) (w_queues w) (w_members w) (w_agents w))"

fun route_queue :: "route \<Rightarrow> queue option" where
  "route_queue (RouteQueue q) = Some q"
| "route_queue (RouteIvr _ q) = q"
| "route_queue _ = None"

fun route_flow :: "route \<Rightarrow> nat option" where
  "route_flow (RouteIvr f _) = Some f"
| "route_flow _ = None"

definition line_channel :: "line \<Rightarrow> bool \<Rightarrow> channel_row" where
  "line_channel ln recorded = \<lparr> ch_id = ln_id ln, ch_tenant_id = ln_tenant_id ln, ch_type = ln_type ln, ch_address = ln_address ln,
     ch_active = True, ch_owner_agent_id = ln_owner_agent_id ln, ch_recording_enabled = recorded \<rparr>"

definition routed_row :: "line \<Rightarrow> offer \<Rightarrow> int \<Rightarrow> offer_answers \<Rightarrow> route \<Rightarrow> world \<Rightarrow> new_call" where
  "routed_row ln d ringingAt oa route w =
     (base_row ln d ringingAt)\<lparr>
       n_customer_name := coalesce (lk_customerName (oa_lookup oa)) (of_name d), n_external_ref := lk_externalRef (oa_lookup oa),
       n_consumer_metadata := lk_consumerMetadata (oa_lookup oa), n_ivr_flow_id := route_flow route,
       n_state := (if route_flow route = None then None else Some IVR),
       n_queued_at := (case route of RouteQueue _ \<Rightarrow> Some (to_timestamp ringingAt) | _ \<Rightarrow> None),
       n_media_topology := Some (case route of
           RouteOwner _ \<Rightarrow> decide_topology (oa_directPath oa) (w_monitor_modes w (ln_tenant_id ln)) None (line_channel ln (oa_recording oa)) False
         | _ \<Rightarrow> Top_ROOM)\<rparr>"

datatype line_miss = Miss_unreachable | Miss_busy

text \<open>The agent who has the call, or why the line's owner missed it.\<close>

definition claim_on_arrival :: "route \<Rightarrow> offer_answers \<Rightarrow> nat \<Rightarrow> ((nat \<times> string option) option \<times> line_miss option) task" where
  "claim_on_arrival route oa callId =
     (case route of
        RouteQueue q \<Rightarrow> and_then (claimForNewCall (Some q) callId) (\<lambda>m. ret (map_option (\<lambda>m. (mb_id m, mb_name m)) m, None))
      | RouteOwner owner \<Rightarrow>
          and_then (read (\<lambda>w. reachable_agent (w_sockets w (v_id owner)) (oa_pushable oa (v_id owner)))) (\<lambda>reached.
          if \<not> reached then ret (None, Some Miss_unreachable)
          else
            and_then let_others_run (\<lambda>_.
            and_then (on_db (\<lambda>now. claimAgentAndAssignCall now True (v_id owner) callId)) (\<lambda>r.
            if assigned r then ret (Some (v_id owner, v_name owner), None) else ret (None, Some Miss_busy))))
      | _ \<Rightarrow> ret (None, None))"

definition rejectUnrouted :: "nat \<Rightarrow> unit task" where
  "rejectUnrouted callId =
     and_then (end_call (ById callId) ((end_defaults Rs_REJECTED By_SYSTEM)\<lparr>eo_provider := Provider_reject,
       eo_source := Some ''no_route''\<rparr>)) (\<lambda>_. ret ())"

definition rejectByConsumer :: "nat \<Rightarrow> unit task" where
  "rejectByConsumer callId =
     and_then (end_call (ById callId) ((end_defaults Rs_REJECTED By_SYSTEM)\<lparr>eo_provider := Provider_reject,
       eo_source := Some ''rejected_by_consumer'', eo_log := [(''rejected_by_lookup'', JBool True)]\<rparr>)) (\<lambda>_. ret ())"

definition miss_options :: "line_miss \<Rightarrow> end_options" where
  "miss_options why =
     (case why of
        Miss_busy \<Rightarrow> (end_defaults Rs_BUSY By_SYSTEM)\<lparr>eo_provider := Provider_busy, eo_source := Some ''line_busy''\<rparr>
      | Miss_unreachable \<Rightarrow> (end_defaults Rs_NO_ANSWER By_SYSTEM)\<lparr>eo_provider := Provider_reject, eo_source := Some ''line_unreachable''\<rparr>)"

definition lineMissed :: "nat \<Rightarrow> nat \<Rightarrow> line_miss \<Rightarrow> unit task" where
  "lineMissed callId owner why =
     and_then (on_calls (\<lambda>now. assignCallToAgentIfUnassigned now callId owner)) (\<lambda>_.
     and_then (end_call (ById callId) (miss_options why)) (\<lambda>_. ret ()))"

definition lineRingExpired :: "nat \<Rightarrow> unit task" where
  "lineRingExpired callId =
     and_then (end_call (ById callId) ((end_defaults Rs_NO_ANSWER By_SYSTEM)\<lparr>eo_onlyIfStatus := Some St_RINGING,
       eo_provider := Provider_end, eo_source := Some ''line_ring_timeout''\<rparr>)) (\<lambda>_. ret ())"

subsection \<open>Who is told\<close>

definition offer_options :: "nat option \<Rightarrow> string option \<Rightarrow> nat list option \<Rightarrow> string option \<Rightarrow> assignment_type \<Rightarrow> incoming_options" where
  "offer_options agentId name offered sdp asg = \<lparr> io_agentId = Some agentId, io_agentName = name, io_offeredAgentIds = offered,
     io_sdpOffer = sdp, io_assignmentType = Some asg, io_transferredFrom = None, io_assignedBy = None \<rparr>"

definition strategy_json :: "queue option \<Rightarrow> json" where
  "strategy_json q = (case q of None \<Rightarrow> JNull | Some q \<Rightarrow> JStr (case q_strategy q of
     ROUND_ROBIN \<Rightarrow> ''ROUND_ROBIN'' | PRIORITY \<Rightarrow> ''PRIORITY'' | RING_ALL \<Rightarrow> ''RING_ALL''))"

definition customer_joins :: "nat \<Rightarrow> nat \<Rightarrow> int \<Rightarrow> unit task" where
  "customer_joins callId tenantId at = change (\<lambda>w.
     w\<lparr>w_participants := fst (pt_join at callId tenantId Kind_CUSTOMER None None (w_participants w))\<rparr>)"

definition log_arrival :: "line \<Rightarrow> offer \<Rightarrow> route \<Rightarrow> nat \<Rightarrow> (nat \<times> string option) option \<Rightarrow> unit task" where
  "log_arrival ln d route callId agent =
     (let queue = route_queue route in
      case agent of
        Some (userId, _) \<Rightarrow>
          and_then (read (\<lambda>w. w_sockets w userId)) (\<lambda>sockets.
          write_log (\<lambda>now. logAssigned now callId (Some (ln_tenant_id ln)) (Some userId)
            [(''assignment_type'', JStr ''DIRECT''), (''personal_line'', JBool (case route of RouteOwner _ \<Rightarrow> True | _ \<Rightarrow> False)),
             (''queue_id'', json_id (map_option q_id queue)), (''queue_strategy'', strategy_json queue),
             (''agent_connected'', JBool (0 < sockets)), (''agent_socket_count'', JNum (int sockets))]))
      | None \<Rightarrow>
          write_log (\<lambda>now. logQueued now callId (Some (ln_tenant_id ln))
            [(''providerCallId'', JStr (of_providerCallId d)), (''queue_id'', json_id (map_option q_id queue)),
             (''queue_strategy'', strategy_json queue)]))"

text \<open>The customer is answered by the system; a failure leaves the call as it is.\<close>

definition ivr_accept :: "line \<Rightarrow> offer \<Rightarrow> offer_answers \<Rightarrow> nat \<Rightarrow> nat \<Rightarrow> unit task" where
  "ivr_accept ln d oa flow callId =
     logged_failure
       (and_then (emit (InboxOwned callId)) (\<lambda>_.
        and_then (read (\<lambda>w. mp_forCall (w_port w) callId)) (\<lambda>channel.
        and_then (throwing channel) (\<lambda>_.
        and_then (on_legs (\<lambda>w. answerCustomer (now_s w) callId (of_sdpOffer d) (mp_answerCustomer (w_port w) callId))) (\<lambda>_.
        and_then (emit (CustomerAccepted callId)) (\<lambda>_.
        and_then (read (\<lambda>w. mp_channelAccept (w_port w) callId)) (\<lambda>r.
        and_then (throwing r) (\<lambda>_.
        and_then let_others_run (\<lambda>_.
        and_then (on_calls (\<lambda>now. markIvrAutoAccepted now callId)) (\<lambda>_.
        and_then (set_time_now callId ''answered_at'') (\<lambda>_.
        and_then (write_log (\<lambda>now. logIvrAutoAccepted now callId (Some (ln_tenant_id ln))
          [(''providerCallId'', JStr (of_providerCallId d)), (''ivr_flow_id'', JNum (int flow)),
           (''ivr_flow_name'', case oa_flowName oa flow of None \<Rightarrow> JNull | Some n \<Rightarrow> JStr n), (''accepted_by'', JStr ''system'')])) (\<lambda>_.
        emit (IvrSessionStarted callId flow)))))))))))))"

definition ivr_arrival :: "line \<Rightarrow> offer \<Rightarrow> offer_answers \<Rightarrow> nat \<Rightarrow> call \<Rightarrow> unit task" where
  "ivr_arrival ln d oa flow row =
     and_then (read w_now) (\<lambda>answeredAt.
     and_then (ivr_accept ln d oa flow (c_id row)) (\<lambda>_.
     emitIncoming (row\<lparr>c_status := St_IN_PROGRESS, c_state := Some IVR, c_answered_at := Some (to_timestamp answeredAt)\<rparr>)
       (offer_options None None (Some []) None As_IVR)))"

definition offer_to_agents :: "line \<Rightarrow> route \<Rightarrow> call \<Rightarrow> (nat \<times> string option) option \<Rightarrow> string \<Rightarrow> unit task" where
  "offer_to_agents ln route row agent sdpOffer =
     (let callId = c_id row; tenantId = ln_tenant_id ln in
      case agent of
        Some (userId, name) \<Rightarrow>
          and_then (emitIncoming row (offer_options (Some userId) name None (Some sdpOffer) As_DIRECT)) (\<lambda>_.
          and_then (emit (Bus (AvailabilityEv \<lparr> an_tenantId = tenantId, an_userId = userId, an_availability = Av_ON_CALL,
            an_changed = None, an_reason = None, an_consecutiveMissed = None \<rparr>))) (\<lambda>_.
          only_when (case route of RouteOwner _ \<Rightarrow> True | _ \<Rightarrow> False) (emit (DeadlineSet ''line-ring'' callId (ringTimeoutMs ln)))))
      | None \<Rightarrow>
          (case route_queue route of
             Some q \<Rightarrow>
               if isRingAll q then
                 and_then (read (\<lambda>w. map mb_id (ringAllTargets q w))) (\<lambda>offered.
                 emitIncoming row (offer_options None None (Some offered) (Some sdpOffer) As_QUEUED))
               else
                 and_then (emit (Bus (WaitingEv callId tenantId (Some (q_id q))))) (\<lambda>_.
                 logged_failure (and_then (assignOldestUnassignedCall tenantId) (\<lambda>_. ret ())))
           | None \<Rightarrow>
               and_then (emit (Bus (WaitingEv callId tenantId None))) (\<lambda>_.
               logged_failure (and_then (assignOldestUnassignedCall tenantId) (\<lambda>_. ret ())))))"

definition arrive ::
  "line \<Rightarrow> offer \<Rightarrow> int \<Rightarrow> offer_answers \<Rightarrow> route \<Rightarrow> nat \<Rightarrow> (nat \<times> string option) option \<Rightarrow> unit task" where
  "arrive ln d ringingAt oa route callId agent =
     and_then (customer_joins callId (ln_tenant_id ln) ringingAt) (\<lambda>_.
     and_then (log_arrival ln d route callId agent) (\<lambda>_.
     and_then (read (\<lambda>w. call_findById callId (w_calls w))) (\<lambda>found.
     case found of
       None \<Rightarrow> raise (PayloadFailed CallRequired)
     | Some row \<Rightarrow>
         (case route_flow route of
            Some flow \<Rightarrow> ivr_arrival ln d oa flow row
          | None \<Rightarrow>
              and_then (emit (InboxOwned callId)) (\<lambda>_.
              and_then (on_legs (\<lambda>w. offerAgent (now_s w) callId (mp_offerAgent (w_port w) callId))) (\<lambda>sdpOffer.
              and_then (offer_to_agents ln route row agent sdpOffer) (\<lambda>_.
              case route_queue route of
                None \<Rightarrow> ret ()
              | Some q \<Rightarrow> emitQueueUpdate (ln_tenant_id ln) (Some (q_id q)))))))))"

definition settle_arrival ::
  "line \<Rightarrow> offer \<Rightarrow> int \<Rightarrow> offer_answers \<Rightarrow> route \<Rightarrow> nat \<Rightarrow> (nat \<times> string option) option \<times> line_miss option \<Rightarrow> unit task" where
  "settle_arrival ln d ringingAt oa route callId claim =
     (case route of
        RouteNone \<Rightarrow> rejectUnrouted callId
      | RouteOwner owner \<Rightarrow>
          (case snd claim of
             Some why \<Rightarrow> lineMissed callId (v_id owner) why
           | None \<Rightarrow> arrive ln d ringingAt oa route callId (fst claim))
      | _ \<Rightarrow> arrive ln d ringingAt oa route callId (fst claim))"

definition customer_leg :: "nat \<Rightarrow> string \<Rightarrow> unit task" where
  "customer_leg callId sdp = change (\<lambda>w.
     w\<lparr>w_legs := fst (create_leg (now_s w) ((leg_data callId Conn_CUSTOMER)\<lparr>nl_remote_sdp := Some sdp\<rparr>) (w_legs w))\<rparr>)"

text \<open>The end came while the call was being set up.\<close>

definition ended_in_setup :: "provider_key \<Rightarrow> nat \<Rightarrow> int \<Rightarrow> unit ingress_task" where
  "ended_in_setup k callId ringingAt =
     and_then (within (finalize_webhook callId Rs_CANCELLED By_CUSTOMER (instant_end (to_timestamp ringingAt)))) (\<lambda>_.
     and_then (del_tombstone k) (\<lambda>_.
     within (settle (ById callId) (early_end Rs_CANCELLED By_CUSTOMER
       [(''out_of_order_terminate'', JBool True), (''race'', JStr ''offer_create_after_terminate_tombstone'')]))))"

definition incoming_body :: "line \<Rightarrow> offer \<Rightarrow> offer_answers \<Rightarrow> unit ingress_task" where
  "incoming_body ln d oa =
     (let k = provider_key_of ln (of_providerCallId d) in
      and_then (see (ringing_time d)) (\<lambda>ringingAt.
      and_then (get_tombstone k) (\<lambda>tomb.
      case tomb of
        Some t \<Rightarrow> handleMissedBeforeOffer ln d ringingAt t
      | None \<Rightarrow>
          and_then (see (\<lambda>w. findActiveInboundByCustomer (ln_tenant_id ln) (of_address d) (w_calls w))) (\<lambda>active.
          case active of
            Some (activeCallId, _) \<Rightarrow> within (record_duplicate ln d ringingAt activeCallId)
          | None \<Rightarrow>
              and_then meanwhile (\<lambda>_.
              and_then (see (\<lambda>w. (route_of ln oa w, routed_row ln d ringingAt oa (route_of ln oa w) w))) (\<lambda>(route, row).
              and_then (within (insert_call row)) (\<lambda>callId.
              and_then (within (publish callId ''call.created'')) (\<lambda>_.
              and_then (within (claim_on_arrival route oa callId)) (\<lambda>claim.
              and_then (within (customer_leg callId (of_sdpOffer d))) (\<lambda>_.
              if lk_reject (oa_lookup oa) then within (rejectByConsumer callId)
              else
                and_then meanwhile (\<lambda>_.
                and_then (get_tombstone k) (\<lambda>late.
                if late \<noteq> None then ended_in_setup k callId ringingAt
                else within (settle_arrival ln d ringingAt oa route callId claim)))))))))))))"

definition handleIncomingCall :: "line \<Rightarrow> offer \<Rightarrow> offer_answers \<Rightarrow> unit ingress_task" where
  "handleIncomingCall ln d oa = logged_failure (incoming_body ln d oa)"

definition inboundCall :: "line \<Rightarrow> offer \<Rightarrow> offer_answers \<Rightarrow> unit ingress_task" where
  "inboundCall ln d oa =
     (let k = provider_key_of ln (of_providerCallId d) in
      and_then (see (find_provider_call k)) (\<lambda>existing.
      if existing \<noteq> None then ret () else withOwnership k (handleIncomingCall ln d oa)))"

section \<open>The answer to an outbound call\<close>

definition belongsTo :: "call \<Rightarrow> line \<Rightarrow> bool" where
  "belongsTo c ln \<longleftrightarrow> c_channel_id c = Some (ln_id ln)"

definition outboundAnswered :: "line \<Rightarrow> string \<Rightarrow> unit ingress_task" where
  "outboundAnswered ln providerCallId =
     (let k = provider_key_of ln providerCallId in
      and_then (see (find_provider_call k)) (\<lambda>existing.
      case existing of
        None \<Rightarrow> ret ()
      | Some c \<Rightarrow>
          if \<not> belongsTo c ln then ret ()
          else if c_status c \<noteq> St_INITIATED \<and> c_status c \<noteq> St_RINGING then ret ()
          else withOwnership k (within (emit (InboxPosted (c_id c) ''CUSTOMER_ANSWER_RECEIVED'')))))"

section \<open>The provider's status\<close>

definition elapsed :: "int \<Rightarrow> int \<Rightarrow> nat" where
  "elapsed later earlier = nat (max 0 ((later - earlier) div 1000))"

text \<open>A TIMESTAMP read back as a \<open>Date\<close>.\<close>

definition date_of :: "int \<Rightarrow> int" where
  "date_of s = 1000 * s"

text \<open>\<open>row.ringing_duration == null\<close>: the columns are NOT NULL DEFAULT 0, so it never is.\<close>

definition duration_unset :: "nat \<Rightarrow> bool" where
  "duration_unset d = False"

definition set_time :: "nat \<Rightarrow> string \<Rightarrow> int option \<Rightarrow> unit task" where
  "set_time callId field at = change (\<lambda>w.
     case updateTimestamp (now_s w) callId field (map_option to_timestamp at) (w_calls w) of
       Inl _ \<Rightarrow> w
     | Inr cs \<Rightarrow> w\<lparr>w_calls := cs\<rparr>)"

definition set_duration_of :: "nat \<Rightarrow> string \<Rightarrow> nat \<Rightarrow> unit task" where
  "set_duration_of callId field d = change (\<lambda>w.
     case updateDuration (now_s w) callId field d (w_calls w) of
       Inl _ \<Rightarrow> w
     | Inr cs \<Rightarrow> w\<lparr>w_calls := cs\<rparr>)"

definition set_status :: "nat \<Rightarrow> call_status \<Rightarrow> unit task" where
  "set_status callId st = change (\<lambda>w. w\<lparr>w_calls := updateStatus (now_s w) callId st (w_calls w)\<rparr>)"

definition status_over :: "call_status \<Rightarrow> bool" where
  "status_over s \<longleftrightarrow> s = St_TERMINATED \<or> s = St_FAILED \<or> s = St_CANCELLED"

definition provider_log_meta :: "string \<Rightarrow> call_status \<Rightarrow> metadata" where
  "provider_log_meta providerCallId previous =
     [(''providerCallId'', JStr providerCallId), (''previousState'', JStr (status_name previous))]"

definition provider_ringing :: "call \<Rightarrow> string \<Rightarrow> int \<Rightarrow> unit task" where
  "provider_ringing call providerCallId at =
     (let callId = c_id call; over = status_over (c_status call) in
      and_then (set_time callId ''ringing_at'' (Some at)) (\<lambda>_.
      and_then (read w_now) (\<lambda>now.
      and_then (only_when (over \<and> duration_unset (c_ringing_duration call))
        (set_duration_of callId ''ringing_duration''
          (elapsed (nullish (map_option date_of (coalesce (c_answered_at call) (c_ended_at call))) now) at))) (\<lambda>_.
      and_then let_others_run (\<lambda>_.
      and_then (only_when (\<not> over \<and> c_status call = St_INITIATED) (set_status callId St_RINGING)) (\<lambda>_.
      only_when (c_direction call = OUTBOUND)
        (logged_failure (write_log (\<lambda>t. logOutboundRinging t callId (Some (c_tenant_id call)) (c_agent_id call)
          (provider_log_meta providerCallId (c_status call)))))))))))"

definition provider_accepted :: "call \<Rightarrow> string \<Rightarrow> int \<Rightarrow> unit task" where
  "provider_accepted call providerCallId at =
     (let callId = c_id call; over = status_over (c_status call) in
      and_then (only_when (c_ringing_at call = None)
        (and_then (set_time callId ''ringing_at'' (Some at)) (\<lambda>_.
         only_when (over \<and> duration_unset (c_ringing_duration call)) (set_duration_of callId ''ringing_duration'' 0)))) (\<lambda>_.
      and_then (set_time callId ''answered_at'' (Some at)) (\<lambda>_.
      and_then let_others_run (\<lambda>_.
      and_then (only_when (\<not> over \<and> c_status call \<noteq> St_IN_PROGRESS)
        (and_then (set_status callId St_IN_PROGRESS) (\<lambda>_. set_state callId (Some ACTIVE)))) (\<lambda>_.
      only_when (c_direction call = OUTBOUND)
        (and_then (only_when (\<not> over) (join_participant call Kind_CUSTOMER None None)) (\<lambda>_.
         and_then (logged_failure (write_log (\<lambda>t. logOutboundAccepted t callId (Some (c_tenant_id call)) (c_agent_id call)
           (provider_log_meta providerCallId (c_status call))))) (\<lambda>_.
         and_then (read (\<lambda>w. Option.bind (c_agent_id call) (\<lambda>a. getNameById a (w_agents w)))) (\<lambda>name.
         emit (Bus (HandledEv \<lparr> hn_callId = callId, hn_tenantId = c_tenant_id call, hn_userId = nullish (c_agent_id call) 0,
           hn_agentName = name, hn_deviceId = None, hn_action = Accepted \<rparr>)))))))))))"

definition provider_rejected :: "call \<Rightarrow> string \<Rightarrow> int \<Rightarrow> unit task" where
  "provider_rejected call providerCallId at =
     (let callId = c_id call in
      and_then (set_time callId ''ended_at'' (Some at)) (\<lambda>_.
      and_then (case c_ringing_at call of
          None \<Rightarrow> ret ()
        | Some r \<Rightarrow> only_when (duration_unset (c_ringing_duration call))
            (set_duration_of callId ''ringing_duration'' (elapsed at (date_of r)))) (\<lambda>_.
      and_then (only_when (c_direction call = OUTBOUND)
        (logged_failure (write_log (\<lambda>t. logOutboundRejected t callId (Some (c_tenant_id call)) (c_agent_id call)
          (provider_log_meta providerCallId (c_status call)))))) (\<lambda>_.
      and_then let_others_run (\<lambda>_.
      and_then (on_calls (\<lambda>now. terminateCallIfNotTerminated now callId (Some Rs_REJECTED) By_CUSTOMER (Some (to_timestamp at)) None)) (\<lambda>ended.
      only_when ended (settle (Row call) ((end_defaults Rs_REJECTED By_CUSTOMER)\<lparr>eo_source := Some ''customer_rejected''\<rparr>))))))))"

definition failed_timing :: "call \<Rightarrow> int \<Rightarrow> webhook_end" where
  "failed_timing call at = \<lparr> w_ended_at = Some (to_timestamp at), w_answered_at = None,
     w_call_duration =
       (if \<not> duration_unset (c_call_duration call) then None
        else Some (case c_answered_at call of None \<Rightarrow> 0 | Some a \<Rightarrow> elapsed at (date_of a))),
     w_ringing_duration =
       (if \<not> duration_unset (c_ringing_duration call) then None
        else case (c_ringing_at call, c_answered_at call) of
            (Some r, Some a) \<Rightarrow> Some (elapsed (date_of a) (date_of r))
          | (Some r, None) \<Rightarrow> Some (elapsed at (date_of r))
          | _ \<Rightarrow> None) \<rparr>"

definition provider_failed :: "call \<Rightarrow> int \<Rightarrow> unit task" where
  "provider_failed call at =
     and_then (finalize_failed (c_id call) By_PROVIDER (failed_timing call at)) (\<lambda>finalized.
     only_when finalized
       (and_then (emitCallError (c_id call) ''null'' ''Call failed (provider status)'' None) (\<lambda>_.
        settle (Row call) ((end_defaults Rs_PROVIDER_ERROR By_PROVIDER)\<lparr>eo_source := Some ''provider_status_failed''\<rparr>))))"

definition provider_status :: "call \<Rightarrow> string \<Rightarrow> string \<Rightarrow> int \<Rightarrow> unit task" where
  "provider_status call providerCallId status at =
     (if status = ''RINGING'' then provider_ringing call providerCallId at
      else if status = ''ACCEPTED'' then provider_accepted call providerCallId at
      else if status = ''REJECTED'' then provider_rejected call providerCallId at
      else if status = ''FAILED'' then provider_failed call at
      else ret ())"

definition statusChanged :: "line \<Rightarrow> string \<Rightarrow> string \<Rightarrow> int option \<Rightarrow> unit task" where
  "statusChanged ln providerCallId status at =
     logged_failure
       (and_then (read (\<lambda>w. (find_provider_call (provider_key_of ln providerCallId) w, nullish at (w_now w)))) (\<lambda>(found, timestampValue).
        case found of
          None \<Rightarrow> ret ()
        | Some call \<Rightarrow>
            if \<not> belongsTo call ln then ret ()
            else
              and_then (provider_status call providerCallId status timestampValue) (\<lambda>_.
              emit (Bus (StatusEv (c_id call) (c_tenant_id call) status (c_agent_id call))))))"

section \<open>The provider ended the call\<close>

text \<open>An error as the provider sent it, with the text of its \<open>code\<close> and \<open>title\<close>.\<close>

record provider_error =
  pe_code :: "string option"
  pe_title :: "string option"
  pe_json :: json

record end_event =
  ee_providerCallId :: string
  ee_providerStatus :: "string option"
  ee_failed :: bool
  ee_answeredAt :: "int option"
  ee_endedAt :: "int option"
  ee_durationSec :: "nat option"
  ee_errors :: "provider_error list option"
  ee_callback :: "json option"
  ee_failureBy :: terminated_by

definition tombstone_of :: "end_event \<Rightarrow> tombstone" where
  "tombstone_of e = \<lparr> tb_failed = ee_failed e, tb_endedAt = ee_endedAt e,
     tb_errors = map_option (map pe_json) (ee_errors e), tb_callback = ee_callback e \<rparr>"

subsection \<open>Its timing\<close>

text \<open>The answer and the end, each the provider's, else ours.\<close>

definition effective_answer :: "end_event \<Rightarrow> call \<Rightarrow> int option" where
  "effective_answer e c = coalesce (ee_answeredAt e) (map_option date_of (c_answered_at c))"

definition effective_end :: "int \<Rightarrow> end_event \<Rightarrow> call \<Rightarrow> int" where
  "effective_end now e c = nullish (coalesce (ee_endedAt e) (map_option date_of (c_ended_at c))) now"

definition talk_time :: "int \<Rightarrow> end_event \<Rightarrow> call \<Rightarrow> nat" where
  "talk_time now e c =
     (case ee_durationSec e of
        Some d \<Rightarrow> d
      | None \<Rightarrow> (case effective_answer e c of None \<Rightarrow> 0 | Some a \<Rightarrow> elapsed (effective_end now e c) a))"

definition ring_time :: "int \<Rightarrow> end_event \<Rightarrow> call \<Rightarrow> nat option" where
  "ring_time now e c =
     (case c_ringing_at c of
        None \<Rightarrow> None
      | Some r \<Rightarrow>
          Some (case effective_answer e c of
              Some a \<Rightarrow> elapsed a (date_of r)
            | None \<Rightarrow> elapsed (nullish (ee_endedAt e) now) (date_of r)))"

text \<open>With no answer of the provider an unknown ringing time counts as 0.\<close>

definition told_ring_time :: "int \<Rightarrow> end_event \<Rightarrow> call \<Rightarrow> nat option" where
  "told_ring_time now e c =
     (if \<not> ee_failed e \<and> ee_answeredAt e = None then Some (nullish (ring_time now e c) 0) else ring_time now e c)"

definition waited_time :: "int \<Rightarrow> end_event \<Rightarrow> call \<Rightarrow> nat" where
  "waited_time now e c = (case c_queued_at c of None \<Rightarrow> 0 | Some q \<Rightarrow> elapsed (effective_end now e c) (date_of q))"

definition gave_up :: "call \<Rightarrow> nat \<Rightarrow> termination_reason" where
  "gave_up c waited = (if c_direction c = INBOUND \<and> waited < 5 then Rs_CANCELLED else Rs_NO_ANSWER)"

definition end_reason :: "int \<Rightarrow> end_event \<Rightarrow> call \<Rightarrow> termination_reason" where
  "end_reason now e c =
     (if ee_failed e then Rs_PROVIDER_ERROR
      else if ee_answeredAt e = None then
        (if c_status c = St_INITIATED \<or> c_status c = St_RINGING then gave_up c (nullish (told_ring_time now e c) 0)
         else if c_status c = St_IN_PROGRESS then Rs_CANCELLED
         else Rs_COMPLETED)
      else if c_status c = St_RINGING \<and> c_ivr_flow_id c \<noteq> None then gave_up c (waited_time now e c)
      else Rs_COMPLETED)"

definition end_by :: "end_event \<Rightarrow> terminated_by" where
  "end_by e = (if ee_failed e then By_PROVIDER else By_CUSTOMER)"

definition end_timing :: "int \<Rightarrow> end_event \<Rightarrow> call \<Rightarrow> webhook_end" where
  "end_timing now e c = \<lparr> w_ended_at = map_option to_timestamp (ee_endedAt e), w_answered_at = map_option to_timestamp (ee_answeredAt e),
     w_call_duration = Some (talk_time now e c), w_ringing_duration = told_ring_time now e c \<rparr>"

subsection \<open>What failed\<close>

fun obj_put :: "string \<Rightarrow> json \<Rightarrow> (string \<times> json) list \<Rightarrow> (string \<times> json) list" where
  "obj_put k v [] = [(k, v)]"
| "obj_put k v ((k', v') # kvs) = (if k = k' then (k, v) # kvs else (k', v') # obj_put k v kvs)"

text \<open>What the code stores in \<open>failure_details\<close> is an object with a list of errors.\<close>

definition stored_details :: "call \<Rightarrow> (string \<times> json) list" where
  "stored_details c = (case c_failure_details c of Some (JObj kvs) \<Rightarrow> kvs | _ \<Rightarrow> [])"

definition stored_errors :: "call \<Rightarrow> json list" where
  "stored_errors c = (case map_of (stored_details c) ''errors'' of Some (JArr es) \<Rightarrow> es | _ \<Rightarrow> [])"

definition told_errors :: "end_event \<Rightarrow> provider_error list" where
  "told_errors e = nullish (ee_errors e) []"

definition merged_details :: "end_event \<Rightarrow> call \<Rightarrow> (string \<times> json) list" where
  "merged_details e c =
     (let kept = stored_details c;
          named = (if told_errors e = [] then kept else obj_put ''errors'' (JArr (map pe_json (told_errors e))) kept);
          called = (case ee_callback e of None \<Rightarrow> named | Some d \<Rightarrow> obj_put ''provider_callback_data'' d named)
      in obj_put ''errors'' (JArr (stored_errors c @ map pe_json (told_errors e))) called)"

text \<open>\<open>errors?.[0]?.code\<close> of nothing is \<open>undefined\<close>.\<close>

definition first_error :: "(provider_error \<Rightarrow> string option) \<Rightarrow> end_event \<Rightarrow> string" where
  "first_error f e = (case told_errors e of [] \<Rightarrow> ''undefined'' | x # _ \<Rightarrow> nullish (f x) ''undefined'')"

definition tell_failure :: "end_event \<Rightarrow> call \<Rightarrow> bool \<Rightarrow> unit task" where
  "tell_failure e c finalized =
     only_when (ee_failed e)
       (and_then (only_when (told_errors e \<noteq> [] \<or> ee_callback e \<noteq> None) (write_failure_details (c_id c) (merged_details e c))) (\<lambda>_.
        and_then (emitCallError (c_id c) (first_error pe_code e) (first_error pe_title e) None) (\<lambda>_.
        only_when (\<not> finalized \<and> told_errors e \<noteq> [])
          (change (\<lambda>w. w\<lparr>w_calls := updateTerminatedByIfFailed (now_s w) (c_id c) (ee_failureBy e) (w_calls w)\<rparr>)))))"

subsection \<open>The end\<close>

definition provider_end_log :: "end_event \<Rightarrow> metadata" where
  "provider_end_log e = [(''provider_status'', case ee_providerStatus e of None \<Rightarrow> JNull | Some s \<Rightarrow> JStr s)]"

definition after_provider_end :: "end_event \<Rightarrow> call \<Rightarrow> termination_reason \<Rightarrow> unit task" where
  "after_provider_end e c reason =
     and_then (settle (Row c) ((end_defaults reason (end_by e))\<lparr>eo_source := Some ''provider_end'', eo_log := provider_end_log e\<rparr>)) (\<lambda>_.
     only_when (c_agent_id c \<noteq> None \<and> c_direction c = INBOUND \<and> reason = Rs_NO_ANSWER)
       (and_then (recordMiss (c_id c) (c_tenant_id c) (c_queue_id c) (c_agent_id c) False) (\<lambda>_. ret ())))"

text \<open>The call was read before; others may have run since.\<close>

definition provider_ends :: "end_event \<Rightarrow> call \<Rightarrow> unit task" where
  "provider_ends e c =
     and_then (read w_now) (\<lambda>now.
     and_then let_others_run (\<lambda>_.
     and_then (if ee_failed e then finalize_failed (c_id c) (end_by e) (end_timing now e c)
               else finalize_webhook (c_id c) (end_reason now e c) (end_by e) (end_timing now e c)) (\<lambda>finalized.
     and_then (tell_failure e c finalized) (\<lambda>_.
     and_then (only_when (ee_endedAt e = None \<and> c_ended_at c = None) (set_time (c_id c) ''ended_at'' None)) (\<lambda>_.
     only_when finalized (after_provider_end e c (end_reason now e c)))))))"

definition handleCallEnded :: "line \<Rightarrow> end_event \<Rightarrow> unit ingress_task" where
  "handleCallEnded ln e =
     (let k = provider_key_of ln (ee_providerCallId e) in
      and_then (see (find_provider_call k)) (\<lambda>existing.
      case existing of
        Some c \<Rightarrow> only_when (belongsTo c ln) (within (provider_ends e c))
      | None \<Rightarrow>
          and_then meanwhile (\<lambda>_.
          and_then (see (find_provider_call k)) (\<lambda>again.
          case again of
            Some c \<Rightarrow> only_when (belongsTo c ln) (within (provider_ends e c))
          | None \<Rightarrow> and_then meanwhile (\<lambda>_. put_tombstone k (tombstone_of e))))))"

definition callEnded :: "line \<Rightarrow> end_event \<Rightarrow> unit ingress_task" where
  "callEnded ln e =
     and_then (logged_failure (handleCallEnded ln e)) (\<lambda>_.
     cleanupCall (provider_key_of ln (ee_providerCallId e)))"

end
