(* ===== verification/IngressFacts.thy ===== *)
theory IngressFacts
  imports Ingress
begin

text \<open>
  What the provider's reports do to the calls. \<open>provider_relation\<close> lifts what an input of a call keeps
  (\<open>control_relation\<close>) to the handlers of \<open>ChannelIngress\<close>, whatever other workers do to the tables and the
  tombstones meanwhile.
\<close>

section \<open>Relations between worlds, seen from the ingress\<close>

definition spared :: "(world \<Rightarrow> world \<Rightarrow> bool) \<Rightarrow> ingress \<Rightarrow> bool" where
  "spared R s \<longleftrightarrow> (\<forall>f \<in> set (ig_others s). \<forall>w t. R w (fst (f (w, t))))"

definition lifted :: "(world \<Rightarrow> world \<Rightarrow> bool) \<Rightarrow> ingress \<Rightarrow> ingress \<Rightarrow> bool" where
  "lifted R s s' \<longleftrightarrow> (spared R s \<longrightarrow> spared R s' \<and> R (ig_world s) (ig_world s'))"

locale provider_relation = control_relation R for R :: "world \<Rightarrow> world \<Rightarrow> bool" +
  assumes settled_made: "R w (snd (settle r opt w))"
    and webhook_final: "R w (w\<lparr>w_calls := fst (finalizeFromWebhook (now_s w) c (Some St_TERMINATED) re by e (w_calls w))\<rparr>)"
    and failed_final: "R w (w\<lparr>w_calls := fst (finalizeCallAsFailed (now_s w) c by e (w_calls w))\<rparr>)"
    and terminated: "R w (w\<lparr>w_calls := fst (terminateCallIfNotTerminated (now_s w) c rs b ea st (w_calls w))\<rparr>)"
    and details: "R w (w\<lparr>w_calls := updateFailureDetails (now_s w) c dd (w_calls w)\<rparr>)"
    and failed_by: "R w (w\<lparr>w_calls := updateTerminatedByIfFailed (now_s w) c b (w_calls w)\<rparr>)"
    and ivr_accepted: "R w (w\<lparr>w_calls := fst (markIvrAutoAccepted (now_s w) c (w_calls w))\<rparr>)"
    and any_claim: "R w (w\<lparr>w_agents := fst (fst (claimAgentAndAssignCall (now_s w) True a c (w_agents w, w_calls w))),
                          w_calls := snd (fst (claimAgentAndAssignCall (now_s w) True a c (w_agents w, w_calls w)))\<rparr>)"
begin

lemma run_settle: "runs_in R (settle r opt)"
  by (simp add: runs_in_def settled_made)

lemma run_finals:
  "runs_in R (finalize_webhook c re by e)" "runs_in R (finalize_failed c by e)"
  "runs_in R (on_calls (\<lambda>now. terminateCallIfNotTerminated now c rs b ea st))"
  "runs_in R (on_calls (\<lambda>now. markIvrAutoAccepted now c))"
  by (simp_all add: runs_in_def finalize_webhook_def finalize_failed_def on_calls_def statement_def Let_def
      webhook_final failed_final terminated ivr_accepted)

lemma run_details:
  "runs_in R (write_failure_details c d)"
  "runs_in R (change (\<lambda>w. w\<lparr>w_calls := updateTerminatedByIfFailed (now_s w) c b (w_calls w)\<rparr>))"
  unfolding write_failure_details_def by (rule run_change, rule details failed_by)+

lemma run_times: "runs_in R (set_time c f t)"
  by (auto simp: runs_in_def set_time_def change_def stays time_set split: sum.split)

lemma run_insert: "runs_in R (insert_call d)"
  by (auto simp: runs_in_def insert_call_def create_call_def stays created split: sum.split prod.split)

lemma run_any_claim: "runs_in R (on_db (\<lambda>now. claimAgentAndAssignCall now True a c))"
  by (simp add: runs_in_def on_db_def statement_def Let_def any_claim)

lemma run_publish: "runs_in R (publish c what)"
  unfolding publish_def by (rule run_quiet) (simp add: quiet_def)

lemma run_legs_write: "runs_in R (customer_leg c sdp)" "runs_in R (customer_joins c t at)"
  unfolding customer_leg_def customer_joins_def by (rule run_change, rule sdp_free participants_free)+

lemmas provider_parts = run_settle run_finals run_details run_times run_insert run_any_claim run_publish run_legs_write
  run_recordMiss run_claimForNewCall run_drainForTenant run_emitIncoming run_emitQueueUpdate handler_parts

lemma run_missed_ends: "runs_in R (missed_ends i t e)"
  unfolding missed_ends_def by (intro run_rules provider_parts)

lemma run_record_duplicate: "runs_in R (record_duplicate ln d at j)"
  unfolding record_duplicate_def by (intro run_rules provider_parts)

lemma run_claim_on_arrival: "runs_in R (claim_on_arrival route oa c)"
  unfolding claim_on_arrival_def by (cases route; simp; intro run_rules provider_parts)

lemma run_refusals: "runs_in R (rejectUnrouted c)" "runs_in R (rejectByConsumer c)" "runs_in R (lineMissed c a why)"
  "runs_in R (lineRingExpired c)"
  unfolding rejectUnrouted_def rejectByConsumer_def lineMissed_def lineRingExpired_def by (intro run_rules provider_parts)+

lemma run_offer_to_agents: "runs_in R (offer_to_agents ln route row agent sdp)"
  unfolding offer_to_agents_def Let_def by (intro run_rules provider_parts; simp add: quiet_def)

lemma run_log_arrival: "runs_in R (log_arrival ln d route c agent)"
  unfolding log_arrival_def Let_def by (intro run_rules provider_parts)

lemma run_ivr_arrival: "runs_in R (ivr_arrival ln d oa flow row)"
  unfolding ivr_arrival_def ivr_accept_def by (intro run_rules provider_parts; simp add: quiet_def)

lemma run_arrive: "runs_in R (arrive ln d at oa route c agent)"
  unfolding arrive_def by (intro run_rules provider_parts run_log_arrival run_ivr_arrival run_offer_to_agents; simp add: quiet_def)

lemma run_settle_arrival: "runs_in R (settle_arrival ln d at oa route c claim)"
  unfolding settle_arrival_def by (cases route; simp; intro run_rules run_refusals run_arrive)

lemma run_provider_ends: "runs_in R (provider_ends e c)"
  unfolding provider_ends_def tell_failure_def after_provider_end_def
  by (intro run_rules provider_parts)

lemma run_statuses: "runs_in R (provider_rejected c p at)" "runs_in R (provider_failed c at)"
  unfolding provider_rejected_def provider_failed_def duration_unset_def Let_def only_when_simps
  by (intro run_rules provider_parts)+

text \<open>The same of the handlers, which run on the ingress.\<close>

lemma lifted_chain: "lifted R s t \<Longrightarrow> lifted R t u \<Longrightarrow> lifted R s u"
  using chains by (auto simp: lifted_def)

lemma lifted_keys: "ig_world s' = ig_world s \<Longrightarrow> ig_others s' = ig_others s \<Longrightarrow> lifted R s s'"
  by (simp add: lifted_def spared_def stays)

lemma lifted_meanwhile: "lifted R s (meanwhile_step s)"
  by (cases "ig_others s") (auto simp: lifted_def spared_def meanwhile_step_def stays)

sublocale seen: effect_relation "lifted R"
  by unfold_locales (simp add: lifted_keys, blast intro: lifted_chain)

lemma run_within: "runs_in R m \<Longrightarrow> runs_in (lifted R) (within m)"
  by (simp add: runs_in_def within_def Let_def lifted_def spared_def)

lemma run_meanwhile: "runs_in (lifted R) meanwhile"
  unfolding meanwhile_def by (rule seen.run_change) (rule lifted_meanwhile)

lemma run_keys:
  "runs_in (lifted R) (see f)" "runs_in (lifted R) (get_tombstone k)" "runs_in (lifted R) (del_tombstone k)"
  "runs_in (lifted R) (put_tombstone k t)" "runs_in (lifted R) (claimCall k)"
  "runs_in (lifted R) (setCallOwnershipPermanent k)" "runs_in (lifted R) (cleanupCall k)"
  unfolding see_def get_tombstone_def del_tombstone_def put_tombstone_def claimCall_def setCallOwnershipPermanent_def cleanupCall_def
  by (rule seen.run_read, rule seen.run_read, rule seen.run_change, simp add: lifted_keys, rule seen.run_change,
      simp add: lifted_keys, rule seen.run_statement, simp add: lifted_keys, rule seen.run_statement,
      simp add: lifted_keys split: option.split prod.split, rule seen.run_change, simp add: lifted_keys)

lemma run_owned: "runs_in (lifted R) m \<Longrightarrow> runs_in (lifted R) (withOwnership k m)"
  unfolding withOwnership_def after_claim_def by (intro seen.run_rules run_keys)

lemma run_missed: "runs_in (lifted R) (handleMissedBeforeOffer ln d at t)"
  unfolding handleMissedBeforeOffer_def Let_def
  by (intro seen.run_rules run_keys run_within provider_parts run_missed_ends run_logged_failure)

lemma run_offered: "runs_in (lifted R) (inboundCall ln d oa)"
  unfolding inboundCall_def handleIncomingCall_def incoming_body_def ended_in_setup_def Let_def
  by (intro seen.run_rules run_owned run_keys run_meanwhile run_within provider_parts run_missed run_record_duplicate
      run_claim_on_arrival run_refusals run_settle_arrival)

lemma run_ended: "runs_in (lifted R) (callEnded ln e)"
  unfolding callEnded_def handleCallEnded_def Let_def
  by (intro seen.run_rules run_keys run_meanwhile run_within run_provider_ends)

lemma run_answered: "runs_in (lifted R) (outboundAnswered ln p)"
  unfolding outboundAnswered_def Let_def
  by (intro seen.run_rules run_owned run_keys run_within run_quiet; simp add: quiet_def)

lemma run_status: "st \<noteq> ''RINGING'' \<Longrightarrow> st \<noteq> ''ACCEPTED'' \<Longrightarrow> runs_in R (statusChanged ln p st at)"
  unfolding statusChanged_def provider_status_def
  by (simp only: if_False simp_thms) (intro run_rules run_statuses run_quiet; simp add: quiet_def)

end

section \<open>A history of reports\<close>

datatype provider_report =
    Offered offer offer_answers
  | Answered string
  | StatusTold string string "int option"
  | Ended end_event
  | LineRingDue nat

fun report :: "line \<Rightarrow> provider_report \<Rightarrow> ingress \<Rightarrow> ingress" where
  "report ln (Offered d oa) s = snd (inboundCall ln d oa s)"
| "report ln (Answered p) s = snd (outboundAnswered ln p s)"
| "report ln (StatusTold p st at) s = snd (within (statusChanged ln p st at) s)"
| "report ln (Ended e) s = snd (callEnded ln e s)"
| "report ln (LineRingDue c) s = snd (within (lineRingExpired c) s)"

fun report_all :: "line \<Rightarrow> provider_report list \<Rightarrow> ingress \<Rightarrow> ingress" where
  "report_all ln [] s = s"
| "report_all ln (p # ps) s = report_all ln ps (report ln p s)"

fun connects :: "provider_report \<Rightarrow> bool" where
  "connects (StatusTold p st at) \<longleftrightarrow> st = ''RINGING'' \<or> st = ''ACCEPTED''"
| "connects _ \<longleftrightarrow> False"

lemma report_runs:
  assumes "provider_relation R" and "\<not> connects p"
  shows "lifted R s (report ln p s)"
proof -
  note within = provider_relation.run_within [OF assms(1)]
  have ran: "runs_in (lifted R) m \<Longrightarrow> lifted R s (snd (m s))" for m :: "unit ingress_task"
    by (simp add: runs_in_def)
  show ?thesis
  proof (cases p)
    case (StatusTold q st at)
    then have "runs_in R (statusChanged ln q st at)"
      using provider_relation.run_status [OF assms(1)] assms(2) by simp
    then show ?thesis using StatusTold ran [OF within] by simp
  qed (simp_all add: ran within provider_relation.run_offered [OF assms(1)] provider_relation.run_answered [OF assms(1)]
      provider_relation.run_ended [OF assms(1)] provider_relation.run_refusals(4) [OF assms(1)])
qed

lemma report_all_runs:
  assumes "provider_relation R"
  shows "list_all (Not \<circ> connects) ps \<Longrightarrow> lifted R s (report_all ln ps s)"
proof (induction ps arbitrary: s)
  case Nil
  show ?case using provider_relation.lifted_keys [OF assms] by simp
next
  case (Cons p ps)
  have "lifted R s (report ln p s)" using Cons.prems by (intro report_runs [OF assms]) simp
  moreover have "lifted R (report ln p s) (report_all ln ps (report ln p s))"
    using Cons.prems by (intro Cons.IH) simp
  ultimately show ?case unfolding report_all.simps by (rule provider_relation.lifted_chain [OF assms])
qed

section \<open>Nothing revives a call\<close>

lemma guarded_settle: "guarded_run w (snd (settle r opt w))"
proof (cases "load r w")
  case None
  then show ?thesis by (simp add: settle_def ret_def guarded_run_def)
next
  case (Some c)
  then show ?thesis using guarded_end.run_settle_row by (simp add: settle_def runs_in_def)
qed

lemma guarded_claimed:
  "guarded_run w (w\<lparr>w_agents := ag, w_calls := snd (fst (claimAgentAndAssignCall (now_s w) any a c (w_agents w, w_calls w)))\<rparr>)"
  using claim_is_step [of "(w_agents w, w_calls w)" "now_s w" any a c] by (simp add: guarded_run_def disciplined_def)

lemmas guarded_ends =
  cs_ended [of _ _ _ "EndWebhook r b e" for r b e, simplified] cs_ended [of _ _ _ "EndTerminate r b e q" for r b e q, simplified]

interpretation guarded_provider: provider_relation guarded_run
  by unfold_locales (rule guarded_settle guarded_claimed
    | rule guarded_write, rule cs_provider_failed cs_failure_details cs_failed_by cs_ivr_accepted guarded_ends)+

end
