(* ===== verification/IngressEnds.thy ===== *)
theory IngressEnds
  imports IngressFacts
begin

text \<open>
  The ends a provider reports: the verdict a call keeps, an end that comes before its offer, the claim on a
  provider's call id, and what the missing status guards of a late answer and of a late failure allow.
\<close>

section \<open>The row a finalizer leaves\<close>

definition corrected :: "call \<Rightarrow> webhook_end \<Rightarrow> termination_reason \<Rightarrow> termination_reason" where
  "corrected c e reason =
     (if reason = Rs_NO_ANSWER \<and> coalesce (w_answered_at e) (c_answered_at c) \<noteq> None \<and> c_ivr_flow_id c = None
      then Rs_COMPLETED else reason)"

lemma find_update:
  assumes "\<And>c. c_id (f c) = c_id c"
  shows "call_findById i (fst (sql_update p f cs)) = map_option (\<lambda>c. if p c then f c else c) (call_findById i cs)"
  using find_call_update [OF assms] by simp

lemma finalized_flag: "call_findById i cs = Some c \<Longrightarrow> \<not> is_final c \<Longrightarrow> snd (finalizeFromWebhook now i s re by e cs)"
proof -
  assume c: "call_findById i cs = Some c" "\<not> is_final c"
  let ?f = "\<lambda>c. c\<lparr>c_ended_at := coalesce (w_ended_at e) (c_ended_at c), c_answered_at := coalesce (w_answered_at e) (c_answered_at c),
      c_call_duration := nullish (w_call_duration e) (c_call_duration c),
      c_ringing_duration := nullish (w_ringing_duration e) (c_ringing_duration c), c_updated_at := now\<rparr>"
  have "call_findById i (patch_timing now i e cs) = Some (?f c)"
    using c(1) find_call_Some [OF c(1)] unfolding patch_timing_def by (subst find_update) simp_all
  then show ?thesis
    unfolding finalizeFromWebhook_def Let_def snd_conv
    using c find_call_Some [OF c(1)] by (intro affected_row) (assumption, simp add: is_final_def)
qed

lemma finalized_row:
  assumes "call_findById i cs = Some c" and "\<not> is_final c" and "c_termination_reason c = None" and "c_terminated_by c = None"
  shows "\<exists>r. call_findById i (fst (finalizeFromWebhook now i (Some St_TERMINATED) (Some re) (Some b) e cs)) = Some r
    \<and> is_final r \<and> verdict r = (St_TERMINATED, Some (corrected c e re), Some b) \<and> c_agent_id r = c_agent_id c
    \<and> c_tenant_id r = c_tenant_id c"
  unfolding finalizeFromWebhook_def correctNoAnswerIfAnswered_def patch_timing_def Let_def affected_fst fst_conv
  using assms find_call_Some [OF assms(1)]
  by (auto simp: find_update is_final_def verdict_def corrected_def simp del: sql_update_fst)

lemma failed_flag: "call_findById i cs = Some c \<Longrightarrow> c_status c \<noteq> St_FAILED \<Longrightarrow> snd (finalizeCallAsFailed now i by e cs)"
proof -
  assume c: "call_findById i cs = Some c" "c_status c \<noteq> St_FAILED"
  let ?f = "\<lambda>c. c\<lparr>c_ended_at := coalesce (w_ended_at e) (c_ended_at c), c_answered_at := coalesce (w_answered_at e) (c_answered_at c),
      c_call_duration := nullish (w_call_duration e) (c_call_duration c),
      c_ringing_duration := nullish (w_ringing_duration e) (c_ringing_duration c), c_updated_at := now\<rparr>"
  have "call_findById i (patch_timing now i e cs) = Some (?f c)"
    using c(1) find_call_Some [OF c(1)] unfolding patch_timing_def by (subst find_update) simp_all
  then show ?thesis
    unfolding finalizeCallAsFailed_def
    using c find_call_Some [OF c(1)] by (intro affected_row) (assumption, simp)
qed

lemma failed_row:
  assumes "call_findById i cs = Some c" and "c_status c \<noteq> St_FAILED"
  shows "\<exists>r. call_findById i (fst (finalizeCallAsFailed now i (Some b) e cs)) = Some r
    \<and> is_final r \<and> verdict r = (St_FAILED, Some Rs_PROVIDER_ERROR, coalesce (c_terminated_by c) (Some b))
    \<and> c_agent_id r = c_agent_id c \<and> c_tenant_id r = c_tenant_id c"
  unfolding finalizeCallAsFailed_def patch_timing_def affected_fst
  using assms find_call_Some [OF assms(1)]
  by (auto simp: find_update is_final_def verdict_def simp del: sql_update_fst)

section \<open>A provider's end\<close>

lemma and_then_within [simp]:
  "and_then (within m) f s = (case m (ig_world s) of
     (Inl e, w') \<Rightarrow> (Inl e, s\<lparr>ig_world := w'\<rparr>) | (Inr x, w') \<Rightarrow> f x (s\<lparr>ig_world := w'\<rparr>))"
  by (cases "m (ig_world s)") (auto simp: and_then_def within_def Let_def split: sum.split)

lemma and_then_see [simp]: "and_then (see g) f s = f (g (ig_world s)) s"
  by (simp add: see_def)

lemma meanwhile_alone: "ig_others s = [] \<Longrightarrow> and_then meanwhile f s = f () s"
  by (simp add: meanwhile_def meanwhile_step_def)

text \<open>Errors and times are written without touching the verdict.\<close>

lemma sealed_details: "sealed i v w \<longrightarrow> sealed i v (w\<lparr>w_calls := updateFailureDetails (now_s w) j d (w_calls w)\<rparr>)"
  unfolding updateFailureDetails_def by (rule sealed_write) (auto simp: is_final_def verdict_def)

lemma sealed_ended_at: "sealed i v w \<longrightarrow> sealed i v (snd (set_time j ''ended_at'' at w))"
proof -
  let ?at = "nullish (map_option to_timestamp at) (now_s w)"
  have "snd (set_time j ''ended_at'' at w)
      = w\<lparr>w_calls := fst (sql_update (row_is j) (\<lambda>c. (set_timestamp F_ended_at ?at c)\<lparr>c_updated_at := now_s w\<rparr>) (w_calls w))\<rparr>"
    by (simp add: set_time_def change_def updateTimestamp_def parse_timestamp_field_def Let_def)
  then show ?thesis by (simp only:) (rule sealed_write; auto simp: is_final_def verdict_def)
qed

definition wrap_up :: "end_event \<Rightarrow> call \<Rightarrow> unit task" where
  "wrap_up e c =
     and_then (tell_failure e c True) (\<lambda>_.
     only_when (ee_endedAt e = None \<and> c_ended_at c = None) (set_time (c_id c) ''ended_at'' None))"

lemma wrap_up_runs:
  "fst (wrap_up e c w) = Inr ()" "sealed i v w \<Longrightarrow> sealed i v (snd (wrap_up e c w))"
proof -
  have set_returns: "fst (set_time i f at w) = Inr ()" for i f at w by (simp add: set_time_def change_def)
  have returns: "fst (tell_failure e c True w) = Inr ()" for w
    by (simp add: tell_failure_def only_when_def ret_def write_failure_details_def emitCallError_def Let_def emit_def change_def)
  then show "fst (wrap_up e c w) = Inr ()"
    by (simp add: wrap_up_def and_then_unit only_when_def ret_def set_returns)
  have emitted: "runs_in (\<lambda>w w'. sealed i v w \<longrightarrow> sealed i v w') (emitCallError j a b None)" for j a b
    unfolding emitCallError_def Let_def by (intro sealed_end.run_rules sealed_end.run_any_emit)
  have "runs_in (\<lambda>w w'. sealed i v w \<longrightarrow> sealed i v w') (wrap_up e c)"
    unfolding wrap_up_def tell_failure_def write_failure_details_def simp_thms only_when_simps
    by (intro sealed_end.run_rules sealed_end.run_change sealed_details emitted)
      (simp add: runs_in_def sealed_ended_at)
  then show "sealed i v w \<Longrightarrow> sealed i v (snd (wrap_up e c w))" by (simp add: runs_in_def)
qed

definition told_verdict :: "int \<Rightarrow> end_event \<Rightarrow> call \<Rightarrow> call_status \<times> termination_reason option \<times> terminated_by option" where
  "told_verdict now e c =
     (if ee_failed e then (St_FAILED, Some Rs_PROVIDER_ERROR, Some By_PROVIDER)
      else (St_TERMINATED, Some (corrected c (end_timing now e c) (end_reason now e c)), Some By_CUSTOMER))"

lemma wrap_up_keeps: "keeps_ended i w (snd (wrap_up e c w))"
proof -
  have "keeps_ended i w (w\<lparr>w_calls := updateFailureDetails (now_s w) j d (w_calls w)\<rparr>)" for w j d
    unfolding updateFailureDetails_def by (rule keeps_ended_calls) (simp_all add: is_final_def)
  moreover have "keeps_ended i w (snd (set_time j f at w))" for w j f at
    by (auto simp: set_time_def change_def ended_tables ended_time split: sum.split)
  moreover have "runs_in (keeps_ended i) (emitCallError j a b None)" for j a b
    unfolding emitCallError_def Let_def by (intro ended_end.run_rules ended_end.run_any_emit)
  ultimately have "runs_in (keeps_ended i) (wrap_up e c)"
    unfolding wrap_up_def tell_failure_def write_failure_details_def simp_thms only_when_simps
    by (intro ended_end.run_rules ended_end.run_change) (simp_all add: runs_in_def)
  then show ?thesis by (simp add: runs_in_def)
qed

definition final_write :: "int \<Rightarrow> end_event \<Rightarrow> call \<Rightarrow> int \<Rightarrow> call list \<Rightarrow> call list \<times> bool" where
  "final_write now e c t =
     (if ee_failed e then finalizeCallAsFailed t (c_id c) (Some (end_by e)) (end_timing now e c)
      else finalizeFromWebhook t (c_id c) (Some St_TERMINATED) (Some (end_reason now e c)) (Some (end_by e)) (end_timing now e c))"

lemma final_write_ends: "keyed cs \<Longrightarrow> snd (final_write now e c t cs) \<Longrightarrow> ended (c_id c) (fst (final_write now e c t cs))
    \<and> keyed (fst (final_write now e c t cs))"
proof -
  assume k: "keyed cs" and won: "snd (final_write now e c t cs)"
  show ?thesis
  proof (cases "ee_failed e")
    case True
    have ids: "map c_id (fst (sql_update p f xs)) = map c_id xs" if "\<And>c. c_id (f c) = c_id c" for p f and xs :: "call list"
      using that by (induction xs) simp_all
    have "map c_id (fst (final_write now e c t cs)) = map c_id cs"
      using True by (simp add: final_write_def finalizeCallAsFailed_def patch_timing_def ids del: sql_update_fst)
    moreover have "ended (c_id c) (fst (final_write now e c t cs))"
      using True by (auto simp: final_write_def finalizeCallAsFailed_def patch_timing_def ended_def is_final_def)
    ultimately show ?thesis using k by (simp add: keyed_def)
  next
    case False
    then show ?thesis
      using finalizer.wins_end [OF webhook_fin.finalizer_axioms k] finalizer.keeps_keys [OF webhook_fin.finalizer_axioms] k won
      by (simp add: final_write_def)
  qed
qed

lemma provider_ends_run:
  assumes "w_others w = []" and "snd (final_write (w_now w) e c (now_s w) (w_calls w))"
  shows "provider_ends e c w = after_provider_end e c (end_reason (w_now w) e c)
    (snd (wrap_up e c (w\<lparr>w_calls := fst (final_write (w_now w) e c (now_s w) (w_calls w))\<rparr>)))"
proof -
  let ?w1 = "w\<lparr>w_calls := fst (final_write (w_now w) e c (now_s w) (w_calls w))\<rparr>"
  have "provider_ends e c w = and_then (wrap_up e c) (\<lambda>_. after_provider_end e c (end_reason (w_now w) e c)) ?w1"
    using assms
    by (auto simp: provider_ends_def wrap_up_def and_then_assoc let_others_run_def others_step_def finalize_failed_def
        finalize_webhook_def on_calls_def Let_def final_write_def)
  also have "\<dots> = after_provider_end e c (end_reason (w_now w) e c) (snd (wrap_up e c ?w1))"
    by (rule and_then_unit) (rule wrap_up_runs)
  finally show ?thesis .
qed

lemma provider_ends_seal:
  assumes "call_findById (c_id c) (w_calls w) = Some c" and "\<not> is_final c" and "c_termination_reason c = None"
    and "c_terminated_by c = None" and "w_others w = []" and "keyed (w_calls w)"
  shows "sealed (c_id c) (told_verdict (w_now w) e c) (snd (provider_ends e c w))
    \<and> (c_agent_id c = Some a \<longrightarrow> free_of (c_id c) a (w_agents (snd (provider_ends e c w))))"
proof -
  let ?v = "told_verdict (w_now w) e c" and ?i = "c_id c"
  let ?fin = "final_write (w_now w) e c (now_s w) (w_calls w)"
  let ?w1 = "w\<lparr>w_calls := fst ?fin\<rparr>"
  let ?w2 = "snd (wrap_up e c ?w1)"
  have st: "c_status c \<noteq> St_FAILED" using assms(2) by (auto simp: is_final_def)
  have flag: "snd ?fin"
    using failed_flag [OF assms(1) st] finalized_flag [OF assms(1,2)] by (simp add: final_write_def)
  have "\<exists>r. call_findById ?i (fst ?fin) = Some r \<and> is_final r \<and> verdict r = ?v"
    using failed_row [OF assms(1) st, of "now_s w" By_PROVIDER "end_timing (w_now w) e c"] assms(4)
      finalized_row [OF assms(1-4), of "now_s w" "end_reason (w_now w) e c" By_CUSTOMER "end_timing (w_now w) e c"]
    by (cases "ee_failed e") (simp_all add: told_verdict_def end_by_def final_write_def, blast+)
  then have sealed1: "sealed ?i ?v ?w1" using assms(5) by (simp add: sealed_def)
  then have sealed2: "sealed ?i ?v ?w2" by (rule wrap_up_runs)
  obtain r where "call_findById ?i (fst ?fin) = Some r" using sealed1 by (auto simp: sealed_def)
  then have "present ?i (fst ?fin)" unfolding present_def by (metis find_call_Some imageI)
  then have ended2: "ended ?i (w_calls ?w2)"
    using wrap_up_keeps [of ?i ?w1 e c] final_write_ends [OF assms(6) flag] assms(5)
    by (simp add: keeps_ended_def table_safe_def others_spare_def)
  have run: "provider_ends e c w = after_provider_end e c (end_reason (w_now w) e c) ?w2"
    by (rule provider_ends_run [OF assms(5) flag])
  have stays: "runs_in (\<lambda>w w'. sealed ?i ?v w \<longrightarrow> sealed ?i ?v w') (after_provider_end e c reason)" for reason
    unfolding after_provider_end_def settle_def
    by (intro sealed_end.run_rules sealed_end.run_settle_row sealed_end.run_recordMiss)
  have freed: "idle ?i a (snd (after_provider_end e c reason ?w2))" if a: "c_agent_id c = Some a" for reason
  proof -
    let ?opt = "(end_defaults reason (end_by e))\<lparr>eo_source := Some ''provider_end'', eo_log := provider_end_log e\<rparr>"
    have "settle (Row c) ?opt ?w2 = (Inr (), snd (settle_row c ?opt ?w2))"
      by (simp add: settle_def load_def settle_row_run Let_def)
    moreover have "idle ?i a (snd (settle_row c ?opt ?w2))"
      using sealed2 by (intro settle_frees [OF a _ ended2]) (simp add: sealed_def)
    moreover have "runs_in (\<lambda>w w'. idle ?i a w \<longrightarrow> idle ?i a w') (only_when b (and_then (recordMiss j t q ag any) (\<lambda>_. ret ())))" for b j t q ag any
      by (intro idle.run_rules idle.run_recordMiss)
    ultimately show ?thesis by (simp add: after_provider_end_def and_then_Inr runs_in_def)
  qed
  show ?thesis
    unfolding run using sealed2 stays freed by (simp add: runs_in_def idle_def)
qed

lemma provider_row:
  assumes "find_provider_call k w = Some c" and "keyed (w_calls w)"
  shows "call_findById (c_id c) (w_calls w) = Some c"
proof -
  have "c \<in> set (w_calls w)" using assms(1) by (auto simp: find_provider_call_def findByProviderCallId_def dest: first_row_Some)
  then show ?thesis using assms(2) by (simp add: call_findById_def keyed_def first_row_unique)
qed

lemma callEnded_world:
  assumes "find_provider_call (provider_key_of ln (ee_providerCallId e)) (ig_world s) = Some c" and "belongsTo c ln"
  shows "ig_world (snd (callEnded ln e s)) = snd (provider_ends e c (ig_world s))"
proof -
  have "handleCallEnded ln e s = within (provider_ends e c) s"
    using assms by (simp add: handleCallEnded_def Let_def)
  then have "snd (logged_failure (handleCallEnded ln e) s) = s\<lparr>ig_world := snd (provider_ends e c (ig_world s))\<rparr>"
    by (simp add: logged_failure_def catching_def within_def Let_def ret_def split: prod.split sum.split)
  then show ?thesis by (simp add: callEnded_def cleanupCall_def and_then_unit [OF logged_failure_returns] change_def)
qed


definition alone :: "world \<Rightarrow> ingress" where
  "alone w = \<lparr> ig_world = w, ig_tombs = (\<lambda>_. None), ig_claims = (\<lambda>_. None), ig_worker = ''w1'', ig_others = [] \<rparr>"

definition example_line :: line where
  "example_line = \<lparr> ln_id = 1, ln_tenant_id = 1, ln_type = WHATSAPP, ln_address = None, ln_owner_agent_id = None,
     ln_inbound_queue_id = Some 7, ln_ring_timeout_seconds = None \<rparr>"

definition example_end :: "bool \<Rightarrow> int \<Rightarrow> end_event" where
  "example_end failed endedAt = \<lparr> ee_providerCallId = ''p'', ee_providerStatus = None, ee_failed = failed, ee_answeredAt = None,
     ee_endedAt = Some endedAt, ee_durationSec = None, ee_errors = None, ee_callback = None, ee_failureBy = By_PROVIDER \<rparr>"

definition provider_call :: "nat \<Rightarrow> call" where
  "provider_call i = (example_call i)\<lparr>c_provider_call_id := Some ''p''\<rparr>"

lemma provider_call_found:
  "find_provider_call (WHATSAPP, ''p'') (empty_world\<lparr>w_calls := [provider_call 4]\<rparr>) = Some (provider_call 4)"
  "belongsTo (provider_call i) example_line" "c_id (provider_call i) = i" "c_status (provider_call i) = St_RINGING"
  "c_termination_reason (provider_call i) = None" "c_terminated_by (provider_call i) = None"
  "provider_key_of example_line x = (WHATSAPP, x)"
  by (simp_all add: find_provider_call_def findByProviderCallId_def first_row_def provider_call_def belongsTo_def
      example_line_def provider_key_of_def example_call_def call_row_def example_new_call_def)


section \<open>A late answer\<close>

definition live_row :: "nat \<Rightarrow> world \<Rightarrow> bool" where
  "live_row i w \<longleftrightarrow> (\<exists>r. call_findById i (w_calls w) = Some r \<and> is_live r)"

lemma set_time_run:
  "fst (set_time i f at w) = Inr ()" "w_others (snd (set_time i f at w)) = w_others w"
  "live_row i w \<Longrightarrow> live_row i (snd (set_time i f at w))"
proof -
  show "fst (set_time i f at w) = Inr ()" "w_others (snd (set_time i f at w)) = w_others w"
    by (simp_all add: set_time_def change_def split: sum.split)
  assume "live_row i w"
  then obtain r where r: "call_findById i (w_calls w) = Some r" "is_live r" by (auto simp: live_row_def)
  show "live_row i (snd (set_time i f at w))"
  proof (cases "parse_timestamp_field f")
    case None
    then show ?thesis using r by (simp add: set_time_def change_def updateTimestamp_def live_row_def)
  next
    case (Some g)
    let ?F = "\<lambda>c. (set_timestamp g (nullish (map_option to_timestamp at) (now_s w)) c)\<lparr>c_updated_at := now_s w\<rparr>"
    have ids: "c_id (?F x) = c_id x" for x by (cases g) simp_all
    have same: "c_status (?F r) = c_status r" by (cases g) simp_all
    then have live: "is_live (?F r)" "c_status (?F r) \<noteq> St_TERMINATED" using r(2) by (simp_all add: live_iff) auto
    have first: "call_findById i (fst (sql_update (row_is i) ?F (w_calls w))) = Some (?F r)"
      using r(1) find_call_Some [OF r(1)] by (subst find_update [OF ids]) simp
    then have "call_findById i (fst (correctNoAnswerIfAnswered (now_s w) i (fst (sql_update (row_is i) ?F (w_calls w))))) = Some (?F r)"
      unfolding correctNoAnswerIfAnswered_def affected_fst using live(2) by (subst find_update) simp_all
    then show ?thesis
      unfolding set_time_def change_def updateTimestamp_def Some option.case Let_def live_row_def
      using first live(1) by (cases "g = F_answered_at") simp_all
  qed
qed

lemma hung_up_row:
  assumes "call_findById i cs = Some r" and "is_live r"
  shows "call_findById i (fst (terminateCallIfNotTerminated t i (Some re) by ea None cs))
    = Some (r\<lparr>c_status := St_TERMINATED, c_state := None, c_offered_at := None, c_termination_reason := Some re,
        c_terminated_by := Some by, c_ended_at := Some (nullish ea t), c_updated_at := t\<rparr>)"
  unfolding terminateCallIfNotTerminated_def affected_fst
  using assms find_call_Some [OF assms(1)] live_not_final [OF assms(2)] by (subst find_update) simp_all

lemma revived_row:
  assumes "call_findById i cs = Some r"
  shows "call_findById i (updateState n i (Some ACTIVE) (updateStatus n i St_IN_PROGRESS cs))
    = Some (r\<lparr>c_status := St_IN_PROGRESS, c_state := Some ACTIVE, c_updated_at := n\<rparr>)"
  unfolding updateState_def updateStatus_def
  using assms find_call_Some [OF assms] by (simp add: find_update del: sql_update_fst)

text \<open>What follows the write of the status changes no call.\<close>

definition accepted_news :: "call \<Rightarrow> string \<Rightarrow> unit task" where
  "accepted_news c p = only_when (c_direction c = OUTBOUND)
     (and_then (join_participant c Kind_CUSTOMER None None) (\<lambda>_.
      and_then (logged_failure (write_log (\<lambda>t. logOutboundAccepted t (c_id c) (Some (c_tenant_id c)) (c_agent_id c)
        (provider_log_meta p (c_status c))))) (\<lambda>_.
      and_then (read (\<lambda>w. Option.bind (c_agent_id c) (\<lambda>a. getNameById a (w_agents w)))) (\<lambda>name.
      emit (Bus (HandledEv \<lparr> hn_callId = c_id c, hn_tenantId = c_tenant_id c, hn_userId = nullish (c_agent_id c) 0,
        hn_agentName = name, hn_deviceId = None, hn_action = Accepted \<rparr>))))))"

lemma accepted_news_calls: "w_calls (snd (and_then (accepted_news c p) (\<lambda>_. emit e) w)) = w_calls w"
proof -
  have log: "runs_in (\<lambda>w w'. w_calls w' = w_calls w) (write_log f)" for f
    by (auto simp: runs_in_def write_log_def split: sum.split)
  have emitted: "runs_in (\<lambda>w w'. w_calls w' = w_calls w) (emit e)" for e
    by (simp add: runs_in_def emit_def change_def)
  have "runs_in (\<lambda>w w'. w_calls w' = w_calls w) (and_then (accepted_news c p) (\<lambda>_. emit e))"
    unfolding accepted_news_def join_participant_def
    by (intro same.run_rules log emitted same.run_change) simp
  then show ?thesis by (simp add: runs_in_def)
qed

lemma logged_failure_state: "snd (logged_failure m w) = snd (m w)"
  by (simp add: logged_failure_def catching_def ret_def split: prod.split sum.split)

text \<open>C30: A provider's ACCEPTED that crosses the end of its call revives it. The status was read before the end
  and is written without a guard, so when a worker ends the call in between (here by any hang-up), the call is
  in progress again although it carries the reason of its end and whoever ended it.\<close>

theorem late_answer_revives_ended_call:
  assumes "find_provider_call (provider_key_of ln p) w = Some c" and "belongsTo c ln" and "c_status c = St_RINGING"
    and "keyed (w_calls w)"
    and "w_others w = [\<lambda>db. (fst db, fst (terminateCallIfNotTerminated t (c_id c) (Some re) by ea None (snd db)))]"
  shows "\<exists>r. call_findById (c_id c) (w_calls (snd (statusChanged ln p ''ACCEPTED'' at w))) = Some r
    \<and> c_status r = St_IN_PROGRESS \<and> c_termination_reason r = Some re \<and> c_terminated_by r = Some by \<and> c_ended_at r \<noteq> None"
proof -
  let ?i = "c_id c" and ?at = "nullish at (w_now w)"
  let ?hang_up = "\<lambda>db. (fst db, fst (terminateCallIfNotTerminated t (c_id c) (Some re) by ea None (snd db)))"
  let ?rung = "only_when (c_ringing_at c = None) (and_then (set_time ?i ''ringing_at'' (Some ?at)) (\<lambda>_. ret ()))"
  define w1 where "w1 = snd (?rung w)"
  define w2 where "w2 = snd (set_time ?i ''answered_at'' (Some ?at) w1)"
  define w3 where "w3 = others_step w2"
  define w4 where "w4 = w3\<lparr>w_calls := updateState (now_s w3) ?i (Some ACTIVE) (updateStatus (now_s w3) ?i St_IN_PROGRESS (w_calls w3))\<rparr>"
  have "live_row ?i w" using provider_row [OF assms(1,4)] assms(3) by (auto simp: live_row_def live_iff)
  then have w1: "?rung w = (Inr (), w1)" "live_row ?i w1" "w_others w1 = [?hang_up]"
    using assms(5) unfolding w1_def
    by (cases "c_ringing_at c"; simp add: and_then_unit [OF set_time_run(1)] set_time_run ret_def)+
  have w2: "set_time ?i ''answered_at'' (Some ?at) w1 = (Inr (), w2)" "live_row ?i w2" "w_others w2 = [?hang_up]"
    using w1(2,3) unfolding w2_def by (simp_all add: set_time_run prod_eq_iff)
  obtain r where r: "call_findById ?i (w_calls w2) = Some r" "is_live r" using w2(2) by (auto simp: live_row_def)
  have ended: "w_calls w3 = fst (terminateCallIfNotTerminated t ?i (Some re) by ea None (w_calls w2))"
    unfolding w3_def others_step_def w2(3) by simp
  have written: "w_calls w4 = updateState (now_s w3) ?i (Some ACTIVE) (updateStatus (now_s w3) ?i St_IN_PROGRESS (w_calls w3))"
    unfolding w4_def by simp
  have row: "\<exists>x. call_findById ?i (w_calls w4) = Some x \<and> c_status x = St_IN_PROGRESS \<and> c_termination_reason x = Some re
      \<and> c_terminated_by x = Some by \<and> c_ended_at x \<noteq> None"
    unfolding written ended revived_row [OF hung_up_row [OF r]] by (rule exI, rule conjI, rule refl) simp
  have timed: "and_then ?rung f w = f () w1" "and_then (set_time ?i ''answered_at'' (Some ?at)) f w1 = f () w2"
    "and_then let_others_run f w2 = f () w3" for f :: "unit \<Rightarrow> unit task"
    by (rule and_then_Inr, rule w1(1), rule and_then_Inr, rule w2(1), simp add: let_others_run_def w3_def)
  have "set_state ?i (Some ACTIVE) (snd (set_status ?i St_IN_PROGRESS w3)) = (Inr (), w4)"
    by (simp add: set_state_def set_status_def change_def w4_def now_s_def)
  then have marked: "and_then (set_status ?i St_IN_PROGRESS) (\<lambda>_. set_state ?i (Some ACTIVE)) w3 = (Inr (), w4)"
    by (simp add: set_status_def change_def and_then_Inr)
  have over: "status_over (c_status c) = False" and not_over: "(c_status c \<noteq> St_IN_PROGRESS) = True"
    using assms(3) by (simp_all add: status_over_def)
  have step: "provider_accepted c p ?at w = accepted_news c p w4"
    unfolding provider_accepted_def Let_def over not_over simp_thms only_when_simps timed
      accepted_news_def by (rule and_then_Inr) (rule marked)
  have "snd (statusChanged ln p ''ACCEPTED'' at w)
      = snd (and_then (accepted_news c p) (\<lambda>_. emit (Bus (StatusEv ?i (c_tenant_id c) ''ACCEPTED'' (c_agent_id c)))) w4)"
    using assms(1,2) step by (simp add: statusChanged_def logged_failure_state provider_status_def and_then_def read_def)
  then show ?thesis using row accepted_news_calls by simp
qed

theorem late_answer_revives_ended_call_witness:
  "\<exists>r. call_findById 4 (w_calls (snd (statusChanged example_line ''p'' ''ACCEPTED'' None
        (empty_world\<lparr>w_calls := [provider_call 4], w_others :=
           [\<lambda>db. (fst db, fst (terminateCallIfNotTerminated 1000 4 (Some Rs_NO_ANSWER) By_CUSTOMER None None (snd db)))]\<rparr>)))) = Some r
     \<and> c_status r = St_IN_PROGRESS \<and> c_termination_reason r = Some Rs_NO_ANSWER \<and> c_terminated_by r = Some By_CUSTOMER
     \<and> c_ended_at r \<noteq> None"
proof -
  let ?w = "empty_world\<lparr>w_calls := [provider_call 4], w_others :=
     [\<lambda>db. (fst db, fst (terminateCallIfNotTerminated 1000 4 (Some Rs_NO_ANSWER) By_CUSTOMER None None (snd db)))]\<rparr>"
  have "find_provider_call (provider_key_of example_line ''p'') ?w = Some (provider_call 4)"
    using provider_call_found(1) by (simp add: provider_call_found(7) find_provider_call_def)
  from late_answer_revives_ended_call [OF this provider_call_found(2,4)] show ?thesis
    by (simp add: provider_call_found(3) keyed_def)
qed

section \<open>A failure reported after the end\<close>

lemma wrap_up_announces_nothing: "announcements i (w_trace (snd (wrap_up e c w))) = announcements i (w_trace w)"
proof -
  let ?R = "\<lambda>w w'. announcements i (w_trace w') = announcements i (w_trace w)"
  have emitted: "runs_in ?R (emitCallError j a b None)" for j a b
    by (simp add: runs_in_def emitCallError_def Let_def emit_def change_def announcements_def)
  have timed: "runs_in ?R (set_time j f at)" for j f at
    by (simp add: runs_in_def set_time_def change_def split: sum.split)
  have "runs_in ?R (wrap_up e c)"
    unfolding wrap_up_def tell_failure_def write_failure_details_def simp_thms only_when_simps
    by (intro same.run_rules emitted timed same.run_change) simp_all
  then show ?thesis by (simp add: runs_in_def)
qed

text \<open>C31: A failure reported after the end ends the call a second time. When the provider reports that a call
  failed which had already been terminated (by a hang-up, say, and announced), the call becomes FAILED with
  the provider's reason and call:terminated is announced again, although only one of two ends is meant to
  settle a call.\<close>

theorem late_failure_ends_call_again:
  assumes "find_provider_call (provider_key_of ln (ee_providerCallId e)) (ig_world s) = Some c" and "belongsTo c ln"
    and "c_status c = St_TERMINATED" and "ee_failed e" and "w_others (ig_world s) = []" and "keyed (w_calls (ig_world s))"
  shows "announcements (c_id c) (w_trace (ig_world (snd (callEnded ln e s)))) = Suc (announcements (c_id c) (w_trace (ig_world s)))"
proof -
  let ?w = "ig_world s" and ?i = "c_id c"
  have found: "call_findById ?i (w_calls ?w) = Some c" by (rule provider_row [OF assms(1,6)])
  have flag: "snd (final_write (w_now ?w) e c (now_s ?w) (w_calls ?w))"
    using failed_flag [OF found] assms(3,4) by (simp add: final_write_def)
  let ?w2 = "snd (wrap_up e c (?w\<lparr>w_calls := fst (final_write (w_now ?w) e c (now_s ?w) (w_calls ?w))\<rparr>))"
  let ?opt = "(end_defaults Rs_PROVIDER_ERROR (end_by e))\<lparr>eo_source := Some ''provider_end'', eo_log := provider_end_log e\<rparr>"
  have "end_reason (w_now ?w) e c = Rs_PROVIDER_ERROR" using assms(4) by (simp add: end_reason_def)
  then have "snd (provider_ends e c ?w) = snd (settle_row c ?opt ?w2)"
    unfolding provider_ends_run [OF assms(5) flag] after_provider_end_def
    by (simp add: settle_def load_def and_then_unit settle_row_run Let_def)
  moreover have "announcements ?i (w_trace (snd (settle_row c ?opt ?w2))) = Suc (announcements ?i (w_trace ?w2))"
    using settle_row_trace [of c ?opt ?w2] by (auto simp: announcements_none announcements_end)
  ultimately show ?thesis
    unfolding callEnded_world [OF assms(1,2)] by (simp add: wrap_up_announces_nothing)
qed

theorem late_failure_ends_call_again_witness:
  "announcements 4 (w_trace (ig_world (snd (callEnded example_line (example_end True 3000)
     (alone (empty_world\<lparr>w_calls := [(provider_call 4)\<lparr>c_status := St_TERMINATED\<rparr>]\<rparr>)))))) = 1"
proof -
  let ?c = "(provider_call 4)\<lparr>c_status := St_TERMINATED\<rparr>"
  let ?s = "alone (empty_world\<lparr>w_calls := [?c]\<rparr>)"
  have "find_provider_call (WHATSAPP, ''p'') (empty_world\<lparr>w_calls := [?c]\<rparr>) = Some ?c" by code_simp
  then have "find_provider_call (provider_key_of example_line (ee_providerCallId (example_end True 3000))) (ig_world ?s) = Some ?c"
    by (simp add: provider_call_found(7) alone_def example_end_def)
  from late_failure_ends_call_again [OF this] show ?thesis
    using provider_call_found(2) [of 4] by (simp add: provider_call_found(3) belongsTo_def example_end_def alone_def
        empty_world_def keyed_def announcements_def)
qed



end
