(* ===== verification/IngressOffers.thy ===== *)
theory IngressOffers
  imports IngressEnds
begin

text \<open>
  What an offer leaves: the claim on its provider's call id, and, when the call's end was there first, a
  missed call nobody was rung for.
\<close>

section \<open>The claim\<close>

interpretation same_ingress: effect_relation "\<lambda>s s'. f s' = f s" for f :: "ingress \<Rightarrow> 'b"
  by unfold_locales auto

abbreviation claims_stay :: "ingress \<Rightarrow> ingress \<Rightarrow> bool" where
  "claims_stay s s' \<equiv> (ig_claims s', ig_worker s') = (ig_claims s, ig_worker s)"

lemma claims_parts:
  "runs_in claims_stay (within m)" "runs_in claims_stay meanwhile" "runs_in claims_stay (see f)"
  "runs_in claims_stay (get_tombstone k)" "runs_in claims_stay (del_tombstone k)"
  by (simp_all add: runs_in_def within_def Let_def meanwhile_def meanwhile_step_def see_def read_def get_tombstone_def
      del_tombstone_def change_def split: list.split)

lemma handling_keeps_claims: "runs_in claims_stay (handleIncomingCall ln d oa)"
  unfolding handleIncomingCall_def incoming_body_def handleMissedBeforeOffer_def ended_in_setup_def Let_def
  by (intro same_ingress.run_rules claims_parts)

text \<open>What is kept of a claim once the call was set up.\<close>

definition claim_after :: "provider_key \<Rightarrow> ingress \<Rightarrow> (string \<times> bool) option" where
  "claim_after k s =
     (case find_provider_call k (ig_world s) of
        None \<Rightarrow> None
      | Some c \<Rightarrow> if is_final c then None else Some (ig_worker s, False))"

lemma after_claim_run:
  assumes "ig_claims s k = Some (ig_worker s, True)"
  shows "after_claim k s = (Inr (), s\<lparr>ig_claims := (ig_claims s)(k := claim_after k s)\<rparr>)"
  using assms
  by (auto simp: after_claim_def claim_after_def cleanupCall_def change_def setCallOwnershipPermanent_def ret_def
      split: option.split)

lemma handled_run: "handleIncomingCall ln d oa s = (Inr (), snd (handleIncomingCall ln d oa s))"
  by (simp add: handleIncomingCall_def prod_eq_iff)

lemma inbound_run:
  assumes "find_provider_call (provider_key_of ln (of_providerCallId d)) (ig_world s) = None"
  shows "snd (inboundCall ln d oa s) =
    (if ig_claims s (provider_key_of ln (of_providerCallId d)) \<noteq> None then s
     else (let t = snd (handleIncomingCall ln d oa (s\<lparr>ig_claims := (ig_claims s)
                     (provider_key_of ln (of_providerCallId d) := Some (ig_worker s, True))\<rparr>))
           in t\<lparr>ig_claims := (ig_claims s)(provider_key_of ln (of_providerCallId d) :=
                 claim_after (provider_key_of ln (of_providerCallId d)) t)\<rparr>))"
proof -
  let ?k = "provider_key_of ln (of_providerCallId d)"
  let ?s = "s\<lparr>ig_claims := (ig_claims s)(?k := Some (ig_worker s, True))\<rparr>"
  let ?t = "snd (handleIncomingCall ln d oa ?s)"
  have kept: "ig_claims ?t = ig_claims ?s" "ig_worker ?t = ig_worker s"
    using handling_keeps_claims [of ln d oa] by (simp_all add: runs_in_def)
  have owned: "withOwnership ?k (handleIncomingCall ln d oa) s = after_claim ?k ?t" if "ig_claims s ?k = None"
  proof -
    have "catching (handleIncomingCall ln d oa) h ?s = (Inr (), ?t)" for h
      by (simp add: catching_def) (subst handled_run, simp)
    then show ?thesis using that by (simp add: withOwnership_def claimCall_def and_then_Inr)
  qed
  have "snd (inboundCall ln d oa s) = snd (withOwnership ?k (handleIncomingCall ln d oa) s)"
    using assms by (simp add: inboundCall_def Let_def)
  also have "\<dots> = (if ig_claims s ?k \<noteq> None then s else ?t\<lparr>ig_claims := (ig_claims s)(?k := claim_after ?k ?t)\<rparr>)"
  proof (cases "ig_claims s ?k")
    case None
    then show ?thesis using owned kept by (simp add: after_claim_run)
  qed (simp add: withOwnership_def claimCall_def ret_def)
  finally show ?thesis by (simp add: Let_def)
qed

definition example_offer :: offer where
  "example_offer = \<lparr> of_providerCallId = ''p'', of_address = Some ''c'', of_addressType = None, of_name = None,
     of_sdpOffer = ''v=0'', of_offeredAt = None, of_providerMetadata = None \<rparr>"

definition no_answers :: offer_answers where
  "no_answers = \<lparr> oa_lookup = \<lparr> lk_reject = False, lk_customerName = None, lk_externalRef = None, lk_consumerMetadata = None \<rparr>,
     oa_flows = [], oa_flowName = (\<lambda>_. None), oa_pushable = (\<lambda>_. False), oa_directPath = False, oa_recording = False \<rparr>"

lemma example_key: "provider_key_of example_line (of_providerCallId example_offer) = (WHATSAPP, ''p'')"
  by (simp add: example_line_def provider_key_of_def example_offer_def)

lemma nothing_found: "find_provider_call k (ig_world (alone empty_world)) = None"
  by (simp add: find_provider_call_def findByProviderCallId_def first_row_def alone_def empty_world_def)



section \<open>An end that comes first\<close>

text \<open>The announcements that make somebody ring.\<close>

definition rings :: "world \<Rightarrow> effect list" where
  "rings w = filter (\<lambda>e. case e of Bus (IncomingEv _) \<Rightarrow> True | Bus (WaitingEv _ _ _) \<Rightarrow> True | _ \<Rightarrow> False) (w_trace w)"

definition provider_id :: "call \<Rightarrow> nat \<times> channel_type \<times> string option" where
  "provider_id c = (c_id c, c_channel c, c_provider_call_id c)"

lemma provider_ids_update:
  "(\<And>c. provider_id (f c) = provider_id c) \<Longrightarrow> map provider_id (fst (sql_update p f cs)) = map provider_id cs"
  by (induction cs) simp_all

abbreviation quietly :: "world \<Rightarrow> world \<Rightarrow> bool" where
  "quietly w w' \<equiv> (rings w', w_agents w', w_others w', map provider_id (w_calls w')) = (rings w, w_agents w, w_others w, map provider_id (w_calls w))"

lemma ids_kept:
  "map provider_id (updateFailureDetails n i dd cs) = map provider_id cs"
  "map provider_id (fst (finalizeFromWebhook n i st re by e cs)) = map provider_id cs"
  "map provider_id (fst (finalizeCallAsFailed n i by e cs)) = map provider_id cs"
  "map provider_id (fillQueueDuration n acc i cs) = map provider_id cs"
  unfolding updateFailureDetails_def finalizeFromWebhook_def finalizeCallAsFailed_def fillQueueDuration_def
    correctNoAnswerIfAnswered_def patch_timing_def affected_fst Let_def fst_conv
  by (simp_all add: provider_ids_update provider_id_def split: option.split del: sql_update_fst)

lemma quiet_parts:
  "runs_in quietly (write_log f)" "runs_in quietly (publish i what)"
  "runs_in quietly (write_failure_details i dd)" "runs_in quietly (finalize_webhook i re by e)"
  "runs_in quietly (finalize_failed i by e)" "runs_in quietly (closeMedia i m)" "runs_in quietly (tell_provider pp c)"
  "runs_in quietly (emit (CallMeasured i))" "runs_in quietly (emit (Bus (TerminatedEv news)))" "runs_in quietly (emit (Bus (AgentQueueEv sn)))"
  by (auto simp: runs_in_def write_log_def on_calls_def statement_def publish_def emit_def change_def rings_def ids_kept
      write_failure_details_def finalize_webhook_def finalize_failed_def closeMedia_run tell_provider_run media_effects_def
      provider_effects_def Let_def legs_closed_def split: sum.split)

lemma quiet_queue: "runs_in quietly (emitQueueUpdate t q)"
  unfolding emitQueueUpdate_def buildQueueSnapshot_def
  by (intro same.run_rules quiet_parts same.run_statement) (simp add: Let_def rings_def)

lemma quiet_settle: "c_agent_id c = None \<Longrightarrow> runs_in quietly (settle_row c opt)"
  unfolding settle_row_def free_agent_def forget_leg_socket_def
  by (simp only: simp_thms only_when_simps)
    (intro same.run_rules quiet_parts quiet_queue same.run_change; simp add: rings_def ids_kept)

definition missed_verdict :: "bool \<Rightarrow> call_status \<times> termination_reason option \<times> terminated_by option" where
  "missed_verdict failed =
     (if failed then (St_FAILED, Some Rs_PROVIDER_ERROR, Some By_PROVIDER) else (St_TERMINATED, Some Rs_CANCELLED, Some By_CUSTOMER))"

lemma inserted:
  assumes "find_provider_call (n_channel dd, p) w = None" and "n_provider_call_id dd = Some p"
  shows "insert_call dd w = (Inr (fresh_call_id (w_calls w)),
      w\<lparr>w_calls := w_calls w @ [call_row (fresh_call_id (w_calls w)) (now_s w) dd]\<rparr>)"
    and "call_findById (fresh_call_id (w_calls w)) (w_calls w @ [call_row (fresh_call_id (w_calls w)) (now_s w) dd])
      = Some (call_row (fresh_call_id (w_calls w)) (now_s w) dd)"
proof -
  have "\<not> (\<exists>c \<in> set (w_calls w). c_channel c = n_channel dd \<and> c_provider_call_id c = Some p)"
    using assms(1) by (auto simp: find_provider_call_def findByProviderCallId_def first_row_None)
  then show "insert_call dd w = (Inr (fresh_call_id (w_calls w)),
      w\<lparr>w_calls := w_calls w @ [call_row (fresh_call_id (w_calls w)) (now_s w) dd]\<rparr>)"
    using assms(2) by (simp add: insert_call_def create_call_def call_create_def)
  have "first_row (\<lambda>c. c_id c = fresh_call_id (w_calls w)) (w_calls w) = None"
    using fresh_call_id_new [of "w_calls w"] unfolding first_row_None by (metis imageI)
  then show "call_findById (fresh_call_id (w_calls w)) (w_calls w @ [call_row (fresh_call_id (w_calls w)) (now_s w) dd])
      = Some (call_row (fresh_call_id (w_calls w)) (now_s w) dd)"
    by (simp add: call_findById_def first_row_append call_row_def)
qed

lemma missed_ends_end:
  assumes "call_findById i (w_calls w) = Some c" and "c_status c = St_RINGING" and "c_termination_reason c = None"
    and "c_terminated_by c = None" and "c_agent_id c = None" and "c_answered_at c = None" and "w_others w = []"
  shows "\<exists>w'. missed_ends i t at w = (Inr (), w') \<and> sealed i (missed_verdict (tb_failed t)) w'
    \<and> (\<exists>r. call_findById i (w_calls w') = Some r \<and> c_agent_id r = None)"
proof (cases "tb_failed t")
  case True
  let ?w1 = "w\<lparr>w_calls := fst (finalizeCallAsFailed (now_s w) i (Some By_PROVIDER) (instant_end at) (w_calls w))\<rparr>"
  let ?dd = "(case tb_errors t of None \<Rightarrow> [] | Some e \<Rightarrow> [(''errors'', JArr e)])
             @ (case tb_callback t of None \<Rightarrow> [] | Some d \<Rightarrow> [(''provider_callback_data'', d)])"
  let ?w2 = "?w1\<lparr>w_calls := updateFailureDetails (now_s ?w1) i (JObj ?dd) (w_calls ?w1)\<rparr>"
  obtain r where r: "call_findById i (w_calls ?w1) = Some r" "is_final r" "verdict r = missed_verdict True" "c_agent_id r = None"
    using failed_row [OF assms(1), of "now_s w" By_PROVIDER "instant_end at"] assms by (auto simp: missed_verdict_def)
  then have sealed1: "sealed i (missed_verdict True) ?w1" using assms(7) by (simp add: sealed_def)
  then have "sealed i (missed_verdict True) ?w2" using sealed_details by blast
  moreover have "call_findById i (w_calls ?w2) = Some (r\<lparr>c_failure_details := Some (JObj ?dd), c_updated_at := now_s ?w1\<rparr>)"
    using r(1) find_call_Some [OF r(1)] unfolding updateFailureDetails_def by (simp add: find_update del: sql_update_fst)
  moreover have "missed_ends i t at w = (Inr (), if tb_errors t \<noteq> None \<or> tb_callback t \<noteq> None then ?w2 else ?w1)"
    using True by (simp add: missed_ends_def finalize_failed_def on_calls_def Let_def write_failure_details_def change_def
        only_when_def ret_def)
  ultimately show ?thesis using True r(1,4) sealed1
    by (cases "tb_errors t \<noteq> None \<or> tb_callback t \<noteq> None") simp_all
next
  case False
  let ?w1 = "w\<lparr>w_calls := fst (finalizeFromWebhook (now_s w) i (Some St_TERMINATED) (Some Rs_CANCELLED) (Some By_CUSTOMER) (instant_end at) (w_calls w))\<rparr>"
  have live: "\<not> is_final c" using assms(2) by (simp add: is_final_def)
  obtain r where r: "call_findById i (w_calls ?w1) = Some r" "is_final r" "c_agent_id r = None" "verdict r = missed_verdict False"
    using finalized_row [OF assms(1) live assms(3,4), of "now_s w" Rs_CANCELLED By_CUSTOMER "instant_end at"] assms(5)
    by (auto simp: missed_verdict_def corrected_def)
  moreover have "missed_ends i t at w = (Inr (), ?w1)"
    using False by (simp add: missed_ends_def finalize_webhook_def on_calls_def Let_def ret_def)
  ultimately show ?thesis using False assms(7) by (auto simp: sealed_def)
qed

lemma missed_ends_quiet: "quietly w (snd (missed_ends i t at w))"
proof -
  have "runs_in quietly (missed_ends i t at)"
    unfolding missed_ends_def by (intro same.run_rules quiet_parts)
  then show ?thesis by (simp add: runs_in_def)
qed

lemma last_row:
  assumes "map provider_id (w_calls w) = xs @ [(i, ch, Some p)]" and "i \<notin> fst ` set xs" and "(ch, Some p) \<notin> snd ` set xs"
  shows "find_provider_call (ch, p) w = call_findById i (w_calls w)"
proof -
  obtain ys z where ys: "w_calls w = ys @ [z]" "map provider_id ys = xs" "provider_id z = (i, ch, Some p)"
    using assms(1) by (auto simp: map_eq_append_conv)
  have old: "fst ` set xs = c_id ` set ys" "snd ` set xs = (\<lambda>c. (c_channel c, c_provider_call_id c)) ` set ys"
    using ys(2) by (auto simp: provider_id_def image_image simp flip: ys(2))
  have "first_row (\<lambda>c. c_id c = i) ys = None" using assms(2) old(1) unfolding first_row_None by (metis imageI)
  moreover have "first_row (\<lambda>c. c_channel c = ch \<and> c_provider_call_id c = Some p) ys = None"
    using assms(3) old(2) unfolding first_row_None by (metis (mono_tags, lifting) imageI)
  ultimately show ?thesis
    using ys(1,3) by (simp add: find_provider_call_def findByProviderCallId_def call_findById_def first_row_append provider_id_def)
qed

lemma missed_run:
  assumes "find_provider_call (provider_key_of ln (of_providerCallId d)) (ig_world s) = None" and "w_others (ig_world s) = []"
  shows "\<exists>W row. handleMissedBeforeOffer ln d at t s
      = (Inr (), s\<lparr>ig_world := W, ig_tombs := (ig_tombs s)(provider_key_of ln (of_providerCallId d) := None)\<rparr>)
    \<and> sealed (fresh_call_id (w_calls (ig_world s))) (missed_verdict (tb_failed t)) W
    \<and> provider_id row = (fresh_call_id (w_calls (ig_world s)), ln_type ln, Some (of_providerCallId d))
    \<and> quietly ((ig_world s)\<lparr>w_calls := w_calls (ig_world s) @ [row]\<rparr>) W"
proof -
  let ?k = "provider_key_of ln (of_providerCallId d)" and ?w = "ig_world s" and ?v = "missed_verdict (tb_failed t)"
  let ?at = "case tb_endedAt t of None \<Rightarrow> to_timestamp at | Some e \<Rightarrow> to_timestamp e"
  let ?i = "fresh_call_id (w_calls ?w)"
  let ?dd = "(base_row ln d at)\<lparr>n_metadata := Some (JObj (missed_metadata d (tb_failed t)))\<rparr>"
  let ?c = "call_row ?i (now_s ?w) ?dd"
  let ?w1 = "?w\<lparr>w_calls := w_calls ?w @ [?c]\<rparr>"
  let ?w2 = "?w1\<lparr>w_trace := w_trace ?w1 @ [Published ?i ''call.created'']\<rparr>"
  let ?log = "logged_failure (write_log (\<lambda>now. logQueued now ?i (Some (ln_tenant_id ln))
        [(''providerCallId'', JStr (of_providerCallId d)), (''out_of_order_terminate'', JBool True)]))"
  let ?opt = "early_end (if tb_failed t then Rs_PROVIDER_ERROR else Rs_CANCELLED) (if tb_failed t then By_PROVIDER else By_CUSTOMER)
          [(''out_of_order_terminate'', JBool True)]"
  have key: "?k = (n_channel ?dd, of_providerCallId d)" "n_provider_call_id ?dd = Some (of_providerCallId d)"
    by (simp_all add: provider_key_of_def base_row_def)
  note ins = inserted [OF assms(1) [unfolded key(1)] key(2)]
  have fields: "c_status ?c = St_RINGING" "c_termination_reason ?c = None" "c_terminated_by ?c = None" "c_agent_id ?c = None"
    "c_answered_at ?c = None"
    by (simp_all add: call_row_def base_row_def)
  have "call_findById ?i (w_calls ?w2) = Some ?c" using ins(2) by simp
  from missed_ends_end [OF this fields, of t ?at] missed_ends_quiet [of ?i t ?at ?w2] obtain w3 where w3: "missed_ends ?i t ?at ?w2 = (Inr (), w3)"
    "sealed ?i ?v w3" "quietly ?w2 w3" "\<exists>r. call_findById ?i (w_calls w3) = Some r \<and> c_agent_id r = None"
    using assms(2) by auto
  define w4 where "w4 = snd (?log w3)"
  have log: "?log w3 = (Inr (), w4)" by (simp add: w4_def prod_eq_iff)
  have "runs_in quietly ?log" by (intro same.run_rules quiet_parts)
  then have w4: "quietly w3 w4" by (simp add: runs_in_def w4_def)
  have same_calls: "w_calls w4 = w_calls w3"
    unfolding w4_def by (auto simp: logged_failure_state write_log_def split: sum.split)
  obtain r where r: "call_findById ?i (w_calls w4) = Some r" "c_agent_id r = None" using w3(4) same_calls by auto
  let ?W = "snd (settle_row r ?opt w4)"
  have "sealed ?i ?v w4" using w3(2) w4 same_calls by (simp add: sealed_def)
  then have sealed: "sealed ?i ?v ?W" using sealed_end.run_settle_row by (simp add: runs_in_def)
  have quiet: "quietly w4 ?W" using quiet_settle [OF r(2)] by (simp add: runs_in_def)
  have settled: "settle (ById ?i) ?opt w4 = (Inr (), ?W)"
    using r(1) by (simp add: settle_def load_def settle_row_run Let_def)
  have "quietly ?w1 ?w2" by (simp add: rings_def)
  then have chain: "quietly ?w1 ?W" using quiet w4 w3(3) by simp
  have "provider_id ?c = (?i, ln_type ln, Some (of_providerCallId d))"
    by (simp add: provider_id_def call_row_def base_row_def)
  note row = this
  have "handleMissedBeforeOffer ln d at t s = (Inr (), s\<lparr>ig_world := ?W, ig_tombs := (ig_tombs s)(?k := None)\<rparr>)"
    unfolding handleMissedBeforeOffer_def Let_def
    using ins(1) w3(1) log settled
    by (simp add: publish_def emit_def change_def del_tombstone_def within_def)
  then show ?thesis using sealed chain row by blast
qed

text \<open>C27: An end that overtakes its offer rings nobody. When a channel reports the end of a call nobody has heard
  of and then its offer, the call is recorded as ended (cancelled by the customer, or failed by the provider),
  nothing is offered to any agent and no agent is taken, the note of the early end is used up and the claim on
  the call is given back.\<close>

theorem early_end_rings_nobody:
  assumes "find_provider_call (provider_key_of ln (of_providerCallId d)) (ig_world s) = None"
    and "ee_providerCallId e = of_providerCallId d" and "ig_tombs s (provider_key_of ln (of_providerCallId d)) = None"
    and "ig_others s = []" and "w_others (ig_world s) = []"
    and "s' = report_all ln [Ended e, Offered d oa] s"
  shows "\<exists>r. call_findById (fresh_call_id (w_calls (ig_world s))) (w_calls (ig_world s')) = Some r
    \<and> verdict r = missed_verdict (ee_failed e) \<and> rings (ig_world s') = rings (ig_world s)
    \<and> w_agents (ig_world s') = w_agents (ig_world s)
    \<and> ig_tombs s' (provider_key_of ln (of_providerCallId d)) = None \<and> ig_claims s' (provider_key_of ln (of_providerCallId d)) = None"
proof -
  let ?k = "provider_key_of ln (of_providerCallId d)" and ?i = "fresh_call_id (w_calls (ig_world s))"
  let ?s1 = "s\<lparr>ig_tombs := (ig_tombs s)(?k := Some (tombstone_of e)), ig_claims := (ig_claims s)(?k := None)\<rparr>"
  let ?s2 = "?s1\<lparr>ig_claims := (ig_claims ?s1)(?k := Some (ig_worker s, True))\<rparr>"
  have "handleCallEnded ln e s = (Inr (), s\<lparr>ig_tombs := (ig_tombs s)(?k := Some (tombstone_of e))\<rparr>)"
    using assms(1-4)
    by (simp add: handleCallEnded_def Let_def meanwhile_alone put_tombstone_def change_def)
  then have first: "report ln (Ended e) s = ?s1"
    using assms(2) by (simp add: callEnded_def logged_failure_def catching_def and_then_Inr cleanupCall_def change_def)
  obtain W row where W: "handleMissedBeforeOffer ln d (ringing_time d (ig_world s)) (tombstone_of e) ?s2
      = (Inr (), ?s2\<lparr>ig_world := W, ig_tombs := (ig_tombs ?s2)(?k := None)\<rparr>)"
    "sealed ?i (missed_verdict (ee_failed e)) W" "provider_id row = (?i, ln_type ln, Some (of_providerCallId d))"
    "quietly ((ig_world s)\<lparr>w_calls := w_calls (ig_world s) @ [row]\<rparr>) W"
    using missed_run [of ln d ?s2 "ringing_time d (ig_world s)" "tombstone_of e"] assms(1,5) by (auto simp: tombstone_of_def)
  let ?t = "?s2\<lparr>ig_world := W, ig_tombs := (ig_tombs ?s2)(?k := None)\<rparr>"
  obtain r where r: "call_findById ?i (w_calls W) = Some r" "is_final r" "verdict r = missed_verdict (ee_failed e)"
    using W(2) by (auto simp: sealed_def)
  have "map provider_id (w_calls W) = map provider_id (w_calls (ig_world s)) @ [(?i, ln_type ln, Some (of_providerCallId d))]"
    using W(3,4) by simp
  moreover have "?i \<notin> fst ` set (map provider_id (w_calls (ig_world s)))"
    using fresh_call_id_new [of "w_calls (ig_world s)"] by (simp add: image_image provider_id_def)
  moreover have "(ln_type ln, Some (of_providerCallId d)) \<notin> snd ` set (map provider_id (w_calls (ig_world s)))"
    using assms(1) by (auto simp: find_provider_call_def findByProviderCallId_def first_row_None provider_id_def provider_key_of_def)
  ultimately have "find_provider_call ?k W = Some r"
    unfolding provider_key_of_def using r(1) by (simp add: last_row)
  then have no_claim: "claim_after ?k ?t = None" using r(2) by (simp add: claim_after_def)
  have "incoming_body ln d oa ?s2 = (Inr (), ?t)"
    using W(1) by (simp add: incoming_body_def Let_def get_tombstone_def)
  then have "snd (handleIncomingCall ln d oa ?s2) = ?t" by (simp add: handleIncomingCall_def logged_failure_state)
  then have "snd (inboundCall ln d oa ?s1) = ?t\<lparr>ig_claims := (ig_claims ?s1)(?k := None)\<rparr>"
    using inbound_run [of ln d ?s1 oa] assms(1) no_claim by (simp add: Let_def)
  then have "s' = ?t\<lparr>ig_claims := (ig_claims ?s1)(?k := None)\<rparr>"
    using assms(6) first by simp
  then show ?thesis using r W(4) by (simp add: rings_def)
qed

theorem early_end_rings_nobody_witness:
  "\<exists>r. call_findById 1 (w_calls (ig_world (report_all example_line [Ended (example_end False 3000), Offered example_offer no_answers]
        (alone empty_world)))) = Some r \<and> verdict r = (St_TERMINATED, Some Rs_CANCELLED, Some By_CUSTOMER)"
proof -
  have "fresh_call_id (w_calls (ig_world (alone empty_world))) = 1" by code_simp
  then show ?thesis
    using early_end_rings_nobody [OF nothing_found _ _ _ _ refl, of "example_end False 3000" example_offer example_line no_answers]
    by (auto simp: example_end_def example_offer_def alone_def empty_world_def missed_verdict_def)
qed

end
