(* ===== verification/Outbox.thy ===== *)
theory Outbox
  imports World
begin

text \<open>
  The events Callio sends its consumers: \<open>src/src/core/events/ConsumerEventPublisher.js\<close> turns an announcement
  into a row of \<open>webhook_deliveries\<close> (\<open>src/src/persistence/OutboxRepository.js\<close>), and the worker that holds
  the dispatcher's lease posts the due rows (\<open>src/src/outbox/OutboxDispatcher.js\<close>). A worker reads a batch and
  then awaits one answer after the other, so other workers, the Management API and the lapse of the lease come
  between the answers: every such step is a function on the state \<open>outbox\<close>. Times are in seconds (\<open>NOW()\<close>).
  The random event id, the HMAC and the consumers' answers are arguments; a failing database is left out.
\<close>

section \<open>The table of deliveries\<close>

datatype delivery_status = Dl_PENDING | Dl_DELIVERED | Dl_FAILED

datatype event_body =
    CallBody consumer_call_view "(string \<times> json) list"
  | AgentBody "string option" nat agent_availability "(string \<times> json) list"

record consumer_event =
  ce_type :: string
  ce_tenantRef :: "string option"
  ce_occurredAt :: int
  ce_body :: event_body

record outbox_row =
  dv_id :: nat
  dv_consumer_id :: nat
  dv_tenant_id :: "nat option"
  dv_call_id :: "nat option"
  dv_event_id :: string
  dv_event_type :: string
  dv_dedupe_key :: "string option"
  dv_payload :: consumer_event
  dv_status :: delivery_status
  dv_attempts :: nat
  dv_next_attempt_at :: int
  dv_last_response_status :: "nat option"
  dv_last_error :: "string option"
  dv_delivered_at :: "int option"
  dv_created_at :: int
  dv_updated_at :: int

record new_event =
  ne_consumerId :: nat
  ne_tenantId :: "nat option"
  ne_callId :: "nat option"
  ne_eventType :: string
  ne_payload :: consumer_event
  ne_dedupeKey :: "string option"

definition fresh_delivery_id :: "outbox_row list \<Rightarrow> nat" where
  "fresh_delivery_id rows = Suc (foldr max (map dv_id rows) 0)"

definition delivery_row :: "nat \<Rightarrow> int \<Rightarrow> string \<Rightarrow> new_event \<Rightarrow> outbox_row" where
  "delivery_row i now eventId e = \<lparr> dv_id = i, dv_consumer_id = ne_consumerId e, dv_tenant_id = ne_tenantId e,
     dv_call_id = ne_callId e, dv_event_id = eventId, dv_event_type = ne_eventType e, dv_dedupe_key = ne_dedupeKey e,
     dv_payload = ne_payload e, dv_status = Dl_PENDING, dv_attempts = 0, dv_next_attempt_at = now,
     dv_last_response_status = None, dv_last_error = None, dv_delivered_at = None, dv_created_at = now, dv_updated_at = now \<rparr>"

text \<open>The unique keys of the table: \<open>event_id\<close> and \<open>dedupe_key\<close>. A taken dedupe key is no error.\<close>

datatype enqueue_error = Event_id_taken

definition existsByDedupeKey :: "string \<Rightarrow> outbox_row list \<Rightarrow> bool" where
  "existsByDedupeKey k rows \<longleftrightarrow> (\<exists>r \<in> set rows. dv_dedupe_key r = Some k)"

definition outbox_enqueue :: "int \<Rightarrow> string \<Rightarrow> new_event \<Rightarrow> outbox_row list \<Rightarrow> enqueue_error + outbox_row list \<times> string option" where
  "outbox_enqueue now eventId e rows =
     (if \<exists>r \<in> set rows. dv_event_id r = eventId then Inl Event_id_taken
      else if (case ne_dedupeKey e of None \<Rightarrow> False | Some k \<Rightarrow> existsByDedupeKey k rows) then Inr (rows, None)
      else Inr (rows @ [delivery_row (fresh_delivery_id rows) now eventId e], Some eventId))"

record event_filter =
  ef_tenantId :: "nat option"
  ef_callId :: "nat option"
  ef_eventType :: "string option"
  ef_status :: "delivery_status option"
  ef_beforeId :: "nat option"

definition matches_filter :: "event_filter \<Rightarrow> outbox_row \<Rightarrow> bool" where
  "matches_filter f d \<longleftrightarrow>
     (ef_tenantId f = None \<or> dv_tenant_id d = ef_tenantId f)
     \<and> (ef_callId f = None \<or> dv_call_id d = ef_callId f)
     \<and> (case ef_eventType f of None \<Rightarrow> True | Some t \<Rightarrow> t = [] \<or> dv_event_type d = t)
     \<and> (case ef_status f of None \<Rightarrow> True | Some s \<Rightarrow> dv_status d = s)
     \<and> (case ef_beforeId f of None \<Rightarrow> True | Some i \<Rightarrow> dv_id d < i)"

definition listForConsumer :: "nat \<Rightarrow> event_filter \<Rightarrow> nat \<Rightarrow> outbox_row list \<Rightarrow> outbox_row list" where
  "listForConsumer consumerId f limit rows =
     take (safe_limit 50 200 limit)
       (rev (sort_key dv_id (filter (\<lambda>d. dv_consumer_id d = consumerId \<and> matches_filter f d) rows)))"

definition findForConsumer :: "nat \<Rightarrow> string \<Rightarrow> outbox_row list \<Rightarrow> outbox_row option" where
  "findForConsumer consumerId eventId rows = first_row (\<lambda>d. dv_consumer_id d = consumerId \<and> dv_event_id d = eventId) rows"

definition redeliver :: "int \<Rightarrow> nat \<Rightarrow> string \<Rightarrow> outbox_row list \<Rightarrow> outbox_row list \<times> bool" where
  "redeliver now consumerId eventId rows =
     affected (sql_update (\<lambda>d. dv_consumer_id d = consumerId \<and> dv_event_id d = eventId)
       (\<lambda>d. d\<lparr>dv_status := Dl_PENDING, dv_attempts := 0, dv_next_attempt_at := now, dv_last_error := None, dv_updated_at := now\<rparr>) rows)"

record consumer_row =
  cr_id :: nat
  cr_url :: "string option"
  cr_secret :: "string option"
  cr_active :: bool
  cr_event_types :: "string list option"

definition findDue :: "int \<Rightarrow> nat \<Rightarrow> consumer_row list \<Rightarrow> outbox_row list \<Rightarrow> outbox_row list" where
  "findDue now limit consumers rows =
     take (safe_limit 50 500 limit)
       (sort_key dv_next_attempt_at (sort_key dv_id
         (filter (\<lambda>d. dv_status d = Dl_PENDING \<and> dv_next_attempt_at d \<le> now
            \<and> (\<exists>c \<in> set consumers. cr_id c = dv_consumer_id d \<and> cr_url c \<noteq> None \<and> cr_active c)) rows)))"

definition markDelivered :: "int \<Rightarrow> nat \<Rightarrow> nat \<Rightarrow> outbox_row list \<Rightarrow> outbox_row list" where
  "markDelivered now i responseStatus rows =
     fst (sql_update (\<lambda>d. dv_id d = i)
       (\<lambda>d. d\<lparr>dv_status := Dl_DELIVERED, dv_attempts := dv_attempts d + 1, dv_last_response_status := Some responseStatus,
              dv_last_error := None, dv_delivered_at := Some now, dv_updated_at := now\<rparr>) rows)"

definition markAttemptFailed :: "int \<Rightarrow> nat \<Rightarrow> nat option \<Rightarrow> string \<Rightarrow> nat option \<Rightarrow> outbox_row list \<Rightarrow> outbox_row list" where
  "markAttemptFailed now i responseStatus error nextAttemptInSeconds rows =
     (case nextAttemptInSeconds of
        None \<Rightarrow> fst (sql_update (\<lambda>d. dv_id d = i)
          (\<lambda>d. d\<lparr>dv_status := Dl_FAILED, dv_attempts := dv_attempts d + 1, dv_last_response_status := responseStatus,
                 dv_last_error := Some (take 2000 error), dv_updated_at := now\<rparr>) rows)
      | Some seconds \<Rightarrow> fst (sql_update (\<lambda>d. dv_id d = i)
          (\<lambda>d. d\<lparr>dv_attempts := dv_attempts d + 1, dv_last_response_status := responseStatus,
                 dv_last_error := Some (take 2000 error), dv_next_attempt_at := now + int seconds, dv_updated_at := now\<rparr>) rows))"

section \<open>State\<close>

record webhook =
  wh_url :: string
  wh_secret :: "string option"

text \<open>What the consumer answers: a status, or the error of a request without one.\<close>

type_synonym post_answer = "string + nat"

text \<open>A worker's batch: the rows it read, and the webhooks it looked up for them.\<close>

record batch =
  bt_due :: "outbox_row list"
  bt_configs :: "(nat \<times> webhook option) list"

record post =
  ps_id :: nat
  ps_url :: string
  ps_event_id :: string
  ps_event_type :: string
  ps_payload :: consumer_event
  ps_secret :: "string option"
  ps_answer :: post_answer

record outbox =
  ob_now :: int
  ob_rows :: "outbox_row list"
  ob_consumers :: "consumer_row list"
  ob_lease :: "string option"
  ob_batches :: "string \<Rightarrow> batch option"
  ob_subscriptions :: "string \<Rightarrow> nat \<Rightarrow> (string list option \<times> int) option"
  ob_posts :: "post list"

section \<open>Publishing\<close>

definition ONCE_PER_CALL :: "string list" where
  "ONCE_PER_CALL = [''call.created'', ''call.answered'', ''call.ended'']"

text \<open>Tenants (their consumer and reference), agents (tenant, reference, name) and channels, as the tables have them.\<close>

record directory =
  dr_tenant :: "nat \<Rightarrow> (nat \<times> string option) option"
  dr_agent :: "nat \<Rightarrow> (nat \<times> string option \<times> string option) option"
  dr_channelRef :: "nat \<Rightarrow> string option"

definition SUBSCRIPTION_TTL :: int where
  "SUBSCRIPTION_TTL = 60"

definition getEventTypes :: "nat \<Rightarrow> consumer_row list \<Rightarrow> string list option" where
  "getEventTypes consumerId consumers = Option.bind (first_row (\<lambda>c. cr_id c = consumerId) consumers) cr_event_types"

definition subscribed :: "string \<Rightarrow> nat \<Rightarrow> string \<Rightarrow> outbox \<Rightarrow> bool \<times> outbox" where
  "subscribed worker consumerId eventType s =
     (let entry = (case ob_subscriptions s worker consumerId of
            Some (types, at) \<Rightarrow> if SUBSCRIPTION_TTL < ob_now s - at then (getEventTypes consumerId (ob_consumers s), ob_now s) else (types, at)
          | None \<Rightarrow> (getEventTypes consumerId (ob_consumers s), ob_now s))
      in (case fst entry of None \<Rightarrow> True | Some types \<Rightarrow> eventType \<in> set types,
          s\<lparr>ob_subscriptions := (ob_subscriptions s)(worker := (ob_subscriptions s worker)(consumerId := Some entry))\<rparr>))"

definition forgetSubscription :: "string \<Rightarrow> nat \<Rightarrow> outbox \<Rightarrow> outbox" where
  "forgetSubscription worker consumerId s =
     s\<lparr>ob_subscriptions := (ob_subscriptions s)(worker := (ob_subscriptions s worker)(consumerId := None))\<rparr>"

definition dedupe_key_of :: "nat \<Rightarrow> string \<Rightarrow> string option" where
  "dedupe_key_of callId eventType =
     (if eventType \<in> set ONCE_PER_CALL then Some (decimal callId @ '':'' @ eventType) else None)"

text \<open>A row that cannot be written (its event id is taken, in this model) is an event lost.\<close>

definition publisher_enqueue :: "string \<Rightarrow> new_event \<Rightarrow> outbox \<Rightarrow> string option \<times> outbox" where
  "publisher_enqueue eventId e s =
     (case outbox_enqueue (ob_now s) eventId e (ob_rows s) of
        Inl _ \<Rightarrow> (None, s)
      | Inr (rows, r) \<Rightarrow> (r, s\<lparr>ob_rows := rows\<rparr>))"

definition publishForCall ::
  "string \<Rightarrow> directory \<Rightarrow> call list \<Rightarrow> string \<Rightarrow> nat \<Rightarrow> string \<Rightarrow> (string \<times> json) list \<Rightarrow> outbox \<Rightarrow> string option \<times> outbox" where
  "publishForCall worker dr calls eventId callId eventType data s =
     (let dedupeKey = dedupe_key_of callId eventType in
      if (case dedupeKey of None \<Rightarrow> False | Some k \<Rightarrow> existsByDedupeKey k (ob_rows s)) then (None, s)
      else
        case call_findById callId calls of
          None \<Rightarrow> (None, s)
        | Some call \<Rightarrow>
            (case dr_tenant dr (c_tenant_id call) of
               None \<Rightarrow> (None, s)
             | Some (consumerId, tenantRef) \<Rightarrow>
                 (let sub = subscribed worker consumerId eventType s;
                      agent = Option.bind (c_agent_id call) (dr_agent dr)
                  in if \<not> fst sub then (None, snd sub)
                     else
                       case toConsumerCallView (Some call) tenantRef (Option.bind agent (\<lambda>(_, r, _). r))
                           (Option.bind agent (\<lambda>(_, _, n). n)) (Option.bind (c_channel_id call) (dr_channelRef dr)) of
                         None \<Rightarrow> (None, snd sub)
                       | Some view \<Rightarrow>
                           publisher_enqueue eventId
                             \<lparr> ne_consumerId = consumerId, ne_tenantId = Some (c_tenant_id call), ne_callId = Some callId,
                               ne_eventType = eventType,
                               ne_payload = \<lparr> ce_type = eventType, ce_tenantRef = tenantRef, ce_occurredAt = ob_now s,
                                              ce_body = CallBody view data \<rparr>,
                               ne_dedupeKey = dedupeKey \<rparr> (snd sub))))"

definition publishAgentAvailability ::
  "string \<Rightarrow> directory \<Rightarrow> string \<Rightarrow> nat \<Rightarrow> agent_availability \<Rightarrow> (string \<times> json) list \<Rightarrow> outbox \<Rightarrow> string option \<times> outbox" where
  "publishAgentAvailability worker dr eventId agentId availability extra s =
     (case dr_agent dr agentId of
        None \<Rightarrow> (None, s)
      | Some (tenantId, agentRef, _) \<Rightarrow>
          (case dr_tenant dr tenantId of
             None \<Rightarrow> (None, s)
           | Some (consumerId, tenantRef) \<Rightarrow>
               (let sub = subscribed worker consumerId ''agent.availability.changed'' s
                in if \<not> fst sub then (None, snd sub)
                   else publisher_enqueue eventId
                     \<lparr> ne_consumerId = consumerId, ne_tenantId = Some tenantId, ne_callId = None,
                       ne_eventType = ''agent.availability.changed'',
                       ne_payload = \<lparr> ce_type = ''agent.availability.changed'', ce_tenantRef = tenantRef, ce_occurredAt = ob_now s,
                                      ce_body = AgentBody agentRef agentId availability extra \<rparr>,
                       ne_dedupeKey = None \<rparr> (snd sub))))"

text \<open>Which announcement becomes which event.\<close>

definition json_id_of :: "nat option \<Rightarrow> json" where
  "json_id_of i = (case i of None \<Rightarrow> JNull | Some n \<Rightarrow> JNum (int n))"

definition assignment_json :: "assignment_type \<Rightarrow> json" where
  "assignment_json a = JStr (case a of As_DIRECT \<Rightarrow> ''DIRECT'' | As_QUEUED \<Rightarrow> ''QUEUED'' | As_TRANSFERRED \<Rightarrow> ''TRANSFERRED'' | As_IVR \<Rightarrow> ''IVR'')"

definition call_event_of :: "bus_event \<Rightarrow> (nat \<times> string \<times> (string \<times> json) list) option" where
  "call_event_of b =
     (case b of
        IncomingEv p \<Rightarrow>
          if in_assignmentType p = As_IVR then None
          else Some (vw_callId (in_view p), if in_agentId p \<noteq> None then ''call.assigned'' else ''call.queued'',
            [(''assignment_type'', assignment_json (in_assignmentType p)),
             (''offered_agent_ids'', JArr (map (\<lambda>a. JNum (int a)) (in_offeredAgentIds p)))])
      | WaitingEv callId _ _ \<Rightarrow> Some (callId, ''call.queued'', [])
      | HandledEv h \<Rightarrow> if hn_action h = Accepted then Some (hn_callId h, ''call.answered'', []) else None
      | StatusEv callId _ status _ \<Rightarrow> if status = ''RINGING'' then Some (callId, ''call.ringing'', []) else None
      | TransferredEv t \<Rightarrow> Some (vw_callId (in_view (tr_payload t)), ''call.transferred'',
            [(''from_agent_id'', json_id_of (tr_oldAgentId t)), (''to_agent_id'', JNum (int (tr_userId t))),
             (''to_queue_id'', json_id_of (tr_targetQueueId t))])
      | OverflowedEv callId _ fromQ toQ \<Rightarrow> Some (callId, ''call.overflowed'',
            [(''from_queue_id'', JNum (int fromQ)), (''to_queue_id'', JNum (int toQ))])
      | TerminatedEv t \<Rightarrow> Some (tn_callId t, ''call.ended'', [])
      | _ \<Rightarrow> None)"

definition on_bus_event :: "string \<Rightarrow> directory \<Rightarrow> call list \<Rightarrow> string \<Rightarrow> bus_event \<Rightarrow> outbox \<Rightarrow> outbox" where
  "on_bus_event worker dr calls eventId b s =
     (case call_event_of b of
        Some (callId, eventType, data) \<Rightarrow> snd (publishForCall worker dr calls eventId callId eventType data s)
      | None \<Rightarrow>
          (case b of
             AvailabilityEv n \<Rightarrow>
               if an_changed n = Some False then s
               else snd (publishAgentAvailability worker dr eventId (an_userId n) (an_availability n)
                      (case an_reason n of None \<Rightarrow> [] | Some r \<Rightarrow> if r = [] then [] else [(''reason'', JStr r)]) s)
           | _ \<Rightarrow> s))"

section \<open>Dispatching\<close>

definition BACKOFF_SECONDS :: "nat list" where
  "BACKOFF_SECONDS = [5, 15, 60, 300, 900, 1800, 3600, 3600, 3600, 3600, 3600]"

definition MAX_ATTEMPTS :: nat where
  "MAX_ATTEMPTS = length BACKOFF_SECONDS + 1"

definition BATCH_SIZE :: nat where
  "BATCH_SIZE = 50"

definition getWebhookConfig :: "nat \<Rightarrow> consumer_row list \<Rightarrow> webhook option" where
  "getWebhookConfig consumerId consumers =
     (case first_row (\<lambda>c. cr_id c = consumerId) consumers of
        None \<Rightarrow> None
      | Some c \<Rightarrow> (case cr_url c of None \<Rightarrow> None | Some u \<Rightarrow> if u = [] then None else Some \<lparr> wh_url = u, wh_secret = cr_secret c \<rparr>))"

definition holdLease :: "string \<Rightarrow> outbox \<Rightarrow> bool \<times> outbox" where
  "holdLease worker s =
     (case ob_lease s of
        None \<Rightarrow> (True, s\<lparr>ob_lease := Some worker\<rparr>)
      | Some owner \<Rightarrow> (owner = worker, s))"

text \<open>A tick starts: one batch at a time, and only with the lease.\<close>

definition begin_tick :: "string \<Rightarrow> outbox \<Rightarrow> outbox" where
  "begin_tick worker s =
     (if ob_batches s worker \<noteq> None then s
      else let (held, s1) = holdLease worker s in
           if \<not> held then s1
           else s1\<lparr>ob_batches := (ob_batches s1)(worker :=
                  Some \<lparr> bt_due = findDue (ob_now s1) BATCH_SIZE (ob_consumers s1) (ob_rows s1), bt_configs = [] \<rparr>)\<rparr>)"

definition succeeded :: "post_answer \<Rightarrow> bool" where
  "succeeded a = (case a of Inl _ \<Rightarrow> False | Inr status \<Rightarrow> 200 \<le> status \<and> status < 300)"

definition dispatch_failed :: "outbox_row \<Rightarrow> nat option \<Rightarrow> string \<Rightarrow> outbox \<Rightarrow> outbox" where
  "dispatch_failed d status error s =
     (let attemptsMade = dv_attempts d + 1; giveUp = MAX_ATTEMPTS \<le> attemptsMade
      in s\<lparr>ob_rows := markAttemptFailed (ob_now s) (dv_id d) status error
              (if giveUp then None else Some (BACKOFF_SECONDS ! (attemptsMade - 1))) (ob_rows s)\<rparr>)"

definition dispatch :: "outbox_row \<Rightarrow> webhook option \<Rightarrow> post_answer \<Rightarrow> outbox \<Rightarrow> outbox" where
  "dispatch d hook a s =
     (case hook of
        None \<Rightarrow> s
      | Some h \<Rightarrow>
          (let s1 = s\<lparr>ob_posts := ob_posts s @ [\<lparr> ps_id = dv_id d, ps_url = wh_url h, ps_event_id = dv_event_id d,
                   ps_event_type = dv_event_type d, ps_payload = dv_payload d, ps_secret = wh_secret h, ps_answer = a \<rparr>]\<rparr>
           in case a of
                Inl error \<Rightarrow> dispatch_failed d None error s1
              | Inr status \<Rightarrow>
                  if succeeded a then s1\<lparr>ob_rows := markDelivered (ob_now s1) (dv_id d) status (ob_rows s1)\<rparr>
                  else dispatch_failed d (Some status) (''HTTP '' @ decimal status) s1))"

text \<open>The next row of the batch, and the end of the tick after the last.\<close>

definition deliver_next :: "string \<Rightarrow> post_answer \<Rightarrow> outbox \<Rightarrow> outbox" where
  "deliver_next worker a s =
     (case ob_batches s worker of
        None \<Rightarrow> s
      | Some b \<Rightarrow>
          (case bt_due b of
             [] \<Rightarrow> s\<lparr>ob_batches := (ob_batches s)(worker := None)\<rparr>
           | d # ds \<Rightarrow>
               (let hook = (case map_of (bt_configs b) (dv_consumer_id d) of
                      Some h \<Rightarrow> h | None \<Rightarrow> getWebhookConfig (dv_consumer_id d) (ob_consumers s))
                in dispatch d hook a
                     (s\<lparr>ob_batches := (ob_batches s)(worker :=
                        Some \<lparr> bt_due = ds, bt_configs = (dv_consumer_id d, hook) # bt_configs b \<rparr>)\<rparr>))))"

text \<open>A worker that stops gives its lease up; only the answer it waits for is still worked off.\<close>

definition stop_dispatcher :: "string \<Rightarrow> bool \<Rightarrow> outbox \<Rightarrow> outbox" where
  "stop_dispatcher worker waiting s =
     s\<lparr>ob_lease := (if ob_lease s = Some worker then None else ob_lease s),
       ob_batches := (ob_batches s)(worker :=
         (case ob_batches s worker of
            None \<Rightarrow> None
          | Some b \<Rightarrow> if waiting then Some (b\<lparr>bt_due := take 1 (bt_due b)\<rparr>) else None))\<rparr>"

text \<open>The signature of a post: \<open>hmac\<close> is HMAC-SHA256 in hexadecimal.\<close>

definition signPayload :: "(string \<Rightarrow> string \<Rightarrow> string) \<Rightarrow> string \<Rightarrow> string \<Rightarrow> nat \<Rightarrow> string" where
  "signPayload hmac secret body timestamp =
     ''t='' @ decimal timestamp @ '',v1='' @ hmac secret (decimal timestamp @ ''.'' @ body)"

end
