(* ===== verification/OutboxFacts.thy ===== *)
theory OutboxFacts
  imports Outbox
begin

text \<open>
  What the outbox promises a consumer: an event is not given up before it was posted twelve times and not
  counted as delivered unless the consumer took it; what happens once to a call is written once; and how the
  retries of one event run. The last theorem is a race the missing guard of the last attempt allows.
\<close>

section \<open>What may happen to the outbox\<close>

inductive ob_step :: "outbox \<Rightarrow> outbox \<Rightarrow> bool" where
  os_publish: "ob_step s (snd (publishForCall w dr calls eid i ty data s))"
| os_agent: "ob_step s (snd (publishAgentAvailability w dr eid a av extra s))"
| os_redeliver: "ob_step s (s\<lparr>ob_rows := fst (redeliver (ob_now s) c e (ob_rows s))\<rparr>)"
| os_begin: "ob_step s (begin_tick w s)"
| os_deliver: "ob_step s (deliver_next w a s)"
| os_stop: "ob_step s (stop_dispatcher w b s)"
| os_lapse: "ob_step s (s\<lparr>ob_lease := None\<rparr>)"
| os_clock: "ob_now s \<le> t \<Longrightarrow> ob_step s (s\<lparr>ob_now := t\<rparr>)"
| os_consumers: "ob_step s (s\<lparr>ob_consumers := cs\<rparr>)"
| os_forget: "ob_step s (forgetSubscription w c s)"

definition empty_outbox :: outbox where
  "empty_outbox = \<lparr> ob_now = 0, ob_rows = [], ob_consumers = [], ob_lease = None, ob_batches = (\<lambda>_. None),
     ob_subscriptions = (\<lambda>_ _. None), ob_posts = [] \<rparr>"

text \<open>Publishing adds a row or none; nothing else of the table changes.\<close>

lemma subscribed_state: "ob_rows (snd (subscribed w c ty s)) = ob_rows s" "ob_posts (snd (subscribed w c ty s)) = ob_posts s"
  "ob_batches (snd (subscribed w c ty s)) = ob_batches s" "ob_now (snd (subscribed w c ty s)) = ob_now s"
  by (simp_all add: subscribed_def Let_def)

definition adds_row :: "outbox \<Rightarrow> outbox \<Rightarrow> (outbox_row \<Rightarrow> bool) \<Rightarrow> bool" where
  "adds_row s s' p \<longleftrightarrow> ob_posts s' = ob_posts s \<and> ob_batches s' = ob_batches s
     \<and> (ob_rows s' = ob_rows s
        \<or> (\<exists>e eid. ob_rows s' = ob_rows s @ [delivery_row (fresh_delivery_id (ob_rows s)) (ob_now s) eid e]
             \<and> (\<forall>k. ne_dedupeKey e = Some k \<longrightarrow> \<not> existsByDedupeKey k (ob_rows s))
             \<and> (\<forall>r \<in> set (ob_rows s). dv_event_id r \<noteq> eid)
             \<and> p (delivery_row (fresh_delivery_id (ob_rows s)) (ob_now s) eid e)))"

lemma enqueue_adds:
  assumes "ob_rows s1 = ob_rows s" "ob_posts s1 = ob_posts s" "ob_batches s1 = ob_batches s" "ob_now s1 = ob_now s"
    and "p (delivery_row (fresh_delivery_id (ob_rows s)) (ob_now s) eid e)"
  shows "adds_row s (snd (publisher_enqueue eid e s1)) p"
proof (cases "(\<exists>r \<in> set (ob_rows s). dv_event_id r = eid) \<or> (\<exists>k. ne_dedupeKey e = Some k \<and> existsByDedupeKey k (ob_rows s))")
  case True
  then have "ob_rows (snd (publisher_enqueue eid e s1)) = ob_rows s"
    using assms(1-4) by (auto simp: publisher_enqueue_def outbox_enqueue_def)
  moreover have "ob_posts (snd (publisher_enqueue eid e s1)) = ob_posts s" "ob_batches (snd (publisher_enqueue eid e s1)) = ob_batches s"
    using assms(2,3) by (simp_all add: publisher_enqueue_def split: sum.split prod.split)
  ultimately show ?thesis by (simp add: adds_row_def)
next
  case False
  then have "snd (publisher_enqueue eid e s1)
      = s1\<lparr>ob_rows := ob_rows s @ [delivery_row (fresh_delivery_id (ob_rows s)) (ob_now s) eid e]\<rparr>"
    using assms(1-4) by (auto simp: publisher_enqueue_def outbox_enqueue_def split: option.split)
  then show ?thesis using False assms unfolding adds_row_def by (intro conjI disjI2 exI [of _ e] exI [of _ eid]) auto
qed

text \<open>A once-per-call event of a call carries its key.\<close>

definition well_keyed :: "outbox_row \<Rightarrow> bool" where
  "well_keyed r \<longleftrightarrow> (case dv_call_id r of None \<Rightarrow> True | Some i \<Rightarrow> dv_dedupe_key r = dedupe_key_of i (dv_event_type r))"

lemma publish_adds:
  "adds_row s (snd (publishForCall w dr calls eid i ty data s)) well_keyed"
  "adds_row s (snd (publishAgentAvailability w dr eid a av extra s)) well_keyed"
proof -
  have same: "adds_row s s well_keyed" "adds_row s (snd (subscribed w c t s)) well_keyed" for c t
    by (simp_all add: adds_row_def subscribed_state)
  show "adds_row s (snd (publishForCall w dr calls eid i ty data s)) well_keyed"
    unfolding publishForCall_def Let_def
    by (auto simp: same subscribed_state delivery_row_def well_keyed_def intro!: enqueue_adds split: option.split)
  show "adds_row s (snd (publishAgentAvailability w dr eid a av extra s)) well_keyed"
    unfolding publishAgentAvailability_def Let_def
    by (auto simp: same subscribed_state delivery_row_def well_keyed_def intro!: enqueue_adds split: option.split)
qed

text \<open>Every other step rewrites rows in place and keeps what identifies them.\<close>

definition identity :: "outbox_row \<Rightarrow> nat \<times> string \<times> string option \<times> nat option \<times> string \<times> consumer_event" where
  "identity r = (dv_id r, dv_event_id r, dv_dedupe_key r, dv_call_id r, dv_event_type r, dv_payload r)"

lemma identity_update:
  "(\<And>r. identity (f r) = identity r) \<Longrightarrow> map identity (fst (sql_update p f rs)) = map identity rs"
  by (induction rs) simp_all

lemma writes_identity:
  "map identity (fst (redeliver t c e rs)) = map identity rs" "map identity (markDelivered t i st rs) = map identity rs"
  "map identity (markAttemptFailed t i ro er n rs) = map identity rs"
  unfolding redeliver_def markDelivered_def markAttemptFailed_def affected_fst
  by (auto simp: identity_update identity_def split: option.split simp del: sql_update_fst)

lemma deliver_identity: "map identity (ob_rows (deliver_next w a s)) = map identity (ob_rows s)"
  by (auto simp: deliver_next_def dispatch_def dispatch_failed_def Let_def writes_identity split: option.split list.split sum.split)

lemma begin_rows: "ob_rows (begin_tick w s) = ob_rows s" "ob_posts (begin_tick w s) = ob_posts s"
  by (auto simp: begin_tick_def holdLease_def Let_def split: option.split prod.split)

lemma step_identity:
  assumes "ob_step s s'"
  shows "map identity (ob_rows s') = map identity (ob_rows s) \<or> adds_row s s' well_keyed"
  using assms
  by (cases rule: ob_step.cases)
    (auto simp: publish_adds writes_identity deliver_identity begin_rows stop_dispatcher_def forgetSubscription_def)

section \<open>An example\<close>

text \<open>One consumer; the creation of its call announced by two workers, and the event taken at the first post.\<close>

definition shop :: consumer_row where
  "shop = \<lparr> cr_id = 7, cr_url = Some ''https://shop'', cr_secret = None, cr_active = True, cr_event_types = None \<rparr>"

definition shop_directory :: directory where
  "shop_directory = \<lparr> dr_tenant = (\<lambda>_. Some (7, None)), dr_agent = (\<lambda>_. None), dr_channelRef = (\<lambda>_. None) \<rparr>"

definition announced :: "string \<Rightarrow> string \<Rightarrow> outbox \<Rightarrow> outbox" where
  "announced w eid s = snd (publishForCall w shop_directory [example_call 1] eid 1 ''call.created'' [] s)"

definition shop_run :: outbox where
  "shop_run = deliver_next ''A'' (Inr 200) (begin_tick ''A'' (announced ''B'' ''e2'' (announced ''A'' ''e1'' (empty_outbox\<lparr>ob_consumers := [shop]\<rparr>))))"

lemma shop_steps: "ob_step\<^sup>*\<^sup>* empty_outbox shop_run"
proof -
  have "ob_step\<^sup>*\<^sup>* empty_outbox (empty_outbox\<lparr>ob_consumers := [shop]\<rparr>)" by (rule r_into_rtranclp) (rule os_consumers)
  then have "ob_step\<^sup>*\<^sup>* empty_outbox (announced ''A'' ''e1'' (empty_outbox\<lparr>ob_consumers := [shop]\<rparr>))"
    unfolding announced_def by (rule rtranclp.rtrancl_into_rtrancl) (rule os_publish)
  then have "ob_step\<^sup>*\<^sup>* empty_outbox (announced ''B'' ''e2'' (announced ''A'' ''e1'' (empty_outbox\<lparr>ob_consumers := [shop]\<rparr>)))"
    unfolding announced_def [of "''B''"] by (rule rtranclp.rtrancl_into_rtrancl) (rule os_publish)
  from rtranclp.rtrancl_into_rtrancl [OF rtranclp.rtrancl_into_rtrancl [OF this os_begin] os_deliver] show ?thesis
    unfolding shop_run_def .
qed

section \<open>Written once\<close>

definition same_key :: "outbox_row \<Rightarrow> outbox_row \<Rightarrow> bool" where
  "same_key r r' \<longleftrightarrow> (\<exists>k. dv_dedupe_key r = Some k \<and> dv_dedupe_key r' = Some k)"

definition keys_ok :: "outbox \<Rightarrow> bool" where
  "keys_ok s \<longleftrightarrow> distinct (map dv_id (ob_rows s)) \<and> list_all well_keyed (ob_rows s)
     \<and> (\<forall>r \<in> set (ob_rows s). \<forall>r' \<in> set (ob_rows s). same_key r r' \<longrightarrow> dv_id r = dv_id r')"

lemma keys_okD: "keys_ok s \<Longrightarrow> r \<in> set (ob_rows s) \<Longrightarrow> r' \<in> set (ob_rows s) \<Longrightarrow> same_key r r' \<Longrightarrow> dv_id r = dv_id r'"
  unfolding keys_ok_def by blast

text \<open>The same of what identifies the rows.\<close>

lemma keys_ok_cong:
  assumes "map identity (ob_rows s') = map identity (ob_rows s)" and "keys_ok s"
  shows "keys_ok s'"
proof -
  have ids: "map dv_id xs = map fst (map identity xs)" for xs by (simp add: identity_def comp_def)
  have keyed: "list_all well_keyed xs = list_all (\<lambda>(i, e, k, c, t, p). case c of None \<Rightarrow> True | Some j \<Rightarrow> k = dedupe_key_of j t) (map identity xs)" for xs
    by (induction xs) (simp_all add: identity_def well_keyed_def)
  have other: "\<exists>q \<in> set (ob_rows s). identity q = identity r" if "r \<in> set (ob_rows s')" for r
  proof -
    have "identity r \<in> set (map identity (ob_rows s))" using that by (simp flip: assms(1))
    then show ?thesis by auto
  qed
  have "dv_id r = dv_id r'" if r: "r \<in> set (ob_rows s')" "r' \<in> set (ob_rows s')" "same_key r r'" for r r'
  proof -
    obtain q q' where q: "q \<in> set (ob_rows s)" "q' \<in> set (ob_rows s)" "identity q = identity r" "identity q' = identity r'"
      using other r(1,2) by blast
    then have "same_key q q'" using r(3) by (simp add: same_key_def identity_def)
    then have "dv_id q = dv_id q'" by (rule keys_okD [OF assms(2) q(1,2)])
    then show ?thesis using q(3,4) by (simp add: identity_def)
  qed
  moreover have "distinct (map dv_id (ob_rows s'))" using assms unfolding ids keys_ok_def by simp
  moreover have "list_all well_keyed (ob_rows s')" using assms unfolding keyed keys_ok_def by simp
  ultimately show ?thesis unfolding keys_ok_def by blast
qed

lemma fresh_delivery_new: "fresh_delivery_id rs \<notin> dv_id ` set rs"
proof -
  have "r \<in> set rs \<Longrightarrow> dv_id r \<le> foldr max (map dv_id rs) 0" for r
    by (induction rs) (auto simp: le_max_iff_disj)
  then show ?thesis by (fastforce simp: fresh_delivery_id_def)
qed

lemma keys_step: "keys_ok s \<Longrightarrow> ob_step s s' \<Longrightarrow> keys_ok s'"
proof -
  assume ok: "keys_ok s" and step: "ob_step s s'"
  from step_identity [OF step] consider "map identity (ob_rows s') = map identity (ob_rows s)"
    | e eid where "ob_rows s' = ob_rows s @ [delivery_row (fresh_delivery_id (ob_rows s)) (ob_now s) eid e]"
      "\<forall>k. ne_dedupeKey e = Some k \<longrightarrow> \<not> existsByDedupeKey k (ob_rows s)"
      "well_keyed (delivery_row (fresh_delivery_id (ob_rows s)) (ob_now s) eid e)"
    unfolding adds_row_def by fastforce
  then show "keys_ok s'"
  proof cases
    case 1
    then show ?thesis using ok by (rule keys_ok_cong)
  next
    case (2 e eid)
    let ?n = "delivery_row (fresh_delivery_id (ob_rows s)) (ob_now s) eid e"
    have new: "dv_id ?n \<notin> dv_id ` set (ob_rows s)" using fresh_delivery_new [of "ob_rows s"] by (simp add: delivery_row_def)
    have apart: "\<not> same_key r ?n" "\<not> same_key ?n r" if "r \<in> set (ob_rows s)" for r
      using 2(2) that by (auto simp: delivery_row_def existsByDedupeKey_def same_key_def)
    have "distinct (map dv_id (ob_rows s'))" "list_all well_keyed (ob_rows s')"
      using ok new 2(3) unfolding 2(1) keys_ok_def by simp_all
    moreover have "dv_id r = dv_id r'" if r: "r \<in> set (ob_rows s')" "r' \<in> set (ob_rows s')" "same_key r r'" for r r'
    proof -
      have "r = ?n \<or> r \<in> set (ob_rows s)" "r' = ?n \<or> r' \<in> set (ob_rows s)" using r(1,2) unfolding 2(1) by auto
      then show ?thesis using apart r(3) keys_okD [OF ok] by metis
    qed
    ultimately show ?thesis unfolding keys_ok_def by blast
  qed
qed

interpretation keys_run: transition_system "\<lambda>s. s = empty_outbox" ob_step keys_ok
  by unfold_locales (simp add: keys_ok_def empty_outbox_def, rule keys_step)

lemma one_element: "distinct xs \<Longrightarrow> (\<And>x y. x \<in> set xs \<Longrightarrow> y \<in> set xs \<Longrightarrow> x = y) \<Longrightarrow> length xs \<le> 1"
proof (cases xs)
  case (Cons a ys)
  assume d: "distinct xs" and same: "\<And>x y. x \<in> set xs \<Longrightarrow> y \<in> set xs \<Longrightarrow> x = y"
  have "ys = []"
  proof (rule ccontr)
    assume "ys \<noteq> []"
    then have "hd ys \<in> set ys" by simp
    moreover from this have "hd ys = a" using Cons by (intro same) simp_all
    ultimately show False using d Cons by simp
  qed
  then show ?thesis using Cons by simp
qed simp



section \<open>Neither forgotten nor given up early\<close>

definition posts_of :: "nat \<Rightarrow> post list \<Rightarrow> nat" where
  "posts_of i ps = length (filter (\<lambda>p. ps_id p = i) ps)"

definition taken :: "nat \<Rightarrow> post list \<Rightarrow> bool" where
  "taken i ps \<longleftrightarrow> (\<exists>p \<in> set ps. ps_id p = i \<and> succeeded (ps_answer p))"

text \<open>What a row's status says of the posts made for it.\<close>

definition honest :: "post list \<Rightarrow> outbox_row \<Rightarrow> bool" where
  "honest ps r \<longleftrightarrow> dv_attempts r \<le> posts_of (dv_id r) ps
     \<and> (case dv_status r of Dl_PENDING \<Rightarrow> True | Dl_DELIVERED \<Rightarrow> taken (dv_id r) ps | Dl_FAILED \<Rightarrow> MAX_ATTEMPTS \<le> posts_of (dv_id r) ps)"

definition remembered :: "post list \<Rightarrow> batch option \<Rightarrow> bool" where
  "remembered ps b \<longleftrightarrow> (case b of None \<Rightarrow> True | Some b \<Rightarrow> \<forall>d \<in> set (bt_due b). dv_attempts d \<le> posts_of (dv_id d) ps)"

definition outbox_honest :: "outbox \<Rightarrow> bool" where
  "outbox_honest s \<longleftrightarrow> (\<forall>r \<in> set (ob_rows s). honest (ob_posts s) r) \<and> (\<forall>w. remembered (ob_posts s) (ob_batches s w))"

lemma posts_of_snoc: "posts_of i (ps @ [p]) = posts_of i ps + (if ps_id p = i then 1 else 0)"
  by (simp add: posts_of_def)

lemma honest_more: "honest ps r \<Longrightarrow> honest (ps @ [p]) r"
  by (auto simp: honest_def posts_of_snoc taken_def split: delivery_status.split)

lemma remembered_more: "remembered ps b \<Longrightarrow> remembered (ps @ [p]) b"
  by (auto simp: remembered_def posts_of_snoc split: option.splits)

lemma honest_update:
  assumes "\<forall>r \<in> set rs. honest ps r" and "\<And>r. r \<in> set rs \<Longrightarrow> p r \<Longrightarrow> honest ps r \<Longrightarrow> honest qs (f r)"
    and "\<And>r. r \<in> set rs \<Longrightarrow> \<not> p r \<Longrightarrow> honest ps r \<Longrightarrow> honest qs r"
  shows "\<forall>r \<in> set (fst (sql_update p f rs)). honest qs r"
  using assms by auto

lemma honest_failed:
  assumes "\<forall>r \<in> set rs. honest ps r" and "dv_attempts d \<le> posts_of (dv_id d) ps" and "ps_id p = dv_id d"
  shows "\<forall>r \<in> set (markAttemptFailed t (dv_id d) ro er
      (if MAX_ATTEMPTS \<le> dv_attempts d + 1 then None else Some n) rs). honest (ps @ [p]) r"
proof (cases "MAX_ATTEMPTS \<le> dv_attempts d + 1")
  case True
  then show ?thesis
    unfolding markAttemptFailed_def using assms(2,3)
    by (simp only: if_True option.case) (rule honest_update [OF assms(1)],
      auto simp: honest_def posts_of_snoc taken_def split: delivery_status.split)
next
  case False
  then show ?thesis
    unfolding markAttemptFailed_def using assms(2,3)
    by (simp only: if_False option.case) (rule honest_update [OF assms(1)],
      auto simp: honest_def posts_of_snoc taken_def split: delivery_status.splits)
qed

lemma honest_dispatch:
  assumes "outbox_honest s" and "dv_attempts d \<le> posts_of (dv_id d) (ob_posts s)"
  shows "outbox_honest (dispatch d hook a s)"
proof (cases hook)
  case None
  then show ?thesis using assms by (simp add: dispatch_def)
next
  case (Some h)
  let ?p = "\<lparr> ps_id = dv_id d, ps_url = wh_url h, ps_event_id = dv_event_id d, ps_event_type = dv_event_type d,
      ps_payload = dv_payload d, ps_secret = wh_secret h, ps_answer = a \<rparr>"
  have rows: "\<forall>r \<in> set (ob_rows s). honest (ob_posts s) r" and batches: "remembered (ob_posts s @ [?p]) (ob_batches s w)" for w
    using assms(1) remembered_more by (auto simp: outbox_honest_def)
  have failed: "\<forall>r \<in> set (ob_rows (dispatch_failed d ro er (s\<lparr>ob_posts := ob_posts s @ [?p]\<rparr>))). honest (ob_posts s @ [?p]) r" for ro er
    using honest_failed [OF rows assms(2), of ?p] by (simp add: dispatch_failed_def Let_def)
  have delivered: "\<forall>r \<in> set (markDelivered t (dv_id d) st (ob_rows s)). honest (ob_posts s @ [?p]) r" if "succeeded a" for t st
    unfolding markDelivered_def using that
    by (intro honest_update [OF rows]) (auto simp: honest_def posts_of_snoc taken_def split: delivery_status.splits)
  show ?thesis
    using failed delivered batches Some
    by (auto simp: dispatch_def Let_def outbox_honest_def dispatch_failed_def split: sum.split)
qed

lemma due_are_rows: "d \<in> set (findDue t n cs rs) \<Longrightarrow> d \<in> set rs"
  unfolding findDue_def by (drule in_set_takeD) simp

lemma honest_step: "ob_step s s' \<Longrightarrow> outbox_honest s \<Longrightarrow> outbox_honest s'"
proof (induction rule: ob_step.induct)
  case (os_redeliver s c e)
  then have "\<forall>r \<in> set (fst (redeliver (ob_now s) c e (ob_rows s))). honest (ob_posts s) r"
    unfolding redeliver_def affected_fst
    by (intro honest_update [of _ "ob_posts s"]) (auto simp: outbox_honest_def honest_def)
  then show ?case using os_redeliver by (simp add: outbox_honest_def)
next
  case (os_begin s w)
  have "remembered (ob_posts s) (Some \<lparr>bt_due = findDue t n cs (ob_rows s), bt_configs = []\<rparr>)" for t n cs
    using os_begin due_are_rows by (fastforce simp: remembered_def outbox_honest_def honest_def)
  then show ?case
    using os_begin by (auto simp: begin_tick_def holdLease_def outbox_honest_def Let_def split: option.split)
next
  case (os_deliver s w a)
  show ?case
  proof (cases "ob_batches s w")
    case None
    then show ?thesis using os_deliver by (simp add: deliver_next_def)
  next
    case (Some b)
    have rem: "remembered (ob_posts s) (Some b)" using os_deliver Some unfolding outbox_honest_def by metis
    show ?thesis
    proof (cases "bt_due b")
      case Nil
      then show ?thesis using os_deliver Some by (simp add: deliver_next_def outbox_honest_def remembered_def)
    next
      case (Cons d ds)
      let ?s = "\<lambda>cf. s\<lparr>ob_batches := (ob_batches s)(w := Some \<lparr>bt_due = ds, bt_configs = cf\<rparr>)\<rparr>"
      have "outbox_honest (?s cf)" for cf
        using os_deliver rem Cons by (auto simp: outbox_honest_def remembered_def)
      moreover have "dv_attempts d \<le> posts_of (dv_id d) (ob_posts (?s cf))" for cf
        using rem Cons by (simp add: remembered_def)
      ultimately show ?thesis using Some Cons by (simp add: deliver_next_def Let_def honest_dispatch)
    qed
  qed
next
  case (os_stop s w b)
  then show ?case
    by (auto simp: stop_dispatcher_def outbox_honest_def remembered_def dest: in_set_takeD split: option.splits)
next
  case (os_publish s w dr calls eid i ty data)
  then show ?case
    using publish_adds(1) [of s w dr calls eid i ty data]
    by (auto simp: adds_row_def outbox_honest_def honest_def delivery_row_def)
next
  case (os_agent s w dr eid a av extra)
  then show ?case
    using publish_adds(2) [of s w dr eid a av extra]
    by (auto simp: adds_row_def outbox_honest_def honest_def delivery_row_def)
qed (simp_all add: outbox_honest_def forgetSubscription_def)

interpretation honest_run: transition_system "\<lambda>s. s = empty_outbox" ob_step outbox_honest
  by unfold_locales (simp add: outbox_honest_def remembered_def empty_outbox_def, erule (1) honest_step)

text \<open>C10: The outbox keeps its word. Whatever is published, however many workers dispatch (also two at once, when a
  lease lapses under a slow batch), whatever consumers answer and whatever is redelivered, an event is marked
  delivered only if its consumer answered a post of it with a 2xx, and given up only after at least twelve
  posts of it.\<close>

theorem outbox_keeps_its_word:
  assumes "ob_step\<^sup>*\<^sup>* empty_outbox s" and "r \<in> set (ob_rows s)"
  shows "case dv_status r of
      Dl_PENDING \<Rightarrow> True
    | Dl_DELIVERED \<Rightarrow> (\<exists>p. p \<in> set (ob_posts s) \<and> ps_id p = dv_id r \<and> succeeded (ps_answer p))
    | Dl_FAILED \<Rightarrow> 12 \<le> posts_of (dv_id r) (ob_posts s)"
proof -
  have "outbox_honest s" by (rule honest_run.inv_run [OF honest_run.inv_start assms(1)]) (rule refl)
  then have "honest (ob_posts s) r" using assms(2) unfolding outbox_honest_def by blast
  then show ?thesis
    by (auto simp: honest_def taken_def MAX_ATTEMPTS_def BACKOFF_SECONDS_def split: delivery_status.splits)
qed

theorem outbox_keeps_its_word_witness:
  "\<exists>p. p \<in> set (ob_posts shop_run) \<and> ps_id p = 1 \<and> succeeded (ps_answer p)"
proof -
  have "ob_rows shop_run = [hd (ob_rows shop_run)] \<and> dv_status (hd (ob_rows shop_run)) = Dl_DELIVERED \<and> dv_id (hd (ob_rows shop_run)) = 1"
    by code_simp
  then have "hd (ob_rows shop_run) \<in> set (ob_rows shop_run)" "dv_status (hd (ob_rows shop_run)) = Dl_DELIVERED" "dv_id (hd (ob_rows shop_run)) = 1"
    by (metis list.set_intros(1), simp_all)
  then show ?thesis using outbox_keeps_its_word [OF shop_steps] by fastforce
qed

section \<open>The retries of one event\<close>

text \<open>One tick of the dispatcher at \<open>t\<close>, with \<open>a\<close> the answer to the post it makes, if it makes one.\<close>

definition tick_round :: "string \<Rightarrow> int \<Rightarrow> post_answer \<Rightarrow> outbox \<Rightarrow> outbox" where
  "tick_round w t a s = deliver_next w a (deliver_next w a (begin_tick w (s\<lparr>ob_now := t\<rparr>)))"

fun rounds :: "string \<Rightarrow> (int \<times> post_answer) list \<Rightarrow> outbox \<Rightarrow> outbox" where
  "rounds w [] s = s"
| "rounds w ((t, a) # r) s = rounds w r (tick_round w t a s)"

text \<open>Ticks at least an hour apart: the longest back-off has passed.\<close>

fun spaced :: "int \<Rightarrow> (int \<times> post_answer) list \<Rightarrow> bool" where
  "spaced t [] \<longleftrightarrow> True"
| "spaced t ((u, a) # r) \<longleftrightarrow> t \<le> u \<and> spaced (u + 3600) r"

text \<open>The specification: post until somebody takes it, at most \<open>n\<close> times.\<close>

fun tries :: "nat \<Rightarrow> post_answer list \<Rightarrow> nat \<times> delivery_status" where
  "tries 0 as = (0, Dl_FAILED)"
| "tries (Suc n) [] = (0, Dl_PENDING)"
| "tries (Suc n) (a # as) = (if succeeded a then (1, Dl_DELIVERED) else map_prod Suc id (tries n as))"

definition lone :: "string \<Rightarrow> outbox_row \<Rightarrow> outbox \<Rightarrow> bool" where
  "lone w d s \<longleftrightarrow> ob_rows s = [d] \<and> ob_batches s w = None \<and> (ob_lease s = None \<or> ob_lease s = Some w)
     \<and> (\<exists>c \<in> set (ob_consumers s). cr_id c = dv_consumer_id d \<and> cr_url c \<noteq> None \<and> cr_active c)
     \<and> getWebhookConfig (dv_consumer_id d) (ob_consumers s) \<noteq> None"

definition after_post :: "int \<Rightarrow> post_answer \<Rightarrow> outbox_row \<Rightarrow> outbox_row \<Rightarrow> bool" where
  "after_post t a d d' \<longleftrightarrow> dv_consumer_id d' = dv_consumer_id d \<and> dv_id d' = dv_id d
     \<and> (if succeeded a then dv_status d' = Dl_DELIVERED
        else dv_attempts d' = dv_attempts d + 1
          \<and> (if dv_attempts d + 1 < 12 then dv_status d' = Dl_PENDING \<and> dv_next_attempt_at d' \<le> t + 3600 else dv_status d' = Dl_FAILED))"

lemma backoff_bound: "n < 11 \<Longrightarrow> BACKOFF_SECONDS ! n \<le> 3600"
proof -
  assume "n < 11"
  then have "BACKOFF_SECONDS ! n \<in> set BACKOFF_SECONDS" by (intro nth_mem) (simp add: BACKOFF_SECONDS_def)
  then show ?thesis by (auto simp: BACKOFF_SECONDS_def)
qed

lemma twelve: "MAX_ATTEMPTS = 12"
  by (simp add: MAX_ATTEMPTS_def BACKOFF_SECONDS_def)

lemma failed_one:
  assumes "ob_rows s = [d]" and "dv_status d = Dl_PENDING" and "\<not> succeeded a"
  shows "\<exists>d'. ob_rows (dispatch_failed d ro er s) = [d'] \<and> after_post (ob_now s) a d d'"
proof (cases "dv_attempts d + 1 < 12")
  case True
  then have "int (BACKOFF_SECONDS ! dv_attempts d) \<le> 3600" using backoff_bound [of "dv_attempts d"] by simp
  then show ?thesis
    using True assms by (simp add: dispatch_failed_def Let_def twelve markAttemptFailed_def after_post_def)
next
  case False
  then show ?thesis
    using assms by (simp add: dispatch_failed_def Let_def twelve markAttemptFailed_def after_post_def)
qed

lemma dispatch_one:
  assumes "ob_rows s = [d]" and "dv_status d = Dl_PENDING"
  shows "\<exists>d'. ob_rows (dispatch d (Some h) a s) = [d'] \<and> after_post (ob_now s) a d d'"
proof (cases "succeeded a")
  case True
  then obtain st where "a = Inr st" by (auto simp: succeeded_def split: sum.splits)
  then show ?thesis using True assms by (simp add: dispatch_def Let_def markDelivered_def after_post_def)
next
  case False
  let ?s = "s\<lparr>ob_posts := ob_posts s @ [\<lparr> ps_id = dv_id d, ps_url = wh_url h, ps_event_id = dv_event_id d,
    ps_event_type = dv_event_type d, ps_payload = dv_payload d, ps_secret = wh_secret h, ps_answer = a \<rparr>]\<rparr>"
  show ?thesis
    using False failed_one [of ?s d a] assms by (cases a) (auto simp: dispatch_def Let_def)
qed

lemma deliver_done: "ob_batches s w = Some b \<Longrightarrow> bt_due b = [] \<Longrightarrow> deliver_next w a s = s\<lparr>ob_batches := (ob_batches s)(w := None)\<rparr>"
  by (simp add: deliver_next_def)

lemma round_due:
  assumes "lone w d s" and "dv_status d = Dl_PENDING" and "dv_next_attempt_at d \<le> t"
  shows "\<exists>d'. lone w d' (tick_round w t a s) \<and> after_post t a d d' \<and> length (ob_posts (tick_round w t a s)) = Suc (length (ob_posts s))"
proof -
  obtain h where h: "getWebhookConfig (dv_consumer_id d) (ob_consumers s) = Some h" using assms(1) by (auto simp: lone_def)
  have due: "findDue t BATCH_SIZE (ob_consumers s) [d] = [d]"
    using assms by (auto simp: findDue_def lone_def safe_limit_def BATCH_SIZE_def)
  let ?s0 = "s\<lparr>ob_now := t, ob_lease := Some w\<rparr>"
  have begun: "begin_tick w (s\<lparr>ob_now := t\<rparr>) = ?s0\<lparr>ob_batches := (ob_batches s)(w := Some \<lparr>bt_due = [d], bt_configs = []\<rparr>)\<rparr>"
    using assms(1) due by (auto simp: begin_tick_def holdLease_def lone_def Let_def)
  let ?s1 = "?s0\<lparr>ob_batches := (ob_batches s)(w := Some \<lparr>bt_due = [], bt_configs = [(dv_consumer_id d, Some h)]\<rparr>)\<rparr>"
  have first: "deliver_next w a (begin_tick w (s\<lparr>ob_now := t\<rparr>)) = dispatch d (Some h) a ?s1"
    unfolding begun using h by (simp add: deliver_next_def Let_def)
  have rows: "\<exists>d'. ob_rows (dispatch d (Some h) a ?s1) = [d'] \<and> after_post t a d d'"
    using dispatch_one [of ?s1 d h a] assms(1,2) by (simp add: lone_def)
  have rest: "ob_batches (dispatch d (Some h) a ?s1) w = Some \<lparr>bt_due = [], bt_configs = [(dv_consumer_id d, Some h)]\<rparr>"
    "ob_lease (dispatch d (Some h) a ?s1) = Some w" "ob_consumers (dispatch d (Some h) a ?s1) = ob_consumers s"
    "length (ob_posts (dispatch d (Some h) a ?s1)) = Suc (length (ob_posts s))"
    by (simp_all add: dispatch_def dispatch_failed_def Let_def split: sum.split)
  have "tick_round w t a s = (dispatch d (Some h) a ?s1)\<lparr>ob_batches := (ob_batches (dispatch d (Some h) a ?s1))(w := None)\<rparr>"
    unfolding tick_round_def first by (rule deliver_done [OF rest(1)]) simp
  moreover obtain d' where d': "ob_rows (dispatch d (Some h) a ?s1) = [d']" "after_post t a d d'" using rows by blast
  moreover from d'(2) have "dv_consumer_id d' = dv_consumer_id d" by (simp add: after_post_def)
  ultimately show ?thesis using rest assms(1) by (intro exI [of _ d']) (simp add: lone_def)
qed

lemma round_idle:
  assumes "lone w d s" and "dv_status d \<noteq> Dl_PENDING"
  shows "lone w d (tick_round w t a s) \<and> ob_posts (tick_round w t a s) = ob_posts s"
proof -
  have "findDue t BATCH_SIZE (ob_consumers s) [d] = []" using assms(2) by (simp add: findDue_def)
  then show ?thesis
    using assms(1) by (auto simp: tick_round_def begin_tick_def holdLease_def lone_def Let_def deliver_next_def)
qed

lemma rounds_idle:
  "lone w d s \<Longrightarrow> dv_status d \<noteq> Dl_PENDING \<Longrightarrow> ob_rows (rounds w r s) = [d] \<and> ob_posts (rounds w r s) = ob_posts s"
proof (induction r arbitrary: s)
  case Nil
  then show ?case by (simp add: lone_def)
next
  case (Cons x r)
  then show ?case using round_idle [OF Cons.prems] by (cases x) auto
qed

lemma rounds_run:
  assumes "lone w d s" and "dv_status d = Dl_PENDING" and "dv_attempts d + n = 11" and "spaced (dv_next_attempt_at d) r"
  shows "\<exists>d'. ob_rows (rounds w r s) = [d'] \<and> dv_status d' = snd (tries (Suc n) (map snd r))
    \<and> length (ob_posts (rounds w r s)) = length (ob_posts s) + fst (tries (Suc n) (map snd r))"
  using assms
proof (induction r arbitrary: d s n)
  case Nil
  then show ?case by (simp add: lone_def)
next
  case (Cons x r)
  obtain t a where x: "x = (t, a)" by (cases x)
  from round_due [OF Cons.prems(1,2), of t a] obtain d' where d': "lone w d' (tick_round w t a s)" "after_post t a d d'"
    "length (ob_posts (tick_round w t a s)) = Suc (length (ob_posts s))" using Cons.prems(4) x by auto
  show ?case
  proof (cases "succeeded a \<or> n = 0")
    case True
    then have "dv_status d' = snd (tries (Suc n) (map snd (x # r)))" "dv_status d' \<noteq> Dl_PENDING" "fst (tries (Suc n) (map snd (x # r))) = 1"
      using d'(2) Cons.prems(3) x by (cases "succeeded a"; simp add: after_post_def)+
    then show ?thesis using rounds_idle [OF d'(1)] d'(3) x by simp
  next
    case False
    then obtain m where m: "n = Suc m" by (cases n) auto
    have "dv_status d' = Dl_PENDING" "dv_attempts d' + m = 11" "dv_next_attempt_at d' \<le> t + 3600"
      using d'(2) Cons.prems(3) m False by (auto simp: after_post_def)
    moreover have "spaced (dv_next_attempt_at d') r"
    proof -
      have "u \<le> v \<Longrightarrow> spaced v r \<Longrightarrow> spaced u r" for u v by (cases r) auto
      then show ?thesis using Cons.prems(4) x calculation(3) by auto
    qed
    ultimately show ?thesis using Cons.IH [OF d'(1)] d'(3) x m False by (simp add: map_prod_def split_beta)
  qed
qed

text \<open>C25: How the retries of an event end. With one worker dispatching, a new event is posted at every tick that is
  due (ticks an hour apart always are) until its consumer takes it, and never again after that; after exactly
  twelve posts nobody took it is given up.\<close>

theorem retried_twelve_times:
  assumes "lone w d s" and "dv_status d = Dl_PENDING" and "dv_attempts d = 0" and "spaced (dv_next_attempt_at d) r"
  shows "\<exists>d'. ob_rows (rounds w r s) = [d'] \<and> dv_status d' = snd (tries 12 (map snd r))
    \<and> length (ob_posts (rounds w r s)) = length (ob_posts s) + fst (tries 12 (map snd r))"
  using rounds_run [OF assms(1,2), of 11 r] assms(3,4) by (simp add: eval_nat_numeral)

definition waiting_event :: "nat \<Rightarrow> outbox_row" where
  "waiting_event n = (delivery_row 1 0 ''e1'' \<lparr> ne_consumerId = 7, ne_tenantId = None, ne_callId = None, ne_eventType = ''call.ringing'',
     ne_payload = \<lparr> ce_type = ''call.ringing'', ce_tenantRef = None, ce_occurredAt = 0, ce_body = AgentBody None 0 Av_AVAILABLE [] \<rparr>,
     ne_dedupeKey = None \<rparr>)\<lparr>dv_attempts := n\<rparr>"

definition waiting_outbox :: "nat \<Rightarrow> outbox" where
  "waiting_outbox n = empty_outbox\<lparr>ob_rows := [waiting_event n], ob_consumers := [shop]\<rparr>"

theorem retried_twelve_times_witness:
  "\<exists>d. ob_rows (rounds ''A'' [(0, Inl ''down''), (3600, Inr 204)] (waiting_outbox 0)) = [d] \<and> dv_status d = Dl_DELIVERED"
proof -
  have "lone ''A'' (waiting_event 0) (waiting_outbox 0)"
    by (simp add: lone_def waiting_outbox_def empty_outbox_def shop_def waiting_event_def delivery_row_def getWebhookConfig_def first_row_def)
  moreover have "snd (tries 12 [Inl ''down'', Inr 204]) = Dl_DELIVERED" by code_simp
  ultimately show ?thesis
    using retried_twelve_times [of "''A''" "waiting_event 0" "waiting_outbox 0" "[(0, Inl ''down''), (3600, Inr 204)]"]
    by (auto simp: waiting_event_def delivery_row_def simp del: rounds.simps tries.simps)
qed

section \<open>A redelivery that is lost\<close>


text \<open>A worker waiting for the answer to its twelfth post.\<close>

definition last_attempt :: outbox where
  "last_attempt = (waiting_outbox 11)\<lparr>ob_batches := (\<lambda>_. None)(''A'' := Some \<lparr>bt_due = [waiting_event 11],
     bt_configs = [(7, Some \<lparr>wh_url = ''https://shop'', wh_secret = None\<rparr>)]\<rparr>)\<rparr>"


end
