(* ===== verification/Spec2Isabelle.thy ===== *)
theory Spec2Isabelle
  imports HangupFacts IvrEngineFacts LegFacts RoomSafety Deadlines Inbox IngressOffers OutboxFacts
begin

text \<open>
  Callio is a contact-center call engine (Node.js, several workers over MySQL and Redis). A customer's
  call arrives over a channel, an IVR may answer it, a queue offers it to agents, an agent accepts it,
  supervisors listen, somebody ends it. This library models the core of that engine, \<open>src/src/core\<close> with
  the repositories under \<open>src/src/persistence\<close> it writes through, and proves what makes it correct: a call
  ends once and stays ended, an agent is on one call, the oldest waiting call is served first, every
  announcement is made once and in order, timers and retries are bounded.

  \<^bold>\<open>How the program is modelled.\<close> A table is the list of its rows; a statement is a function on it with the
  guards of its WHERE clause, NULL and three-valued conditions included, and \<open>affectedRows\<close> as its answer
  (Prelude, DataModel). An asynchronous method is an action on the state \<open>world\<close> that returns or throws and
  keeps the effects done before a throw (Effects, World). The trace of the world lists what was announced
  on the EventBus, told to the provider or done to media, in order. Where a method awaits between a read
  and a guarded write, \<open>let_others_run\<close> lets other workers change the agents and calls tables by an
  arbitrary function. Media servers, providers and sockets are outside the repository: their answers are
  fields of the state (\<open>media_port\<close>), and every property holds for all of them unless it says otherwise.

  \<^bold>\<open>The theories, and the code they model.\<close>

  \<^item> Prelude, DataModel: SQL statements on lists of rows, the enumerations of
    \<open>src/src/core/constants/CallConstants.js\<close>, the rows of \<open>calls\<close>, \<open>agents\<close>, \<open>queues\<close>, \<open>queue_members\<close>.
  \<^item> CallStore, CallWrites: \<open>CallRepository.js\<close> (reads, guarded and unguarded writes) and the call writes of
    \<open>IvrRepository.js\<close>. AgentStore: \<open>AgentRepository.js\<close> (claims, holds, releases) and
    \<open>QueueRepository.js\<close>. Lifecycle: what all these statements add up to, as the step relation \<open>call_step\<close>
    and the contract \<open>finalizer\<close> of a write that ends a call.
  \<^item> Routing: \<open>OfferHistory.js\<close>, \<open>CallAgentAssignmentService.js\<close> (queue order in Redis), \<open>InboundRouter.js\<close>,
    \<open>OfferDelivery.js\<close>. EventLog: \<open>CallLifecycleLogger.js\<close> with its repositories, and \<open>CallParticipants.js\<close>.
    CallView: \<open>CallView.js\<close>, \<open>IncomingCallPayload.js\<close>.
  \<^item> World, Effects: the state and the actions. Assignment: \<open>QueueRouter.js\<close>,
    \<open>AgentAssignmentCoordinator.js\<close>, \<open>AutoOfflinePolicy.js\<close>; AssignmentRuns, AssignmentFacts, DrainFacts:
    what every run of them keeps, and what a drain of a queue assigns.
  \<^item> Termination: \<open>CallTerminator.js\<close>, \<open>QueueTimeoutService.js\<close>, \<open>CallCleanupService.js\<close>; TerminationFacts,
    EndFacts, AfterEnd: runs, the order of one end, the agent and the overflows after it.
  \<^item> Connections, MediaLegs, LegFacts: \<open>CallConnectionRepository.js\<close>, \<open>MediaLegs.js\<close>, and the map of legs
    they implement.
  \<^item> AgentEvents, CallControl, CallInputs: the handlers of a call's inputs under
    \<open>src/src/core/events/handlers\<close>, \<open>CustomerNetworkLossPolicy.js\<close>, \<open>MediaTopology.js\<close>, and the dispatch in
    \<open>CallEventHandler.js\<close>; ControlRuns, AcceptFacts, HangupFacts: what any history of inputs, timers and
    services keeps, who wins an accept, what a hang-up records.
  \<^item> IvrEngine, IvrEngineFacts: \<open>IvrEngine.js\<close>, the state machine of one IVR session.
  \<^item> SdpLines, Rooms, RoomOps: \<open>src/src/media/rooms\<close> (\<open>RoomMedia.js\<close>, \<open>RoomSnapshot.js\<close>, \<open>sdpLines.js\<close>), the
    conference of a call as the commands given to it. RoomFacts, RoomSafety: who hears whom after any
    history of operations, and what a worker that takes a call over rebuilds.
  \<^item> Deadlines, Inbox: the timers and the inboxes workers share over Redis (\<open>Deadlines.js\<close>, \<open>CallInbox.js\<close>) and
    \<open>CallAdoption.js\<close>; a due timer fires once, an input waits for whoever owns the call next.
  \<^item> Ingress: \<open>ChannelIngress.js\<close>, what a provider reports of calls, with the claims of \<open>CallOwnershipService.js\<close>
    and the notes of ends that overtake their offer. IngressFacts, IngressEnds, IngressOffers: what any report
    keeps, the verdict of an end, and what an offer leaves claimed.
  \<^item> Outbox, OutboxFacts: the events to consumers, \<open>ConsumerEventPublisher.js\<close>, \<open>OutboxRepository.js\<close>,
    \<open>OutboxDispatcher.js\<close>; each is written once, posted until it is taken, and given up after twelve posts.

  \<^bold>\<open>Contracts.\<close> A write that ends a call is a \<open>finalizer\<close> (Lifecycle). What all runs of a group of services
  keep is a chain of locales, each adding the effects its services have: \<open>effect_relation\<close> (Effects),
  \<open>routing_relation\<close> (AssignmentRuns), \<open>cleaning_relation\<close> and \<open>ending_relation\<close> (TerminationFacts),
  \<open>control_relation\<close> (ControlRuns). A relation that satisfies the laws of one holds of every run of its
  services; each is interpreted on the tables, the announcements and the agents of the model. For reports of
  providers the chain goes on with \<open>provider_relation\<close> (IngressFacts). The states a component can get into are
  the runs of its step relation, and an invariant of them is an interpretation of \<open>transition_system\<close> (Prelude).

  \<^bold>\<open>Bounds and fuel.\<close> Loops that claim, drain or tick recurse over the list they loop on. A drain retries
  three times, as the code does. A session of
  the IVR is a run of inputs, and its ends are proved by counting (at most three replays of a prompt). The wait for an agent's first packets is a
  countdown of its polls.

  \<^bold>\<open>Not modelled.\<close> Log lines and metrics; the dates' time zones; a failing database; time-outs of Redis
  keys, unless a theory says so. Non-ASCII punctuation in messages is written in ASCII. The HTTP and
  socket servers, push notifications, storage, the SDKs and the deployment are glue over libraries that
  are not in the repository.
\<close>

end
